(* ===== verification/Prelude.thy ===== *)
theory Prelude
  imports Main "HOL-Library.Word" "HOL-Library.Char_ord" "HOL-Library.List_Lexorder"
    "HOL-Library.AList" "HOL-Library.Multiset"
begin

text \<open>
  What every component of the development shares: the representation of Go's strings,
  slices, maps and multiple results, the few functions of the Go standard library the
  sources call (\<^verbatim>\<open>strings\<close>, \<^verbatim>\<open>strconv\<close>, \<^verbatim>\<open>sort\<close>), and the generic lemmas about them.

  \<^item> A Go \<^verbatim>\<open>string\<close> is a \<^typ>\<open>string\<close> read as its bytes; \<^verbatim>\<open>[]byte\<close> is a list of 8-bit words.
  \<^item> A Go map is an association list with distinct keys (\<open>gomap\<close>). Its list order stands for
    the iteration order of one run; the results of the modelled code that depend on an
    iteration are sorted, and are stated over the map's domain.
  \<^item> A pair \<^verbatim>\<open>(T, error)\<close> is a sum; a call that may panic is an \<open>outcome\<close>.
\<close>

named_theorems go_defs \<open>definitions of library functions, unfolded on concrete inputs\<close>
named_theorems inv_intros \<open>preservation of a component invariant by an operation\<close>

type_synonym byte = "8 word"
type_synonym ('k, 'v) gomap = "('k \<times> 'v) list"

subsection \<open>Outcomes: returning or panicking\<close>

datatype ('p, 'a) outcome = Done 'a | Panic 'p

fun bind_outcome :: "('p, 'a) outcome \<Rightarrow> ('a \<Rightarrow> ('p, 'b) outcome) \<Rightarrow> ('p, 'b) outcome" where
  "bind_outcome (Done x) f = f x"
| "bind_outcome (Panic p) f = Panic p"

lemma bind_outcome_Done_iff [simp]:
  "bind_outcome m f = Done y \<longleftrightarrow> (\<exists>x. m = Done x \<and> f x = Done y)"
  by (cases m) auto

subsection \<open>Maps\<close>

abbreviation gm_keys :: "('k, 'v) gomap \<Rightarrow> 'k list" where
  "gm_keys m \<equiv> map fst m"

definition gm_wf :: "('k, 'v) gomap \<Rightarrow> bool" where
  "gm_wf m \<longleftrightarrow> distinct (gm_keys m)"

abbreviation gm_get :: "('k, 'v) gomap \<Rightarrow> 'k \<Rightarrow> 'v option" where
  "gm_get m \<equiv> map_of m"

abbreviation gm_put :: "'k \<Rightarrow> 'v \<Rightarrow> ('k, 'v) gomap \<Rightarrow> ('k, 'v) gomap" where
  "gm_put \<equiv> AList.update"

abbreviation gm_del :: "'k \<Rightarrow> ('k, 'v) gomap \<Rightarrow> ('k, 'v) gomap" where
  "gm_del \<equiv> AList.delete"

lemma gm_wf_Nil [simp, intro]: "gm_wf []"
  by (simp add: gm_wf_def)

lemma gm_wf_put [simp, intro]: "gm_wf m \<Longrightarrow> gm_wf (gm_put k v m)"
  by (simp add: gm_wf_def distinct_update)

lemma gm_wf_del [simp, intro]: "gm_wf m \<Longrightarrow> gm_wf (gm_del k m)"
  by (simp add: gm_wf_def distinct_delete)

lemma gm_get_put [simp]: "gm_get (gm_put k v m) k' = (if k' = k then Some v else gm_get m k')"
  by (simp add: update_conv')

lemma gm_get_del [simp]: "gm_get (gm_del k m) k' = (if k' = k then None else gm_get m k')"
  by (simp add: delete_conv')

lemma gm_keys_set: "set (gm_keys m) = dom (gm_get m)"
  by (simp add: dom_map_of_conv_image_fst)

lemma gm_dom_put [simp]: "dom (gm_get (gm_put k v m)) = insert k (dom (gm_get m))"
  by (auto simp: update_conv' split: if_splits)

lemma gm_dom_del [simp]: "dom (gm_get (gm_del k m)) = dom (gm_get m) - {k}"
  by (auto simp: delete_conv' split: if_splits)

lemma gm_get_iff_mem: "gm_wf m \<Longrightarrow> gm_get m k = Some v \<longleftrightarrow> (k, v) \<in> set m"
  by (simp add: gm_wf_def)

text \<open>The keys of a map in the order \<^verbatim>\<open>sort.Strings\<close> puts them in: what the code does with every
  map it turns into a slice. The result depends on the map's domain only.\<close>

definition sorted_keys :: "('k::linorder, 'v) gomap \<Rightarrow> 'k list" where
  "sorted_keys m = sort (gm_keys m)"

lemma sorted_keys_sorted [simp, intro]: "sorted (sorted_keys m)"
  by (simp add: sorted_keys_def)

lemma set_sorted_keys [simp]: "set (sorted_keys m) = dom (gm_get m)"
  by (simp add: sorted_keys_def dom_map_of_conv_image_fst)

lemma distinct_sorted_keys [simp, intro]: "gm_wf m \<Longrightarrow> distinct (sorted_keys m)"
  by (simp add: sorted_keys_def gm_wf_def)

lemma sorted_keys_unique:
  assumes "gm_wf m" and "sorted ks" and "distinct ks" and "set ks = dom (gm_get m)"
  shows "sorted_keys m = ks"
  using assms by (intro sorted_distinct_set_unique) auto

lemma sorted_keys_dom_cong:
  "gm_wf m \<Longrightarrow> gm_wf m' \<Longrightarrow> dom (gm_get m) = dom (gm_get m') \<Longrightarrow> sorted_keys m = sorted_keys m'"
  by (rule sorted_keys_unique) auto

subsection \<open>Lists by index\<close>

lemma find_indexes:
  "List.find P xs = map_option ((!) xs) (List.find (\<lambda>i. P (xs ! i)) [0..<length xs])"
proof -
  have "map_option ((!) xs) (List.find (\<lambda>i. P (xs ! i)) is) = List.find P (map ((!) xs) is)" for "is"
    by (induction "is") auto
  from this [of "[0..<length xs]"] show ?thesis by (simp add: map_nth)
qed

lemma filter_indexes:
  "filter P xs = map ((!) xs) (filter (\<lambda>i. P (xs ! i)) [0..<length xs])"
proof -
  have "map ((!) xs) (filter (\<lambda>i. P (xs ! i)) is) = filter P (map ((!) xs) is)" for "is"
    by (induction "is") auto
  from this [of "[0..<length xs]"] show ?thesis by (simp add: map_nth)
qed

subsection \<open>Strings: the functions of \<^verbatim>\<open>strings\<close> the sources call\<close>

definition has_prefix :: "string \<Rightarrow> string \<Rightarrow> bool" where
  "has_prefix s p \<longleftrightarrow> take (length p) s = p"

lemma has_prefix_iff: "has_prefix s p \<longleftrightarrow> (\<exists>t. s = p @ t)"
  unfolding has_prefix_def by (metis append_eq_conv_conj append_take_drop_id)

lemma has_prefix_append [simp, intro]: "has_prefix (p @ t) p"
  by (simp add: has_prefix_def)

lemma has_prefix_Cons [simp]: "has_prefix (c # s) (d # p) \<longleftrightarrow> c = d \<and> has_prefix s p"
  by (auto simp: has_prefix_def)

lemma has_prefix_Nil [simp]: "has_prefix s []"
  by (simp add: has_prefix_def)

lemma has_prefix_Nil_left [simp]: "has_prefix [] p \<longleftrightarrow> p = []"
  by (auto simp: has_prefix_def)

text \<open>\<^verbatim>\<open>strings.Cut(s, sep)\<close>: what comes before and after the first occurrence.\<close>

fun str_cut :: "string \<Rightarrow> string \<Rightarrow> (string \<times> string) option" where
  "str_cut sep [] = (if sep = [] then Some ([], []) else None)"
| "str_cut sep (c # s) =
     (if has_prefix (c # s) sep then Some ([], drop (length sep) (c # s))
      else map_option (\<lambda>(a, b). (c # a, b)) (str_cut sep s))"

definition contains :: "string \<Rightarrow> string \<Rightarrow> bool" where
  "contains s sub \<longleftrightarrow> str_cut sub s \<noteq> None"

lemma str_cut_SomeD: "str_cut sep s = Some (a, b) \<Longrightarrow> s = a @ sep @ b"
proof (induction s arbitrary: a)
  case Nil
  then show ?case by (simp split: if_splits)
next
  case (Cons c s)
  then show ?case
    by (auto simp: has_prefix_iff split: if_splits)
qed

lemma str_cut_append:
  assumes "sep \<noteq> []"
    and "\<And>p q. a @ sep = p @ sep @ q \<Longrightarrow> q = []"
  shows "str_cut sep (a @ sep @ b) = Some (a, b)"
  using assms
proof (induction a)
  case Nil
  then show ?case by (cases sep) (auto simp: has_prefix_def)
next
  case (Cons c a)
  have no: "\<not> has_prefix (c # a @ sep @ b) sep"
  proof
    assume "has_prefix (c # a @ sep @ b) sep"
    then have "take (length sep) ((c # a) @ sep @ b) = sep"
      by (simp add: has_prefix_def)
    then have "take (length sep) ((c # a) @ sep) = sep"
      unfolding append_assoc [symmetric] by (subst (asm) take_append) simp
    then have "(c # a) @ sep = [] @ sep @ drop (length sep) ((c # a) @ sep)"
      by (metis append_Nil append_take_drop_id)
    from Cons.prems(2) [OF this] show False by simp
  qed
  have "str_cut sep (a @ sep @ b) = Some (a, b)"
  proof (rule Cons.IH [OF Cons.prems(1)])
    fix p q assume "a @ sep = p @ sep @ q"
    then have "(c # a) @ sep = (c # p) @ sep @ q" by simp
    then show "q = []" by (rule Cons.prems(2))
  qed
  with no show ?case by simp
qed

lemma contains_iff: "sub \<noteq> [] \<Longrightarrow> contains s sub \<longleftrightarrow> (\<exists>a b. s = a @ sub @ b)"
proof
  assume "contains s sub"
  then show "\<exists>a b. s = a @ sub @ b"
    by (auto simp: contains_def dest!: str_cut_SomeD)
next
  assume "sub \<noteq> []" and "\<exists>a b. s = a @ sub @ b"
  then obtain a b where "s = a @ sub @ b" by blast
  then have "str_cut sub s \<noteq> None"
  proof (induction a arbitrary: s)
    case Nil
    with \<open>sub \<noteq> []\<close> show ?case by (cases sub) (auto simp: has_prefix_def)
  next
    case (Cons c a)
    then show ?case by auto
  qed
  then show "contains s sub" by (simp add: contains_def)
qed

text \<open>\<^verbatim>\<open>strings.Join\<close> and \<^verbatim>\<open>strings.Split\<close> with a one-byte separator.\<close>

fun join :: "string \<Rightarrow> string list \<Rightarrow> string" where
  "join sep [] = []"
| "join sep [x] = x"
| "join sep (x # y # xs) = x @ sep @ join sep (y # xs)"

fun split_on :: "char \<Rightarrow> string \<Rightarrow> string list" where
  "split_on d [] = [[]]"
| "split_on d (c # s) =
     (if c = d then [] # split_on d s
      else case split_on d s of [] \<Rightarrow> [[c]] | p # ps \<Rightarrow> (c # p) # ps)"

lemma split_on_not_Nil [simp]: "split_on d s \<noteq> []"
  by (cases s) (auto split: list.splits)

lemma join_split_on: "join [d] (split_on d s) = s"
proof (induction s)
  case Nil
  then show ?case by simp
next
  case (Cons c s)
  obtain p ps where ps: "split_on d s = p # ps"
    by (cases "split_on d s") auto
  with Cons show ?case by (cases ps) auto
qed

lemma split_on_no_sep: "\<forall>p \<in> set (split_on d s). d \<notin> set p"
proof (induction s)
  case Nil
  then show ?case by simp
next
  case (Cons c s)
  then show ?case by (auto split: list.splits)
qed

lemma split_on_join:
  "ps \<noteq> [] \<Longrightarrow> \<forall>p \<in> set ps. d \<notin> set p \<Longrightarrow> split_on d (join [d] ps) = ps"
proof (induction "[d]" ps rule: join.induct)
  case 1
  then show ?case by simp
next
  case (2 x)
  then show ?case by (induction x) auto
next
  case (3 x y xs)
  then have IH: "split_on d (join [d] (y # xs)) = y # xs" and x: "d \<notin> set x" by auto
  from x have "split_on d (x @ d # join [d] (y # xs)) = x # y # xs"
    by (induction x) (auto simp: IH)
  then show ?case by simp
qed

text \<open>\<^verbatim>\<open>strings.ToUpper\<close> on ASCII letters; other bytes are unchanged.\<close>

definition upper_char :: "char \<Rightarrow> char" where
  "upper_char c = (if CHR ''a'' \<le> c \<and> c \<le> CHR ''z'' then char_of (of_char c - (32 :: nat)) else c)"

definition to_upper :: "string \<Rightarrow> string" where
  "to_upper s = map upper_char s"

subsection \<open>Formatting\<close>

definition digit_char :: "nat \<Rightarrow> char" where
  "digit_char n = char_of (48 + n)"

fun dec_nat :: "nat \<Rightarrow> string" where
  "dec_nat n = (if n < 10 then [digit_char n] else dec_nat (n div 10) @ [digit_char (n mod 10)])"

declare dec_nat.simps [simp del]

text \<open>\<^verbatim>\<open>strconv.Itoa\<close> and the verb \<^verbatim>\<open>%d\<close>.\<close>

definition itoa :: "int \<Rightarrow> string" where
  "itoa i = (if i < 0 then CHR ''-'' # dec_nat (nat (- i)) else dec_nat (nat i))"

definition hex_digit :: "nat \<Rightarrow> char" where
  "hex_digit n = (if n < 10 then char_of (48 + n) else char_of (87 + n))"

text \<open>\<^verbatim>\<open>strconv.Quote\<close>, the verb \<^verbatim>\<open>%q\<close>: exact on ASCII text; bytes of multi-byte runes are kept
  as they are, which is what it does to printable runes.\<close>

definition quote_char :: "char \<Rightarrow> string" where
  "quote_char c =
     (let n = (of_char c :: nat) in
      if n = 34 then [CHR 0x5C, CHR 0x22]
      else if n = 92 then [CHR 0x5C, CHR 0x5C]
      else if n = 7 then [CHR 0x5C, CHR ''a'']
      else if n = 8 then [CHR 0x5C, CHR ''b'']
      else if n = 12 then [CHR 0x5C, CHR ''f'']
      else if n = 10 then [CHR 0x5C, CHR ''n'']
      else if n = 13 then [CHR 0x5C, CHR ''r'']
      else if n = 9 then [CHR 0x5C, CHR ''t'']
      else if n = 11 then [CHR 0x5C, CHR ''v'']
      else if n < 32 \<or> n = 127 then [CHR 0x5C, CHR ''x'', hex_digit (n div 16), hex_digit (n mod 16)]
      else [c])"

definition go_quote :: "string \<Rightarrow> string" where
  "go_quote s = [CHR 0x22] @ concat (map quote_char s) @ [CHR 0x22]"

definition bytes_of :: "string \<Rightarrow> byte list" where
  "bytes_of s = map of_char s"

lemma length_bytes_of [simp]: "length (bytes_of s) = length s"
  by (simp add: bytes_of_def)

lemma bytes_of_append [simp]: "bytes_of (s @ t) = bytes_of s @ bytes_of t"
  by (simp add: bytes_of_def)

lemma bytes_of_Nil [simp]: "bytes_of [] = []"
  by (simp add: bytes_of_def)

definition string_of_bytes :: "byte list \<Rightarrow> string" where
  "string_of_bytes bs = map (\<lambda>b. char_of (unat b)) bs"

lemma of_char_byte: "unat (of_char c :: byte) = of_char c"
proof -
  have "(of_char c :: byte) = word_of_nat (of_char c)"
    by (simp add: of_nat_of_char)
  moreover have "(of_char c :: nat) < 256"
    by simp
  ultimately show ?thesis by (simp add: unat_of_nat take_bit_nat_eq_self)
qed

lemma string_of_bytes_of [simp]: "string_of_bytes (bytes_of s) = s"
  by (induction s) (simp_all add: string_of_bytes_def bytes_of_def of_char_byte)

lemma bytes_of_inject [simp]: "bytes_of s = bytes_of t \<longleftrightarrow> s = t"
  by (metis string_of_bytes_of)

lemmas go_string_defs [go_defs] =
  has_prefix_def contains_def to_upper_def upper_char_def digit_char_def itoa_def

end
