(* ===== verification/Handler_Types.thy ===== *)
theory Handler_Types
  imports Prelude
begin

text \<open>
  The vocabulary of \<^verbatim>\<open>src/handler/handler.go\<close>: the events a handler receives and the results it
  returns, free of any transport. Pointers that may be nil are options; \<^verbatim>\<open>time.Time\<close> is a
  number of milliseconds since the Unix epoch, with the zero time where Go puts it.
\<close>

datatype kind = KindNone | KindHTTP | KindWebSocket | KindConsumer | KindSchedule | KindCustom

fun kind_string :: "kind \<Rightarrow> string" where
  "kind_string KindNone = ''''"
| "kind_string KindHTTP = ''http''"
| "kind_string KindWebSocket = ''websocket''"
| "kind_string KindConsumer = ''consumer''"
| "kind_string KindSchedule = ''schedule''"
| "kind_string KindCustom = ''custom''"

lemma kind_string_inject [simp]: "kind_string k = kind_string k' \<longleftrightarrow> k = k'"
  by (cases k; cases k') simp_all

subsection \<open>Multi-valued parameters and headers\<close>

type_synonym go_values = "string list"
type_synonym params = "(string, go_values) gomap"

definition values_First :: "go_values \<Rightarrow> string" where
  "values_First v = (if length v = 0 then '''' else v ! 0)"

text \<open>Reading an absent key of a map gives the zero value, here the nil slice.\<close>

definition params_at :: "params \<Rightarrow> string \<Rightarrow> go_values" where
  "params_at p name = (case gm_get p name of None \<Rightarrow> [] | Some v \<Rightarrow> v)"

definition params_Get :: "params \<Rightarrow> string \<Rightarrow> string" where
  "params_Get p name = values_First (params_at p name)"

definition params_Add :: "params \<Rightarrow> string \<Rightarrow> string \<Rightarrow> params" where
  "params_Add p name value = gm_put name (params_at p name @ [value]) p"

definition params_Set :: "params \<Rightarrow> string \<Rightarrow> string \<Rightarrow> params" where
  "params_Set p name value = gm_put name [value] p"

lemma values_First_simps [simp]:
  "values_First [] = ''''" "values_First (v # vs) = v"
  by (simp_all add: values_First_def)

lemma params_at_Add [simp]:
  "params_at (params_Add p n v) m = (if m = n then params_at p n @ [v] else params_at p m)"
  by (simp add: params_at_def params_Add_def)

lemma params_at_Set [simp]:
  "params_at (params_Set p n v) m = (if m = n then [v] else params_at p m)"
  by (simp add: params_at_def params_Set_def)

subsection \<open>Time\<close>

type_synonym gotime = int

definition zero_time :: gotime where
  "zero_time = -62135596800000"

definition time_IsZero :: "gotime \<Rightarrow> bool" where
  "time_IsZero t \<longleftrightarrow> t = zero_time"

subsection \<open>Events\<close>

record request =
  req_Method :: string
  req_Path :: string
  req_Route :: string
  req_PathParams :: params
  req_QueryParams :: params
  req_Headers :: params
  req_SourceIP :: string
  req_RequestID :: string
  req_Body :: "byte list"

record response =
  res_Status :: int
  res_Headers :: params
  res_Body :: "byte list"

record websocket_message =
  wm_Route :: string
  wm_ConnectionID :: string
  wm_SourceIP :: string
  wm_RequestID :: string
  wm_Message :: "byte list"
  wm_IsBinary :: bool
  wm_MessageID :: string

record consumer_record =
  cr_MessageID :: string
  cr_Body :: "byte list"
  cr_Source :: string
  cr_EventType :: string
  cr_Attributes :: "byte list"
  cr_Vendor :: "byte list"

record consumer_batch =
  cb_Records :: "consumer_record list"
  cb_SourceID :: string
  cb_SourceType :: string
  cb_Vendor :: "byte list"

record schedule_trigger =
  st_ScheduleID :: string
  st_MessageID :: string
  st_Schedule :: string
  st_Input :: "byte list"
  st_Vendor :: "byte list"

record custom_invoke =
  ci_HandlerName :: string
  ci_Input :: "byte list"

record event =
  ev_ID :: string
  ev_Tag :: string
  ev_Kind :: kind
  ev_Timestamp :: gotime
  ev_Deadline :: gotime
  ev_TraceContext :: "(string, string) gomap"
  ev_HTTP :: "request option"
  ev_WebSocket :: "websocket_message option"
  ev_Consumer :: "consumer_batch option"
  ev_Schedule :: "schedule_trigger option"
  ev_Custom :: "custom_invoke option"

subsection \<open>Results\<close>

record record_failure =
  rf_MessageID :: string
  rf_Error :: string

record batch_result =
  br_Failures :: "record_failure list"

definition br_Failed :: "batch_result \<Rightarrow> bool" where
  "br_Failed r \<longleftrightarrow> length (br_Failures r) > 0"

text \<open>The error argument is an interface value: \<open>None\<close> is nil, and only its text is kept.\<close>

definition br_Fail :: "batch_result \<Rightarrow> string \<Rightarrow> string option \<Rightarrow> batch_result" where
  "br_Fail r messageID err =
     (let msg = (case err of None \<Rightarrow> '''' | Some text \<Rightarrow> text)
      in r\<lparr>br_Failures := br_Failures r @ [\<lparr>rf_MessageID = messageID, rf_Error = msg\<rparr>]\<rparr>)"

record custom_result =
  cu_Output :: "byte list"

record ack =
  ack_Success :: bool
  ack_Error :: string

text \<open>\<^verbatim>\<open>handler.Error\<close>, the description of an unhandled error in user code.\<close>

record herror =
  he_Message :: string
  he_Type :: string
  he_Stack :: string

record result =
  r_ID :: string
  r_HTTP :: "response option"
  r_WebSocket :: "ack option"
  r_Consumer :: "batch_result option"
  r_Schedule :: "ack option"
  r_Custom :: "custom_result option"
  r_Error :: "herror option"

text \<open>\<^verbatim>\<open>&handler.Result{ID: id}\<close>: the zero value but for the identifier.\<close>

definition result_of_id :: "string \<Rightarrow> result" where
  "result_of_id i = \<lparr>r_ID = i, r_HTTP = None, r_WebSocket = None, r_Consumer = None,
     r_Schedule = None, r_Custom = None, r_Error = None\<rparr>"

lemma result_of_id_simps [simp]:
  "r_ID (result_of_id i) = i" "r_HTTP (result_of_id i) = None"
  "r_WebSocket (result_of_id i) = None" "r_Consumer (result_of_id i) = None"
  "r_Schedule (result_of_id i) = None" "r_Custom (result_of_id i) = None"
  "r_Error (result_of_id i) = None"
  by (simp_all add: result_of_id_def)

lemma br_Fail_Failed [simp]: "br_Failed (br_Fail r m e)"
  by (simp add: br_Failed_def br_Fail_def Let_def)

end
