(* ===== verification/Binary_Frame.thy ===== *)
theory Binary_Frame
  imports Prelude
begin

text \<open>
  The Celerity Binary Message Format of \<^verbatim>\<open>src/handler/binary_frame.go\<close>:
  \<^verbatim>\<open><routeLength><route><requireAck><messageIdLength><messageId><message>\<close>.
  \<open>FrameBinaryMessage\<close> is the encoder. \<open>read_frame\<close> is the reader the format describes, written
  from the layout in the file's opening comment; it is the specification the encoder is proved
  against and models no code of the repository.
\<close>

datatype frame_error =
    ErrRouteRequired
  | ErrRouteTooLong
  | ErrMessageIDTooLong
  | ErrRouteReserved
  | ErrAckWithoutID

text \<open>The array literal has six entries, the first of them false.\<close>

definition reservedRouteBytes :: "bool list" where
  "reservedRouteBytes = [False, True, True, True, True, True]"

definition FrameBinaryMessage ::
    "string \<Rightarrow> string \<Rightarrow> bool \<Rightarrow> byte list \<Rightarrow> frame_error + byte list" where
  "FrameBinaryMessage route messageID requireAck message =
     (if length route = 0 then Inl ErrRouteRequired
      else if length route > 255 then Inl ErrRouteTooLong
      else let first = (of_char (route ! 0) :: byte) in
        if unat first < length reservedRouteBytes \<and> reservedRouteBytes ! unat first
        then Inl ErrRouteReserved
        else if length messageID > 255 then Inl ErrMessageIDTooLong
        else if requireAck \<and> messageID = '''' then Inl ErrAckWithoutID
        else let ack = (if requireAck then 1 else 0 :: byte) in
          Inr ([word_of_nat (length route)] @ bytes_of route
               @ [ack, word_of_nat (length messageID)] @ bytes_of messageID @ message))"

text \<open>The reader: one length byte before each of the two names, the acknowledgement flag between
  them, the rest is the payload. It fails where a length runs past the end.\<close>

definition read_frame :: "byte list \<Rightarrow> (string \<times> string \<times> bool \<times> byte list) option" where
  "read_frame bs =
     (case bs of
        [] \<Rightarrow> None
      | n # rest \<Rightarrow>
          (case drop (unat n) rest of
             a # m # rest' \<Rightarrow>
               (if length rest' < unat m then None
                else Some (string_of_bytes (take (unat n) rest),
                           string_of_bytes (take (unat m) rest'), a = 1, drop (unat m) rest'))
           | _ \<Rightarrow> None))"

definition reserved_frame :: "byte list \<Rightarrow> bool" where
  "reserved_frame bs \<longleftrightarrow> 2 \<le> length bs \<and> unat (bs ! 1) \<in> {1..5}"

lemma reservedRouteBytes_iff:
  "n < length reservedRouteBytes \<and> reservedRouteBytes ! n \<longleftrightarrow> n \<in> {1..5}"
proof -
  have "n < 6 \<longleftrightarrow> n \<in> {0, 1, 2, 3, 4, 5}" by auto
  then show ?thesis by (auto simp: reservedRouteBytes_def)
qed

lemma unat_byte_length [simp]: "n \<le> 255 \<Longrightarrow> unat (word_of_nat n :: byte) = n"
  by (simp add: unat_of_nat)

text \<open>What an accepted message looks like, and when it is accepted: the two halves the rest
  follows from.\<close>

definition frame_layout :: "string \<Rightarrow> string \<Rightarrow> bool \<Rightarrow> byte list \<Rightarrow> byte list" where
  "frame_layout route messageID requireAck message =
     [word_of_nat (length route)] @ bytes_of route
     @ [if requireAck then 1 else 0, word_of_nat (length messageID)] @ bytes_of messageID @ message"

definition frameable :: "string \<Rightarrow> string \<Rightarrow> bool \<Rightarrow> bool" where
  "frameable route messageID requireAck \<longleftrightarrow>
     route \<noteq> [] \<and> length route \<le> 255 \<and> (of_char (route ! 0) :: nat) \<notin> {1..5}
     \<and> length messageID \<le> 255 \<and> (requireAck \<longrightarrow> messageID \<noteq> '''')"

lemma FrameBinaryMessage_Inr_iff:
  "FrameBinaryMessage route messageID requireAck message = Inr bs \<longleftrightarrow>
     frameable route messageID requireAck \<and> bs = frame_layout route messageID requireAck message"
  unfolding FrameBinaryMessage_def frameable_def frame_layout_def Let_def
    reservedRouteBytes_iff of_char_byte
  by auto

lemma read_frame_layout:
  assumes "length route \<le> 255" and "length messageID \<le> 255"
  shows "read_frame (frame_layout route messageID requireAck message)
    = Some (route, messageID, requireAck, message)"
  using assms by (simp add: read_frame_def frame_layout_def)

lemma frame_layout_inject:
  assumes "frame_layout r m a p = frame_layout r' m' a' p'"
    and "length r \<le> 255" "length m \<le> 255" "length r' \<le> 255" "length m' \<le> 255"
  shows "r = r' \<and> m = m' \<and> a = a' \<and> p = p'"
proof -
  have "read_frame (frame_layout r m a p) = read_frame (frame_layout r' m' a' p')"
    using assms(1) by simp
  then show ?thesis using assms(2-) by (simp add: read_frame_layout)
qed

subsection \<open>The interface a sender relies on\<close>

text \<open>A message format is an encoder that may refuse and a reader that undoes it. What a client of
  the format needs follows from the round trip alone: accepted messages are told apart by their
  bytes, and a batch can be read back message by message.\<close>

locale message_format =
  fixes enc :: "'m \<Rightarrow> 'e + byte list"
    and dec :: "byte list \<Rightarrow> 'm option"
  assumes dec_enc: "enc m = Inr bs \<Longrightarrow> dec bs = Some m"
begin

lemma enc_inject: "enc m = Inr bs \<Longrightarrow> enc m' = Inr bs \<Longrightarrow> m = m'"
  by (metis dec_enc option.inject)

lemma dec_batch:
  "list_all2 (\<lambda>m bs. enc m = Inr bs) ms frames \<Longrightarrow> map dec frames = map Some ms"
  by (induction rule: list_all2_induct) (auto simp: dec_enc)

end

interpretation bf: message_format
  "\<lambda>(r, m, a, p). FrameBinaryMessage r m a p" read_frame
  by unfold_locales
    (auto simp: FrameBinaryMessage_Inr_iff frameable_def read_frame_layout)

subsection \<open>Properties\<close>

text \<open>C1. Round trip of the binary message format: every message \<open>FrameBinaryMessage\<close> accepts is read
  back from its bytes exactly (route, message id, acknowledgement flag and payload), the frame is
  three bytes longer than its parts, and a client never takes it for one of the protocol's own
  messages.\<close>

theorem frame_roundtrip:
  assumes "FrameBinaryMessage route messageID requireAck message = Inr bs"
  shows "read_frame bs = Some (route, messageID, requireAck, message)
    \<and> length bs = 3 + length route + length messageID + length message
    \<and> \<not> reserved_frame bs"
proof -
  have "read_frame bs = Some (route, messageID, requireAck, message)"
    using bf.dec_enc [of "(route, messageID, requireAck, message)" bs] assms by simp
  moreover from assms have f: "frameable route messageID requireAck"
    and bs: "bs = frame_layout route messageID requireAck message"
    by (simp_all add: FrameBinaryMessage_Inr_iff)
  from f have "bs ! 1 = of_char (route ! 0)"
    unfolding bs by (cases route) (simp_all add: frame_layout_def frameable_def bytes_of_def)
  with f have "\<not> reserved_frame bs"
    by (simp add: reserved_frame_def frameable_def of_char_byte)
  ultimately show ?thesis by (simp add: bs frame_layout_def)
qed

theorem frame_roundtrip_witness:
  "FrameBinaryMessage ''chat'' ''m1'' True [7, 8]
     = Inr [4, 99, 104, 97, 116, 1, 2, 109, 49, 7, 8]
   \<and> read_frame [4, 99, 104, 97, 116, 1, 2, 109, 49, 7, 8] = Some (''chat'', ''m1'', True, [7, 8])"
proof -
  have f: "FrameBinaryMessage ''chat'' ''m1'' True [7, 8]
     = Inr [4, 99, 104, 97, 116, 1, 2, 109, 49, 7, 8]"
    by (simp add: FrameBinaryMessage_Inr_iff frameable_def frame_layout_def bytes_of_def)
  from frame_roundtrip [OF f] f show ?thesis by simp
qed

text \<open>Refusal is total and exact: a message is refused precisely when the format cannot carry
  it, so nothing is truncated into a frame; and the error names the first reason in the order the
  checks are made.\<close>

theorem frame_refusal:
  "((\<exists>bs. FrameBinaryMessage route messageID requireAck message = Inr bs) \<longleftrightarrow>
      route \<noteq> '''' \<and> length route \<le> 255 \<and> (of_char (route ! 0) :: nat) \<notin> {1..5}
      \<and> length messageID \<le> 255 \<and> \<not> (requireAck \<and> messageID = ''''))
   \<and> (FrameBinaryMessage route messageID requireAck message = Inl ErrRouteRequired \<longleftrightarrow> route = '''')
   \<and> (FrameBinaryMessage route messageID requireAck message = Inl ErrRouteTooLong \<longleftrightarrow> length route > 255)
   \<and> (FrameBinaryMessage route messageID requireAck message = Inl ErrRouteReserved \<longleftrightarrow>
        route \<noteq> '''' \<and> length route \<le> 255 \<and> (of_char (route ! 0) :: nat) \<in> {1..5})
   \<and> (FrameBinaryMessage route messageID requireAck message = Inl ErrMessageIDTooLong \<longleftrightarrow>
        route \<noteq> '''' \<and> length route \<le> 255 \<and> (of_char (route ! 0) :: nat) \<notin> {1..5}
        \<and> length messageID > 255)
   \<and> (FrameBinaryMessage route messageID requireAck message = Inl ErrAckWithoutID \<longleftrightarrow>
        route \<noteq> '''' \<and> length route \<le> 255 \<and> (of_char (route ! 0) :: nat) \<notin> {1..5}
        \<and> requireAck \<and> messageID = '''')"
  unfolding FrameBinaryMessage_def Let_def reservedRouteBytes_iff of_char_byte by auto

end
