(* ===== verification/Routes.thy ===== *)
theory Routes
  imports Handler_Types
begin

text \<open>
  Routes and handler tags: \<^verbatim>\<open>src/handler/route.go\<close> (the blueprint's \<^verbatim>\<open>{name+}\<close> against the router's
  \<^verbatim>\<open>{*name}\<close>), \<^verbatim>\<open>src/celerity/tags.go\<close> (tag construction) and the readers of a tag in
  \<^verbatim>\<open>src/celerity/reconcile.go\<close>. The two regular expressions are matched by hand: the name is a run
  of word characters, none of which can be the byte that follows it, so the leftmost match is the
  only candidate at its position.
\<close>

subsection \<open>Catch-all parameters\<close>

definition is_alpha :: "char \<Rightarrow> bool" where
  "is_alpha c \<longleftrightarrow> (CHR ''A'' \<le> c \<and> c \<le> CHR ''Z'') \<or> (CHR ''a'' \<le> c \<and> c \<le> CHR ''z'') \<or> c = CHR ''_''"

definition is_word :: "char \<Rightarrow> bool" where
  "is_word c \<longleftrightarrow> is_alpha c \<or> (CHR ''0'' \<le> c \<and> c \<le> CHR ''9'')"

definition is_name :: "string \<Rightarrow> bool" where
  "is_name n \<longleftrightarrow> (case n of [] \<Rightarrow> False | c # cs \<Rightarrow> is_alpha c \<and> list_all is_word cs)"

text \<open>A match of \<^verbatim>\<open>{name+}\<close> at the start of a string: the name and what follows.\<close>

definition match_catchAll :: "string \<Rightarrow> (string \<times> string) option" where
  "match_catchAll s =
     (case s of
        [] \<Rightarrow> None
      | c # rest \<Rightarrow>
          (let name = takeWhile is_word rest; after = dropWhile is_word rest in
           if c = CHR ''{'' \<and> is_name name \<and> has_prefix after ''+}''
           then Some (name, drop 2 after) else None))"

definition match_routerCatchAll :: "string \<Rightarrow> (string \<times> string) option" where
  "match_routerCatchAll s =
     (if has_prefix s ''{*'' then
        (let rest = drop 2 s; name = takeWhile is_word rest; after = dropWhile is_word rest in
         if is_name name \<and> has_prefix after ''}'' then Some (name, drop 1 after) else None)
      else None)"

lemma match_catchAll_length: "match_catchAll s = Some (n, t) \<Longrightarrow> length t < length s"
  by (auto simp: match_catchAll_def Let_def split: list.splits if_splits)
    (metis diff_le_self le_imp_less_Suc le_trans length_dropWhile_le)

function (sequential) NormaliseRoute :: "string \<Rightarrow> string" where
  "NormaliseRoute [] = []"
| "NormaliseRoute (c # s) =
     (case match_catchAll (c # s) of
        Some (name, rest) \<Rightarrow> ''{*'' @ name @ ''}'' @ NormaliseRoute rest
      | None \<Rightarrow> c # NormaliseRoute s)"
  by pat_completeness auto
termination
  by (relation "measure length") (auto dest!: match_catchAll_length)

text \<open>\<^verbatim>\<open>FindStringSubmatch\<close>: the first position at which the expression matches.\<close>

fun find_match :: "(string \<Rightarrow> (string \<times> string) option) \<Rightarrow> string \<Rightarrow> string option" where
  "find_match m [] = None"
| "find_match m (c # s) = (case m (c # s) of Some (name, _) \<Rightarrow> Some name | None \<Rightarrow> find_match m s)"

definition CatchAllParam :: "string \<Rightarrow> string option" where
  "CatchAllParam route =
     (case find_match match_catchAll route of
        Some n \<Rightarrow> Some n
      | None \<Rightarrow> (case find_match match_routerCatchAll route of Some n \<Rightarrow> Some n | None \<Rightarrow> None))"

subsection \<open>Tags\<close>

definition HTTPTag :: "string \<Rightarrow> string \<Rightarrow> string" where
  "HTTPTag method route = to_upper method @ ''::'' @ route"

definition DefaultWebSocketRouteKey :: string where
  "DefaultWebSocketRouteKey = ''event''"

definition WebSocketTag :: "string \<Rightarrow> string \<Rightarrow> string" where
  "WebSocketTag routeKey route = routeKey @ ''::'' @ route"

definition SourceTag :: "string \<Rightarrow> string \<Rightarrow> string" where
  "SourceTag sourceID handlerName = ''source::'' @ sourceID @ ''::'' @ handlerName"

definition CustomTag :: "string \<Rightarrow> string" where
  "CustomTag handlerName = ''custom::'' @ handlerName"

definition pendingTagPrefix :: string where
  "pendingTagPrefix = ''blueprint::''"

definition kindOfTag :: "string \<Rightarrow> kind" where
  "kindOfTag tag =
     (if has_prefix tag ''custom::'' then KindCustom
      else if has_prefix tag ''source::'' then KindConsumer
      else case str_cut ''::'' tag of
             Some (_, route) \<Rightarrow> if has_prefix route ''/'' then KindHTTP else KindWebSocket
           | None \<Rightarrow> KindWebSocket)"

definition routeKeyOf :: "string \<Rightarrow> string" where
  "routeKeyOf tag = (case str_cut ''::'' tag of Some (key, _) \<Rightarrow> key | None \<Rightarrow> tag)"

subsection \<open>Lemmas: matching\<close>

lemma not_word_brace [simp]: "\<not> is_word CHR ''{''" "\<not> is_word CHR ''+''" "\<not> is_word CHR ''}''"
    "\<not> is_word CHR ''*''"
  by (simp_all add: is_word_def is_alpha_def less_eq_char_def)

lemma match_catchAll_other: "c \<noteq> CHR ''{'' \<Longrightarrow> match_catchAll (c # s) = None"
  by (simp add: match_catchAll_def Let_def)

lemma match_catchAll_SomeD:
  assumes "match_catchAll s = Some (name, rest)"
  shows "s = CHR ''{'' # name @ ''+}'' @ rest" and "is_name name" and "list_all is_word name"
proof -
  from assms obtain t where s: "s = CHR ''{'' # t" and n: "name = takeWhile is_word t"
    and p: "has_prefix (dropWhile is_word t) ''+}''" and r: "rest = drop 2 (dropWhile is_word t)"
    and "is_name name"
    by (auto simp: match_catchAll_def Let_def split: list.splits if_splits)
  then show "is_name name" by simp
  from p r have "dropWhile is_word t = ''+}'' @ rest"
    by (auto simp: has_prefix_iff)
  then have "t = name @ ''+}'' @ rest"
    unfolding n by (metis takeWhile_dropWhile_id)
  with s show "s = CHR ''{'' # name @ ''+}'' @ rest" by simp
  show "list_all is_word name" unfolding n
    by (auto simp: list_all_iff dest: set_takeWhileD)
qed

lemma NormaliseRoute_skip:
  "CHR ''{'' \<notin> set w \<Longrightarrow> NormaliseRoute (w @ t) = w @ NormaliseRoute t"
  by (induction w) (auto simp: match_catchAll_other)

lemma word_no_brace: "list_all is_word w \<Longrightarrow> CHR ''{'' \<notin> set w"
  by (auto simp: list_all_iff)

lemma has_prefix_NormaliseRoute:
  "CHR ''{'' \<notin> set p \<Longrightarrow> has_prefix (NormaliseRoute t) p = has_prefix t p"
proof (induction p arbitrary: t)
  case Nil
  then show ?case by simp
next
  case (Cons d p)
  show ?case
  proof (cases t)
    case Nil
    then show ?thesis by simp
  next
    case t: (Cons c t')
    show ?thesis
    proof (cases "match_catchAll t")
      case None
      with Cons t show ?thesis by auto
    next
      case (Some m)
      obtain n r where m: "m = (n, r)" by (cases m)
      have "c = CHR ''{''" using Some t m match_catchAll_SomeD(1) by auto
      with Cons.prems Some t m show ?thesis by auto
    qed
  qed
qed

lemma scan_NormaliseRoute:
  "takeWhile is_word (NormaliseRoute s) = takeWhile is_word s"
  "dropWhile is_word (NormaliseRoute s) = NormaliseRoute (dropWhile is_word s)"
proof -
  let ?w = "takeWhile is_word s" and ?t = "dropWhile is_word s"
  have w: "list_all is_word ?w" by (auto simp: list_all_iff dest: set_takeWhileD)
  have "NormaliseRoute s = NormaliseRoute (?w @ ?t)" by simp
  also have "\<dots> = ?w @ NormaliseRoute ?t"
    by (rule NormaliseRoute_skip [OF word_no_brace [OF w]])
  finally have eq: "NormaliseRoute s = ?w @ NormaliseRoute ?t" .
  have no: "takeWhile is_word (NormaliseRoute ?t) = []"
  proof (cases ?t)
    case Nil
    show ?thesis unfolding Nil by simp
  next
    case (Cons c t)
    then have c: "\<not> is_word c" by (simp add: dropWhile_eq_Cons_conv)
    show ?thesis
    proof (cases "match_catchAll (c # t)")
      case None
      with Cons c show ?thesis by simp
    next
      case (Some m)
      with Cons show ?thesis by (cases m) simp
    qed
  qed
  then have no': "dropWhile is_word (NormaliseRoute ?t) = NormaliseRoute ?t"
    by (metis append_Nil takeWhile_dropWhile_id)
  have w': "\<And>x. x \<in> set ?w \<Longrightarrow> is_word x" using w by (simp add: list_all_iff)
  from takeWhile_append2 [of ?w is_word "NormaliseRoute ?t"] w' no
  show "takeWhile is_word (NormaliseRoute s) = ?w" by (simp only: eq [symmetric]) simp
  from dropWhile_append2 [of ?w is_word "NormaliseRoute ?t"] w' no'
  show "dropWhile is_word (NormaliseRoute s) = NormaliseRoute ?t" by (simp only: eq [symmetric])
qed

text \<open>Rewriting what follows a position never creates or destroys a match at it.\<close>

lemma match_NormaliseRoute_None:
  "match_catchAll (c # s) = None \<Longrightarrow> match_catchAll (c # NormaliseRoute s) = None"
  by (auto simp: match_catchAll_def Let_def scan_NormaliseRoute has_prefix_NormaliseRoute
      split: if_splits)

lemma match_router_NormaliseRoute_None:
  assumes "match_routerCatchAll (c # s) = None"
  shows "match_routerCatchAll (c # NormaliseRoute s) = None"
proof (cases "has_prefix (c # NormaliseRoute s) ''{*''")
  case True
  then have c: "c = CHR ''{''" and "has_prefix (NormaliseRoute s) ''*''" by auto
  then have "has_prefix s ''*''" by (simp add: has_prefix_NormaliseRoute)
  then obtain s' where s: "s = CHR ''*'' # s'" by (auto simp: has_prefix_iff)
  with c assms show ?thesis
    by (auto simp: match_routerCatchAll_def Let_def scan_NormaliseRoute has_prefix_NormaliseRoute
        match_catchAll_other split: if_splits)
next
  case False
  then show ?thesis by (simp only: match_routerCatchAll_def if_False)
qed

lemma match_catchAll_rewritten: "match_catchAll (CHR ''{'' # CHR ''*'' # s) = None"
  by (simp add: match_catchAll_def is_name_def)

lemma match_router_rewritten:
  "is_name name \<Longrightarrow> list_all is_word name \<Longrightarrow>
     match_routerCatchAll (''{*'' @ name @ ''}'' @ s) = Some (name, s)"
  by (simp add: match_routerCatchAll_def takeWhile_append dropWhile_append list_all_iff)

lemma NormaliseRoute_rewritten:
  assumes "list_all is_word name"
  shows "NormaliseRoute (''{*'' @ name @ ''}'' @ s) = ''{*'' @ name @ ''}'' @ NormaliseRoute s"
proof -
  have "CHR ''{'' \<notin> set (''*'' @ name @ ''}'')"
    using word_no_brace [OF assms] by simp
  from NormaliseRoute_skip [OF this, of s] show ?thesis
    by (simp add: match_catchAll_rewritten)
qed

lemma find_match_NormaliseRoute: "find_match match_catchAll (NormaliseRoute r) = None"
proof (induction r rule: NormaliseRoute.induct)
  case 1
  then show ?case by simp
next
  case (2 c s)
  show ?case
  proof (cases "match_catchAll (c # s)")
    case None
    with 2 show ?thesis by (simp add: match_NormaliseRoute_None)
  next
    case (Some m)
    obtain name rest where m: "m = (name, rest)" by (cases m)
    with Some 2(2) have IH: "find_match match_catchAll (NormaliseRoute rest) = None" by simp
    have skip: "CHR ''{'' \<notin> set w \<Longrightarrow> find_match match_catchAll (w @ t) = find_match match_catchAll t"
      for w t by (induction w) (auto simp: match_catchAll_other)
    have "CHR ''{'' \<notin> set (''*'' @ name @ ''}'')"
      using match_catchAll_SomeD(3) Some m word_no_brace by simp
    from skip [OF this, of "NormaliseRoute rest"] IH Some m show ?thesis
      by (simp add: match_catchAll_rewritten)
  qed
qed

lemma NormaliseRoute_no_match: "find_match match_catchAll r = None \<Longrightarrow> NormaliseRoute r = r"
  by (induction r) (auto split: option.splits)

lemma find_router_NormaliseRoute:
  "find_match match_routerCatchAll r = None \<Longrightarrow>
     find_match match_routerCatchAll (NormaliseRoute r) = find_match match_catchAll r"
proof (induction r rule: NormaliseRoute.induct)
  case 1
  then show ?case by simp
next
  case (2 c s)
  then have here: "match_routerCatchAll (c # s) = None"
    and later: "find_match match_routerCatchAll s = None"
    by (auto split: option.splits)
  show ?case
  proof (cases "match_catchAll (c # s)")
    case None
    with 2(1) later match_router_NormaliseRoute_None [OF here] show ?thesis by simp
  next
    case (Some m)
    obtain name rest where m: "m = (name, rest)" by (cases m)
    with Some have "match_routerCatchAll (''{*'' @ name @ ''}'' @ NormaliseRoute rest)
        = Some (name, NormaliseRoute rest)"
      by (intro match_router_rewritten) (auto dest: match_catchAll_SomeD)
    with Some m show ?thesis by simp
  qed
qed

subsection \<open>Lemmas: tags\<close>

text \<open>A key without a colon is cut off exactly at the separator that follows it.\<close>

lemma str_cut_tag:
  assumes "CHR '':'' \<notin> set key"
  shows "str_cut ''::'' (key @ ''::'' @ route) = Some (key, route)"
  using assms by (induction key) auto

lemma has_prefix_key:
  assumes "CHR '':'' \<notin> set key" and "CHR '':'' \<notin> set p"
  shows "has_prefix (key @ ''::'' @ route) (p @ ''::'') \<longleftrightarrow> key = p"
proof
  assume "has_prefix (key @ ''::'' @ route) (p @ ''::'')"
  then obtain t where "key @ ''::'' @ route = p @ ''::'' @ t"
    by (auto simp: has_prefix_iff)
  then have "str_cut ''::'' (key @ ''::'' @ route) = str_cut ''::'' (p @ ''::'' @ t)" by simp
  with assms show "key = p" by (simp add: str_cut_tag del: append.simps)
qed (auto simp: has_prefix_iff)

lemma kindOfTag_keyed:
  assumes "CHR '':'' \<notin> set key"
  shows "kindOfTag (key @ ''::'' @ route) =
    (if key = ''custom'' then KindCustom else if key = ''source'' then KindConsumer
     else if has_prefix route ''/'' then KindHTTP else KindWebSocket)"
  using has_prefix_key [OF assms, of "''custom''" route] has_prefix_key [OF assms, of "''source''" route]
    str_cut_tag [OF assms, of route]
  by (simp add: kindOfTag_def)

lemma upper_char_not_lower: "\<not> (CHR ''a'' \<le> upper_char c \<and> upper_char c \<le> CHR ''z'')"
proof (cases "CHR ''a'' \<le> c \<and> c \<le> CHR ''z''")
  case True
  then have b: "97 \<le> (of_char c :: nat)" "(of_char c :: nat) \<le> 122"
    by (simp_all add: less_eq_char_def)
  then have "(of_char (upper_char c) :: nat) = of_char c - 32"
    using True by (simp add: upper_char_def less_eq_char_def)
  with b show ?thesis by (simp add: less_eq_char_def)
next
  case False
  then have "upper_char c = c" by (simp only: upper_char_def if_False)
  with False show ?thesis by simp
qed

lemma to_upper_not_lower:
  "c \<in> set p \<Longrightarrow> CHR ''a'' \<le> c \<Longrightarrow> c \<le> CHR ''z'' \<Longrightarrow> to_upper m \<noteq> p"
  using upper_char_not_lower by (auto simp: to_upper_def)

lemma colon_not_in_upper: "CHR '':'' \<notin> set m \<Longrightarrow> CHR '':'' \<notin> set (to_upper m)"
proof
  assume no: "CHR '':'' \<notin> set m" and "CHR '':'' \<in> set (to_upper m)"
  then obtain c where c: "c \<in> set m" and u: "upper_char c = CHR '':''"
    by (auto simp: to_upper_def)
  show False
  proof (cases "CHR ''a'' \<le> c \<and> c \<le> CHR ''z''")
    case True
    then have b: "97 \<le> (of_char c :: nat)" "(of_char c :: nat) \<le> 122"
      by (simp_all add: less_eq_char_def)
    then have "(of_char (upper_char c) :: nat) = of_char c - 32"
      using True by (simp add: upper_char_def less_eq_char_def)
    with b show False by (simp add: u)
  next
    case False
    with u c no show False by (auto simp: upper_char_def)
  qed
qed

subsection \<open>Properties\<close>

text \<open>Route normalisation settles on the router's form: it is idempotent, it leaves no catch-all
  in the blueprint's form behind, and it changes no route's length.\<close>

theorem NormaliseRoute_normal_form:
  "NormaliseRoute (NormaliseRoute route) = NormaliseRoute route
   \<and> find_match match_catchAll (NormaliseRoute route) = None
   \<and> length (NormaliseRoute route) = length route"
proof -
  have "length (NormaliseRoute route) = length route"
  proof (induction route rule: NormaliseRoute.induct)
    case (2 c s)
    then show ?case
      by (auto split: option.splits dest!: match_catchAll_SomeD(1))
  qed simp
  then show ?thesis
    by (simp add: find_match_NormaliseRoute NormaliseRoute_no_match)
qed

text \<open>The catch-all parameter has the same name in both forms: for a route a blueprint can state
  (one not already in the router's form), reading the parameter before or after normalisation
  gives the same answer, so a serverless adapter and the runtime bind the same name.\<close>

theorem CatchAllParam_NormaliseRoute:
  assumes "find_match match_routerCatchAll route = None"
  shows "CatchAllParam (NormaliseRoute route) = CatchAllParam route"
  using assms find_router_NormaliseRoute [OF assms]
  by (auto simp: CatchAllParam_def find_match_NormaliseRoute split: option.splits)

theorem CatchAllParam_NormaliseRoute_witness:
  "NormaliseRoute ''/files/{path+}'' = ''/files/{*path}''
   \<and> CatchAllParam (NormaliseRoute ''/files/{path+}'') = Some ''path''"
proof -
  have h: "find_match match_routerCatchAll ''/files/{path+}'' = None"
    by (simp add: match_routerCatchAll_def is_name_def is_word_def is_alpha_def less_eq_char_def)
  have "NormaliseRoute ''/files/{path+}'' = ''/files/{*path}''"
    by (simp add: match_catchAll_def is_name_def is_word_def is_alpha_def less_eq_char_def)
  moreover have "CatchAllParam ''/files/{path+}'' = Some ''path''"
    by (simp add: CatchAllParam_def match_catchAll_def is_name_def is_word_def is_alpha_def
        less_eq_char_def)
  ultimately show ?thesis using CatchAllParam_NormaliseRoute [OF h] by simp
qed

text \<open>The tag formats are distinct enough to tell apart: for every tag the SDK builds, the source
  read back from the tag is the one it was built for. A schedule's tag reads as a consumer's, as
  the code says it must; a WebSocket route key is one that is not \<^verbatim>\<open>custom\<close> or \<^verbatim>\<open>source\<close>.\<close>

theorem kindOfTag_of_built_tags:
  assumes "CHR '':'' \<notin> set method" and "CHR '':'' \<notin> set routeKey"
    and "routeKey \<noteq> ''custom''" and "routeKey \<noteq> ''source''" and "\<not> has_prefix wsRoute ''/''"
  shows "kindOfTag (HTTPTag method (CHR ''/'' # path)) = KindHTTP
    \<and> kindOfTag (WebSocketTag routeKey wsRoute) = KindWebSocket
    \<and> routeKeyOf (WebSocketTag routeKey wsRoute) = routeKey
    \<and> kindOfTag (SourceTag sourceID handlerName) = KindConsumer
    \<and> kindOfTag (CustomTag handlerName) = KindCustom"
proof (intro conjI)
  have up: "to_upper method \<noteq> ''custom''" "to_upper method \<noteq> ''source''"
    by (rule to_upper_not_lower [of "CHR ''s''"], simp_all add: less_eq_char_def)+
  show "kindOfTag (HTTPTag method (CHR ''/'' # path)) = KindHTTP"
    unfolding HTTPTag_def
    by (simp only: kindOfTag_keyed [OF colon_not_in_upper [OF assms(1)]] up if_False) simp
  show "kindOfTag (WebSocketTag routeKey wsRoute) = KindWebSocket"
    unfolding WebSocketTag_def by (simp only: kindOfTag_keyed [OF assms(2)] assms if_False)
  show "routeKeyOf (WebSocketTag routeKey wsRoute) = routeKey"
    unfolding WebSocketTag_def routeKeyOf_def by (simp only: str_cut_tag [OF assms(2)]) simp
  show "kindOfTag (SourceTag sourceID handlerName) = KindConsumer"
    by (simp add: kindOfTag_def SourceTag_def)
  show "kindOfTag (CustomTag handlerName) = KindCustom"
    by (simp add: kindOfTag_def CustomTag_def)
qed

theorem kindOfTag_of_built_tags_witness:
  "HTTPTag ''get'' ''/orders'' = ''GET::/orders''
   \<and> kindOfTag ''GET::/orders'' = KindHTTP \<and> kindOfTag ''action::sendMessage'' = KindWebSocket"
proof -
  have t: "HTTPTag ''get'' ''/orders'' = ''GET::/orders''"
    by code_simp
  with kindOfTag_of_built_tags [of "''get''" "''action''" "''sendMessage''" "''orders''"]
  show ?thesis by (simp add: WebSocketTag_def)
qed

end
