(* ===== verification/Errors.thy ===== *)
theory Errors
  imports Handler_Types
begin

text \<open>
  Errors and the answers made from them: \<^verbatim>\<open>src/handler/status.go\<close>, \<^verbatim>\<open>src/handler/validation.go\<close> and the
  validation seam of \<^verbatim>\<open>src/celerity/validate.go\<close>.

  A Go error is an interface value. The constructors of \<open>gerr\<close> are the concrete types the sources
  make or test for, and \<open>AppErr\<close> is a type of the application's own, which may satisfy any of the
  interfaces the SDK asks about. \<open>err_chain\<close> is the order in which \<^verbatim>\<open>errors.As\<close> visits an error and
  what it wraps. A slice whose nil value is visible in an answer is an \<^typ>\<open>'a list option\<close>.
\<close>

subsection \<open>JSON, as \<^verbatim>\<open>encoding/json\<close> writes it\<close>

text \<open>\<open>JBad\<close> is a value \<^verbatim>\<open>json.Marshal\<close> refuses, such as a channel or a function.\<close>

datatype json = JNull | JBool bool | JInt int | JStr string
  | JArr "json list" | JObj "(string \<times> json) list" | JBad

definition json_escape_char :: "char \<Rightarrow> string" where
  "json_escape_char c =
     (let n = (of_char c :: nat) in
      if n = 34 then [CHR 0x5C, CHR 0x22]
      else if n = 92 then [CHR 0x5C, CHR 0x5C]
      else if n = 8 then [CHR 0x5C, CHR ''b'']
      else if n = 12 then [CHR 0x5C, CHR ''f'']
      else if n = 10 then [CHR 0x5C, CHR ''n'']
      else if n = 13 then [CHR 0x5C, CHR ''r'']
      else if n = 9 then [CHR 0x5C, CHR ''t'']
      else if n < 32 \<or> n = 60 \<or> n = 62 \<or> n = 38
      then [CHR 0x5C, CHR ''u'', CHR ''0'', CHR ''0'', hex_digit (n div 16), hex_digit (n mod 16)]
      else [c])"

definition json_string :: "string \<Rightarrow> string" where
  "json_string s = [CHR 0x22] @ concat (map json_escape_char s) @ [CHR 0x22]"

fun json_Marshal :: "json \<Rightarrow> string option" where
  "json_Marshal JNull = Some ''null''"
| "json_Marshal (JBool b) = Some (if b then ''true'' else ''false'')"
| "json_Marshal (JInt i) = Some (itoa i)"
| "json_Marshal (JStr s) = Some (json_string s)"
| "json_Marshal (JArr xs) = map_option (\<lambda>ts. ''['' @ join '','' ts @ '']'') (those (map json_Marshal xs))"
| "json_Marshal (JObj kvs) =
     map_option (\<lambda>ts. ''{'' @ join '','' ts @ ''}'')
       (those (map (\<lambda>(k, v). map_option (\<lambda>t. json_string k @ '':'' @ t) (json_Marshal v)) kvs))"
| "json_Marshal JBad = None"

subsection \<open>Error values\<close>

record validation_issue =
  vi_Code :: string
  vi_Path :: "string list option"
  vi_Message :: string

datatype gerr =
    Errorf string "gerr option"
      \<comment> \<open>\<^verbatim>\<open>errors.New\<close>, and \<^verbatim>\<open>fmt.Errorf\<close> with the error its \<^verbatim>\<open>%w\<close> names; the text is complete\<close>
  | StatusError int string "json option" "gerr option"
  | ValidationError string "validation_issue list option" "gerr option"
  | HandlerError herror
  | UnmarshalTypeError string string string
      \<comment> \<open>the field, the Go type it failed to become, the text\<close>
  | JSONSyntaxError string
  | JoinError "gerr list"
  | AppErr (ae_text: string) (ae_type: string) (ae_status: "int option")
      (ae_issues: "validation_issue list option option") (ae_error_type: "string option")
      (ae_details: "json option option") (ae_unwrap: "gerr list")

definition slice :: "'a list option \<Rightarrow> 'a list" where
  "slice xs = (case xs of None \<Rightarrow> [] | Some ys \<Rightarrow> ys)"

definition issue_text :: "validation_issue \<Rightarrow> string" where
  "issue_text i = ''; '' @ (if length (slice (vi_Path i)) > 0 then join ''.'' (slice (vi_Path i)) @ '': '' else [])
     @ vi_Message i"

text \<open>\<^verbatim>\<open>Error() string\<close> of each type.\<close>

fun error_text :: "gerr \<Rightarrow> string" where
  "error_text (Errorf t _) = t"
| "error_text (StatusError st msg _ (Some e)) = itoa st @ '' '' @ msg @ '': '' @ error_text e"
| "error_text (StatusError st msg _ None) = itoa st @ '' '' @ msg"
| "error_text (ValidationError msg issues _) = msg @ concat (map issue_text (slice issues))"
| "error_text (HandlerError h) = he_Message h"
| "error_text (UnmarshalTypeError _ _ t) = t"
| "error_text (JSONSyntaxError t) = t"
| "error_text (JoinError es) = join [CHR 0x0A] (map error_text es)"
| "error_text (AppErr t _ _ _ _ _ _) = t"

fun err_chain :: "gerr \<Rightarrow> gerr list" where
  "err_chain (Errorf t (Some e)) = Errorf t (Some e) # err_chain e"
| "err_chain (StatusError st msg d (Some e)) = StatusError st msg d (Some e) # err_chain e"
| "err_chain (ValidationError msg is (Some e)) = ValidationError msg is (Some e) # err_chain e"
| "err_chain (JoinError es) = JoinError es # concat (map err_chain es)"
| "err_chain (AppErr t ty st is et d us) = AppErr t ty st is et d us # concat (map err_chain us)"
| "err_chain e = [e]"

definition errors_As :: "(gerr \<Rightarrow> 'a option) \<Rightarrow> gerr \<Rightarrow> 'a option" where
  "errors_As as e = (case List.map_filter as (err_chain e) of [] \<Rightarrow> None | x # _ \<Rightarrow> Some x)"

text \<open>The type tests: each gives what the interface's method, or the concrete type's field,
  returns.\<close>

fun as_StatusCoder :: "gerr \<Rightarrow> (int \<times> string) option" where
  "as_StatusCoder (StatusError st msg d e) = Some (st, error_text (StatusError st msg d e))"
| "as_StatusCoder (ValidationError msg is e) = Some (400, error_text (ValidationError msg is e))"
| "as_StatusCoder (AppErr t _ (Some st) _ _ _ _) = Some (st, t)"
| "as_StatusCoder _ = None"

fun as_StatusError :: "gerr \<Rightarrow> string option" where
  "as_StatusError (StatusError _ msg _ _) = Some msg"
| "as_StatusError _ = None"

fun as_ValidationError :: "gerr \<Rightarrow> string option" where
  "as_ValidationError (ValidationError msg _ _) = Some msg"
| "as_ValidationError _ = None"

definition issue_json :: "validation_issue \<Rightarrow> json" where
  "issue_json i = JObj [(''code'', JStr (vi_Code i)),
     (''path'', case vi_Path i of None \<Rightarrow> JNull | Some p \<Rightarrow> JArr (map JStr p)),
     (''message'', JStr (vi_Message i))]"

definition issues_json :: "validation_issue list option \<Rightarrow> json" where
  "issues_json is = (case is of None \<Rightarrow> JNull | Some xs \<Rightarrow> JArr (map issue_json xs))"

text \<open>\<^verbatim>\<open>Details() any\<close>: \<open>None\<close> is the nil interface, which the answer leaves out.\<close>

fun as_DetailCarrier :: "gerr \<Rightarrow> json option option" where
  "as_DetailCarrier (StatusError _ _ d _) = Some d"
| "as_DetailCarrier (ValidationError _ is _) = Some (Some (issues_json is))"
| "as_DetailCarrier (AppErr _ _ _ _ _ d _) = d"
| "as_DetailCarrier _ = None"

fun as_IssueReporter :: "gerr \<Rightarrow> validation_issue list option option" where
  "as_IssueReporter (ValidationError _ is _) = Some is"
| "as_IssueReporter (AppErr _ _ _ is _ _ _) = is"
| "as_IssueReporter _ = None"

fun as_TypedError :: "gerr \<Rightarrow> string option" where
  "as_TypedError (StatusError _ _ _ _) = Some ''StatusError''"
| "as_TypedError (ValidationError _ _ _) = Some ''ValidationError''"
| "as_TypedError (AppErr _ _ _ _ t _ _) = t"
| "as_TypedError _ = None"

subsection \<open>Statuses\<close>

text \<open>\<^verbatim>\<open>http.StatusText\<close>: the standard library's table, the empty string for anything else.\<close>

definition http_status_table :: "(int \<times> string) list" where
  "http_status_table =
     [(100, ''Continue''), (101, ''Switching Protocols''), (102, ''Processing''),
      (103, ''Early Hints''), (200, ''OK''), (201, ''Created''), (202, ''Accepted''),
      (203, ''Non-Authoritative Information''), (204, ''No Content''), (205, ''Reset Content''),
      (206, ''Partial Content''), (207, ''Multi-Status''), (208, ''Already Reported''),
      (226, ''IM Used''), (300, ''Multiple Choices''), (301, ''Moved Permanently''),
      (302, ''Found''), (303, ''See Other''), (304, ''Not Modified''), (305, ''Use Proxy''),
      (307, ''Temporary Redirect''), (308, ''Permanent Redirect''), (400, ''Bad Request''),
      (401, ''Unauthorized''), (402, ''Payment Required''), (403, ''Forbidden''),
      (404, ''Not Found''), (405, ''Method Not Allowed''), (406, ''Not Acceptable''),
      (407, ''Proxy Authentication Required''), (408, ''Request Timeout''), (409, ''Conflict''),
      (410, ''Gone''), (411, ''Length Required''), (412, ''Precondition Failed''),
      (413, ''Request Entity Too Large''), (414, ''Request URI Too Long''),
      (415, ''Unsupported Media Type''), (416, ''Requested Range Not Satisfiable''),
      (417, ''Expectation Failed''), (418, ''I'' @ [CHR 0x27] @ ''m a teapot''), (421, ''Misdirected Request''),
      (422, ''Unprocessable Entity''), (423, ''Locked''), (424, ''Failed Dependency''),
      (425, ''Too Early''), (426, ''Upgrade Required''), (428, ''Precondition Required''),
      (429, ''Too Many Requests''), (431, ''Request Header Fields Too Large''),
      (451, ''Unavailable For Legal Reasons''), (500, ''Internal Server Error''),
      (501, ''Not Implemented''), (502, ''Bad Gateway''), (503, ''Service Unavailable''),
      (504, ''Gateway Timeout''), (505, ''HTTP Version Not Supported''),
      (506, ''Variant Also Negotiates''), (507, ''Insufficient Storage''),
      (508, ''Loop Detected''), (510, ''Not Extended''),
      (511, ''Network Authentication Required'')]"

definition http_StatusText :: "int \<Rightarrow> string" where
  "http_StatusText code = (case map_of http_status_table code of Some t \<Rightarrow> t | None \<Rightarrow> '''')"

definition Status :: "int \<Rightarrow> string \<Rightarrow> gerr" where
  "Status status message =
     (let message = (if message = '''' then http_StatusText status else message)
      in StatusError status message None None)"

definition Wrap :: "int \<Rightarrow> string \<Rightarrow> gerr option \<Rightarrow> gerr" where
  "Wrap status message cause =
     (let message = (if message = '''' then http_StatusText status else message)
      in StatusError status message None cause)"

definition BadRequest :: "string \<Rightarrow> gerr" where
  "BadRequest message = Status 400 message"
definition Unauthorized :: "string \<Rightarrow> gerr" where
  "Unauthorized message = Status 401 message"
definition Forbidden :: "string \<Rightarrow> gerr" where
  "Forbidden message = Status 403 message"
definition NotFound :: "string \<Rightarrow> gerr" where
  "NotFound message = Status 404 message"
definition Conflict :: "string \<Rightarrow> gerr" where
  "Conflict message = Status 409 message"
definition Gone :: "string \<Rightarrow> gerr" where
  "Gone message = Status 410 message"
definition UnprocessableEntity :: "string \<Rightarrow> gerr" where
  "UnprocessableEntity message = Status 422 message"
definition TooManyRequests :: "string \<Rightarrow> gerr" where
  "TooManyRequests message = Status 429 message"
definition NotImplemented :: "string \<Rightarrow> gerr" where
  "NotImplemented message = Status 501 message"
definition ServiceUnavailable :: "string \<Rightarrow> gerr" where
  "ServiceUnavailable message = Status 503 message"

text \<open>\<^verbatim>\<open>(*StatusError).WithDetail\<close>: the receiver's four fields, and the detail of the copy.\<close>

definition WithDetail :: "int \<Rightarrow> string \<Rightarrow> json option \<Rightarrow> gerr option \<Rightarrow> json option \<Rightarrow> gerr" where
  "WithDetail st msg old e detail = StatusError st msg detail e"

subsection \<open>Answers\<close>

definition JSONAnswer :: "int \<Rightarrow> string \<Rightarrow> json option \<Rightarrow> response" where
  "JSONAnswer status message detail =
     (let answer = JObj ([(''message'', JStr message)]
            @ (case detail of None \<Rightarrow> [] | Some d \<Rightarrow> [(''details'', d)]));
          body = (case json_Marshal answer of
             Some t \<Rightarrow> t
           | None \<Rightarrow> ''{'' @ [CHR 0x22] @ ''message'' @ [CHR 0x22] @ '':'' @ go_quote message @ ''}'')
      in \<lparr>res_Status = status, res_Headers = [(''content-type'', [''application/json''])],
          res_Body = bytes_of body\<rparr>)"

definition JSONMessage :: "int \<Rightarrow> string \<Rightarrow> response" where
  "JSONMessage status message = JSONAnswer status message None"

definition ResponseForError :: "gerr \<Rightarrow> response option" where
  "ResponseForError err =
     (case errors_As as_StatusCoder err of
        None \<Rightarrow> None
      | Some (status, text) \<Rightarrow>
          (if status < 100 \<or> status > 999 then None
           else
             (let message = text;
                  message = (case errors_As as_StatusError err of Some m \<Rightarrow> m | None \<Rightarrow> message);
                  message = (case errors_As as_ValidationError err of Some m \<Rightarrow> m | None \<Rightarrow> message);
                  detail = (case errors_As as_DetailCarrier err of Some d \<Rightarrow> d | None \<Rightarrow> None)
              in Some (JSONAnswer status message detail))))"

subsection \<open>Validation\<close>

definition Invalid :: "string \<Rightarrow> validation_issue list option \<Rightarrow> gerr" where
  "Invalid message issues =
     (let message = (if message = '''' then ''the request is not valid'' else message)
      in ValidationError message issues None)"

definition Issue :: "string \<Rightarrow> string \<Rightarrow> string list option \<Rightarrow> validation_issue" where
  "Issue code message path = \<lparr>vi_Code = code, vi_Path = path, vi_Message = message\<rparr>"

definition IssuesFrom :: "gerr \<Rightarrow> validation_issue list option" where
  "IssuesFrom err =
     (case errors_As as_IssueReporter err of
        Some is \<Rightarrow> is
      | None \<Rightarrow> Some [\<lparr>vi_Code = ''invalid'', vi_Path = Some [], vi_Message = ''the value is not valid''\<rparr>])"

definition fieldPath :: "string \<Rightarrow> string list" where
  "fieldPath field = (if field = '''' then [] else split_on (CHR ''.'') field)"

definition describeJSONType :: "string \<Rightarrow> string" where
  "describeJSONType goType =
     (if has_prefix goType ''[]'' then ''an array''
      else if has_prefix goType ''map['' \<or> has_prefix goType ''struct'' then ''an object''
      else if goType = ''string'' then ''a string''
      else if goType = ''bool'' then ''a boolean''
      else if goType \<in> set [''int'', ''int8'', ''int16'', ''int32'', ''int64'', ''uint'', ''uint8'', ''uint16'',
          ''uint32'', ''uint64'', ''float32'', ''float64'', ''json.Number''] then ''a number''
      else ''a different value'')"

fun as_UnmarshalTypeError :: "gerr \<Rightarrow> (string \<times> string) option" where
  "as_UnmarshalTypeError (UnmarshalTypeError field ty _) = Some (field, ty)"
| "as_UnmarshalTypeError _ = None"

fun as_SyntaxError :: "gerr \<Rightarrow> unit option" where
  "as_SyntaxError (JSONSyntaxError _) = Some ()"
| "as_SyntaxError _ = None"

definition IssuesFromDecode :: "gerr \<Rightarrow> validation_issue list" where
  "IssuesFromDecode err =
     (case errors_As as_UnmarshalTypeError err of
        Some (field, ty) \<Rightarrow> [\<lparr>vi_Code = ''invalid_type'', vi_Path = Some (fieldPath field),
            vi_Message = ''expected '' @ describeJSONType ty\<rparr>]
      | None \<Rightarrow>
          (case errors_As as_SyntaxError err of
             Some _ \<Rightarrow> [\<lparr>vi_Code = ''malformed'', vi_Path = Some [], vi_Message = ''the body is not valid JSON''\<rparr>]
           | None \<Rightarrow> [\<lparr>vi_Code = ''malformed'', vi_Path = Some [], vi_Message = ''the body could not be read''\<rparr>]))"

text \<open>\<^verbatim>\<open>asValidationError\<close> looks at the error itself, by type assertion, and not at what it wraps.\<close>

definition asValidationError :: "gerr \<Rightarrow> gerr" where
  "asValidationError err =
     (if as_ValidationError err \<noteq> None then err
      else if as_IssueReporter err \<noteq> None
      then ValidationError ''the request is not valid'' (IssuesFrom err) (Some err)
      else ValidationError ''the request is not valid'' (IssuesFrom err) (Some err))"

text \<open>\<open>self\<close> is the input's own \<^verbatim>\<open>Validate\<close>, \<open>None\<close> where the type has none; \<open>v\<close> is the validator,
  \<open>None\<close> for nil. Each returns an error or nil.\<close>

definition validateInput ::
    "('i \<Rightarrow> gerr option) option \<Rightarrow> ('i \<Rightarrow> gerr option) option \<Rightarrow> 'i \<Rightarrow> gerr option" where
  "validateInput self v input =
     (case (case self of None \<Rightarrow> None | Some f \<Rightarrow> f input) of
        Some err \<Rightarrow> Some (asValidationError err)
      | None \<Rightarrow>
          (case (case v of None \<Rightarrow> None | Some f \<Rightarrow> f input) of
             Some err \<Rightarrow> Some (asValidationError err)
           | None \<Rightarrow> None))"

text \<open>\<^verbatim>\<open>validationFor\<close>: the check to run over a handler's input, nil where it opted out; the
  handler's validator stands in for the application's.\<close>

definition validationFor ::
    "bool \<Rightarrow> ('i \<Rightarrow> gerr option) option \<Rightarrow> ('i \<Rightarrow> gerr option) option \<Rightarrow> ('i \<Rightarrow> gerr option) option
       \<Rightarrow> ('i \<Rightarrow> gerr option) option" where
  "validationFor skipValidation handlerValidator appValidator self =
     (if skipValidation then None
      else let v = (case handlerValidator of None \<Rightarrow> appValidator | Some f \<Rightarrow> Some f)
        in Some (\<lambda>input. validateInput self v input))"

subsection \<open>Lemmas: the chain of an error\<close>

lemma err_chain_head: "\<exists>rest. err_chain e = e # rest"
  by (cases e rule: err_chain.cases) auto

lemma errors_As_self: "as e = Some x \<Longrightarrow> errors_As as e = Some x"
  using err_chain_head [of e] by (auto simp: errors_As_def map_filter_simps)

lemma errors_As_cause:
  "as (StatusError st m d (Some c)) = None \<Longrightarrow> errors_As as (StatusError st m d (Some c)) = errors_As as c"
  "as (Errorf t (Some c)) = None \<Longrightarrow> errors_As as (Errorf t (Some c)) = errors_As as c"
  "as (ValidationError m is (Some c)) = None \<Longrightarrow> errors_As as (ValidationError m is (Some c)) = errors_As as c"
  by (simp_all add: errors_As_def map_filter_simps)

lemma errors_As_leaf:
  "as (StatusError st m d None) = None \<Longrightarrow> errors_As as (StatusError st m d None) = None"
  "as (Errorf t None) = None \<Longrightarrow> errors_As as (Errorf t None) = None"
  by (simp_all add: errors_As_def map_filter_simps)

lemma IssuesFrom_self: "as_IssueReporter e = Some is \<Longrightarrow> IssuesFrom e = is"
  by (simp add: IssuesFrom_def errors_As_self)

text \<open>A validation error answers for itself, whatever it wraps.\<close>

lemma ResponseForError_ValidationError:
  "ResponseForError (ValidationError msg is cause) = Some (JSONAnswer 400 msg (Some (issues_json is)))"
  by (simp add: ResponseForError_def errors_As_self [where e = "ValidationError msg is cause"])

lemma asValidationError_form:
  "asValidationError err =
     (case err of ValidationError msg is cause \<Rightarrow> err
      | _ \<Rightarrow> ValidationError ''the request is not valid'' (IssuesFrom err) (Some err))"
  by (cases err) (auto simp: asValidationError_def)

subsection \<open>Lemmas: JSON text\<close>

fun json_encodable :: "json \<Rightarrow> bool" where
  "json_encodable (JArr xs) \<longleftrightarrow> (\<forall>x \<in> set xs. json_encodable x)"
| "json_encodable (JObj kvs) \<longleftrightarrow> (\<forall>kv \<in> set kvs. json_encodable (snd kv))"
| "json_encodable JBad \<longleftrightarrow> False"
| "json_encodable _ \<longleftrightarrow> True"

lemma those_None_iff: "those xs = None \<longleftrightarrow> None \<in> set xs"
  by (induction xs) (auto split: option.splits)

lemma json_Marshal_None_iff: "json_Marshal j = None \<longleftrightarrow> \<not> json_encodable j"
proof (induction j rule: json_Marshal.induct)
  case (5 xs)
  then show ?case by (simp add: those_None_iff image_iff eq_commute [of None])
next
  case (6 kvs)
  then have "json_Marshal (snd kv) = None \<longleftrightarrow> \<not> json_encodable (snd kv)" if "kv \<in> set kvs" for kv
    using that by (metis prod.collapse)
  then show ?case
    by (auto simp: those_None_iff image_iff eq_commute [of None] split_beta)
qed simp_all

text \<open>The reader of a JSON string literal, the specification of the writer above.\<close>

definition hex_value :: "char \<Rightarrow> nat" where
  "hex_value c = (let n = of_char c in if n < 58 then n - 48 else n - 87)"

fun json_unescape :: "string \<Rightarrow> (string \<times> string) option" where
  "json_unescape [] = None"
| "json_unescape (c # s) =
     (if c = CHR 0x22 then Some ([], s)
      else if c = CHR 0x5C then
        (case s of
           [] \<Rightarrow> None
         | e # s' \<Rightarrow>
             (if e = CHR ''u'' then
                (case s' of
                   a # b # h # l # s'' \<Rightarrow>
                     map_option (\<lambda>(t, r). (char_of (16 * hex_value h + hex_value l) # t, r)) (json_unescape s'')
                 | _ \<Rightarrow> None)
              else
                map_option (\<lambda>(t, r).
                  ((if e = CHR ''b'' then CHR 0x08 else if e = CHR ''f'' then CHR 0x0C
                    else if e = CHR ''n'' then CHR 0x0A else if e = CHR ''r'' then CHR 0x0D
                    else if e = CHR ''t'' then CHR 0x09 else e) # t, r)) (json_unescape s')))
      else map_option (\<lambda>(t, r). (c # t, r)) (json_unescape s))"

lemma hex_value_digit: "k < 16 \<Longrightarrow> hex_value (hex_digit k) = k"
  by (auto simp: hex_value_def hex_digit_def Let_def)

lemma escaped_codes:
  "char_of (34 :: nat) = CHR 0x22" "char_of (92 :: nat) = CHR 0x5C" "char_of (8 :: nat) = CHR 0x08"
  "char_of (12 :: nat) = CHR 0x0C" "char_of (10 :: nat) = CHR 0x0A" "char_of (13 :: nat) = CHR 0x0D"
  "char_of (9 :: nat) = CHR 0x09"
  by code_simp+

lemma json_unescape_char:
  "json_unescape (json_escape_char c @ s) = map_option (\<lambda>(t, r). (c # t, r)) (json_unescape s)"
proof -
  define n where "n = (of_char c :: nat)"
  have c: "c = char_of n" and n: "n < 256" by (simp_all add: n_def)
  have esc: "hex_value (hex_digit (n div 16)) = n div 16" "hex_value (hex_digit (n mod 16)) = n mod 16"
    using n by (simp_all add: hex_value_digit)
  have code: "char_of (16 * (n div 16) + n mod 16) = c" by (simp add: c)
  consider "n = 34" | "n = 92" | "n = 8" | "n = 12" | "n = 10" | "n = 13" | "n = 9"
    | (u) "n \<notin> {34, 92, 8, 12, 10, 13, 9}" "n < 32 \<or> n = 60 \<or> n = 62 \<or> n = 38"
    | (plain) "n \<notin> {34, 92, 8, 12, 10, 13, 9}" "\<not> (n < 32 \<or> n = 60 \<or> n = 62 \<or> n = 38)"
    by auto
  then show ?thesis
  proof cases
    case u
    then have "json_escape_char c
        = [CHR 0x5C, CHR ''u'', CHR ''0'', CHR ''0'', hex_digit (n div 16), hex_digit (n mod 16)]"
      by (auto simp: json_escape_char_def Let_def n_def [symmetric])
    then show ?thesis by (simp add: esc c [symmetric])
  next
    case plain
    then have e: "json_escape_char c = [c]"
      by (auto simp: json_escape_char_def Let_def n_def [symmetric])
    have "c \<noteq> CHR 0x22" "c \<noteq> CHR 0x5C" using plain by (auto simp: n_def)
    with e show ?thesis by simp
  qed (simp_all add: json_escape_char_def Let_def n_def [symmetric], simp_all add: c escaped_codes)
qed

lemma json_unescape_string: "json_unescape (tl (json_string s) @ rest) = Some (s, rest)"
proof -
  have "json_unescape (concat (map json_escape_char s) @ CHR 0x22 # rest) = Some (s, rest)"
    by (induction s) (simp_all add: json_unescape_char)
  then show ?thesis by (simp add: json_string_def)
qed

lemma json_string_inject: "json_string s = json_string t \<Longrightarrow> s = t"
  using json_unescape_string [of s "[]"] json_unescape_string [of t "[]"] by simp

subsection \<open>Properties\<close>

text \<open>What a status error answers, exactly, whatever it wraps: the status and the detail are its
  own, a status HTTP cannot express is no answer at all, and the message is its own unless its
  cause is, or wraps, a validation error, whose message then replaces it. Nothing else of the cause
  is visible to the caller.\<close>

theorem ResponseForError_StatusError:
  "ResponseForError (StatusError status message detail cause) =
     (if status < 100 \<or> status > 999 then None
      else Some (JSONAnswer status
        (case cause of
           None \<Rightarrow> message
         | Some c \<Rightarrow> (case errors_As as_ValidationError c of Some m \<Rightarrow> m | None \<Rightarrow> message))
        detail))"
proof -
  let ?e = "StatusError status message detail cause"
  have "errors_As as_ValidationError ?e
      = (case cause of None \<Rightarrow> None | Some c \<Rightarrow> errors_As as_ValidationError c)"
    by (cases cause) (simp_all add: errors_As_cause errors_As_leaf)
  then show ?thesis
    by (auto simp: ResponseForError_def errors_As_self [where e = ?e] split: option.splits)
qed

text \<open>A failed validation is always a 400 with issues: whatever error a validator or an input's
  own check returns, the answer carries that status, the reported issues (or the one generic
  issue), and a message that is the validation error's own or the fixed one; so two failures that
  report the same issues are answered alike and a validator's own text never reaches the
  caller.\<close>

theorem asValidationError_answer:
  "ResponseForError (asValidationError err) =
     Some (JSONAnswer 400
       (case err of ValidationError msg is cause \<Rightarrow> msg | _ \<Rightarrow> ''the request is not valid'')
       (Some (issues_json (IssuesFrom err))))"
  by (cases err) (simp_all add: asValidationError_form ResponseForError_ValidationError IssuesFrom_self)

text \<open>An answer always carries its message: the body \<open>JSONAnswer\<close> builds opens with the JSON
  member \<^verbatim>\<open>message\<close>, and reading that literal back gives the message, for every detail the
  encoder accepts; and a detail it refuses is left out rather than failing the answer.\<close>

theorem JSONAnswer_carries_message:
  assumes "case detail of None \<Rightarrow> True | Some d \<Rightarrow> json_encodable d"
  shows "\<exists>rest. res_Body (JSONAnswer status message detail)
      = bytes_of (''{'' @ json_string ''message'' @ '':'' @ json_string message @ rest)
    \<and> json_unescape (tl (json_string message) @ rest) = Some (message, rest)
    \<and> res_Status (JSONAnswer status message detail) = status"
proof -
  obtain rest where m: "json_Marshal (JObj ([(''message'', JStr message)]
        @ (case detail of None \<Rightarrow> [] | Some d \<Rightarrow> [(''details'', d)])))
      = Some (''{'' @ json_string ''message'' @ '':'' @ json_string message @ rest)"
  proof (cases detail)
    case None
    then show ?thesis by (intro that [of "''}''"]) simp
  next
    case (Some d)
    with assms obtain t where "json_Marshal d = Some t"
      using json_Marshal_None_iff [of d] by auto
    with Some show ?thesis
      by (intro that [of "'','' @ json_string ''details'' @ '':'' @ t @ ''}''"]) simp
  qed
  show ?thesis
    by (intro exI [of _ rest]) (simp only: JSONAnswer_def Let_def m json_unescape_string, simp)
qed

theorem JSONAnswer_carries_message_witness:
  "\<exists>rest. res_Body (JSONAnswer 404 ''no such order'' None)
      = bytes_of (''{'' @ json_string ''message'' @ '':'' @ json_string ''no such order'' @ rest)
    \<and> json_unescape (tl (json_string ''no such order'') @ rest) = Some (''no such order'', rest)
    \<and> res_Status (JSONAnswer 404 ''no such order'' None) = 404"
  using JSONAnswer_carries_message [of None 404 "''no such order''"] by simp

subsection \<open>What a panic carries\<close>

text \<open>A recovered value is an error or anything else, of which its text is kept. Dereferencing a nil
  pointer panics with a runtime error.\<close>

datatype pval = PanicErr gerr | PanicText string

definition nil_dereference :: pval where
  "nil_dereference = PanicErr (AppErr ''runtime error: invalid memory address or nil pointer dereference''
     ''runtime.errorString'' None None None None [])"

end
