(* ===== verification/Strconv.thy ===== *)
theory Strconv
  imports Errors
begin

text \<open>
  The integer and boolean parsers of Go's \<^verbatim>\<open>strconv\<close>, with their ranges and error texts, and the integer verb
  of \<^verbatim>\<open>fmt.Sscanf\<close>: what request binding and the cursors of the paged listings rely on.
\<close>

subsection \<open>Parsers\<close>

datatype num_err = ErrSyntax | ErrRange

definition num_error :: "string \<Rightarrow> string \<Rightarrow> num_err \<Rightarrow> gerr" where
  "num_error fn num e =
     (let why = (case e of ErrSyntax \<Rightarrow> ''invalid syntax'' | ErrRange \<Rightarrow> ''value out of range'')
      in Errorf (''strconv.'' @ fn @ '': parsing '' @ go_quote num @ '': '' @ why) (Some (Errorf why None)))"

definition is_digit :: "char \<Rightarrow> bool" where
  "is_digit c \<longleftrightarrow> CHR ''0'' \<le> c \<and> c \<le> CHR ''9''"

definition digit_val :: "char \<Rightarrow> nat" where
  "digit_val c = of_char c - 48"

text \<open>The digit loop of \<^verbatim>\<open>ParseUint\<close> in base 10: each digit is checked before the value that
  includes it is compared with the largest the width holds.\<close>

fun uint_loop :: "nat \<Rightarrow> nat \<Rightarrow> string \<Rightarrow> num_err + nat" where
  "uint_loop maxVal n [] = Inr n"
| "uint_loop maxVal n (c # s) =
     (if \<not> is_digit c then Inl ErrSyntax
      else if n * 10 + digit_val c > maxVal then Inl ErrRange
      else uint_loop maxVal (n * 10 + digit_val c) s)"

definition parse_uint :: "nat \<Rightarrow> string \<Rightarrow> num_err + nat" where
  "parse_uint bits s = (if s = '''' then Inl ErrSyntax else uint_loop (2 ^ bits - 1) 0 s)"

definition ParseUint :: "string \<Rightarrow> nat \<Rightarrow> gerr + nat" where
  "ParseUint s bits =
     (case parse_uint bits s of Inl e \<Rightarrow> Inl (num_error ''ParseUint'' s e) | Inr n \<Rightarrow> Inr n)"

definition ParseInt :: "string \<Rightarrow> nat \<Rightarrow> gerr + int" where
  "ParseInt s0 bits =
     (if s0 = '''' then Inl (num_error ''ParseInt'' s0 ErrSyntax)
      else
        (let neg = (hd s0 = CHR ''-'');
             s = (if hd s0 = CHR ''+'' \<or> hd s0 = CHR ''-'' then tl s0 else s0);
             cutoff = 2 ^ (bits - 1)
         in case parse_uint bits s of
              Inl ErrSyntax \<Rightarrow> Inl (num_error ''ParseInt'' s0 ErrSyntax)
            | Inl ErrRange \<Rightarrow> Inl (num_error ''ParseInt'' s0 ErrRange)
            | Inr un \<Rightarrow>
                (if \<not> neg \<and> un \<ge> cutoff then Inl (num_error ''ParseInt'' s0 ErrRange)
                 else if neg \<and> un > cutoff then Inl (num_error ''ParseInt'' s0 ErrRange)
                 else Inr (if neg then - int un else int un))))"

definition ParseBool :: "string \<Rightarrow> gerr + bool" where
  "ParseBool s =
     (if s \<in> set [''1'', ''t'', ''T'', ''true'', ''TRUE'', ''True''] then Inr True
      else if s \<in> set [''0'', ''f'', ''F'', ''false'', ''FALSE'', ''False''] then Inr False
      else Inl (num_error ''ParseBool'' s ErrSyntax))"

subsection \<open>Lemmas: numbers\<close>

lemma uint_loop_bound: "uint_loop m n s = Inr k \<Longrightarrow> n \<le> m \<Longrightarrow> k \<le> m"
  by (induction m n s rule: uint_loop.induct) (auto split: if_splits)

lemma parse_uint_bound:
  assumes "parse_uint bits s = Inr k"
  shows "k < 2 ^ bits"
proof -
  have "k \<le> 2 ^ bits - 1"
    using assms uint_loop_bound [of "2 ^ bits - 1" 0 s k] by (simp add: parse_uint_def split: if_splits)
  moreover have "(0 :: nat) < 2 ^ bits" by simp
  ultimately show ?thesis by linarith
qed

lemma ParseUint_bound: "ParseUint s bits = Inr k \<Longrightarrow> k < 2 ^ bits"
  by (auto simp: ParseUint_def split: sum.splits intro: parse_uint_bound)

lemma ParseInt_bound:
  assumes "ParseInt s bits = Inr i"
  shows "- (2 ^ (bits - 1)) \<le> i" and "i < 2 ^ (bits - 1)"
proof -
  from assms obtain un where i: "i = int un \<and> un < 2 ^ (bits - 1) \<or> i = - int un \<and> un \<le> 2 ^ (bits - 1)"
    by (simp add: ParseInt_def Let_def split: if_splits sum.splits num_err.splits) force+
  have "un < 2 ^ (bits - 1) \<Longrightarrow> int un < 2 ^ (bits - 1)"
    by (metis of_nat_less_iff of_nat_numeral of_nat_power)
  moreover have "un \<le> 2 ^ (bits - 1) \<Longrightarrow> int un \<le> 2 ^ (bits - 1)"
    by (metis of_nat_le_iff of_nat_numeral of_nat_power)
  moreover have "(0 :: int) < 2 ^ (bits - 1)" by simp
  ultimately have "- (2 ^ (bits - 1)) \<le> i \<and> i < 2 ^ (bits - 1)"
    using i by (elim disjE conjE) linarith+
  then show "- (2 ^ (bits - 1)) \<le> i" and "i < 2 ^ (bits - 1)" by simp_all
qed

lemma uint_loop_append:
  "uint_loop m n (s @ t) = (case uint_loop m n s of Inl e \<Rightarrow> Inl e | Inr k \<Rightarrow> uint_loop m k t)"
  by (induction m n s rule: uint_loop.induct) auto

lemma digit_char_lemmas:
  assumes "d < 10"
  shows "is_digit (digit_char d)" and "digit_val (digit_char d) = d"
proof -
  have "(of_char (char_of (48 + d)) :: nat) = 48 + d" using assms by simp
  then show "is_digit (digit_char d)" and "digit_val (digit_char d) = d"
    using assms by (simp_all add: is_digit_def digit_val_def digit_char_def less_eq_char_def)
qed

lemma uint_loop_dec_nat: "k \<le> m \<Longrightarrow> uint_loop m 0 (dec_nat k) = Inr k"
proof (induction k rule: dec_nat.induct)
  case (1 k)
  show ?case
  proof (cases "k < 10")
    case True
    with "1.prems" show ?thesis
      by (simp add: dec_nat.simps [of k] digit_char_lemmas)
  next
    case False
    then have "uint_loop m 0 (dec_nat (k div 10)) = Inr (k div 10)"
      using 1 by simp
    with False "1.prems" show ?thesis
      by (simp add: dec_nat.simps [of k] uint_loop_append digit_char_lemmas)
  qed
qed

lemma dec_nat_digits: "dec_nat k \<noteq> []" "\<forall>c \<in> set (dec_nat k). is_digit c"
proof (induction k rule: dec_nat.induct)
  case (1 k)
  {
    case 1
    show ?case by (subst dec_nat.simps) simp
  next
    case 2
    from \<open>\<not> k < 10 \<Longrightarrow> \<forall>c \<in> set (dec_nat (k div 10)). is_digit c\<close> show ?case
      by (subst dec_nat.simps) (auto simp: digit_char_lemmas)
  }
qed

lemma parse_uint_dec_nat: "k < 2 ^ bits \<Longrightarrow> parse_uint bits (dec_nat k) = Inr k"
  by (simp add: parse_uint_def dec_nat_digits uint_loop_dec_nat)

text \<open>What \<^verbatim>\<open>Itoa\<close> prints, \<^verbatim>\<open>ParseInt\<close> reads, at any width the number fits.\<close>

lemma ParseInt_itoa:
  assumes "1 \<le> bits" and "- (2 ^ (bits - 1)) \<le> i" and "i < 2 ^ (bits - 1)"
  shows "ParseInt (itoa i) bits = Inr i"
proof -
  obtain b where b: "bits = Suc b" using assms(1) by (cases bits) auto
  let ?k = "nat \<bar>i\<bar>"
  have "int ?k \<le> 2 ^ b" using assms b by auto
  then have k: "?k \<le> 2 ^ b" by (metis of_nat_le_iff of_nat_numeral of_nat_power)
  moreover have "(0 :: nat) < 2 ^ b" by simp
  ultimately have "?k < 2 * 2 ^ b" by linarith
  then have "?k < 2 ^ bits" using b by simp
  then have p: "parse_uint bits (dec_nat ?k) = Inr ?k" by (rule parse_uint_dec_nat)
  show ?thesis
  proof (cases "i < 0")
    case True
    with p k b show ?thesis by (simp add: ParseInt_def itoa_def Let_def)
  next
    case False
    have d: "is_digit (hd (dec_nat ?k))" using dec_nat_digits [of ?k] by auto
    have "\<not> is_digit CHR ''-''" "\<not> is_digit CHR ''+''" by (simp_all add: is_digit_def less_eq_char_def)
    with d have "hd (dec_nat ?k) \<noteq> CHR ''-''" "hd (dec_nat ?k) \<noteq> CHR ''+''" by metis+
    moreover have "?k < 2 ^ b"
      using False assms(3) b by (metis abs_of_nonneg diff_Suc_1 nat_less_iff not_less of_nat_numeral of_nat_power)
    ultimately show ?thesis
      using False p b by (simp add: ParseInt_def itoa_def Let_def dec_nat_digits)
  qed
qed

subsection \<open>The integers of a 64-bit platform\<close>

text \<open>An \<^verbatim>\<open>int\<close> or \<^verbatim>\<open>int64\<close> is an integer in the range of 64 bits, and arithmetic on it wraps.\<close>

definition wrap64 :: "int \<Rightarrow> int" where
  "wrap64 i = sint (word_of_int i :: 64 word)"

lemma wrap64_id: "- (2 ^ 63) \<le> i \<Longrightarrow> i < 2 ^ 63 \<Longrightarrow> wrap64 i = i"
  by (simp add: wrap64_def sint_sbintrunc' signed_take_bit_int_eq_self)

subsection \<open>\<^verbatim>\<open>fmt.Sscanf(s, "%d", &i)\<close>\<close>

text \<open>What counts as a space is \<^verbatim>\<open>fmt\<close>'s own list, here as the bytes of each rune. A line feed is not skipped:
  it is an error, and so the end of the scan.\<close>

definition scan_spaces :: "string list" where
  "scan_spaces =
     [[CHR 0x09], [CHR 0x0B], [CHR 0x0C], [CHR 0x0D], [CHR 0x20],
      [CHR 0xC2, CHR 0x85], [CHR 0xC2, CHR 0xA0], [CHR 0xE1, CHR 0x9A, CHR 0x80]]
     @ map (\<lambda>n. [CHR 0xE2, CHR 0x80, char_of n]) ([0x80..<0x8B] @ [0xA8, 0xA9, 0xAF :: nat])
     @ [[CHR 0xE2, CHR 0x81, CHR 0x9F], [CHR 0xE3, CHR 0x80, CHR 0x80]]"

fun skip_space :: "nat \<Rightarrow> string \<Rightarrow> string" where
  "skip_space 0 s = s"
| "skip_space (Suc n) s =
     (case find (has_prefix s) scan_spaces of
        None \<Rightarrow> s
      | Some sp \<Rightarrow> skip_space n (drop (length sp) s))"

text \<open>The token is an optional sign and the digits after it; what follows the token is not read.
  Scanning can fail on an empty token or one beyond 64 bits, and then nothing is assigned.\<close>

definition scan_int :: "string \<Rightarrow> int option" where
  "scan_int s0 =
     (let s = skip_space (length s0) s0;
          sign = (if s \<noteq> '''' \<and> (hd s = CHR ''+'' \<or> hd s = CHR ''-'') then [hd s] else '''');
          digits = takeWhile is_digit (drop (length sign) s)
      in if digits = '''' then None
         else (case ParseInt (sign @ digits) 64 of Inl _ \<Rightarrow> None | Inr i \<Rightarrow> Some i))"

lemma skip_space_none: "find (has_prefix s) scan_spaces = None \<Longrightarrow> skip_space n s = s"
  by (cases n) simp_all

lemma takeWhile_is_digit_dec_nat [simp]: "takeWhile is_digit (dec_nat k) = dec_nat k"
  using dec_nat_digits(2) [of k] by (simp add: takeWhile_eq_all_conv)

lemma digit_not_space:
  assumes "is_digit c"
  shows "find (has_prefix (c # s)) scan_spaces = None"
proof -
  have "hd p \<noteq> c" and "p \<noteq> []" if "p \<in> set scan_spaces" for p
    using that assms by (auto simp: scan_spaces_def is_digit_def less_eq_char_def)
  then show ?thesis
    by (fastforce simp: find_None_iff has_prefix_iff Cons_eq_append_conv)
qed

text \<open>A number printed with \<^verbatim>\<open>%d\<close> is scanned back.\<close>

lemma scan_int_itoa:
  assumes "0 \<le> i" and "i < 2 ^ 63"
  shows "scan_int (itoa i) = Some i"
proof -
  obtain c s where cs: "dec_nat (nat i) = c # s" and c: "is_digit c"
    using dec_nat_digits [of "nat i"] by (cases "dec_nat (nat i)") auto
  then have sp: "skip_space n (itoa i) = dec_nat (nat i)" for n
    using assms by (simp add: itoa_def skip_space_none digit_not_space)
  have "c \<noteq> CHR ''+''" "c \<noteq> CHR ''-''"
    using c by (auto simp: is_digit_def less_eq_char_def)
  with cs sp have "scan_int (itoa i) = (case ParseInt (itoa i) 64 of Inl _ \<Rightarrow> None | Inr i \<Rightarrow> Some i)"
    using assms takeWhile_is_digit_dec_nat [of "nat i"]
    by (simp add: scan_int_def Let_def itoa_def del: takeWhile_is_digit_dec_nat)
  moreover have "ParseInt (itoa i) 64 = Inr i"
    using assms by (intro ParseInt_itoa) auto
  ultimately show ?thesis by simp
qed

lemma itoa_not_Nil [simp]: "itoa i \<noteq> ''''"
  by (simp add: itoa_def dec_nat_digits)

lemma dec_nat_inject [simp]: "dec_nat j = dec_nat k \<longleftrightarrow> j = k"
proof
  assume "dec_nat j = dec_nat k"
  then have "uint_loop (max j k) 0 (dec_nat j) = uint_loop (max j k) 0 (dec_nat k)" by (rule arg_cong)
  then show "j = k" by (simp add: uint_loop_dec_nat)
qed simp

end
