(* ===== verification/Bind.thy ===== *)
theory Bind
  imports Strconv
begin

text \<open>
  Request binding: \<^verbatim>\<open>src/celerity/bind.go\<close>. The typed input of a handler is described by its Go type
  (\<open>gotype\<close>), as the code sees it through \<^verbatim>\<open>reflect\<close>, and its value (\<open>govalue\<close>); decoding a body
  into it is the application's, through its types, and is a parameter. The parsers of \<^verbatim>\<open>strconv\<close>
  are those of \<open>Strconv\<close>; \<^verbatim>\<open>ParseFloat\<close> is a parameter that gives the bits of the rounded number.
\<close>

subsection \<open>Types and values seen through reflection\<close>

datatype fkind = FString | FBool | FInt nat | FUint nat | FFloat nat | FStrings | FOther string

datatype fval = VString string | VBool bool | VInt int | VUint nat | VFloat "64 word"
  | VStrings "string list" | VOther json

record struct_field =
  sf_Name :: string
  sf_Exported :: bool
  sf_CanSet :: bool
  sf_Tag :: "(string \<times> string) list"
  sf_Kind :: fkind

datatype gotype = TStruct "struct_field list" | TPtr gotype | TOther

datatype govalue = StructV "fval list" | PtrV "govalue option" | OtherV json

fun zero_fval :: "fkind \<Rightarrow> fval" where
  "zero_fval FString = VString ''''"
| "zero_fval FBool = VBool False"
| "zero_fval (FInt _) = VInt 0"
| "zero_fval (FUint _) = VUint 0"
| "zero_fval (FFloat _) = VFloat 0"
| "zero_fval FStrings = VStrings []"
| "zero_fval (FOther _) = VOther JNull"

fun zero_value :: "gotype \<Rightarrow> govalue" where
  "zero_value (TStruct fs) = StructV (map (\<lambda>f. zero_fval (sf_Kind f)) fs)"
| "zero_value (TPtr _) = PtrV None"
| "zero_value TOther = OtherV JNull"

subsection \<open>Binding\<close>

fun map_Inr :: "('a \<Rightarrow> 'b) \<Rightarrow> 'e + 'a \<Rightarrow> 'e + 'b" where
  "map_Inr f (Inl e) = Inl e"
| "map_Inr f (Inr x) = Inr (f x)"

text \<open>The values a field's tag names, and whether the tag was a path tag; \<open>None\<close> where there is
  nothing to bind. The first tag the field carries decides, in the order path, query, header.\<close>

definition taggedValue :: "request \<Rightarrow> struct_field \<Rightarrow> (go_values \<times> bool) option" where
  "taggedValue req field =
     (let from = (\<lambda>params isPath name.
            (case gm_get params name of
               None \<Rightarrow> None
             | Some values \<Rightarrow> if length values = 0 then None else Some (values, isPath)))
      in case map_of (sf_Tag field) ''path'' of
           Some name \<Rightarrow> from (req_PathParams req) True name
         | None \<Rightarrow>
             (case map_of (sf_Tag field) ''query'' of
                Some name \<Rightarrow> from (req_QueryParams req) False name
              | None \<Rightarrow>
                  (case map_of (sf_Tag field) ''header'' of
                     Some name \<Rightarrow> from (req_Headers req) False name
                   | None \<Rightarrow> None)))"

definition setField ::
    "(string \<Rightarrow> nat \<Rightarrow> gerr + 64 word) \<Rightarrow> struct_field \<Rightarrow> fval \<Rightarrow> go_values \<Rightarrow> bool \<Rightarrow> gerr + fval" where
  "setField ParseFloat field old values isPath =
     (if \<not> sf_CanSet field then Inr old
      else if sf_Kind field = FStrings then Inr (VStrings values)
      else
        (let raw = values_First values;
             raw = (if isPath \<and> length values > 1 then join ''/'' values else raw)
         in case sf_Kind field of
              FString \<Rightarrow> Inr (VString raw)
            | FBool \<Rightarrow> map_Inr VBool (ParseBool raw)
            | FInt bits \<Rightarrow> map_Inr VInt (ParseInt raw bits)
            | FUint bits \<Rightarrow> map_Inr VUint (ParseUint raw bits)
            | FFloat bits \<Rightarrow> map_Inr VFloat (ParseFloat raw bits)
            | FStrings \<Rightarrow> Inr (VStrings values)
            | FOther kind \<Rightarrow> Inl (Errorf (''cannot bind a '' @ kind @ '' from a request parameter'') None)))"

fun bindFields ::
    "(string \<Rightarrow> nat \<Rightarrow> gerr + 64 word) \<Rightarrow> request \<Rightarrow> struct_field list \<Rightarrow> fval list \<Rightarrow> gerr + fval list" where
  "bindFields pf req (f # fs) (v # vs) =
     (let rest = map_Inr (\<lambda>ws. v # ws) (bindFields pf req fs vs) in
      if \<not> sf_Exported f then rest
      else case taggedValue req f of
          None \<Rightarrow> rest
        | Some (values, isPath) \<Rightarrow>
            (case setField pf f v values isPath of
               Inl err \<Rightarrow> Inl (Errorf (''binding '' @ sf_Name f @ '': '' @ error_text err) (Some err))
             | Inr w \<Rightarrow> map_Inr (\<lambda>ws. w # ws) (bindFields pf req fs vs)))"
| "bindFields pf req _ vs = Inr vs"

text \<open>\<^verbatim>\<open>structToBind\<close> and the loop over the struct it finds: however many pointers stand between are
  walked through, a nil one is allocated, and anything but a struct at the end is left alone.\<close>

fun bindInto :: "(struct_field list \<Rightarrow> fval list \<Rightarrow> gerr + fval list) \<Rightarrow> gotype \<Rightarrow> govalue \<Rightarrow> gerr + govalue" where
  "bindInto f (TPtr t) (PtrV None) = map_Inr (\<lambda>v. PtrV (Some v)) (bindInto f t (zero_value t))"
| "bindInto f (TPtr t) (PtrV (Some v)) = map_Inr (\<lambda>w. PtrV (Some w)) (bindInto f t v)"
| "bindInto f (TStruct fs) (StructV vs) = map_Inr StructV (f fs vs)"
| "bindInto f _ v = Inr v"

text \<open>\<^verbatim>\<open>decodeInto\<close>: an empty body is an absent one.\<close>

definition decodeInto :: "(byte list \<Rightarrow> 'i \<Rightarrow> gerr + 'i) \<Rightarrow> byte list \<Rightarrow> 'i \<Rightarrow> gerr + 'i" where
  "decodeInto unmarshal body out =
     (if length body = 0 then Inr out
      else case unmarshal body out of
          Inl err \<Rightarrow> Inl (Errorf (''decoding request body: '' @ error_text err) (Some err))
        | Inr v \<Rightarrow> Inr v)"

definition bindRequest ::
    "(string \<Rightarrow> nat \<Rightarrow> gerr + 64 word) \<Rightarrow> (byte list \<Rightarrow> govalue \<Rightarrow> gerr + govalue) \<Rightarrow> gotype
       \<Rightarrow> request option \<Rightarrow> govalue \<Rightarrow> gerr + govalue" where
  "bindRequest pf unmarshal typ req out =
     (case req of
        None \<Rightarrow> Inr out
      | Some r \<Rightarrow>
          (case decodeInto unmarshal (req_Body r) out of
             Inl err \<Rightarrow> Inl err
           | Inr v \<Rightarrow> bindInto (bindFields pf r) typ v))"

text \<open>\<^verbatim>\<open>decodeFailure\<close>: a body or a parameter that could not be read, as a 400 carrying issues.\<close>

definition decodeFailure :: "gerr \<Rightarrow> gerr" where
  "decodeFailure err =
     ValidationError ''the request body could not be read'' (Some (IssuesFromDecode err)) (Some err)"

subsection \<open>Lemmas: binding\<close>

text \<open>Well-typed values: what a field can hold, which is what keeps \<^verbatim>\<open>SetInt\<close> and \<^verbatim>\<open>SetUint\<close> from
  truncating.\<close>

fun fval_ok :: "fkind \<Rightarrow> fval \<Rightarrow> bool" where
  "fval_ok FString (VString _) = True"
| "fval_ok FBool (VBool _) = True"
| "fval_ok (FInt bits) (VInt i) = (- (2 ^ (bits - 1)) \<le> i \<and> i < 2 ^ (bits - 1))"
| "fval_ok (FUint bits) (VUint n) = (n < 2 ^ bits)"
| "fval_ok (FFloat _) (VFloat _) = True"
| "fval_ok FStrings (VStrings _) = True"
| "fval_ok (FOther _) (VOther _) = True"
| "fval_ok _ _ = False"

fun typed :: "gotype \<Rightarrow> govalue \<Rightarrow> bool" where
  "typed (TStruct fs) (StructV vs) = list_all2 (\<lambda>f v. fval_ok (sf_Kind f) v) fs vs"
| "typed (TPtr t) (PtrV None) = True"
| "typed (TPtr t) (PtrV (Some v)) = typed t v"
| "typed TOther (OtherV _) = True"
| "typed _ _ = False"

lemma map_Inr_eq_Inr [simp]: "map_Inr f x = Inr y \<longleftrightarrow> (\<exists>z. x = Inr z \<and> y = f z)"
  by (cases x) auto

lemma zero_fval_ok [simp]: "fval_ok k (zero_fval k)"
  by (cases k) simp_all

lemma zero_value_typed [simp]: "typed t (zero_value t)"
  by (cases t) (auto simp: list_all2_map2 list_all2_same)

lemma setField_ok:
  "setField pf f old values isPath = Inr w \<Longrightarrow> fval_ok (sf_Kind f) old \<Longrightarrow> fval_ok (sf_Kind f) w"
  by (auto simp: setField_def Let_def dest: ParseInt_bound [unfolded One_nat_def] ParseUint_bound
      split: if_splits fkind.splits)

lemma setField_old: "sf_CanSet f \<Longrightarrow> setField pf f old values isPath = setField pf f old' values isPath"
  by (simp add: setField_def)

lemma bindFields_Cons:
  "bindFields pf req (f # fs) (v # vs) = Inr ws \<longleftrightarrow>
     (\<exists>w ws'. ws = w # ws' \<and> bindFields pf req fs vs = Inr ws'
        \<and> (if sf_Exported f \<and> taggedValue req f \<noteq> None
           then setField pf f v (fst (the (taggedValue req f))) (snd (the (taggedValue req f))) = Inr w
           else w = v))"
  by (auto simp: Let_def split: option.splits sum.splits)

lemma bindFields_nth:
  assumes "bindFields pf req fs vs = Inr ws" and "length vs = length fs" and "k < length fs"
  shows "length ws = length fs
    \<and> (if sf_Exported (fs ! k) \<and> taggedValue req (fs ! k) \<noteq> None
       then setField pf (fs ! k) (vs ! k) (fst (the (taggedValue req (fs ! k))))
              (snd (the (taggedValue req (fs ! k)))) = Inr (ws ! k)
       else ws ! k = vs ! k)"
  using assms(2,1,3)
proof (induction vs fs arbitrary: ws k rule: list_induct2)
  case Nil
  then show ?case by simp
next
  case (Cons v vs f fs)
  then obtain w ws' where ws: "ws = w # ws'" and tl: "bindFields pf req fs vs = Inr ws'"
    and hd: "if sf_Exported f \<and> taggedValue req f \<noteq> None
      then setField pf f v (fst (the (taggedValue req f))) (snd (the (taggedValue req f))) = Inr w
      else w = v"
    unfolding bindFields_Cons by blast
  have len: "length ws' = length fs"
  proof (cases fs)
    case Nil
    with Cons.hyps tl show ?thesis by simp
  next
    case (Cons g gs)
    then show ?thesis using Cons.IH [OF tl, of 0] by simp
  qed
  show ?case
  proof (cases k)
    case 0
    with ws hd len show ?thesis by simp
  next
    case (Suc j)
    with Cons.prems(2) Cons.IH [OF tl, of j] ws show ?thesis by simp
  qed
qed

lemma bindFields_typed:
  "bindFields pf req fs vs = Inr ws \<Longrightarrow> list_all2 (\<lambda>f v. fval_ok (sf_Kind f) v) fs vs \<Longrightarrow>
     list_all2 (\<lambda>f v. fval_ok (sf_Kind f) v) fs ws"
proof (induction fs arbitrary: vs ws)
  case Nil
  then show ?case by simp
next
  case (Cons f fs)
  then obtain v vs' where vs: "vs = v # vs'" and v: "fval_ok (sf_Kind f) v"
    and vs': "list_all2 (\<lambda>f v. fval_ok (sf_Kind f) v) fs vs'"
    by (auto simp: list_all2_Cons1)
  from Cons.prems(1) vs obtain w ws' where ws: "ws = w # ws'"
    and tl: "bindFields pf req fs vs' = Inr ws'"
    and w: "(if sf_Exported f \<and> taggedValue req f \<noteq> None
           then setField pf f v (fst (the (taggedValue req f))) (snd (the (taggedValue req f))) = Inr w
           else w = v)"
    unfolding vs bindFields_Cons by blast
  from w v have "fval_ok (sf_Kind f) w"
    by (cases "sf_Exported f \<and> taggedValue req f \<noteq> None") (auto intro: setField_ok)
  with Cons.IH [OF tl vs'] ws show ?case by simp
qed

lemma bindInto_typed:
  "bindInto (bindFields pf req) t v = Inr w \<Longrightarrow> typed t v \<Longrightarrow> typed t w"
  by (induction "bindFields pf req" t v arbitrary: w rule: bindInto.induct)
    (auto intro: bindFields_typed)

lemma bindRequest_decoded:
  assumes "bindRequest pf unmarshal typ (Some req) out = Inr w"
    and "typed typ out" and "\<And>v. unmarshal (req_Body req) out = Inr v \<Longrightarrow> typed typ v"
  obtains v where "decodeInto unmarshal (req_Body req) out = Inr v" and "typed typ v"
    and "bindInto (bindFields pf req) typ v = Inr w"
  using assms by (auto simp: bindRequest_def decodeInto_def split: sum.splits if_splits)

subsection \<open>Properties\<close>

text \<open>A parameter of the request wins over the body: after a successful binding, a field whose
  tag names a parameter that is present holds what that parameter parses to, whatever the body
  put there (the result is the same from every old value), and a field no parameter is present
  for keeps what the body gave it. So a caller cannot override a path parameter from the
  body.\<close>

theorem bindRequest_parameter_wins:
  assumes "bindRequest pf unmarshal (TStruct fs) (Some req) out = Inr (StructV ws)"
    and "typed (TStruct fs) out"
    and "\<And>v. unmarshal (req_Body req) out = Inr v \<Longrightarrow> typed (TStruct fs) v"
    and "k < length fs" and "sf_Exported (fs ! k)" and "sf_CanSet (fs ! k)"
  shows "case taggedValue req (fs ! k) of
      Some (values, isPath) \<Rightarrow> (\<forall>old. setField pf (fs ! k) old values isPath = Inr (ws ! k))
    | None \<Rightarrow> (\<exists>vs. decodeInto unmarshal (req_Body req) out = Inr (StructV vs) \<and> ws ! k = vs ! k)"
proof -
  from assms(1-3) obtain v where dec: "decodeInto unmarshal (req_Body req) out = Inr v"
    and "typed (TStruct fs) v" and b: "bindInto (bindFields pf req) (TStruct fs) v = Inr (StructV ws)"
    by (rule bindRequest_decoded) blast+
  then obtain vs where v: "v = StructV vs" and len: "length vs = length fs"
    by (cases v) (auto dest: list_all2_lengthD)
  from b v have "bindFields pf req fs vs = Inr ws" by simp
  from bindFields_nth [OF this len assms(4)] assms(5) dec v show ?thesis
    by (auto split: option.splits) (metis setField_old [OF assms(6)])
qed

theorem bindRequest_parameter_wins_witness:
  "bindRequest (\<lambda>_ _. Inr 0) (\<lambda>_ _. Inr (StructV [VString ''spoofed'']))
     (TStruct [\<lparr>sf_Name = ''OrderID'', sf_Exported = True, sf_CanSet = True,
        sf_Tag = [(''path'', ''orderId'')], sf_Kind = FString\<rparr>])
     (Some \<lparr>req_Method = ''PUT'', req_Path = ''/orders/7'', req_Route = ''/orders/{orderId}'',
        req_PathParams = [(''orderId'', [''7''])], req_QueryParams = [], req_Headers = [],
        req_SourceIP = '''', req_RequestID = '''', req_Body = [1]\<rparr>)
     (StructV [VString '''']) = Inr (StructV [VString ''7''])
   \<and> (\<forall>old. setField (\<lambda>_ _. Inr 0) \<lparr>sf_Name = ''OrderID'', sf_Exported = True, sf_CanSet = True,
        sf_Tag = [(''path'', ''orderId'')], sf_Kind = FString\<rparr> old [''7''] True = Inr (VString ''7''))"
proof -
  let ?f = "\<lparr>sf_Name = ''OrderID'', sf_Exported = True, sf_CanSet = True,
        sf_Tag = [(''path'', ''orderId'')], sf_Kind = FString\<rparr>"
  let ?r = "\<lparr>req_Method = ''PUT'', req_Path = ''/orders/7'', req_Route = ''/orders/{orderId}'',
        req_PathParams = [(''orderId'', [''7''])], req_QueryParams = [], req_Headers = [],
        req_SourceIP = '''', req_RequestID = '''', req_Body = [1]\<rparr>"
  have tv: "taggedValue ?r ?f = Some ([''7''], True)"
    by (simp add: taggedValue_def)
  have b: "bindRequest (\<lambda>_ _. Inr 0) (\<lambda>_ _. Inr (StructV [VString ''spoofed''])) (TStruct [?f]) (Some ?r)
      (StructV [VString '''']) = Inr (StructV [VString ''7''])"
    by (simp add: bindRequest_def decodeInto_def tv setField_def)
  from bindRequest_parameter_wins [OF b, of 0] tv b show ?thesis by simp
qed

text \<open>C2. Binding keeps the input well typed: whatever the request holds, a successful binding
  leaves every field with a value of its kind and every integer within its field's width, so
  nothing is truncated; pointers on the way to the struct are allocated.\<close>

theorem bindRequest_typed:
  assumes "bindRequest pf unmarshal typ req out = Inr w" and "typed typ out"
    and "\<And>body v. unmarshal body out = Inr v \<Longrightarrow> typed typ v"
  shows "typed typ w"
proof (cases req)
  case None
  with assms(1,2) show ?thesis by (simp add: bindRequest_def)
next
  case (Some r)
  with assms obtain v where "typed typ v" and "bindInto (bindFields pf r) typ v = Inr w"
    by (auto elim: bindRequest_decoded)
  then show ?thesis by (blast intro: bindInto_typed)
qed

theorem bindRequest_typed_witness:
  "\<exists>w. bindRequest (\<lambda>_ _. Inr 0) (\<lambda>_ v. Inr v)
      (TPtr (TStruct [\<lparr>sf_Name = ''Limit'', sf_Exported = True, sf_CanSet = True,
        sf_Tag = [(''query'', ''limit'')], sf_Kind = FInt 8\<rparr>]))
      (Some \<lparr>req_Method = ''GET'', req_Path = '''', req_Route = '''', req_PathParams = [],
        req_QueryParams = [(''limit'', [''-128''])], req_Headers = [], req_SourceIP = '''',
        req_RequestID = '''', req_Body = []\<rparr>) (PtrV None) = Inr w
    \<and> typed (TPtr (TStruct [\<lparr>sf_Name = ''Limit'', sf_Exported = True, sf_CanSet = True,
        sf_Tag = [(''query'', ''limit'')], sf_Kind = FInt 8\<rparr>])) w"
proof -
  let ?t = "TPtr (TStruct [\<lparr>sf_Name = ''Limit'', sf_Exported = True, sf_CanSet = True,
        sf_Tag = [(''query'', ''limit'')], sf_Kind = FInt 8\<rparr>])"
  let ?r = "\<lparr>req_Method = ''GET'', req_Path = '''', req_Route = '''', req_PathParams = [],
        req_QueryParams = [(''limit'', [''-128''])], req_Headers = [], req_SourceIP = '''',
        req_RequestID = '''', req_Body = []\<rparr>"
  have b: "bindRequest (\<lambda>_ _. Inr 0) (\<lambda>_ v. Inr v) ?t (Some ?r) (PtrV None)
      = Inr (PtrV (Some (StructV [VInt (-128)])))"
    by (simp add: bindRequest_def decodeInto_def taggedValue_def setField_def ParseInt_def
        parse_uint_def is_digit_def digit_val_def less_eq_char_def)
  from bindRequest_typed [OF b] b show ?thesis by auto
qed

text \<open>C3. Integer parameters are read exactly: into an integer field of any width, the decimal numeral
  of a number is accepted and stored as that number when the number fits the width, and is
  otherwise refused; and whatever the parameter holds, nothing outside the width is ever stored.\<close>

theorem setField_int_exact:
  assumes "sf_CanSet field" and "sf_Kind field = FInt bits" and "1 \<le> bits"
  shows "(setField pf field old [itoa i] isPath = Inr (VInt i) \<longleftrightarrow> - (2 ^ (bits - 1)) \<le> i \<and> i < 2 ^ (bits - 1))
    \<and> (setField pf field old values isPath = Inr v
        \<longrightarrow> (\<exists>j. v = VInt j \<and> - (2 ^ (bits - 1)) \<le> j \<and> j < 2 ^ (bits - 1)))"
proof -
  have "map_Inr VInt r = Inr (VInt i) \<longleftrightarrow> r = Inr i" for r :: "gerr + int" by (cases r) auto
  then have "setField pf field old [itoa i] isPath = Inr (VInt i) \<longleftrightarrow> ParseInt (itoa i) bits = Inr i"
    using assms by (simp add: setField_def values_First_def)
  moreover have "setField pf field old values isPath = Inr v \<longrightarrow> (\<exists>s j. v = VInt j \<and> ParseInt s bits = Inr j)"
    using assms by (auto simp: setField_def Let_def)
  ultimately show ?thesis using ParseInt_bound ParseInt_itoa assms(3) by blast
qed

theorem setField_int_exact_witness:
  "let f = \<lparr>sf_Name = ''N'', sf_Exported = True, sf_CanSet = True, sf_Tag = [(''query'', ''n'')], sf_Kind = FInt 8\<rparr>
   in setField (\<lambda>s b. Inl (Errorf s None)) f (VInt 0) [itoa 127] False = Inr (VInt 127)
     \<and> setField (\<lambda>s b. Inl (Errorf s None)) f (VInt 0) [itoa 128] False \<noteq> Inr (VInt 128)"
  using setField_int_exact [of "\<lparr>sf_Name = ''N'', sf_Exported = True, sf_CanSet = True, sf_Tag = [(''query'', ''n'')], sf_Kind = FInt 8\<rparr>" 8]
  by simp

end
