(* ===== verification/Paging.thy ===== *)
theory Paging
  imports Strconv
begin

text \<open>
  Paged listings: the slicing of a page, the loop that reads a listing to its end
  (\<^verbatim>\<open>bucket.Objects\<close>, \<^verbatim>\<open>bucket.AllVersions\<close>, \<^verbatim>\<open>datastore.Items\<close> and \<^verbatim>\<open>datastore.Scanned\<close> are four copies of it),
  and what such a loop needs of the store: the interface \<open>paged_source\<close>.
\<close>

subsection \<open>Slices\<close>

definition bounds_error :: "string \<Rightarrow> pval" where
  "bounds_error what = PanicErr (AppErr (''runtime error: slice bounds out of range '' @ what)
     ''runtime.boundsError'' None None None None [])"

text \<open>\<^verbatim>\<open>xs[lo:hi]\<close>, for an upper bound the caller has already limited to the length: the capacity, which
  is what Go compares it with, plays no part.\<close>

definition go_slice :: "'a list \<Rightarrow> int \<Rightarrow> int \<Rightarrow> (pval, 'a list) outcome" where
  "go_slice xs lo hi =
     (if hi < 0 then Panic (bounds_error (''[:'' @ itoa hi @ '']''))
      else if lo < 0 then Panic (bounds_error (''['' @ itoa lo @ '':]''))
      else if hi < lo then Panic (bounds_error (''['' @ itoa lo @ '':'' @ itoa hi @ '']''))
      else Done (take (nat hi - nat lo) (drop (nat lo) xs)))"

lemma go_slice_Done [simp]:
  "0 \<le> lo \<Longrightarrow> lo \<le> hi \<Longrightarrow> go_slice xs lo hi = Done (take (nat hi - nat lo) (drop (nat lo) xs))"
  by (simp add: go_slice_def)

text \<open>The end of a page: \<^verbatim>\<open>min(start+limit, len)\<close> where a limit was asked for.\<close>

definition page_end :: "int \<Rightarrow> int \<Rightarrow> int \<Rightarrow> int" where
  "page_end start limit len = (if limit > 0 then min (wrap64 (start + limit)) len else len)"

lemma page_end_bounds:
  assumes "0 \<le> start" and "start \<le> len" and "limit + len < 2 ^ 63"
  shows "start \<le> page_end start limit len" and "page_end start limit len \<le> len"
    and "page_end start limit len < len \<Longrightarrow> start < page_end start limit len"
proof -
  have "wrap64 (start + limit) = start + limit" if "0 < limit"
    using that assms by (intro wrap64_id) auto
  then show "start \<le> page_end start limit len" and "page_end start limit len \<le> len"
    and "page_end start limit len < len \<Longrightarrow> start < page_end start limit len"
    using assms by (auto simp: page_end_def min_def split: if_splits)
qed

subsection \<open>Reading a listing to its end\<close>

text \<open>A consumer is the loop body of a \<^verbatim>\<open>range\<close> over the sequence: it takes an item or an error and what it
  has gathered so far, and says whether to go on.\<close>

type_synonym ('a, 'c) consumer = "'a \<Rightarrow> gerr option \<Rightarrow> 'c \<Rightarrow> bool \<times> 'c"

fun yield_page :: "('a, 'c) consumer \<Rightarrow> 'a list \<Rightarrow> 'c \<Rightarrow> bool \<times> 'c" where
  "yield_page yield [] c = (True, c)"
| "yield_page yield (x # xs) c =
     (let (go_on, c) = yield x None c in if go_on then yield_page yield xs c else (False, c))"

text \<open>The loop. It keeps the request in a variable the sequence has captured, so the request it ends with
  is part of what it returns: a second \<^verbatim>\<open>range\<close> over the same sequence starts from there. A loop that never
  ends has the value \<open>None\<close>.\<close>

partial_function (option) read_pages ::
    "('q \<Rightarrow> (pval, gerr + 'a list \<times> string) outcome) \<Rightarrow> (string \<Rightarrow> 'q \<Rightarrow> 'q) \<Rightarrow> 'a \<Rightarrow>
     ('a, 'c) consumer \<Rightarrow> 'q \<Rightarrow> 'c \<Rightarrow> (pval, 'c \<times> 'q) outcome option" where
  "read_pages fetch resume zero yield q c =
     (case fetch q of
        Panic p \<Rightarrow> Some (Panic p)
      | Done (Inl err) \<Rightarrow> Some (Done (snd (yield zero (Some err) c), q))
      | Done (Inr (page, cursor)) \<Rightarrow>
          (case yield_page yield page c of
             (go_on, c) \<Rightarrow>
               (if \<not> go_on then Some (Done (c, q))
                else if cursor = '''' then Some (Done (c, q))
                else read_pages fetch resume zero yield (resume cursor q) c)))"

lemma yield_page_append:
  "yield_page yield (xs @ ys) c =
     (case yield_page yield xs c of (True, c) \<Rightarrow> yield_page yield ys c | (False, c) \<Rightarrow> (False, c))"
  by (induction xs arbitrary: c) (auto split: prod.splits)

text \<open>The consumer that appends every item to a list and never stops.\<close>

definition gather :: "('a, 'a list \<times> gerr option) consumer" where
  "gather x err c = (case err of None \<Rightarrow> (True, (fst c @ [x], snd c)) | Some e \<Rightarrow> (True, (fst c, Some e)))"

lemma yield_page_gather [simp]: "yield_page gather xs (ys, e) = (True, (ys @ xs, e))"
  by (induction xs arbitrary: ys) (simp_all add: gather_def)

subsection \<open>The interface of a paged store\<close>

text \<open>What a store promises while nothing writes to it: there is one list of results, a request stands at
  some offset of it, a page is the results from there on, and a cursor that is not empty moves the
  request forward. \<open>positioned q n\<close> says that the request \<open>q\<close> stands at offset \<open>n\<close>.\<close>

locale paged_source =
  fixes fetch :: "'q \<Rightarrow> (pval, gerr + 'a list \<times> string) outcome"
    and resume :: "string \<Rightarrow> 'q \<Rightarrow> 'q"
    and positioned :: "'q \<Rightarrow> nat \<Rightarrow> bool"
    and results :: "'a list"
  assumes page: "positioned q n \<Longrightarrow>
      \<exists>m cursor. fetch q = Done (Inr (take (m - n) (drop n results), cursor)) \<and> n \<le> m \<and> m \<le> length results
        \<and> (if cursor = '''' then m = length results else n < m \<and> positioned (resume cursor q) m)"
begin

text \<open>The loop ends, and the consumer has been given the results from the request's offset on, in order,
  up to the one it stopped at; pages are not visible to it.\<close>

lemma reads_to_end:
  "positioned q n \<Longrightarrow>
     \<exists>q'. read_pages fetch resume zero yield q c = Some (Done (snd (yield_page yield (drop n results) c), q'))"
proof (induction "length results - n" arbitrary: q n c rule: less_induct)
  case less
  from page [OF less.prems] obtain m cursor where
    f: "fetch q = Done (Inr (take (m - n) (drop n results), cursor))" and nm: "n \<le> m" "m \<le> length results"
    and cur: "if cursor = '''' then m = length results else n < m \<and> positioned (resume cursor q) m" by blast
  let ?page = "take (m - n) (drop n results)"
  have split: "drop n results = ?page @ drop m results"
    using nm append_take_drop_id [of "m - n" "drop n results"] by simp
  obtain go_on c' where y: "yield_page yield ?page c = (go_on, c')" by (cases "yield_page yield ?page c")
  show ?case
  proof (cases "go_on \<and> cursor \<noteq> ''''")
    case True
    with cur have m: "n < m" "positioned (resume cursor q) m" by auto
    with nm have "length results - m < length results - n" by linarith
    from less.hyps [OF this m(2), of c'] obtain q' where
      "read_pages fetch resume zero yield (resume cursor q) c' =
         Some (Done (snd (yield_page yield (drop m results) c'), q'))" by blast
    moreover have "yield_page yield (drop n results) c = yield_page yield (drop m results) c'"
      using True y by (subst split) (simp add: yield_page_append)
    ultimately show ?thesis
      using f y True by (intro exI [of _ q']) (subst read_pages.simps, simp)
  next
    case False
    moreover have "snd (yield_page yield (drop n results) c) = c'"
      using False y cur by (subst split) (cases go_on; simp add: yield_page_append)
    ultimately show ?thesis
      using f y by (intro exI [of _ q]) (subst read_pages.simps, cases go_on; simp)
  qed
qed

text \<open>Reading everything, the request is left standing at the last page, and reading again from there
  gives that page alone.\<close>

lemma gathers_all:
  "positioned q n \<Longrightarrow>
     \<exists>q' m. read_pages fetch resume zero gather q (xs, e) = Some (Done ((xs @ drop n results, e), q'))
       \<and> n \<le> m \<and> positioned q' m \<and> fetch q' = Done (Inr (drop m results, ''''))
       \<and> (fetch q = Done (Inr (drop n results, '''')) \<or> n < m)"
proof (induction "length results - n" arbitrary: q n xs rule: less_induct)
  case less
  from page [OF less.prems] obtain m cursor where
    f: "fetch q = Done (Inr (take (m - n) (drop n results), cursor))" and nm: "n \<le> m" "m \<le> length results"
    and cur: "if cursor = '''' then m = length results else n < m \<and> positioned (resume cursor q) m" by blast
  show ?case
  proof (cases "cursor = ''''")
    case True
    with cur f have "fetch q = Done (Inr (drop n results, ''''))" by simp
    moreover from this have "read_pages fetch resume zero gather q (xs, e) = Some (Done ((xs @ drop n results, e), q))"
      by (subst read_pages.simps) simp
    ultimately show ?thesis
      using less.prems by (intro exI [of _ q] exI [of _ n]) simp
  next
    case False
    with cur have m: "n < m" "positioned (resume cursor q) m" by auto
    with nm have lt: "length results - m < length results - n" by linarith
    let ?xs = "xs @ take (m - n) (drop n results)"
    have xs: "?xs @ drop m results = xs @ drop n results"
      using nm append_take_drop_id [of "m - n" "drop n results"] by simp
    from less.hyps [OF lt m(2), of ?xs] obtain q' k where
      "read_pages fetch resume zero gather (resume cursor q) (?xs, e) = Some (Done ((?xs @ drop m results, e), q'))"
      "m \<le> k" "positioned q' k" "fetch q' = Done (Inr (drop k results, ''''))" by blast
    then show ?thesis
      using f m(1) False xs by (intro exI [of _ q'] exI [of _ k]) (subst read_pages.simps, simp)
  qed
qed

end

end
