(* ===== verification/Bucket.thy ===== *)
theory Bucket
  imports Paging
begin

unbundle bit_operations_syntax

text \<open>
  Object storage: the vocabulary of \<^verbatim>\<open>src/resources/bucket/bucket.go\<close>, the loops of
  \<^verbatim>\<open>src/resources/bucket/listing.go\<close> and the in-memory store of \<^verbatim>\<open>src/celeritytest/bucket.go\<close>, which every handler
  test runs against.

  A time is a number of nanoseconds since the Unix epoch, and what \<^verbatim>\<open>b.now()\<close> returns is an argument. What
  \<^verbatim>\<open>io.ReadAll\<close> makes of a body is an argument too. Options are functions applied in order, as in the code.
  A metadata map is a value: the store and its callers share the map in Go, and nothing here says
  what happens to one that is changed afterwards.
\<close>

subsection \<open>The vocabulary\<close>

definition ErrNotFound :: gerr where
  "ErrNotFound = Errorf ''celerity: not found'' None"

type_synonym nanotime = int

definition zero_nanotime :: nanotime where
  "zero_nanotime = -62135596800000000000"

record object_info =
  oi_Key :: string
  oi_Size :: int
  oi_LastModified :: nanotime
  oi_ETag :: string
  oi_ContentType :: string
  oi_Metadata :: "(string, string) gomap"
  oi_VersionID :: string

record object =
  ob_Body :: "byte list"
  ob_Info :: object_info
  ob_ContentLength :: int

record object_ref =
  or_Key :: string
  or_VersionID :: string

record object_version =
  ov_Key :: string
  ov_VersionID :: string
  ov_Size :: int
  ov_LastModified :: nanotime
  ov_ETag :: string
  ov_Current :: bool
  ov_DeleteMarker :: bool

record range =
  rn_Start :: int
  rn_Length :: int

definition range_Whole :: "range \<Rightarrow> bool" where
  "range_Whole r \<longleftrightarrow> rn_Start r = 0 \<and> rn_Length r = 0"

record get_options =
  go_Range :: range
  go_VersionID :: string

text \<open>\<^verbatim>\<open>InfoOptions\<close>, \<^verbatim>\<open>ExistsOptions\<close> and \<^verbatim>\<open>DeleteOptions\<close> each hold a version and nothing else.\<close>

record info_options =
  io_VersionID :: string

record exists_options =
  eo_VersionID :: string

record delete_options =
  do_VersionID :: string

record put_result =
  pr_ETag :: string
  pr_VersionID :: string

record copy_result =
  cp_ETag :: string
  cp_VersionID :: string

record delete_failure =
  df_Ref :: object_ref
  df_Code :: string
  df_Message :: string

record delete_unsent =
  du_Ref :: object_ref
  du_Err :: gerr

record delete_many_result =
  dm_Deleted :: "object_ref list"
  dm_Failed :: "delete_failure list"
  dm_Unsent :: "delete_unsent list"

record put_options =
  po_ContentType :: string
  po_Metadata :: "(string, string) gomap"

record copy_options =
  co_ContentType :: string
  co_Metadata :: "(string, string) gomap"

definition copy_Replaces :: "copy_options \<Rightarrow> bool" where
  "copy_Replaces opt \<longleftrightarrow> co_ContentType opt \<noteq> '''' \<or> length (co_Metadata opt) > 0"

definition SignRead :: string where
  "SignRead = ''read''"

definition SignWrite :: string where
  "SignWrite = ''write''"

record signed_url =
  su_URL :: string
  su_ExpiresAt :: nanotime

record list_options =
  lo_Limit :: int
  lo_Cursor :: string

type_synonym list_option = "list_options \<Rightarrow> list_options"

definition cursor_More :: "string \<Rightarrow> bool" where
  "cursor_More c \<longleftrightarrow> c \<noteq> ''''"

text \<open>Every operation starts from the zero options and applies what it was given in order.\<close>

definition resolve :: "'o \<Rightarrow> ('o \<Rightarrow> 'o) list \<Rightarrow> 'o" where
  "resolve zero opts = fold (\<lambda>opt options. opt options) opts zero"

definition zero_range :: range where
  "zero_range = \<lparr>rn_Start = 0, rn_Length = 0\<rparr>"

definition zero_list_options :: list_options where
  "zero_list_options = \<lparr>lo_Limit = 0, lo_Cursor = ''''\<rparr>"

subsection \<open>The store\<close>

record stored_object =
  so_info :: object_info
  so_body :: "byte list"
  so_marker :: bool

record bucket =
  bk_name :: string
  bk_objects :: "(string, stored_object list) gomap"
  bk_versions :: int

definition NewBucket :: "string \<Rightarrow> bucket" where
  "NewBucket name = \<lparr>bk_name = name, bk_objects = [], bk_versions = 0\<rparr>"

text \<open>\<^verbatim>\<open>b.objects[key]\<close>: the nil slice where the key is absent.\<close>

definition objects_at :: "bucket \<Rightarrow> string \<Rightarrow> stored_object list" where
  "objects_at b key = (case gm_get (bk_objects b) key of None \<Rightarrow> [] | Some vs \<Rightarrow> vs)"

text \<open>The \<^verbatim>\<open>Ref\<close> of a bucket prints as its kind and its quoted name.\<close>

definition bucket_absent :: "bucket \<Rightarrow> string \<Rightarrow> gerr" where
  "bucket_absent b key =
     Errorf (''celerity: bucket '' @ go_quote (bk_name b) @ '' holds no object '' @ go_quote key
             @ '': celerity: not found'') (Some ErrNotFound)"

definition bucket_current :: "bucket \<Rightarrow> string \<Rightarrow> stored_object option" where
  "bucket_current b key =
     (let versions = objects_at b key in
      if length versions = 0 then None
      else let newest = versions ! (length versions - 1) in
        if so_marker newest then None else Some newest)"

definition bucket_version :: "bucket \<Rightarrow> string \<Rightarrow> string \<Rightarrow> stored_object option" where
  "bucket_version b key ident = find (\<lambda>object. oi_VersionID (so_info object) = ident) (objects_at b key)"

definition bucket_find :: "bucket \<Rightarrow> string \<Rightarrow> string \<Rightarrow> stored_object option" where
  "bucket_find b key versionID =
     (if versionID = '''' then
        (let versions = objects_at b key in
         if length versions = 0 then None else Some (versions ! (length versions - 1)))
      else bucket_version b key versionID)"

definition applyRange :: "byte list \<Rightarrow> range \<Rightarrow> (pval, byte list \<times> int) outcome" where
  "applyRange body r =
     (if range_Whole r then Done (body, int (length body))
      else
        (let start = min (rn_Start r) (int (length body));
             end' = (if rn_Length r > 0 then min (wrap64 (start + rn_Length r)) (int (length body))
                     else int (length body))
         in bind_outcome (go_slice body start end') (\<lambda>part. Done (part, int (length part)))))"

definition Bucket_Get ::
    "bucket \<Rightarrow> string \<Rightarrow> (get_options \<Rightarrow> get_options) list \<Rightarrow> (pval, gerr + object) outcome" where
  "Bucket_Get b key opts =
     (let options = resolve \<lparr>go_Range = zero_range, go_VersionID = ''''\<rparr> opts in
      case bucket_find b key (go_VersionID options) of
        None \<Rightarrow> Done (Inl (bucket_absent b key))
      | Some object \<Rightarrow>
          if so_marker object then Done (Inl (bucket_absent b key))
          else bind_outcome (applyRange (so_body object) (go_Range options)) (\<lambda>(body, len).
            Done (Inr \<lparr>ob_Body = body, ob_Info = so_info object, ob_ContentLength = len\<rparr>)))"

text \<open>\<^verbatim>\<open>hash/fnv\<close>'s 64-bit FNV-1a, and the verb \<^verbatim>\<open>%016x\<close>.\<close>

definition fnv64a :: "byte list \<Rightarrow> 64 word" where
  "fnv64a content = fold (\<lambda>b h. (h XOR ucast b) * 1099511628211) content 14695981039346656037"

definition hex16 :: "64 word \<Rightarrow> string" where
  "hex16 w = map (\<lambda>i. hex_digit (unat (drop_bit (4 * i) w AND 15))) (rev [0..<16])"

definition etagOf :: "byte list \<Rightarrow> string" where
  "etagOf content = hex16 (fnv64a content)"

definition version_name :: "int \<Rightarrow> string" where
  "version_name n = CHR ''v'' # itoa n"

definition Bucket_Put ::
    "nanotime \<Rightarrow> string \<Rightarrow> gerr + byte list \<Rightarrow> (put_options \<Rightarrow> put_options) list \<Rightarrow> bucket
      \<Rightarrow> (gerr + put_result) \<times> bucket" where
  "Bucket_Put now key body opts b =
     (case body of
        Inl err \<Rightarrow>
          (Inl (Errorf (''celerity: bucket '' @ go_quote (bk_name b) @ '' reading the body for '' @ go_quote key
                  @ '': '' @ error_text err) (Some err)), b)
      | Inr content \<Rightarrow>
          (let options = resolve \<lparr>po_ContentType = '''', po_Metadata = []\<rparr> opts;
               versions = bk_versions b + 1;
               info = \<lparr>oi_Key = key, oi_Size = int (length content), oi_LastModified = now,
                  oi_ETag = go_quote (etagOf content), oi_ContentType = po_ContentType options,
                  oi_Metadata = po_Metadata options, oi_VersionID = version_name versions\<rparr>;
               stored = \<lparr>so_info = info, so_body = content, so_marker = False\<rparr>
           in (Inr \<lparr>pr_ETag = oi_ETag info, pr_VersionID = oi_VersionID info\<rparr>,
               b\<lparr>bk_versions := versions, bk_objects := gm_put key (objects_at b key @ [stored]) (bk_objects b)\<rparr>)))"

definition bucket_delete :: "nanotime \<Rightarrow> string \<Rightarrow> string \<Rightarrow> bucket \<Rightarrow> bucket" where
  "bucket_delete now key versionID b =
     (if versionID = '''' then
        (if bucket_current b key = None then b
         else
           (let versions = bk_versions b + 1;
                marker = \<lparr>so_info = \<lparr>oi_Key = key, oi_Size = 0, oi_LastModified = now, oi_ETag = '''',
                     oi_ContentType = '''', oi_Metadata = [], oi_VersionID = version_name versions\<rparr>,
                   so_body = [], so_marker = True\<rparr>
            in b\<lparr>bk_versions := versions, bk_objects := gm_put key (objects_at b key @ [marker]) (bk_objects b)\<rparr>))
      else
        (let kept = filter (\<lambda>object. oi_VersionID (so_info object) \<noteq> versionID) (objects_at b key)
         in b\<lparr>bk_objects := gm_put key kept (bk_objects b)\<rparr>))"

definition Bucket_Delete :: "nanotime \<Rightarrow> string \<Rightarrow> (delete_options \<Rightarrow> delete_options) list \<Rightarrow> bucket \<Rightarrow> bucket" where
  "Bucket_Delete now key opts b =
     (let options = resolve \<lparr>do_VersionID = ''''\<rparr> opts in bucket_delete now key (do_VersionID options) b)"

text \<open>The clock is read once per deletion, so the times of the markers are given by the position of the reference.\<close>

fun delete_refs :: "(nat \<Rightarrow> nanotime) \<Rightarrow> nat \<Rightarrow> object_ref list \<Rightarrow> bucket \<Rightarrow> bucket" where
  "delete_refs now i [] b = b"
| "delete_refs now i (ref # refs) b = delete_refs now (Suc i) refs (bucket_delete (now i) (or_Key ref) (or_VersionID ref) b)"

definition Bucket_DeleteMany :: "(nat \<Rightarrow> nanotime) \<Rightarrow> object_ref list \<Rightarrow> bucket \<Rightarrow> delete_many_result \<times> bucket" where
  "Bucket_DeleteMany now refs b =
     (\<lparr>dm_Deleted = refs, dm_Failed = [], dm_Unsent = []\<rparr>, delete_refs now 0 refs b)"

definition Bucket_Info :: "bucket \<Rightarrow> string \<Rightarrow> (info_options \<Rightarrow> info_options) list \<Rightarrow> gerr + object_info" where
  "Bucket_Info b key opts =
     (let options = resolve \<lparr>io_VersionID = ''''\<rparr> opts in
      case bucket_find b key (io_VersionID options) of
        None \<Rightarrow> Inl (bucket_absent b key)
      | Some object \<Rightarrow> if so_marker object then Inl (bucket_absent b key) else Inr (so_info object))"

definition Bucket_Exists :: "bucket \<Rightarrow> string \<Rightarrow> (exists_options \<Rightarrow> exists_options) list \<Rightarrow> bool" where
  "Bucket_Exists b key opts =
     (let options = resolve \<lparr>eo_VersionID = ''''\<rparr> opts in
      case bucket_find b key (eo_VersionID options) of
        None \<Rightarrow> False
      | Some object \<Rightarrow> \<not> so_marker object)"

definition bucket_sortedKeys :: "bucket \<Rightarrow> string list" where
  "bucket_sortedKeys b = sorted_keys (bk_objects b)"

definition bucket_Keys :: "bucket \<Rightarrow> string list" where
  "bucket_Keys b = sort (filter (\<lambda>key. bucket_current b key \<noteq> None) (gm_keys (bk_objects b)))"

definition bucket_Len :: "bucket \<Rightarrow> nat" where
  "bucket_Len b = length (filter (\<lambda>key. bucket_current b key \<noteq> None) (gm_keys (bk_objects b)))"

definition bucket_Contents :: "bucket \<Rightarrow> string \<Rightarrow> byte list option" where
  "bucket_Contents b key = map_option so_body (bucket_current b key)"

subsection \<open>Listings\<close>

definition paginate :: "'a list \<Rightarrow> list_options \<Rightarrow> (pval, 'a list \<times> string) outcome" where
  "paginate all options =
     (let start = (if lo_Cursor options \<noteq> '''' then
                     (case scan_int (lo_Cursor options) of None \<Rightarrow> 0 | Some i \<Rightarrow> i)
                   else 0);
          start = min start (int (length all));
          end' = page_end start (lo_Limit options) (int (length all))
      in if end' < int (length all)
         then bind_outcome (go_slice all start end') (\<lambda>page. Done (page, itoa end'))
         else bind_outcome (go_slice all start end') (\<lambda>page. Done (page, '''')))"

definition listOptions :: "list_option list \<Rightarrow> list_options" where
  "listOptions opts = resolve zero_list_options opts"

definition listed_info :: "stored_object \<Rightarrow> object_info" where
  "listed_info object =
     \<lparr>oi_Key = oi_Key (so_info object), oi_Size = oi_Size (so_info object),
      oi_LastModified = oi_LastModified (so_info object), oi_ETag = oi_ETag (so_info object),
      oi_ContentType = '''', oi_Metadata = [], oi_VersionID = ''''\<rparr>"

definition list_all_objects :: "bucket \<Rightarrow> string \<Rightarrow> object_info list" where
  "list_all_objects b prefix =
     List.map_filter (\<lambda>key. if \<not> has_prefix key prefix then None else map_option listed_info (bucket_current b key))
       (bucket_sortedKeys b)"

definition Bucket_List ::
    "bucket \<Rightarrow> string \<Rightarrow> list_option list \<Rightarrow> (pval, gerr + object_info list \<times> string) outcome" where
  "Bucket_List b prefix opts =
     bind_outcome (paginate (list_all_objects b prefix) (listOptions opts)) (\<lambda>page. Done (Inr page))"

definition version_at :: "string \<Rightarrow> stored_object list \<Rightarrow> nat \<Rightarrow> object_version" where
  "version_at key versions i =
     (let object = versions ! i in
      \<lparr>ov_Key = key, ov_VersionID = oi_VersionID (so_info object), ov_Size = oi_Size (so_info object),
       ov_LastModified = oi_LastModified (so_info object), ov_ETag = oi_ETag (so_info object),
       ov_Current = (i = length versions - 1), ov_DeleteMarker = so_marker object\<rparr>)"

definition list_all_versions :: "bucket \<Rightarrow> string \<Rightarrow> object_version list" where
  "list_all_versions b prefix =
     concat (map (\<lambda>key. if \<not> has_prefix key prefix then []
                  else map (version_at key (objects_at b key)) (rev [0..<length (objects_at b key)]))
       (bucket_sortedKeys b))"

definition Bucket_Versions ::
    "bucket \<Rightarrow> string \<Rightarrow> list_option list \<Rightarrow> (pval, gerr + object_version list \<times> string) outcome" where
  "Bucket_Versions b prefix opts =
     bind_outcome (paginate (list_all_versions b prefix) (listOptions opts)) (\<lambda>page. Done (Inr page))"

subsection \<open>Copies and signed addresses\<close>

text \<open>A copy may go to another bucket, so it is an operation on all buckets, each known by where it lives;
  the store of a destination is nil, one of these buckets or something else.\<close>

datatype dest_store = NoStore | TestBucket nat | OtherStore

record destination =
  ds_Key :: string
  ds_Store :: dest_store

definition Bucket_Copy ::
    "nanotime \<Rightarrow> nat \<Rightarrow> string \<Rightarrow> destination \<Rightarrow> (copy_options \<Rightarrow> copy_options) list \<Rightarrow> (nat \<Rightarrow> bucket)
      \<Rightarrow> (gerr + copy_result) \<times> (nat \<Rightarrow> bucket)" where
  "Bucket_Copy now i sourceKey dest opts bs =
     (case bucket_current (bs i) sourceKey of
        None \<Rightarrow> (Inl (bucket_absent (bs i) sourceKey), bs)
      | Some source \<Rightarrow>
          (let options = resolve \<lparr>co_ContentType = '''', co_Metadata = []\<rparr> opts;
               copy_to = (\<lambda>j.
                 let (contentType, metadata) =
                       (if copy_Replaces options then (co_ContentType options, co_Metadata options)
                        else (oi_ContentType (so_info source), oi_Metadata (so_info source)));
                     (written, target) = Bucket_Put now (ds_Key dest) (Inr (so_body source))
                       [\<lambda>po. po\<lparr>po_ContentType := contentType, po_Metadata := metadata\<rparr>] (bs j)
                 in (case written of
                       Inl err \<Rightarrow> (Inl err, bs(j := target))
                     | Inr w \<Rightarrow> (Inr \<lparr>cp_ETag = pr_ETag w, cp_VersionID = pr_VersionID w\<rparr>, bs(j := target))))
           in case ds_Store dest of
                NoStore \<Rightarrow> copy_to i
              | TestBucket j \<Rightarrow> copy_to j
              | OtherStore \<Rightarrow>
                  (Inl (Errorf (''celerity: the copy destination is not a *celeritytest.Bucket, so this bucket cannot ''
                     @ ''copy into it'') None), bs)))"

definition Bucket_SignedURL :: "nanotime \<Rightarrow> bucket \<Rightarrow> string \<Rightarrow> string \<Rightarrow> int \<Rightarrow> signed_url" where
  "Bucket_SignedURL now b key action expiry =
     \<lparr>su_URL = ''https://celeritytest.invalid/'' @ bk_name b @ ''/'' @ key @ ''?action='' @ action,
      su_ExpiresAt = now + expiry\<rparr>"

subsection \<open>Reading a listing to its end\<close>

definition resumeAt :: "string \<Rightarrow> list_options \<Rightarrow> list_options" where
  "resumeAt cursor options = options\<lparr>lo_Cursor := cursor\<rparr>"

definition resume_opts :: "string \<Rightarrow> list_option list \<Rightarrow> list_option list" where
  "resume_opts cursor opts = opts @ [resumeAt cursor]"

definition zero_object_info :: object_info where
  "zero_object_info = \<lparr>oi_Key = '''', oi_Size = 0, oi_LastModified = zero_nanotime, oi_ETag = '''', oi_ContentType = '''',
     oi_Metadata = [], oi_VersionID = ''''\<rparr>"

definition zero_object_version :: object_version where
  "zero_object_version = \<lparr>ov_Key = '''', ov_VersionID = '''', ov_Size = 0, ov_LastModified = zero_nanotime, ov_ETag = '''',
     ov_Current = False, ov_DeleteMarker = False\<rparr>"

definition Objects ::
    "(string \<Rightarrow> list_option list \<Rightarrow> (pval, gerr + object_info list \<times> string) outcome) \<Rightarrow> string
      \<Rightarrow> (object_info, 'c) consumer \<Rightarrow> list_option list \<Rightarrow> 'c \<Rightarrow> (pval, 'c \<times> list_option list) outcome option" where
  "Objects store_List prefix = read_pages (store_List prefix) resume_opts zero_object_info"

definition AllVersions ::
    "(string \<Rightarrow> list_option list \<Rightarrow> (pval, gerr + object_version list \<times> string) outcome) \<Rightarrow> string
      \<Rightarrow> (object_version, 'c) consumer \<Rightarrow> list_option list \<Rightarrow> 'c \<Rightarrow> (pval, 'c \<times> list_option list) outcome option" where
  "AllVersions store_Versions prefix = read_pages (store_Versions prefix) resume_opts zero_object_version"

subsection \<open>The invariant of a store\<close>

abbreviation so_id :: "stored_object \<Rightarrow> string" where
  "so_id object \<equiv> oi_VersionID (so_info object)"

definition issued :: "bucket \<Rightarrow> string \<Rightarrow> bool" where
  "issued b ident \<longleftrightarrow> (\<exists>n. 1 \<le> n \<and> n \<le> bk_versions b \<and> ident = version_name n)"

text \<open>Every version is filed under its own key and has an identifier the store issued, and no identifier
  is used twice anywhere in the store.\<close>

definition bucket_ok :: "bucket \<Rightarrow> bool" where
  "bucket_ok b \<longleftrightarrow> gm_wf (bk_objects b) \<and> 0 \<le> bk_versions b
     \<and> (\<forall>key. \<forall>object \<in> set (objects_at b key). oi_Key (so_info object) = key \<and> issued b (so_id object))
     \<and> (\<forall>key. distinct (objects_at b key))
     \<and> (\<forall>key key'. \<forall>x \<in> set (objects_at b key). \<forall>y \<in> set (objects_at b key'). so_id x = so_id y \<longrightarrow> x = y)"

lemma bucket_okI:
  assumes "gm_wf (bk_objects b)" and "0 \<le> bk_versions b"
    and "\<And>key object. object \<in> set (objects_at b key) \<Longrightarrow> oi_Key (so_info object) = key \<and> issued b (so_id object)"
    and "\<And>key. distinct (objects_at b key)"
    and "\<And>key key' x y. x \<in> set (objects_at b key) \<Longrightarrow> y \<in> set (objects_at b key') \<Longrightarrow> so_id x = so_id y \<Longrightarrow> x = y"
  shows "bucket_ok b"
  unfolding bucket_ok_def using assms by blast

lemma bucket_okD:
  assumes "bucket_ok b"
  shows "gm_wf (bk_objects b)" and "0 \<le> bk_versions b" and "distinct (objects_at b key)"
    and "object \<in> set (objects_at b key) \<Longrightarrow> oi_Key (so_info object) = key"
    and "object \<in> set (objects_at b key) \<Longrightarrow> issued b (so_id object)"
    and "x \<in> set (objects_at b key) \<Longrightarrow> y \<in> set (objects_at b key') \<Longrightarrow> so_id x = so_id y \<Longrightarrow> x = y"
  using assms unfolding bucket_ok_def by blast+

lemma version_name_not_Nil [simp]: "version_name n \<noteq> ''''"
  by (simp add: version_name_def)

lemma version_name_inject: "0 \<le> m \<Longrightarrow> 0 \<le> n \<Longrightarrow> version_name m = version_name n \<longleftrightarrow> m = n"
  by (auto simp: version_name_def itoa_def)

lemma objects_at_put [simp]:
  "objects_at (b\<lparr>bk_objects := gm_put key vs (bk_objects b)\<rparr>) k = (if k = key then vs else objects_at b k)"
  "objects_at (b\<lparr>bk_versions := n, bk_objects := gm_put key vs (bk_objects b)\<rparr>) k = (if k = key then vs else objects_at b k)"
  by (simp_all add: objects_at_def)

lemma issued_grows: "issued b ident \<Longrightarrow> bk_versions b \<le> bk_versions b' \<Longrightarrow> issued b' ident"
  by (force simp: issued_def)

lemma fresh_version:
  assumes "bucket_ok b" and "object \<in> set (objects_at b key)"
  shows "so_id object \<noteq> version_name (bk_versions b + 1)"
  using assms by (fastforce simp: bucket_ok_def issued_def version_name_inject)

lemma bucket_ok_New [inv_intros]: "bucket_ok (NewBucket name)"
  by (simp add: bucket_ok_def NewBucket_def objects_at_def)

text \<open>A write of any kind adds one version with the next identifier to one key.\<close>

lemma bucket_ok_added:
  assumes ok: "bucket_ok b" and "oi_Key (so_info object) = key" and id: "so_id object = version_name (bk_versions b + 1)"
  shows "bucket_ok (b\<lparr>bk_versions := bk_versions b + 1, bk_objects := gm_put key (objects_at b key @ [object]) (bk_objects b)\<rparr>)"
    (is "bucket_ok ?b")
proof (rule bucket_okI)
  have pos: "0 \<le> bk_versions b" using ok by (rule bucket_okD)
  have fresh: "so_id x \<noteq> version_name (bk_versions b + 1)" if "x \<in> set (objects_at b k)" for x k
    using fresh_version [OF ok that] .
  have "issued ?b (so_id object)"
    unfolding issued_def id using pos by (intro exI [of _ "bk_versions b + 1"]) simp
  moreover have "issued ?b (so_id x)" if "x \<in> set (objects_at b k)" for x k
    using bucket_okD(5) [OF ok that] by (rule issued_grows) simp
  ultimately show "oi_Key (so_info x) = k \<and> issued ?b (so_id x)" if "x \<in> set (objects_at ?b k)" for x k
    using that assms(2) bucket_okD(4) [OF ok] by (auto split: if_splits)
  show "distinct (objects_at ?b k)" for k
    using bucket_okD(3) [OF ok] fresh [of object key] id by auto
  show "x = y" if "x \<in> set (objects_at ?b k)" "y \<in> set (objects_at ?b k')" "so_id x = so_id y" for x y k k'
  proof -
    have "x = object \<or> (\<exists>j. x \<in> set (objects_at b j))" and "y = object \<or> (\<exists>j. y \<in> set (objects_at b j))"
      using that(1,2) by (auto split: if_splits)
    then show ?thesis
      using that(3) id fresh bucket_okD(6) [OF ok] by metis
  qed
  show "gm_wf (bk_objects ?b)" and "0 \<le> bk_versions ?b"
    using bucket_okD(1) [OF ok] pos by simp_all
qed

lemma bucket_ok_Put [inv_intros]: "bucket_ok b \<Longrightarrow> bucket_ok (snd (Bucket_Put now key body opts b))"
  by (auto simp: Bucket_Put_def Let_def split: sum.splits intro!: bucket_ok_added)

lemma bucket_ok_removed:
  assumes "bucket_ok b"
  shows "bucket_ok (b\<lparr>bk_objects := gm_put key (filter P (objects_at b key)) (bk_objects b)\<rparr>)"
proof (rule bucket_okI)
  let ?b = "b\<lparr>bk_objects := gm_put key (filter P (objects_at b key)) (bk_objects b)\<rparr>"
  have sub: "x \<in> set (objects_at ?b k) \<Longrightarrow> x \<in> set (objects_at b k)" for x k
    by (simp split: if_splits)
  show "oi_Key (so_info x) = k \<and> issued ?b (so_id x)" if "x \<in> set (objects_at ?b k)" for x k
    using bucket_okD(4,5) [OF assms sub [OF that]] by (simp add: issued_def)
  show "x = y" if "x \<in> set (objects_at ?b k)" "y \<in> set (objects_at ?b k')" "so_id x = so_id y" for x y k k'
    using bucket_okD(6) [OF assms sub [OF that(1)] sub [OF that(2)] that(3)] .
  show "gm_wf (bk_objects ?b)" "0 \<le> bk_versions ?b" "distinct (objects_at ?b k)" for k
    using bucket_okD(1-3) [OF assms] by simp_all
qed

lemma bucket_ok_delete [inv_intros]: "bucket_ok b \<Longrightarrow> bucket_ok (bucket_delete now key v b)"
  by (auto simp: bucket_delete_def Let_def intro!: bucket_ok_added bucket_ok_removed)

lemma bucket_ok_delete_refs [inv_intros]: "bucket_ok b \<Longrightarrow> bucket_ok (delete_refs now i refs b)"
  by (induction now i refs b rule: delete_refs.induct) (auto intro: inv_intros)

text \<open>The operations that change a store, in any order.\<close>

datatype bucket_op = Do_Put nanotime string "gerr + byte list" "(put_options \<Rightarrow> put_options) list"
  | Do_Delete nanotime string "(delete_options \<Rightarrow> delete_options) list"
  | Do_DeleteMany "nat \<Rightarrow> nanotime" "object_ref list"

fun bucket_do :: "bucket_op \<Rightarrow> bucket \<Rightarrow> bucket" where
  "bucket_do (Do_Put now key body opts) b = snd (Bucket_Put now key body opts b)"
| "bucket_do (Do_Delete now key opts) b = Bucket_Delete now key opts b"
| "bucket_do (Do_DeleteMany now refs) b = snd (Bucket_DeleteMany now refs b)"

definition bucket_run :: "string \<Rightarrow> bucket_op list \<Rightarrow> bucket" where
  "bucket_run name ops = fold bucket_do ops (NewBucket name)"

lemma bucket_ok_do: "bucket_ok b \<Longrightarrow> bucket_ok (bucket_do opn b)"
  by (cases opn) (simp_all add: Bucket_Delete_def Bucket_DeleteMany_def Let_def inv_intros)

lemma bucket_ok_run [inv_intros]: "bucket_ok (bucket_run name ops)"
proof -
  have "bucket_ok b \<Longrightarrow> bucket_ok (fold bucket_do ops b)" for b
    by (induction ops arbitrary: b) (simp_all add: bucket_ok_do)
  then show ?thesis by (simp add: bucket_run_def inv_intros)
qed

lemma resolve_simps [simp]:
  "resolve z [] = z" "resolve z (opt # opts) = resolve (opt z) opts" "resolve z (opts @ [opt]) = opt (resolve z opts)"
  by (simp_all add: resolve_def)

lemma range_Whole_zero [simp]: "range_Whole zero_range"
  by (simp add: range_Whole_def zero_range_def)

lemma applyRange_whole [simp]: "applyRange body zero_range = Done (body, int (length body))"
  by (simp add: applyRange_def)

text \<open>A version is found under its own identifier.\<close>

lemma bucket_version_self:
  assumes "bucket_ok b" and "object \<in> set (objects_at b key)"
  shows "bucket_version b key (so_id object) = Some object"
proof -
  have "bucket_version b key (so_id object) \<noteq> None"
    using assms(2) by (auto simp: bucket_version_def find_None_iff)
  then obtain x where x: "bucket_version b key (so_id object) = Some x" by blast
  then have "x \<in> set (objects_at b key)" and "so_id x = so_id object"
    unfolding bucket_version_def find_Some_iff by auto
  with assms bucket_okD(6) have "x = object" by blast
  with x show ?thesis by simp
qed

lemma issued_not_Nil: "issued b ident \<Longrightarrow> ident \<noteq> ''''"
  by (auto simp: issued_def)

lemma find_append: "find P (xs @ ys) = (case find P xs of None \<Rightarrow> find P ys | Some x \<Rightarrow> Some x)"
  by (induction xs) simp_all

abbreviation version_of :: "string \<Rightarrow> get_options \<Rightarrow> get_options" where
  "version_of ident options \<equiv> options\<lparr>go_VersionID := ident\<rparr>"

abbreviation part_of :: "range \<Rightarrow> get_options \<Rightarrow> get_options" where
  "part_of r options \<equiv> options\<lparr>go_Range := r\<rparr>"

text \<open>What a write adds is one version at the end of one key's list.\<close>

lemma Bucket_Put_adds:
  assumes "Bucket_Put now key (Inr content) opts b = (Inr r, b')"
  shows "objects_at b' k = (if k = key then objects_at b key @
      [\<lparr>so_info = \<lparr>oi_Key = key, oi_Size = int (length content), oi_LastModified = now,
          oi_ETag = go_quote (etagOf content),
          oi_ContentType = po_ContentType (resolve \<lparr>po_ContentType = '''', po_Metadata = []\<rparr> opts),
          oi_Metadata = po_Metadata (resolve \<lparr>po_ContentType = '''', po_Metadata = []\<rparr> opts),
          oi_VersionID = pr_VersionID r\<rparr>, so_body = content, so_marker = False\<rparr>] else objects_at b k)"
    and "pr_VersionID r = version_name (bk_versions b + 1)"
    and "pr_ETag r = go_quote (etagOf content)"
    and "bk_name b' = bk_name b"
  using assms by (auto simp: Bucket_Put_def Let_def)

lemma bucket_find_other:
  assumes "objects_at b' key = objects_at b key @ [x]" and "ident \<noteq> ''''" and "so_id x \<noteq> ident"
  shows "bucket_find b' key ident = bucket_find b key ident"
  using assms by (simp add: bucket_find_def bucket_version_def find_append split: option.splits)

lemma Bucket_Get_cong:
  assumes "bucket_find b' key (go_VersionID (resolve \<lparr>go_Range = zero_range, go_VersionID = ''''\<rparr> opts))
      = bucket_find b key (go_VersionID (resolve \<lparr>go_Range = zero_range, go_VersionID = ''''\<rparr> opts))"
    and "bk_name b' = bk_name b"
  shows "Bucket_Get b' key opts = Bucket_Get b key opts"
  using assms by (simp add: Bucket_Get_def bucket_absent_def Let_def split: option.splits)

lemma bucket_find_cong: "objects_at b' key = objects_at b key \<Longrightarrow> bucket_find b' key ident = bucket_find b key ident"
  by (simp add: bucket_find_def bucket_version_def)

lemma applyRange_part:
  assumes "0 \<le> rn_Start r" and "0 < rn_Length r" and "int (length body) + rn_Length r < 2 ^ 63"
  shows "applyRange body r = (let part = take (nat (rn_Length r)) (drop (nat (rn_Start r)) body) in Done (part, int (length part)))"
proof -
  let ?start = "min (rn_Start r) (int (length body))"
  have "wrap64 (?start + rn_Length r) = ?start + rn_Length r"
    using assms by (intro wrap64_id) auto
  then have "applyRange body r =
      bind_outcome (go_slice body ?start (min (?start + rn_Length r) (int (length body)))) (\<lambda>part. Done (part, int (length part)))"
    using assms by (simp add: applyRange_def range_Whole_def Let_def)
  also have "go_slice body ?start (min (?start + rn_Length r) (int (length body)))
      = Done (take (nat (rn_Length r)) (drop (nat (rn_Start r)) body))"
    using assms by (cases "rn_Start r \<le> int (length body)") (auto simp: min_def nat_add_distrib nat_le_iff)
  finally show ?thesis by (simp add: Let_def)
qed

subsection \<open>A bucket as a paged source\<close>

text \<open>A request stands at the offset its cursor names. The limit leaves room for the sum of an offset and
  itself, which is computed at 64 bits.\<close>

definition list_positioned :: "'a list \<Rightarrow> list_option list \<Rightarrow> nat \<Rightarrow> bool" where
  "list_positioned all opts n \<longleftrightarrow>
     n \<le> length all \<and> lo_Limit (listOptions opts) + int (length all) < 2 ^ 63 \<and> int (length all) < 2 ^ 63
     \<and> (if lo_Cursor (listOptions opts) = '''' then n = 0 else lo_Cursor (listOptions opts) = itoa (int n))"

lemma listOptions_resume [simp]: "listOptions (resume_opts cursor opts) = (listOptions opts)\<lparr>lo_Cursor := cursor\<rparr>"
  by (simp add: listOptions_def resume_opts_def resumeAt_def)

lemma paginate_positioned:
  assumes "list_positioned all opts n"
  shows "\<exists>m cursor. paginate all (listOptions opts) = Done (take (m - n) (drop n all), cursor) \<and> n \<le> m \<and> m \<le> length all
     \<and> (if cursor = '''' then m = length all else n < m \<and> list_positioned all (resume_opts cursor opts) m)"
proof -
  let ?o = "listOptions opts" and ?len = "int (length all)"
  let ?e = "page_end (int n) (lo_Limit ?o) ?len"
  have n: "n \<le> length all" and lim: "lo_Limit ?o + ?len < 2 ^ 63" and len: "?len < 2 ^ 63"
    using assms by (simp_all add: list_positioned_def)
  have bounds: "int n \<le> ?e" "?e \<le> ?len" "?e < ?len \<Longrightarrow> int n < ?e"
    using page_end_bounds [OF _ _ lim, of "int n"] n by simp_all
  have start: "(if lo_Cursor ?o \<noteq> '''' then (case scan_int (lo_Cursor ?o) of None \<Rightarrow> 0 | Some i \<Rightarrow> i) else 0) = int n"
    using assms n len scan_int_itoa [of "int n"] by (auto simp: list_positioned_def split: if_splits)
  have slice: "go_slice all (int n) ?e = Done (take (nat ?e - n) (drop n all))"
    using bounds by simp
  have "paginate all ?o = Done (take (nat ?e - n) (drop n all), if ?e < ?len then itoa ?e else '''')"
    unfolding paginate_def Let_def start using n slice by (simp add: min_def)
  moreover have "list_positioned all (resume_opts (itoa ?e) opts) (nat ?e)" if "?e < ?len"
    using that bounds lim len by (simp add: list_positioned_def nat_le_iff)
  ultimately show ?thesis
    using bounds by (intro exI [of _ "nat ?e"] exI [of _ "if ?e < ?len then itoa ?e else ''''"]) auto
qed

lemma paged_paginate:
  "paged_source (\<lambda>opts. bind_outcome (paginate all (listOptions opts)) (\<lambda>page. Done (Inr page)))
     resume_opts (list_positioned all) all"
  by unfold_locales (drule paginate_positioned, fastforce)

interpretation objects: paged_source "Bucket_List b prefix" resume_opts
    "list_positioned (list_all_objects b prefix)" "list_all_objects b prefix" for b prefix
  unfolding Bucket_List_def by (rule paged_paginate)

interpretation versions: paged_source "Bucket_Versions b prefix" resume_opts
    "list_positioned (list_all_versions b prefix)" "list_all_versions b prefix" for b prefix
  unfolding Bucket_Versions_def by (rule paged_paginate)

lemma bucket_current_in: "bucket_current b key = Some object \<Longrightarrow> object \<in> set (objects_at b key)"
  by (auto simp: bucket_current_def Let_def split: if_splits)

text \<open>The keys of a listing are the keys that hold an object and have the prefix, in order.\<close>

lemma list_all_objects_keys:
  assumes "bucket_ok b"
  shows "map oi_Key (list_all_objects b prefix) = filter (\<lambda>key. has_prefix key prefix) (bucket_Keys b)"
proof -
  have key: "oi_Key (listed_info object) = key" if "bucket_current b key = Some object" for key object
    using bucket_okD(4) [OF assms bucket_current_in [OF that]] by (simp add: listed_info_def)
  have "map oi_Key (List.map_filter (\<lambda>key. if \<not> has_prefix key prefix then None
            else map_option listed_info (bucket_current b key)) ks)
      = filter (\<lambda>key. has_prefix key prefix) (filter (\<lambda>key. bucket_current b key \<noteq> None) ks)" for ks
    by (induction ks) (auto simp: List.map_filter_simps key split: option.splits)
  then show ?thesis
    by (simp add: list_all_objects_def bucket_Keys_def bucket_sortedKeys_def sorted_keys_def filter_sort)
qed

subsection \<open>Properties\<close>

abbreviation got_version :: "(get_options \<Rightarrow> get_options) list \<Rightarrow> string" where
  "got_version opts \<equiv> go_VersionID (resolve \<lparr>go_Range = zero_range, go_VersionID = ''''\<rparr> opts)"

text \<open>C13. Whatever was done to a bucket before, a write of \<open>content\<close> succeeds and is what is read back: the
  whole of it without options and under the identifier the write returned, the part asked for with a range,
  and its description with the entity tag and identifier the write returned. Every read of another key, and
  every read of an older version of the same key by its identifier, answers as it did before.\<close>

theorem Bucket_Put_read_back:
  assumes "Bucket_Put now key (Inr content) opts (bucket_run name ops) = (res, b')"
  shows "\<exists>r info. res = Inr r
    \<and> Bucket_Get b' key [] = Done (Inr \<lparr>ob_Body = content, ob_Info = info, ob_ContentLength = int (length content)\<rparr>)
    \<and> Bucket_Get b' key [version_of (pr_VersionID r)] = Bucket_Get b' key []
    \<and> Bucket_Info b' key [] = Inr info \<and> Bucket_Exists b' key [] \<and> bucket_Contents b' key = Some content
    \<and> oi_Key info = key \<and> oi_Size info = int (length content) \<and> oi_ETag info = pr_ETag r
    \<and> oi_VersionID info = pr_VersionID r
    \<and> (\<forall>start len. 0 \<le> start \<longrightarrow> 0 < len \<longrightarrow> int (length content) + len < 2 ^ 63 \<longrightarrow>
         (let part = take (nat len) (drop (nat start) content) in
          Bucket_Get b' key [part_of \<lparr>rn_Start = start, rn_Length = len\<rparr>]
            = Done (Inr \<lparr>ob_Body = part, ob_Info = info, ob_ContentLength = int (length part)\<rparr>)))
    \<and> (\<forall>key' opts'. key' \<noteq> key \<or> got_version opts' \<notin> {'''', pr_VersionID r} \<longrightarrow>
         Bucket_Get b' key' opts' = Bucket_Get (bucket_run name ops) key' opts')"
proof -
  let ?b = "bucket_run name ops"
  have ok: "bucket_ok ?b" by (rule bucket_ok_run)
  have ok': "bucket_ok b'" using bucket_ok_Put [OF ok] assms by (metis snd_conv)
  from assms obtain r where r: "Bucket_Put now key (Inr content) opts ?b = (Inr r, b')" "res = Inr r"
    by (auto simp: Bucket_Put_def Let_def)
  note adds = Bucket_Put_adds [OF r(1)]
  define x where "x = last (objects_at b' key)"
  have objs: "objects_at b' key = objects_at ?b key @ [x]" and x: "so_body x = content" "\<not> so_marker x"
      "so_id x = pr_VersionID r" "oi_ETag (so_info x) = pr_ETag r" "oi_Key (so_info x) = key"
      "oi_Size (so_info x) = int (length content)"
    using adds(1) [of key] adds(3) by (simp_all add: x_def)
  have newest: "bucket_find b' key '''' = Some x"
    by (simp add: bucket_find_def objs)
  have named: "bucket_find b' key (pr_VersionID r) = Some x"
    using bucket_version_self [OF ok', of x key] objs x(3) adds(2) by (simp add: bucket_find_def)
  have current: "bucket_current b' key = Some x"
    using x(2) by (simp add: bucket_current_def objs)
  have same: "Bucket_Get b' key' opts' = Bucket_Get ?b key' opts'"
    if "key' \<noteq> key \<or> got_version opts' \<notin> {'''', pr_VersionID r}" for key' opts'
  proof (rule Bucket_Get_cong)
    show "bucket_find b' key' (got_version opts') = bucket_find ?b key' (got_version opts')"
      using that bucket_find_cong [of b' key' ?b] adds(1) [of key'] bucket_find_other [OF objs, of "got_version opts'"] x(3)
      by (cases "key' = key") auto
  qed (rule adds(4))
  show ?thesis
    using r(2) x newest named current same
    by (intro exI [of _ r] exI [of _ "so_info x"])
      (simp add: Bucket_Get_def Bucket_Info_def Bucket_Exists_def bucket_Contents_def applyRange_part Let_def)
qed

theorem Bucket_Put_read_back_witness:
  "\<exists>info. Bucket_Get (snd (Bucket_Put 7 ''a.txt'' (Inr (bytes_of ''hello'')) [] (bucket_run ''uploads'' []))) ''a.txt''
       [part_of \<lparr>rn_Start = 1, rn_Length = 3\<rparr>]
     = Done (Inr \<lparr>ob_Body = bytes_of ''ell'', ob_Info = info, ob_ContentLength = 3\<rparr>)"
proof -
  from Bucket_Put_read_back [of 7 "''a.txt''" "bytes_of ''hello''" "[]" "''uploads''" "[]", OF prod.collapse [symmetric]]
  obtain info where "\<forall>start len. 0 \<le> start \<longrightarrow> 0 < len \<longrightarrow> int (length (bytes_of ''hello'')) + len < 2 ^ 63 \<longrightarrow>
       (let part = take (nat len) (drop (nat start) (bytes_of ''hello'')) in
        Bucket_Get (snd (Bucket_Put 7 ''a.txt'' (Inr (bytes_of ''hello'')) [] (bucket_run ''uploads'' []))) ''a.txt''
            [part_of \<lparr>rn_Start = start, rn_Length = len\<rparr>]
          = Done (Inr \<lparr>ob_Body = part, ob_Info = info, ob_ContentLength = int (length part)\<rparr>))" by blast
  from this [rule_format, of 1 3] show ?thesis
    by (intro exI [of _ info]) (simp add: bytes_of_def Let_def)
qed

text \<open>After any operations, every version a bucket holds is filed under its own key and found by its own
  identifier; no two versions anywhere in the bucket share an identifier; and the identifier of the
  next write is one that none of them has.\<close>

theorem bucket_version_ids:
  "(object \<in> set (objects_at (bucket_run name ops) key) \<longrightarrow>
      oi_Key (so_info object) = key \<and> bucket_find (bucket_run name ops) key (so_id object) = Some object)
   \<and> (object \<in> set (objects_at (bucket_run name ops) key)
        \<and> other \<in> set (objects_at (bucket_run name ops) key') \<and> so_id object = so_id other \<longrightarrow>
      key = key' \<and> object = other)
   \<and> (fst (Bucket_Put now newkey (Inr content) opts (bucket_run name ops)) = Inr r
        \<and> object \<in> set (objects_at (bucket_run name ops) key) \<longrightarrow> so_id object \<noteq> pr_VersionID r)"
proof (intro conjI impI)
  have ok: "bucket_ok (bucket_run name ops)" by (rule bucket_ok_run)
  {
    assume "object \<in> set (objects_at (bucket_run name ops) key)"
    with ok bucket_okD(4,5) [OF ok this] bucket_version_self [OF ok this]
    show "oi_Key (so_info object) = key" and "bucket_find (bucket_run name ops) key (so_id object) = Some object"
      by (simp_all add: bucket_find_def issued_not_Nil)
  next
    assume a: "object \<in> set (objects_at (bucket_run name ops) key)
        \<and> other \<in> set (objects_at (bucket_run name ops) key') \<and> so_id object = so_id other"
    then show "object = other" using bucket_okD(6) [OF ok] by blast
    then show "key = key'" using a bucket_okD(4) [OF ok] by metis
  next
    assume "fst (Bucket_Put now newkey (Inr content) opts (bucket_run name ops)) = Inr r
        \<and> object \<in> set (objects_at (bucket_run name ops) key)"
    then show "so_id object \<noteq> pr_VersionID r"
      using fresh_version [OF ok] by (auto simp: Bucket_Put_def Let_def)
  }
qed

theorem bucket_version_ids_witness:
  "let b = bucket_run ''uploads'' [Do_Put 1 ''a'' (Inr [65]) [], Do_Delete 2 ''a'' [], Do_Put 3 ''a'' (Inr [66]) []] in
   map so_id (objects_at b ''a'') = [''v1'', ''v2'', ''v3'']
   \<and> bucket_find b ''a'' (so_id (objects_at b ''a'' ! 1)) = Some (objects_at b ''a'' ! 1)"
proof -
  define b where "b = bucket_run ''uploads'' [Do_Put 1 ''a'' (Inr [65]) [], Do_Delete 2 ''a'' [], Do_Put 3 ''a'' (Inr [66]) []]"
  have ids: "map so_id (objects_at b ''a'') = [''v1'', ''v2'', ''v3'']"
    by (simp add: b_def bucket_run_def NewBucket_def Bucket_Put_def Bucket_Delete_def bucket_delete_def bucket_current_def
        objects_at_def version_name_def itoa_def dec_nat.simps digit_char_def Let_def, code_simp)
  then have "length (objects_at b ''a'') = 3" by (metis length_map length_Cons list.size(3) numeral_3_eq_3)
  then have "objects_at b ''a'' ! 1 \<in> set (objects_at b ''a'')" by simp
  with bucket_version_ids [of "objects_at b ''a'' ! 1" "''uploads''"
      "[Do_Put 1 ''a'' (Inr [65]) [], Do_Delete 2 ''a'' [], Do_Put 3 ''a'' (Inr [66]) []]" "''a''"] ids
  show ?thesis by (simp add: b_def [symmetric] Let_def)
qed

text \<open>Deleting a key that holds an object hides it and keeps what it held: reading it reports that it is
  absent, with \<^verbatim>\<open>ErrNotFound\<close> in the error's chain, while every version is still read by its identifier.
  Deleting it again changes nothing, and deleting the marker by its identifier brings every key back to
  what it was.\<close>

theorem Bucket_Delete_hides:
  assumes "bucket_current (bucket_run name ops) key = Some object"
    and "b' = Bucket_Delete now key [] (bucket_run name ops)"
  shows "Bucket_Get b' key [] = Done (Inl (bucket_absent b' key)) \<and> ErrNotFound \<in> set (err_chain (bucket_absent b' key))
    \<and> \<not> Bucket_Exists b' key [] \<and> bucket_Contents b' key = None
    \<and> (\<forall>x \<in> set (objects_at (bucket_run name ops) key).
         Bucket_Get b' key [version_of (so_id x)] = Bucket_Get (bucket_run name ops) key [version_of (so_id x)])
    \<and> Bucket_Delete now' key [] b' = b'
    \<and> (\<forall>k. objects_at (Bucket_Delete now' key [\<lambda>o'. o'\<lparr>do_VersionID := version_name (bk_versions b')\<rparr>] b') k
           = objects_at (bucket_run name ops) k)"
proof -
  let ?b = "bucket_run name ops"
  have ok: "bucket_ok ?b" by (rule bucket_ok_run)
  define m where "m = last (objects_at b' key)"
  have v: "bk_versions b' = bk_versions ?b + 1" and n: "bk_name b' = bk_name ?b"
    and objs: "objects_at b' key = objects_at ?b key @ [m]" and others: "\<And>k. k \<noteq> key \<Longrightarrow> objects_at b' k = objects_at ?b k"
    and m: "so_marker m" "so_id m = version_name (bk_versions b')"
    using assms by (simp_all add: m_def Bucket_Delete_def bucket_delete_def Let_def)
  have newest: "bucket_find b' key '''' = Some m" and cur: "bucket_current b' key = None"
    using m(1) by (simp_all add: bucket_find_def bucket_current_def objs)
  have old: "so_id x \<noteq> so_id m" "so_id x \<noteq> ''''" if "x \<in> set (objects_at ?b key)" for x
    using fresh_version [OF ok that] bucket_okD(5) [OF ok that] m(2) v by (simp_all add: issued_not_Nil)
  have "Bucket_Get b' key [version_of (so_id x)] = Bucket_Get ?b key [version_of (so_id x)]"
    if "x \<in> set (objects_at ?b key)" for x
    using bucket_find_other [OF objs, of "so_id x"] old [OF that] n by (intro Bucket_Get_cong) simp_all
  moreover have "filter (\<lambda>x. so_id x \<noteq> version_name (bk_versions b')) (objects_at b' key) = objects_at ?b key"
    using old m(2) by (simp add: objs)
  ultimately show ?thesis
    using newest cur m others
    by (simp add: Bucket_Get_def Bucket_Exists_def bucket_Contents_def Bucket_Delete_def bucket_delete_def bucket_absent_def
        ErrNotFound_def Let_def)
qed

theorem Bucket_Delete_hides_witness:
  "let b = bucket_run ''uploads'' [Do_Put 1 ''a'' (Inr [65]) []]; b' = Bucket_Delete 2 ''a'' [] b in
   bucket_current b ''a'' \<noteq> None \<and> bucket_Contents b' ''a'' = None"
proof -
  let ?b = "bucket_run ''uploads'' [Do_Put 1 ''a'' (Inr [65]) []]"
  have "bucket_current ?b ''a'' \<noteq> None"
    by (simp add: bucket_run_def NewBucket_def Bucket_Put_def bucket_current_def objects_at_def Let_def)
  then obtain x where "bucket_current ?b ''a'' = Some x" by blast
  from Bucket_Delete_hides [OF this refl, of 2] this show ?thesis by (simp add: Let_def)
qed

text \<open>C14. Reading a listing page by page ends. For any limit up to 2 to the 62nd, and wherever the loop's body stops, the body
  has been given exactly the objects of the whole listing, in order and each once, up to where it stopped;
  the same holds of versions. The listing itself is of the keys under the prefix that hold an object, in the
  order of the keys.\<close>

theorem Objects_reads_everything:
  assumes "lo_Cursor (listOptions opts) = ''''"
    and "int (length (list_all_versions (bucket_run name ops) prefix)) < 2 ^ 62"
    and "int (length (list_all_objects (bucket_run name ops) prefix)) < 2 ^ 62" and "lo_Limit (listOptions opts) \<le> 2 ^ 62"
  shows "(\<exists>opts'. Objects (Bucket_List (bucket_run name ops)) prefix yield opts c
        = Some (Done (snd (yield_page yield (list_all_objects (bucket_run name ops) prefix) c), opts')))
    \<and> (\<exists>opts'. AllVersions (Bucket_Versions (bucket_run name ops)) prefix yield' opts c
        = Some (Done (snd (yield_page yield' (list_all_versions (bucket_run name ops) prefix) c), opts')))
    \<and> map oi_Key (list_all_objects (bucket_run name ops) prefix)
        = filter (\<lambda>key. has_prefix key prefix) (bucket_Keys (bucket_run name ops))"
proof (intro conjI)
  let ?b = "bucket_run name ops"
  have o: "list_positioned (list_all_objects ?b prefix) opts 0"
    using assms by (simp add: list_positioned_def)
  show "\<exists>opts'. Objects (Bucket_List ?b) prefix yield opts c
        = Some (Done (snd (yield_page yield (list_all_objects ?b prefix) c), opts'))"
    unfolding Objects_def using objects.reads_to_end [OF o] by simp
  have v: "list_positioned (list_all_versions ?b prefix) opts 0"
    using assms by (simp add: list_positioned_def)
  show "\<exists>opts'. AllVersions (Bucket_Versions ?b) prefix yield' opts c
        = Some (Done (snd (yield_page yield' (list_all_versions ?b prefix) c), opts'))"
    unfolding AllVersions_def using versions.reads_to_end [OF v] by simp
  show "map oi_Key (list_all_objects ?b prefix) = filter (\<lambda>key. has_prefix key prefix) (bucket_Keys ?b)"
    by (rule list_all_objects_keys) (rule bucket_ok_run)
qed

abbreviation limited :: "int \<Rightarrow> list_option" where
  "limited n options \<equiv> options\<lparr>lo_Limit := n\<rparr>"

abbreviation three_objects :: bucket where
  "three_objects \<equiv> bucket_run ''uploads''
     [Do_Put 1 ''b'' (Inr [66]) [], Do_Put 2 ''a'' (Inr [65]) [], Do_Put 3 ''c'' (Inr [67]) []]"

lemma three_objects_listed:
  "length (list_all_versions three_objects '''') = 3" "length (list_all_objects three_objects '''') = 3"
  by (simp_all add: bucket_run_def NewBucket_def Bucket_Put_def list_all_versions_def list_all_objects_def bucket_current_def
      bucket_sortedKeys_def sorted_keys_def objects_at_def List.map_filter_simps Let_def)

theorem Objects_reads_everything_witness:
  "\<exists>opts'. Objects (Bucket_List three_objects) '''' gather [limited 2] ([], None)
     = Some (Done ((list_all_objects three_objects '''', None), opts')) \<and> length (list_all_objects three_objects '''') = 3"
  using Objects_reads_everything [of "[limited 2]" "''uploads''"
      "[Do_Put 1 ''b'' (Inr [66]) [], Do_Put 2 ''a'' (Inr [65]) [], Do_Put 3 ''c'' (Inr [67]) []]" "''''" gather
      "([], None)" "\<lambda>x e c. (True, c)"] three_objects_listed
  by (auto simp: listOptions_def zero_list_options_def)

text \<open>The sequence \<open>Objects\<close> returns is not restartable: the loop keeps its position in the options it
  captured. Ranging over one sequence twice gives the whole listing the first time and only the last page
  the second time, whenever the listing has more than one page.\<close>

theorem Objects_second_range:
  assumes "lo_Cursor (listOptions opts) = ''''" and "0 < lo_Limit (listOptions opts)"
    and "lo_Limit (listOptions opts) < int (length (list_all_objects (bucket_run name ops) prefix))"
    and "int (length (list_all_objects (bucket_run name ops) prefix)) < 2 ^ 62"
  shows "\<exists>opts' missed. Objects (Bucket_List (bucket_run name ops)) prefix gather opts ([], None)
        = Some (Done ((list_all_objects (bucket_run name ops) prefix, None), opts'))
    \<and> 0 < missed
    \<and> (\<exists>opts''. Objects (Bucket_List (bucket_run name ops)) prefix gather opts' ([], None)
        = Some (Done ((drop missed (list_all_objects (bucket_run name ops) prefix), None), opts'')))"
proof -
  let ?b = "bucket_run name ops" and ?all = "list_all_objects (bucket_run name ops) prefix"
  have pos: "list_positioned ?all opts 0"
    using assms by (simp add: list_positioned_def)
  obtain opts' m where first: "Objects (Bucket_List ?b) prefix gather opts ([], None) = Some (Done ((?all, None), opts'))"
    and m: "list_positioned ?all opts' m"
      "Bucket_List ?b prefix opts = Done (Inr (?all, '''')) \<or> 0 < m"
    using objects.gathers_all [OF pos, where xs = "[]" and e = None and zero = zero_object_info]
    by (auto simp: Objects_def)
  have "wrap64 (lo_Limit (listOptions opts)) = lo_Limit (listOptions opts)"
    using assms by (intro wrap64_id) auto
  then have "Bucket_List ?b prefix opts \<noteq> Done (Inr (?all, ''''))"
    using assms by (auto simp: Bucket_List_def paginate_def page_end_def Let_def)
  with m(2) have "0 < m" by blast
  moreover have "\<exists>opts''. Objects (Bucket_List ?b) prefix gather opts' ([], None) = Some (Done ((drop m ?all, None), opts''))"
    using objects.reads_to_end [OF m(1), of zero_object_info gather "([], None)"] by (simp add: Objects_def)
  ultimately show ?thesis using first by blast
qed

theorem Objects_second_range_witness:
  "\<exists>opts' missed opts''. 0 < missed
     \<and> Objects (Bucket_List three_objects) '''' gather [limited 2] ([], None)
         = Some (Done ((list_all_objects three_objects '''', None), opts'))
     \<and> Objects (Bucket_List three_objects) '''' gather opts' ([], None)
         = Some (Done ((drop missed (list_all_objects three_objects ''''), None), opts''))"
  using Objects_second_range [of "[limited 2]" "''uploads''"
      "[Do_Put 1 ''b'' (Inr [66]) [], Do_Put 2 ''a'' (Inr [65]) [], Do_Put 3 ''c'' (Inr [67]) []]" "''''"] three_objects_listed
  by (fastforce simp: listOptions_def zero_list_options_def)

end
