(* ===== verification/Redis_Slots.thy ===== *)
theory Redis_Slots
  imports Strconv
begin

unbundle bit_operations_syntax

text \<open>
  How the keys of a cache are laid out over the shards of a cluster: \<^verbatim>\<open>src/resources/redis/slots.go\<close>. The checksum is
  computed at 16 bits as the code computes it, and compared with long division of polynomials over
  the field of two elements, which is how the cluster specification defines it.
\<close>

subsection \<open>The checksum\<close>

definition crc_shift :: "16 word \<Rightarrow> 16 word" where
  "crc_shift crc = (if crc AND 0x8000 \<noteq> 0 then push_bit 1 crc XOR 0x1021 else push_bit 1 crc)"

definition crc_byte :: "byte \<Rightarrow> 16 word \<Rightarrow> 16 word" where
  "crc_byte b crc = (crc_shift ^^ 8) (crc XOR push_bit 8 (ucast b))"

definition crc16 :: "byte list \<Rightarrow> 16 word" where
  "crc16 data = fold crc_byte data 0"

subsection \<open>Slots\<close>

text \<open>\<^verbatim>\<open>strings.Index\<close> of a single byte, \<open>None\<close> for \<^verbatim>\<open>-1\<close>.\<close>

fun index_of :: "char \<Rightarrow> string \<Rightarrow> nat option" where
  "index_of c [] = None"
| "index_of c (d # s) = (if d = c then Some 0 else map_option Suc (index_of c s))"

definition hashTag :: "string \<Rightarrow> string" where
  "hashTag key =
     (case index_of CHR 0x7B key of
        None \<Rightarrow> key
      | Some start \<Rightarrow>
          (case index_of CHR 0x7D (drop (start + 1) key) of
             None \<Rightarrow> key
           | Some e \<Rightarrow> if e \<le> 0 then key else take e (drop (start + 1) key)))"

definition hashSlots :: "16 word" where
  "hashSlots = 16384"

definition slotOf :: "string \<Rightarrow> 16 word" where
  "slotOf key = crc16 (bytes_of (hashTag key)) mod hashSlots"

text \<open>What the functions below read of a cache: whether it is sharded, how it is named in an error, and the
  prefix its keys are sent under.\<close>

record conn =
  cn_ref :: string
  cn_keyPrefix :: string
  cn_clustered :: bool

definition cache_key :: "conn \<Rightarrow> string \<Rightarrow> string" where
  "cache_key c name = cn_keyPrefix c @ name"

definition cache_names :: "conn \<Rightarrow> string list \<Rightarrow> string list" where
  "cache_names c keys = map (cache_key c) keys"

text \<open>\<^verbatim>\<open>strings.TrimPrefix\<close>.\<close>

definition cache_strip :: "conn \<Rightarrow> string \<Rightarrow> string" where
  "cache_strip c key = (if has_prefix key (cn_keyPrefix c) then drop (length (cn_keyPrefix c)) key else key)"

definition ErrCrossSlot :: gerr where
  "ErrCrossSlot = Errorf ''celerity: keys are not on one shard'' None"

definition cross_slot :: "conn \<Rightarrow> string \<Rightarrow> string \<Rightarrow> string \<Rightarrow> gerr" where
  "cross_slot c doing first key =
     Errorf (''celerity: '' @ doing @ '' in '' @ cn_ref c @ '' needs '' @ go_quote (cache_strip c first) @ '' and ''
       @ go_quote (cache_strip c key) @ '' on one shard, and they are on '' @ itoa (uint (slotOf first)) @ '' and ''
       @ itoa (uint (slotOf key)) @ '': put them in one with a hash tag, {tag}: '' @ error_text ErrCrossSlot)
       (Some ErrCrossSlot)"

definition sameSlot :: "conn \<Rightarrow> string \<Rightarrow> string list \<Rightarrow> gerr option" where
  "sameSlot c doing keys =
     (if \<not> cn_clustered c \<or> length keys \<le> 1 then None
      else
        (let first = keys ! 0 in
         case find (\<lambda>key. slotOf key \<noteq> slotOf first) (drop 1 keys) of
           None \<Rightarrow> None
         | Some key \<Rightarrow> Some (cross_slot c doing first key)))"

text \<open>The loop of \<^verbatim>\<open>bySlot\<close>: the slots in the order they are first seen, and the keys of each.\<close>

fun slot_loop :: "string list \<Rightarrow> 16 word list \<Rightarrow> (16 word, string list) gomap \<Rightarrow> 16 word list \<times> (16 word, string list) gomap" where
  "slot_loop [] order groups = (order, groups)"
| "slot_loop (key # keys) order groups =
     (let slot = slotOf key;
          held = gm_get groups slot;
          order = (if held = None then order @ [slot] else order);
          groups = gm_put slot ((case held of None \<Rightarrow> [] | Some ks \<Rightarrow> ks) @ [key]) groups
      in slot_loop keys order groups)"

definition bySlot :: "conn \<Rightarrow> string list \<Rightarrow> string list list" where
  "bySlot c keys =
     (if \<not> cn_clustered c \<or> length keys \<le> 1 then [keys]
      else
        (let (order, groups) = slot_loop keys [] []
         in map (\<lambda>slot. case gm_get groups slot of None \<Rightarrow> [] | Some ks \<Rightarrow> ks) order))"

subsection \<open>Lemmas: the checksum\<close>

text \<open>Long division: one bit of the dividend is shifted in at a time, and the divisor
  \<open>x\<^sup>1\<^sup>6 + x\<^sup>1\<^sup>2 + x\<^sup>5 + 1\<close> is subtracted when the leading coefficient comes out. \<open>0x1021\<close> is the divisor without it.\<close>

definition div_step :: "bool \<Rightarrow> 16 word \<Rightarrow> 16 word" where
  "div_step b r = (if bit r 15 then push_bit 1 r XOR 0x1021 else push_bit 1 r) XOR (if b then 1 else 0)"

definition poly_rem :: "bool list \<Rightarrow> 16 word" where
  "poly_rem bits = fold div_step bits 0"

definition byte_bits :: "byte \<Rightarrow> bool list" where
  "byte_bits b = map (bit b) (rev [0..<8])"

definition message_bits :: "byte list \<Rightarrow> bool list" where
  "message_bits data = concat (map byte_bits data)"

lemma and_top_bit: "(crc :: 16 word) AND 0x8000 \<noteq> 0 \<longleftrightarrow> bit crc 15"
proof -
  have "(0x8000 :: 16 word) = push_bit 15 1" by simp
  then show ?thesis
    by (metis and_exp_eq_0_iff_not_bit push_bit_of_1)
qed

lemma crc_shift_div: "crc_shift r = div_step False r"
  by (simp add: crc_shift_def div_step_def and_top_bit)

lemma div_step_xor: "div_step (b \<noteq> c) (r XOR s) = div_step b r XOR div_step c s"
  by (rule bit_eqI)
    (auto simp: div_step_def bit_xor_iff bit_push_bit_iff bit_1_iff split: if_splits)

lemma div_step_split: "div_step b r = crc_shift r XOR (if b then 1 else 0)"
  by (simp add: crc_shift_def div_step_def and_top_bit)

lemma crc_shift_xor: "crc_shift (r XOR s) = crc_shift r XOR crc_shift s"
  using div_step_xor [of False False r s] by (simp add: crc_shift_div)

lemma crc_shifts_xor: "(crc_shift ^^ n) (r XOR s) = (crc_shift ^^ n) r XOR (crc_shift ^^ n) s"
  by (induction n) (simp_all add: crc_shift_xor)

lemma fold_div_step:
  "fold div_step bits r = (crc_shift ^^ length bits) r XOR fold div_step bits 0"
proof (induction bits rule: rev_induct)
  case Nil
  then show ?case by simp
next
  case (snoc b bits)
  have "fold div_step (bits @ [b]) r = crc_shift ((crc_shift ^^ length bits) r XOR fold div_step bits 0) XOR (if b then 1 else 0)"
    by (simp add: snoc div_step_split [of b])
  then show ?case
    by (simp add: crc_shift_xor div_step_split [of b "fold div_step bits 0"] xor.assoc)
qed

lemma crc_shift_byte:
  assumes "n \<le> 8"
  shows "(crc_shift ^^ n) (ucast (b :: byte)) = push_bit n (ucast b)"
  using assms
proof (induction n)
  case 0
  then show ?case by simp
next
  case (Suc n)
  then have "\<not> bit b (15 - n)"
    using bit_imp_le_length [of b "15 - n"] by auto
  then have "\<not> bit (push_bit n (ucast b :: 16 word)) 15"
    by (simp add: bit_push_bit_iff bit_ucast_iff)
  with Suc show ?case
    by (simp add: crc_shift_div div_step_def push_bit_push_bit)
qed

lemma bit_shift_in:
  "bit (push_bit 1 (x :: 16 word) XOR (if c then 1 else 0)) n \<longleftrightarrow> (if n = 0 then c else n < 16 \<and> bit x (n - 1))"
  by (auto simp: bit_xor_iff bit_push_bit_iff bit_1_iff simp del: push_bit_Suc)

lemma div_step_bit:
  assumes "j < 8"
  shows "div_step (bit (b :: byte) j) (drop_bit (Suc j) (ucast b)) = drop_bit j (ucast b)"
proof -
  have "\<not> bit b (15 + Suc j)"
    using bit_imp_le_length [of b "15 + Suc j"] by auto
  then have top: "\<not> bit (drop_bit (Suc j) (ucast b :: 16 word)) 15"
    by (simp add: bit_drop_bit_eq bit_ucast_iff)
  have wide: "bit (ucast b :: 16 word) n \<longleftrightarrow> bit b n" for n
    using bit_imp_le_length [of b n] by (auto simp: bit_ucast_iff)
  have "div_step (bit b j) (drop_bit (Suc j) (ucast b)) = push_bit 1 (drop_bit (Suc j) (ucast b :: 16 word)) XOR (if bit b j then 1 else 0)"
    unfolding div_step_def using top by (simp only: if_False)
  also have "\<dots> = drop_bit j (ucast b)"
  proof (rule bit_eqI)
    fix n assume "possible_bit TYPE(16 word) n"
    then show "bit (push_bit 1 (drop_bit (Suc j) (ucast b :: 16 word)) XOR (if bit b j then 1 else 0)) n
        = bit (drop_bit j (ucast b :: 16 word)) n"
      unfolding bit_shift_in by (cases n) (simp_all add: bit_drop_bit_eq wide)
  qed
  finally show ?thesis .
qed

lemma poly_rem_byte: "fold div_step (byte_bits b) 0 = ucast b"
proof -
  have "fold div_step (map (bit b) (rev [n..<8])) 0 = drop_bit n (ucast b)" if "n \<le> 8" for n
    using that
  proof (induction n rule: inc_induct)
    case base
    show ?case
      using bit_imp_le_length [of b] by (intro bit_eqI) (auto simp: bit_drop_bit_eq bit_ucast_iff)
  next
    case (step n)
    then show ?case by (simp add: upt_conv_Cons div_step_bit)
  qed
  from this [of 0] show ?thesis by (simp add: byte_bits_def)
qed

lemma length_byte_bits [simp]: "length (byte_bits b) = 8"
  by (simp add: byte_bits_def)

lemma fold_replicate_False: "fold div_step (replicate n False) r = (crc_shift ^^ n) r"
  by (induction n arbitrary: r) (simp_all add: crc_shift_div funpow_swap1)

text \<open>Appending 16 zero bits shifts the remainder 16 times, which is the checksum.\<close>

lemma crc16_shifts: "crc16 data = (crc_shift ^^ 16) (fold div_step (message_bits data) 0)"
proof (induction data rule: rev_induct)
  case Nil
  have "crc_shift 0 = 0" by (simp add: crc_shift_def)
  then have "(crc_shift ^^ n) 0 = 0" for n by (induction n) simp_all
  then show ?case by (simp add: crc16_def message_bits_def)
next
  case (snoc b data)
  let ?r = "fold div_step (message_bits data) 0"
  have "crc16 (data @ [b]) = (crc_shift ^^ 8) ((crc_shift ^^ 16) ?r XOR (crc_shift ^^ 8) (ucast b))"
    using snoc by (simp add: crc16_def crc_byte_def crc_shift_byte)
  also have "\<dots> = (crc_shift ^^ 16) ((crc_shift ^^ 8) ?r XOR ucast b)"
    by (simp add: crc_shifts_xor flip: funpow_add [THEN fun_cong, unfolded comp_def])
  also have "(crc_shift ^^ 8) ?r XOR ucast b = fold div_step (message_bits (data @ [b])) 0"
    by (simp add: message_bits_def fold_div_step [of "byte_bits b"] poly_rem_byte)
  finally show ?case .
qed

subsection \<open>Lemmas: slots\<close>

lemma index_of_append: "c \<notin> set p \<Longrightarrow> index_of c (p @ s) = map_option (\<lambda>i. length p + i) (index_of c s)"
  by (induction p) (cases "index_of c s"; auto)+

lemma index_of_None: "index_of c s = None \<longleftrightarrow> c \<notin> set s"
  by (induction s) auto

text \<open>The tag of a key is what is between its first brace and the next closing one.\<close>

lemma hashTag_tagged:
  assumes "CHR 0x7B \<notin> set p" and "CHR 0x7D \<notin> set tag" and "tag \<noteq> ''''"
  shows "hashTag (p @ [CHR 0x7B] @ tag @ [CHR 0x7D] @ s) = tag"
  using assms by (simp add: hashTag_def index_of_append)

lemma hashTag_untagged: "CHR 0x7B \<notin> set key \<Longrightarrow> hashTag key = key"
  using index_of_None [of "CHR 0x7B" key] by (simp add: hashTag_def)

lemma slotOf_bound: "slotOf key < 16384"
  unfolding slotOf_def hashSlots_def by (rule word_mod_less_divisor) simp

text \<open>The loop of \<^verbatim>\<open>bySlot\<close> after the keys \<open>seen\<close>.\<close>

definition slot_inv :: "string list \<Rightarrow> 16 word list \<Rightarrow> (16 word, string list) gomap \<Rightarrow> bool" where
  "slot_inv seen order groups \<longleftrightarrow> distinct order \<and> set order = slotOf ` set seen
     \<and> (\<forall>slot. gm_get groups slot = (if slot \<in> set order then Some (filter (\<lambda>k. slotOf k = slot) seen) else None))"

lemma slot_loop_inv:
  "slot_inv seen order groups \<Longrightarrow> slot_loop keys order groups = (order', groups') \<Longrightarrow> slot_inv (seen @ keys) order' groups'"
proof (induction keys order groups arbitrary: seen rule: slot_loop.induct)
  case (1 order groups)
  then show ?case by simp
next
  case (2 key keys order groups)
  let ?slot = "slotOf key"
  let ?held = "gm_get groups ?slot"
  let ?order = "if ?held = None then order @ [?slot] else order"
  let ?groups = "gm_put ?slot ((case ?held of None \<Rightarrow> [] | Some ks \<Rightarrow> ks) @ [key]) groups"
  note inv = "2.prems"(1) [unfolded slot_inv_def]
  have fresh: "?held = None \<longleftrightarrow> ?slot \<notin> set order"
    using inv by simp
  have old: "filter (\<lambda>k. slotOf k = ?slot) seen = (case ?held of None \<Rightarrow> [] | Some ks \<Rightarrow> ks)"
  proof (cases "?slot \<in> set order")
    case True
    with inv show ?thesis by simp
  next
    case False
    with conjunct1 [OF conjunct2 [OF inv]] have "\<forall>k \<in> set seen. slotOf k \<noteq> ?slot" by (metis imageI)
    with inv False show ?thesis by (simp add: filter_empty_conv)
  qed
  have "slot_inv (seen @ [key]) ?order ?groups"
    using "2.prems"(1) fresh old by (auto simp: slot_inv_def)
  moreover have "slot_loop keys ?order ?groups = (order', groups')"
    using "2.prems"(2) by (simp add: Let_def)
  ultimately show ?case
    using "2.IH" [of ?slot ?held ?order ?groups "seen @ [key]"] by simp
qed

text \<open>The groups, as a closed form: one for each slot, holding its keys in the order they were given.\<close>

lemma bySlot_form:
  assumes "cn_clustered c"
  shows "\<exists>order. distinct order \<and> set order = slotOf ` set keys \<and> (keys \<noteq> [] \<longrightarrow>
      bySlot c keys = map (\<lambda>slot. filter (\<lambda>k. slotOf k = slot) keys) order)"
proof (cases "length keys \<le> 1")
  case True
  then show ?thesis
    by (cases keys) (auto simp: bySlot_def intro!: exI [of _ "map slotOf keys"])
next
  case False
  obtain order groups where l: "slot_loop keys [] [] = (order, groups)" by force
  have "slot_inv [] [] []" by (simp add: slot_inv_def)
  from slot_loop_inv [OF this l] have inv: "slot_inv keys order groups" by simp
  then have "bySlot c keys = map (\<lambda>slot. filter (\<lambda>k. slotOf k = slot) keys) order"
    using assms False l by (auto simp: bySlot_def slot_inv_def)
  with inv show ?thesis by (auto simp: slot_inv_def)
qed

lemma mset_filter_classes:
  "distinct order \<Longrightarrow> f ` set keys \<subseteq> set order \<Longrightarrow> mset (concat (map (\<lambda>s. filter (\<lambda>k. f k = s) keys) order)) = mset keys"
proof (induction order arbitrary: keys)
  case Nil
  then show ?case by simp
next
  case (Cons s order)
  let ?rest = "filter (\<lambda>k. f k \<noteq> s) keys"
  have "map (\<lambda>t. filter (\<lambda>k. f k = t) keys) order = map (\<lambda>t. filter (\<lambda>k. f k = t) ?rest) order"
    using Cons.prems(1) by (auto intro!: filter_cong)
  then have "mset (concat (map (\<lambda>t. filter (\<lambda>k. f k = t) keys) order)) = mset ?rest"
    using Cons.IH [of ?rest] Cons.prems by (simp only:) auto
  then show ?case
    using multiset_partition [of "mset keys" "\<lambda>k. f k = s"] by simp
qed

lemma card_image_1_iff: "A \<noteq> {} \<Longrightarrow> card (f ` A) = 1 \<longleftrightarrow> (\<forall>x \<in> A. \<forall>y \<in> A. f x = f y)"
proof
  assume "card (f ` A) = 1"
  then obtain z where "f ` A = {z}" by (auto simp: card_1_singleton_iff)
  then show "\<forall>x \<in> A. \<forall>y \<in> A. f x = f y" by (metis imageI singletonD)
next
  assume "A \<noteq> {}" and same: "\<forall>x \<in> A. \<forall>y \<in> A. f x = f y"
  then obtain a where "a \<in> A" by blast
  with same have "f ` A = {f a}" by blast
  then show "card (f ` A) = 1" by simp
qed

lemma sameSlot_None_iff:
  assumes "cn_clustered c"
  shows "sameSlot c doing keys = None \<longleftrightarrow> (\<forall>k \<in> set keys. \<forall>k' \<in> set keys. slotOf k = slotOf k')"
proof (cases keys)
  case Nil
  then show ?thesis by (simp add: sameSlot_def)
next
  case (Cons k ks)
  have "sameSlot c doing keys = None \<longleftrightarrow> (\<forall>k' \<in> set ks. slotOf k' = slotOf k)"
    using assms Cons find_None_iff [of "\<lambda>key. slotOf key \<noteq> slotOf k" ks]
    by (cases ks) (auto simp: sameSlot_def Let_def split: option.splits)
  also have "\<dots> \<longleftrightarrow> (\<forall>x \<in> set keys. \<forall>y \<in> set keys. slotOf x = slotOf y)"
    unfolding Cons by (simp, metis)
  finally show ?thesis .
qed

lemma cache_strip_key [simp]: "cache_strip c (cache_key c name) = name"
  by (simp add: cache_strip_def cache_key_def)

lemma has_prefix_cache_key [simp]: "has_prefix (cache_key c name) (cn_keyPrefix c)"
  by (simp add: cache_key_def)

subsection \<open>Properties\<close>

text \<open>The check value the cluster specification prints.\<close>

lemma crc16_check: "crc16 (bytes_of ''123456789'') = 0x31C3"
  by code_simp

text \<open>C15. The checksum is the remainder of the polynomial the specification names: dividing the bits of the
  data, most significant first and followed by sixteen zeros, by \<open>x\<^sup>1\<^sup>6 + x\<^sup>1\<^sup>2 + x\<^sup>5 + 1\<close> over the field of two
  elements leaves exactly what the byte-wise loop computes.\<close>

theorem crc16_is_remainder:
  "crc16 data = poly_rem (message_bits data @ replicate 16 False)"
  unfolding poly_rem_def fold_append o_apply fold_replicate_False by (rule crc16_shifts)

text \<open>C16. On a cluster every slot is below 16384 and keys with the same hash tag are on one shard. A batch is
  split into groups of keys that are on one shard each, no two groups on the same one; each group holds
  all the keys of its shard in the order they were given, and nothing is lost or sent twice. Keys are
  refused as being on different shards exactly when they are.\<close>

theorem bySlot_groups:
  assumes "cn_clustered c" and "keys \<noteq> []"
  shows "(\<forall>k. slotOf k < 16384)
    \<and> (\<forall>p q tag s t. CHR 0x7B \<notin> set p \<and> CHR 0x7B \<notin> set q \<and> CHR 0x7D \<notin> set tag \<and> tag \<noteq> '''' \<longrightarrow>
         slotOf (p @ [CHR 0x7B] @ tag @ [CHR 0x7D] @ s) = slotOf (q @ [CHR 0x7B] @ tag @ [CHR 0x7D] @ t))
    \<and> mset (concat (bySlot c keys)) = mset keys
    \<and> distinct (map (slotOf \<circ> hd) (bySlot c keys))
    \<and> (\<forall>g \<in> set (bySlot c keys). g \<noteq> [] \<and> g = filter (\<lambda>k. slotOf k = slotOf (hd g)) keys \<and> sameSlot c doing g = None)
    \<and> (sameSlot c doing keys = None \<longleftrightarrow> length (bySlot c keys) = 1)"
proof -
  obtain order where order: "distinct order" "set order = slotOf ` set keys"
    and groups: "bySlot c keys = map (\<lambda>slot. filter (\<lambda>k. slotOf k = slot) keys) order"
    using bySlot_form [OF assms(1), of keys] assms(2) by blast
  have ne: "filter (\<lambda>k. slotOf k = slot) keys \<noteq> []" if "slot \<in> set order" for slot
    using that order(2) by (auto simp: filter_empty_conv)
  have hd: "slotOf (hd (filter (\<lambda>k. slotOf k = slot) keys)) = slot" if "slot \<in> set order" for slot
    using hd_in_set [OF ne [OF that]] by simp
  have one: "length order = 1 \<longleftrightarrow> (\<forall>k \<in> set keys. \<forall>k' \<in> set keys. slotOf k = slotOf k')"
    using card_image_1_iff [of "set keys" slotOf] assms(2) distinct_card [OF order(1)] order(2) by simp
  have tags: "slotOf (p @ [CHR 0x7B] @ tag @ [CHR 0x7D] @ s) = slotOf (q @ [CHR 0x7B] @ tag @ [CHR 0x7D] @ t)"
    if "CHR 0x7B \<notin> set p" "CHR 0x7B \<notin> set q" "CHR 0x7D \<notin> set tag" "tag \<noteq> []" for p q tag s t
    unfolding slotOf_def hashTag_tagged [OF that(1,3,4)] hashTag_tagged [OF that(2,3,4)] ..
  have "g \<noteq> [] \<and> g = filter (\<lambda>k. slotOf k = slotOf (hd g)) keys \<and> sameSlot c doing g = None"
    if "g \<in> set (bySlot c keys)" for g
  proof -
    from that obtain slot where slot: "slot \<in> set order" and g: "g = filter (\<lambda>k. slotOf k = slot) keys"
      by (auto simp: groups)
    from ne [OF slot] hd [OF slot] show ?thesis
      by (auto simp: g sameSlot_None_iff [OF assms(1)])
  qed
  moreover have "map (slotOf \<circ> hd) (bySlot c keys) = order"
    unfolding groups using hd by (simp add: map_idI)
  moreover have "mset (concat (bySlot c keys)) = mset keys"
    unfolding groups using order by (intro mset_filter_classes) auto
  moreover have "sameSlot c doing keys = None \<longleftrightarrow> length (bySlot c keys) = 1"
    unfolding sameSlot_None_iff [OF assms(1)] groups length_map one ..
  ultimately show ?thesis
    using slotOf_bound order(1) tags by blast
qed

theorem bySlot_groups_witness:
  "let c = \<lparr>cn_ref = ''cache'', cn_keyPrefix = '''', cn_clustered = True\<rparr> in
   mset (concat (bySlot c [''{u1}:name'', ''b'', ''{u1}:prefs''])) = mset [''{u1}:name'', ''b'', ''{u1}:prefs'']
   \<and> slotOf ''{u1}:name'' = slotOf ''{u1}:prefs''"
proof -
  let ?c = "\<lparr>cn_ref = ''cache'', cn_keyPrefix = '''', cn_clustered = True\<rparr>" and ?keys = "[''{u1}:name'', ''b'', ''{u1}:prefs'']"
  have "cn_clustered ?c" and "?keys \<noteq> []" by simp_all
  note groups = bySlot_groups [OF this]
  note tags = groups [THEN conjunct2, THEN conjunct1, rule_format, of "''''" "''''" "''u1''" "'':name''" "'':prefs''"]
  from groups tags show ?thesis by (simp add: Let_def)
qed

end
