(* ===== verification/Redis_Cache.thy ===== *)
theory Redis_Cache
  imports Redis_Slots
begin

text \<open>
  The cache client of \<^verbatim>\<open>src/resources/redis\<close>, the options of \<^verbatim>\<open>src/resources/cache\<close> and the readers of
  \<^verbatim>\<open>src/resources/fields.go\<close>: how a cache's settings are read, and every operation a handler may call.

  The server behind the go-redis client is a parameter: a function from a command and the server's state to a
  reply or an error. go-redis gives each command a typed reply; the readers of a reply below give the zero
  value where the reply has another type, which the client does not let happen. Floating point numbers are
  their bits and \<^verbatim>\<open>strconv.FormatFloat\<close> is a parameter. A context is not modelled.
\<close>

subsection \<open>Options\<close>

record set_options =
  st_TTL :: int
  st_OnlyIfAbsent :: bool
  st_OnlyIfPresent :: bool

definition Expires :: "int \<Rightarrow> set_options \<Rightarrow> set_options" where
  "Expires ttl options = options\<lparr>st_TTL := ttl\<rparr>"

definition IfNotExists :: "set_options \<Rightarrow> set_options" where
  "IfNotExists options = options\<lparr>st_OnlyIfAbsent := True\<rparr>"

definition IfExists :: "set_options \<Rightarrow> set_options" where
  "IfExists options = options\<lparr>st_OnlyIfPresent := True\<rparr>"

definition ResolveSetOptions :: "(set_options \<Rightarrow> set_options) list \<Rightarrow> set_options" where
  "ResolveSetOptions opts = fold (\<lambda>opt options. opt options) opts
     \<lparr>st_TTL = 0, st_OnlyIfAbsent = False, st_OnlyIfPresent = False\<rparr>"

record scan_options =
  sc_Match :: string
  sc_Count :: int
  sc_Type :: string

definition Matching :: "string \<Rightarrow> scan_options \<Rightarrow> scan_options" where
  "Matching pattern options = options\<lparr>sc_Match := pattern\<rparr>"

definition PerRoundTrip :: "int \<Rightarrow> scan_options \<Rightarrow> scan_options" where
  "PerRoundTrip n options = options\<lparr>sc_Count := n\<rparr>"

definition Holding :: "string \<Rightarrow> scan_options \<Rightarrow> scan_options" where
  "Holding k options = options\<lparr>sc_Type := k\<rparr>"

definition ResolveScanOptions :: "(scan_options \<Rightarrow> scan_options) list \<Rightarrow> scan_options" where
  "ResolveScanOptions opts = fold (\<lambda>opt options. opt options) opts \<lparr>sc_Match = '''', sc_Count = 0, sc_Type = ''''\<rparr>"

text \<open>An end of a list is a string, \<^verbatim>\<open>right\<close> or \<^verbatim>\<open>left\<close>, and an option sets it.\<close>

definition AtLeft :: "string \<Rightarrow> string" where
  "AtLeft e = ''left''"

definition AtRight :: "string \<Rightarrow> string" where
  "AtRight e = ''right''"

definition ResolveEndOptions :: "(string \<Rightarrow> string) list \<Rightarrow> string \<Rightarrow> string" where
  "ResolveEndOptions opts fallback =
     (let resolved = fold (\<lambda>opt e. opt e) opts fallback in if resolved = '''' then fallback else resolved)"

type_synonym float64 = "64 word"

record sorted_set_member =
  sm_Member :: string
  sm_Score :: float64

record score_range =
  sr_Min :: "float64 option"
  sr_Max :: "float64 option"

definition Scores :: "float64 \<Rightarrow> float64 \<Rightarrow> score_range" where
  "Scores low high = \<lparr>sr_Min = Some low, sr_Max = Some high\<rparr>"

definition ScoresFrom :: "float64 \<Rightarrow> score_range" where
  "ScoresFrom low = \<lparr>sr_Min = Some low, sr_Max = None\<rparr>"

definition ScoresUpTo :: "float64 \<Rightarrow> score_range" where
  "ScoresUpTo high = \<lparr>sr_Min = None, sr_Max = Some high\<rparr>"

definition AllScores :: score_range where
  "AllScores = \<lparr>sr_Min = None, sr_Max = None\<rparr>"

record range_options =
  ro_Descending :: bool
  ro_Offset :: int
  ro_Limit :: int

definition Descending :: "range_options \<Rightarrow> range_options" where
  "Descending options = options\<lparr>ro_Descending := True\<rparr>"

definition Page :: "int \<Rightarrow> int \<Rightarrow> range_options \<Rightarrow> range_options" where
  "Page offset limit options = options\<lparr>ro_Offset := offset, ro_Limit := limit\<rparr>"

definition ResolveRangeOptions :: "(range_options \<Rightarrow> range_options) list \<Rightarrow> range_options" where
  "ResolveRangeOptions opts = fold (\<lambda>opt options. opt options) opts \<lparr>ro_Descending = False, ro_Offset = 0, ro_Limit = 0\<rparr>"

subsection \<open>Reading what a deployment recorded\<close>

text \<open>\<^verbatim>\<open>Ref.Field\<close> is given as a function from a suffix to an error, or to the value where one is recorded. A
  function returning a value beside an error returns a pair here, since the value is used.\<close>

type_synonym field_reader = "string \<Rightarrow> gerr + string option"

definition Fields_Required :: "field_reader \<Rightarrow> string \<Rightarrow> string \<Rightarrow> string \<times> gerr option" where
  "Fields_Required field ref suffix =
     (case field suffix of
        Inl err \<Rightarrow> ('''', Some err)
      | Inr value \<Rightarrow>
          (if value = None \<or> value = Some '''' then
             ('''', Some (Errorf (''celerity: the deployment recorded no '' @ go_quote suffix @ '' for '' @ ref
                @ '', which is needed to reach it'') None))
           else (the value, None)))"

definition Fields_Optional :: "field_reader \<Rightarrow> string \<Rightarrow> string \<Rightarrow> string \<times> gerr option" where
  "Fields_Optional field suffix fallback =
     (case field suffix of
        Inl err \<Rightarrow> ('''', Some err)
      | Inr value \<Rightarrow> if value = None \<or> value = Some '''' then (fallback, None) else (the value, None))"

definition Fields_Number :: "field_reader \<Rightarrow> string \<Rightarrow> string \<Rightarrow> int \<Rightarrow> int \<times> gerr option" where
  "Fields_Number field ref suffix fallback =
     (case field suffix of
        Inl err \<Rightarrow> (fallback, Some err)
      | Inr value \<Rightarrow>
          (if value = None \<or> value = Some '''' then (fallback, None)
           else case ParseInt (the value) 64 of
             Inl _ \<Rightarrow> (0, Some (Errorf (''celerity: the '' @ go_quote suffix @ '' recorded for '' @ ref @ '' is ''
                @ go_quote (the value) @ '', which is not a whole number'') None))
           | Inr parsed \<Rightarrow> (parsed, None)))"

definition Fields_Boolean :: "field_reader \<Rightarrow> string \<Rightarrow> bool \<Rightarrow> bool \<times> gerr option" where
  "Fields_Boolean field suffix fallback =
     (case field suffix of
        Inl err \<Rightarrow> (fallback, Some err)
      | Inr value \<Rightarrow> if value = None \<or> value = Some '''' then (fallback, None) else (the value \<noteq> ''false'', None))"

text \<open>A \<^verbatim>\<open>Reader\<close> is its first failure: a read after one is skipped and answers zero.\<close>

definition reader_step :: "'a \<Rightarrow> 'a \<times> gerr option \<Rightarrow> gerr option \<Rightarrow> 'a \<times> gerr option" where
  "reader_step zero read err = (if err \<noteq> None then (zero, err) else read)"

definition AuthPassword :: string where
  "AuthPassword = ''password''"

definition AuthIAM :: string where
  "AuthIAM = ''iam''"

record recorded =
  rd_host :: string
  rd_port :: int
  rd_authMode :: string
  rd_tls :: bool
  rd_clustered :: bool
  rd_user :: string
  rd_keyPrefix :: string

definition recorded_encrypted :: "recorded \<Rightarrow> bool" where
  "recorded_encrypted r \<longleftrightarrow> rd_tls r \<or> rd_authMode r = AuthIAM"

definition cache_recorded :: "field_reader \<Rightarrow> string \<Rightarrow> gerr + recorded" where
  "cache_recorded field ref =
     (let (host, err) = reader_step '''' (Fields_Required field ref ''_host'') None;
          (port, err) = reader_step 0 (Fields_Number field ref ''_port'' 6379) err;
          (authMode, err) = reader_step '''' (Fields_Optional field ''_authMode'' AuthPassword) err;
          (tls, err) = reader_step False (Fields_Boolean field ''_tls'' True) err;
          (clustered, err) = reader_step False (Fields_Boolean field ''_clusterMode'' False) err;
          (user, err) = reader_step '''' (Fields_Optional field ''_user'' '''') err;
          (keyPrefix, err) = reader_step '''' (Fields_Optional field ''_keyPrefix'' '''') err
      in case err of
           Some e \<Rightarrow> Inl e
         | None \<Rightarrow> Inr \<lparr>rd_host = host, rd_port = port, rd_authMode = authMode, rd_tls = tls, rd_clustered = clustered,
             rd_user = user, rd_keyPrefix = keyPrefix\<rparr>)"

text \<open>How a platform supplies a password: \<open>'g\<close> is the function that signs one per connection.\<close>

record 'g credentials =
  cd_Secret :: "string \<Rightarrow> gerr + string"
  cd_SignedPassword :: "string \<Rightarrow> string \<Rightarrow> string \<Rightarrow> 'g option"

definition cache_signer :: "'g credentials option \<Rightarrow> field_reader \<Rightarrow> string \<Rightarrow> string \<Rightarrow> string \<Rightarrow> gerr + 'g" where
  "cache_signer creds field ref host user =
     (if user = '''' then
        Inl (Errorf (''celerity: '' @ ref @ '' is reached with IAM authentication, which signs a token for a ''
          @ ''particular user, and the deployment recorded no '' @ go_quote ''_user'') None)
      else
        (case Fields_Optional field ''_region'' '''' of
           (_, Some err) \<Rightarrow> Inl err
         | (region, None) \<Rightarrow>
             (case creds of
                None \<Rightarrow> Inl (Errorf (''celerity: '' @ ref @ '' is reached with the platform''
                  @ [CHR 0x27] @ ''s own identity, and this build links ''
                  @ ''no package that can sign for one: import the cache package for the platform ''
                  @ ''the blueprint deploys to'') None)
              | Some cd \<Rightarrow>
                  (case cd_SignedPassword cd host user region of
                     None \<Rightarrow> Inl (Errorf (''celerity: '' @ ref @ '' is reached with the platform''
                       @ [CHR 0x27] @ ''s own identity, and the platform this ''
                       @ ''build is for has no such scheme'') None)
                   | Some minted \<Rightarrow> Inr minted))))"

definition cache_password :: "'g credentials option \<Rightarrow> field_reader \<Rightarrow> string \<Rightarrow> gerr + string" where
  "cache_password creds field ref =
     (case Fields_Optional field ''_authToken'' '''' of
        (_, Some err) \<Rightarrow> Inl err
      | (literal, None) \<Rightarrow>
          (if literal \<noteq> '''' then Inr literal
           else
             (case Fields_Optional field ''_authTokenSecretId'' '''' of
                (_, Some err) \<Rightarrow> Inl err
              | (ident, None) \<Rightarrow>
                  (if ident = '''' then Inr ''''
                   else
                     (case creds of
                        None \<Rightarrow> Inl (Errorf (''celerity: the password for '' @ ref @ '' is held in the platform''
                          @ [CHR 0x27] @ ''s secret store, and this ''
                          @ ''build links no package that can read one'') None)
                      | Some cd \<Rightarrow> cd_Secret cd ident)))))"

text \<open>The password of a connection is a value, or signed anew for each.\<close>

datatype 'g cache_auth = Literal string | Signed 'g

record 'g universal_options =
  uo_Addr :: string
  uo_Username :: string
  uo_IsClusterMode :: bool
  uo_TLSServerName :: "string option"
  uo_Auth :: "'g cache_auth"

text \<open>\<^verbatim>\<open>net.JoinHostPort\<close>.\<close>

definition join_host_port :: "string \<Rightarrow> string \<Rightarrow> string" where
  "join_host_port host port = (if CHR '':'' \<in> set host then ''['' @ host @ '']:'' @ port else host @ '':'' @ port)"

definition cache_authenticate ::
    "'g credentials option \<Rightarrow> field_reader \<Rightarrow> string \<Rightarrow> recorded \<Rightarrow> gerr + 'g cache_auth" where
  "cache_authenticate creds field ref settings =
     (if rd_authMode settings \<noteq> AuthIAM then
        (case cache_password creds field ref of Inl err \<Rightarrow> Inl err | Inr token \<Rightarrow> Inr (Literal token))
      else
        (case cache_signer creds field ref (rd_host settings) (rd_user settings) of
           Inl err \<Rightarrow> Inl err
         | Inr minted \<Rightarrow> Inr (Signed minted)))"

definition cache_options :: "'g credentials option \<Rightarrow> field_reader \<Rightarrow> string \<Rightarrow> gerr + 'g universal_options \<times> string" where
  "cache_options creds field ref =
     (case cache_recorded field ref of
        Inl err \<Rightarrow> Inl err
      | Inr settings \<Rightarrow>
          (case cache_authenticate creds field ref settings of
             Inl err \<Rightarrow> Inl err
           | Inr auth \<Rightarrow>
               Inr (\<lparr>uo_Addr = join_host_port (rd_host settings) (itoa (rd_port settings)),
                     uo_Username = rd_user settings, uo_IsClusterMode = rd_clustered settings,
                     uo_TLSServerName = (if recorded_encrypted settings then Some (rd_host settings) else None),
                     uo_Auth = auth\<rparr>, rd_keyPrefix settings)))"

subsection \<open>Connecting\<close>

text \<open>\<open>'k\<close> is a go-redis client, which building one from options gives; instrumenting it may fail. What runs
  inside \<^verbatim>\<open>once.Do\<close> runs on the first call only.\<close>

record 'k redis_cache =
  ch_ref :: string
  ch_once :: bool
  ch_client :: "'k option"
  ch_keyPrefix :: string
  ch_clustered :: bool
  ch_connErr :: "gerr option"
  ch_opened :: "'k option"

definition redis_New :: "string \<Rightarrow> 'k redis_cache" where
  "redis_New ref = \<lparr>ch_ref = ref, ch_once = False, ch_client = None, ch_keyPrefix = '''', ch_clustered = False,
     ch_connErr = None, ch_opened = None\<rparr>"

fun instrument :: "('k \<Rightarrow> gerr option) list \<Rightarrow> 'k \<Rightarrow> gerr option" where
  "instrument [] client = None"
| "instrument (hook # hooks) client = (case hook client of Some err \<Rightarrow> Some err | None \<Rightarrow> instrument hooks client)"

definition Instrument :: "('k \<Rightarrow> gerr option) \<Rightarrow> ('k \<Rightarrow> gerr option) list \<Rightarrow> ('k \<Rightarrow> gerr option) list" where
  "Instrument hook instrumentation = instrumentation @ [hook]"

definition cache_connect ::
    "'g credentials option \<Rightarrow> field_reader \<Rightarrow> ('g universal_options \<Rightarrow> 'k) \<Rightarrow> ('k \<Rightarrow> gerr option) list
      \<Rightarrow> 'k redis_cache \<Rightarrow> ('k option \<times> gerr option) \<times> 'k redis_cache" where
  "cache_connect creds field new_client hooks c0 =
     (let c = (if ch_once c0 then c0
        else
          (case cache_options creds field (ch_ref c0) of
             Inl err \<Rightarrow> c0\<lparr>ch_once := True, ch_keyPrefix := '''', ch_connErr := Some err\<rparr>
           | Inr (options, prefix) \<Rightarrow>
               (let client = new_client options;
                    c = c0\<lparr>ch_once := True, ch_keyPrefix := prefix, ch_clustered := uo_IsClusterMode options,
                          ch_client := Some client\<rparr>
                in case instrument hooks client of
                     Some err \<Rightarrow> c\<lparr>ch_connErr := Some err\<rparr>
                   | None \<Rightarrow> c\<lparr>ch_connErr := None, ch_opened := Some client\<rparr>)))
      in ((ch_client c, ch_connErr c), c))"

text \<open>What an operation reads of a cache after \<^verbatim>\<open>connect\<close>: its error, or its prefix and shape.\<close>

definition connected :: "'k redis_cache \<Rightarrow> gerr + conn" where
  "connected c = (case ch_connErr c of
     Some err \<Rightarrow> Inl err
   | None \<Rightarrow> Inr \<lparr>cn_ref = ch_ref c, cn_keyPrefix = ch_keyPrefix c, cn_clustered = ch_clustered c\<rparr>)"

definition cache_Close :: "('k \<Rightarrow> gerr option) \<Rightarrow> 'k redis_cache \<Rightarrow> gerr option" where
  "cache_Close close c =
     (case ch_opened c of
        None \<Rightarrow> None
      | Some client \<Rightarrow>
          (case close client of
             None \<Rightarrow> None
           | Some err \<Rightarrow> Some (Errorf (''celerity: closing the connection to '' @ ch_ref c @ '': '' @ error_text err) (Some err))))"

record 'g connection =
  cx_Host :: string
  cx_Port :: int
  cx_TLS :: bool
  cx_ClusterMode :: bool
  cx_User :: string
  cx_AuthMode :: string
  cx_KeyPrefix :: string
  cx_Password :: "'g cache_auth"

definition cache_passwordFor ::
    "'g credentials option \<Rightarrow> field_reader \<Rightarrow> string \<Rightarrow> recorded \<Rightarrow> gerr + 'g cache_auth" where
  "cache_passwordFor creds field ref settings =
     (if rd_authMode settings \<noteq> AuthIAM then
        (case cache_password creds field ref of Inl err \<Rightarrow> Inl err | Inr token \<Rightarrow> Inr (Literal token))
      else
        (case cache_signer creds field ref (rd_host settings) (rd_user settings) of
           Inl err \<Rightarrow> Inl err
         | Inr minted \<Rightarrow> Inr (Signed minted)))"

definition cache_Connection :: "'g credentials option \<Rightarrow> field_reader \<Rightarrow> string \<Rightarrow> gerr + 'g connection" where
  "cache_Connection creds field ref =
     (case cache_recorded field ref of
        Inl err \<Rightarrow> Inl err
      | Inr settings \<Rightarrow>
          (case cache_passwordFor creds field ref settings of
             Inl err \<Rightarrow> Inl err
           | Inr password \<Rightarrow>
               Inr \<lparr>cx_Host = rd_host settings, cx_Port = rd_port settings, cx_TLS = recorded_encrypted settings,
                    cx_ClusterMode = rd_clustered settings, cx_User = rd_user settings, cx_AuthMode = rd_authMode settings,
                    cx_KeyPrefix = rd_keyPrefix settings, cx_Password = password\<rparr>))"

subsection \<open>Lemmas: settings\<close>

text \<open>A connection that signs its password is encrypted, whatever the deployment recorded about encryption,
  and a signed password and a recorded one are never mixed up.\<close>

lemma signed_is_encrypted:
  "cache_options creds field ref = Inr (options, prefix) \<Longrightarrow> uo_Auth options = Signed g \<Longrightarrow> uo_TLSServerName options \<noteq> None"
  by (auto simp: cache_options_def cache_authenticate_def recorded_encrypted_def split: sum.splits if_splits)

text \<open>The connection an application builds for itself is the one this package makes.\<close>

lemma Connection_agrees:
  "cache_Connection creds field ref = Inr cx \<Longrightarrow> cache_options creds field ref =
     Inr (\<lparr>uo_Addr = join_host_port (cx_Host cx) (itoa (cx_Port cx)), uo_Username = cx_User cx,
           uo_IsClusterMode = cx_ClusterMode cx, uo_TLSServerName = (if cx_TLS cx then Some (cx_Host cx) else None),
           uo_Auth = cx_Password cx\<rparr>, cx_KeyPrefix cx)"
  by (auto simp: cache_Connection_def cache_options_def cache_authenticate_def cache_passwordFor_def split: sum.splits if_splits)

lemma connect_once: "snd (cache_connect creds field nc hooks (snd (cache_connect creds' field' nc' hooks' c)))
    = snd (cache_connect creds' field' nc' hooks' c)"
  by (auto simp: cache_connect_def Let_def split: sum.splits option.splits)

end
