(* ===== verification/Redis_Ops.thy ===== *)
theory Redis_Ops
  imports Redis_Cache
begin

text \<open>
  Every operation of the cache: the files \<^verbatim>\<open>strings.go\<close>, \<^verbatim>\<open>keys.go\<close>, \<^verbatim>\<open>counters.go\<close>, \<^verbatim>\<open>hashes.go\<close>, \<^verbatim>\<open>lists.go\<close>, \<^verbatim>\<open>sets.go\<close>,
  \<^verbatim>\<open>sortedsets.go\<close> and \<^verbatim>\<open>transaction.go\<close> of \<^verbatim>\<open>src/resources/redis\<close>. An operation takes what \<^verbatim>\<open>connect\<close> answered, the server
  and the server's state.
\<close>

subsection \<open>Commands and replies\<close>

datatype (plugins only: code size) redis_cmd =
    Cmd_Get string | Cmd_SetArgs string string int string | Cmd_Del "string list" | Cmd_GetSet string string
  | Cmd_Append string string | Cmd_MGet "string list" | Cmd_MSet "(string \<times> string) list"
  | Cmd_Exists string | Cmd_TTL string | Cmd_Expire string int | Cmd_Persist string | Cmd_Type string
  | Cmd_Rename string string | Cmd_Scan nat string int | Cmd_ScanType nat string int string
  | Cmd_IncrBy string int | Cmd_DecrBy string int | Cmd_IncrByFloat string float64
  | Cmd_HGet string string | Cmd_HSet string "(string \<times> string) list" | Cmd_HDel string "string list"
  | Cmd_HGetAll string | Cmd_HExists string string | Cmd_HIncrBy string string int | Cmd_HKeys string | Cmd_HLen string
  | Cmd_RPush string "string list" | Cmd_LPush string "string list" | Cmd_LPopCount string int | Cmd_RPopCount string int
  | Cmd_LRange string int int | Cmd_LLen string | Cmd_LTrim string int int | Cmd_LIndex string int
  | Cmd_SAdd string "string list" | Cmd_SRem string "string list" | Cmd_SMembers string | Cmd_SIsMember string string
  | Cmd_SCard string | Cmd_SUnion "string list" | Cmd_SInter "string list" | Cmd_SDiff "string list"
  | Cmd_ZAdd string "(string \<times> float64) list" | Cmd_ZRem string "string list" | Cmd_ZScore string string
  | Cmd_ZRank string string | Cmd_ZRevRank string string | Cmd_ZRangeWithScores string int int
  | Cmd_ZRevRangeWithScores string int int | Cmd_ZRangeByScore string string string int int
  | Cmd_ZRevRangeByScore string string string int int | Cmd_ZIncrBy string float64 string | Cmd_ZCard string
  | Cmd_ZCount string string string | Cmd_ZRemRangeByRank string int int | Cmd_ZRemRangeByScore string string string

datatype redis_reply = RStr string | RInt int | RBool bool | RFloat float64 | RStrs "string list"
  | RMaybe "string option list" | RMap "(string, string) gomap" | RScored "(string \<times> float64) list"
  | RScan "string list" nat

type_synonym 's server = "redis_cmd \<Rightarrow> 's \<Rightarrow> (gerr + redis_reply) \<times> 's"

fun as_str :: "redis_reply \<Rightarrow> string" where "as_str (RStr s) = s" | "as_str _ = ''''"
fun as_int :: "redis_reply \<Rightarrow> int" where "as_int (RInt i) = i" | "as_int _ = 0"
fun as_bool :: "redis_reply \<Rightarrow> bool" where "as_bool (RBool b) = b" | "as_bool _ = False"
fun as_float :: "redis_reply \<Rightarrow> float64" where "as_float (RFloat f) = f" | "as_float _ = 0"
fun as_strs :: "redis_reply \<Rightarrow> string list" where "as_strs (RStrs ss) = ss" | "as_strs _ = []"
fun as_maybe :: "redis_reply \<Rightarrow> string option list" where "as_maybe (RMaybe vs) = vs" | "as_maybe _ = []"
fun as_map :: "redis_reply \<Rightarrow> (string, string) gomap" where "as_map (RMap m) = m" | "as_map _ = []"
fun as_scored :: "redis_reply \<Rightarrow> (string \<times> float64) list" where "as_scored (RScored zs) = zs" | "as_scored _ = []"
fun as_scan :: "redis_reply \<Rightarrow> string list \<times> nat" where "as_scan (RScan ks c) = (ks, c)" | "as_scan _ = ([], 0)"

subsection \<open>Errors\<close>

text \<open>\<^verbatim>\<open>goredis.Nil\<close> and the type of the errors a server answers with; \<^verbatim>\<open>errors.Is\<close> compares values.\<close>

definition redis_Nil :: gerr where
  "redis_Nil = AppErr ''redis: nil'' ''proto.RedisError'' None None None None []"

definition isNil :: "gerr \<Rightarrow> bool" where
  "isNil err \<longleftrightarrow> redis_Nil \<in> set (err_chain err)"

fun as_RedisError :: "gerr \<Rightarrow> string option" where
  "as_RedisError (AppErr t ty _ _ _ _ _) = (if ty = ''proto.RedisError'' then Some t else None)"
| "as_RedisError _ = None"

definition isNoSuchKey :: "gerr \<Rightarrow> bool" where
  "isNoSuchKey err \<longleftrightarrow> errors_As as_RedisError err = Some ''ERR no such key''"

definition cache_ErrNotFound :: gerr where
  "cache_ErrNotFound = Errorf ''celerity: not found'' None"

definition holds_nothing :: "conn \<Rightarrow> string \<Rightarrow> gerr" where
  "holds_nothing c key =
     Errorf (''celerity: '' @ cn_ref c @ '' holds nothing under '' @ go_quote key @ '': celerity: not found'') (Some cache_ErrNotFound)"

definition cache_failed :: "conn \<Rightarrow> gerr \<Rightarrow> string \<Rightarrow> string \<Rightarrow> gerr" where
  "cache_failed c err doing key =
     (if key = '''' then Errorf (''celerity: '' @ doing @ '' in '' @ cn_ref c @ '': '' @ error_text err) (Some err)
      else Errorf (''celerity: '' @ doing @ '' '' @ go_quote key @ '' in '' @ cn_ref c @ '': '' @ error_text err) (Some err))"

definition cache_missing :: "conn \<Rightarrow> gerr \<Rightarrow> string \<Rightarrow> string \<Rightarrow> gerr" where
  "cache_missing c err doing key = (if isNil err then holds_nothing c key else cache_failed c err doing key)"

subsection \<open>One command\<close>

text \<open>Most operations connect, send one command, wrap an error in what was being done and read the reply.\<close>

definition with_conn :: "gerr + conn \<Rightarrow> (conn \<Rightarrow> 's \<Rightarrow> (gerr + 'a) \<times> 's) \<Rightarrow> 's \<Rightarrow> (gerr + 'a) \<times> 's" where
  "with_conn cc f s = (case cc of Inl err \<Rightarrow> (Inl err, s) | Inr c \<Rightarrow> f c s)"

definition ask :: "'s server \<Rightarrow> redis_cmd \<Rightarrow> (gerr \<Rightarrow> gerr + 'a) \<Rightarrow> (redis_reply \<Rightarrow> gerr + 'a) \<Rightarrow> 's \<Rightarrow> (gerr + 'a) \<times> 's" where
  "ask srv cmd on_err on_ok s =
     (case srv cmd s of (Inl err, s) \<Rightarrow> (on_err err, s) | (Inr reply, s) \<Rightarrow> (on_ok reply, s))"

abbreviation failing :: "conn \<Rightarrow> string \<Rightarrow> string \<Rightarrow> gerr \<Rightarrow> gerr + 'a" where
  "failing c doing key err \<equiv> Inl (cache_failed c err doing key)"

abbreviation missing_or_failing :: "conn \<Rightarrow> string \<Rightarrow> string \<Rightarrow> gerr \<Rightarrow> gerr + 'a" where
  "missing_or_failing c doing key err \<equiv> Inl (cache_missing c err doing key)"

definition set_mode :: "set_options \<Rightarrow> string" where
  "set_mode o' = (if st_OnlyIfAbsent o' then ''NX'' else if st_OnlyIfPresent o' then ''XX'' else '''')"

subsection \<open>Strings\<close>

definition Cache_Get :: "gerr + conn \<Rightarrow> 's server \<Rightarrow> string \<Rightarrow> 's \<Rightarrow> (gerr + string) \<times> 's" where
  "Cache_Get cc srv key =
     with_conn cc (\<lambda>c. ask srv (Cmd_Get (cache_key c key)) (missing_or_failing c ''reading'' key) (\<lambda>r. Inr (as_str r)))"

definition Cache_Set :: "gerr + conn \<Rightarrow> 's server \<Rightarrow> string \<Rightarrow> string \<Rightarrow> ((set_options \<Rightarrow> set_options) list) \<Rightarrow> 's \<Rightarrow> (gerr + bool) \<times> 's" where
  "Cache_Set cc srv key value opts =
     (let o' = ResolveSetOptions opts in
      with_conn cc (\<lambda>c. ask srv (Cmd_SetArgs (cache_key c key) value (st_TTL o') (set_mode o'))
        (\<lambda>err. if isNil err then Inr False else failing c ''writing'' key err) (\<lambda>r. Inr True)))"

definition Cache_Delete :: "gerr + conn \<Rightarrow> 's server \<Rightarrow> string \<Rightarrow> 's \<Rightarrow> (gerr + bool) \<times> 's" where
  "Cache_Delete cc srv key =
     with_conn cc (\<lambda>c. ask srv (Cmd_Del [cache_key c key]) (failing c ''deleting'' key) (\<lambda>r. Inr (as_int r > 0)))"

definition Cache_GetSet :: "gerr + conn \<Rightarrow> 's server \<Rightarrow> string \<Rightarrow> string \<Rightarrow> 's \<Rightarrow> (gerr + string) \<times> 's" where
  "Cache_GetSet cc srv key value =
     with_conn cc (\<lambda>c. ask srv (Cmd_GetSet (cache_key c key) value) (missing_or_failing c ''replacing'' key) (\<lambda>r. Inr (as_str r)))"

definition Cache_Append :: "gerr + conn \<Rightarrow> 's server \<Rightarrow> string \<Rightarrow> string \<Rightarrow> 's \<Rightarrow> (gerr + int) \<times> 's" where
  "Cache_Append cc srv key value =
     with_conn cc (\<lambda>c. ask srv (Cmd_Append (cache_key c key) value) (failing c ''appending to'' key) (\<lambda>r. Inr (as_int r)))"

text \<open>Batches: one command for each shard.\<close>

definition keep_found :: "conn \<Rightarrow> string list \<Rightarrow> string option list \<Rightarrow> (string, string) gomap \<Rightarrow> (string, string) gomap" where
  "keep_found c batch values found =
     fold (\<lambda>(key, value) m. case value of None \<Rightarrow> m | Some text \<Rightarrow> gm_put (cache_strip c key) text m) (zip batch values) found"

fun get_groups :: "'s server \<Rightarrow> conn \<Rightarrow> string list list \<Rightarrow> (string, string) gomap \<Rightarrow> 's \<Rightarrow> (gerr + (string, string) gomap) \<times> 's" where
  "get_groups srv c [] found s = (Inr found, s)"
| "get_groups srv c (batch # batches) found s =
     (case srv (Cmd_MGet batch) s of
        (Inl err, s) \<Rightarrow> (Inl (cache_failed c err ''reading a batch'' ''''), s)
      | (Inr r, s) \<Rightarrow> get_groups srv c batches (keep_found c batch (as_maybe r) found) s)"

definition Cache_GetMany :: "gerr + conn \<Rightarrow> 's server \<Rightarrow> string list \<Rightarrow> 's \<Rightarrow> (gerr + (string, string) gomap) \<times> 's" where
  "Cache_GetMany cc srv keys =
     (if length keys = 0 then (\<lambda>s. (Inr [], s))
      else with_conn cc (\<lambda>c. get_groups srv c (bySlot c (cache_names c keys)) []))"

text \<open>\<^verbatim>\<open>values[c.strip(key)]\<close> of an absent key is the empty string.\<close>

definition value_at :: "(string, string) gomap \<Rightarrow> string \<Rightarrow> string" where
  "value_at values key = (case gm_get values key of None \<Rightarrow> '''' | Some v \<Rightarrow> v)"

fun set_groups :: "'s server \<Rightarrow> conn \<Rightarrow> (string, string) gomap \<Rightarrow> string list list \<Rightarrow> 's \<Rightarrow> (gerr + unit) \<times> 's" where
  "set_groups srv c values [] s = (Inr (), s)"
| "set_groups srv c values (batch # batches) s =
     (case srv (Cmd_MSet (map (\<lambda>key. (key, value_at values (cache_strip c key))) batch)) s of
        (Inl err, s) \<Rightarrow> (Inl (cache_failed c err ''writing a batch'' ''''), s)
      | (Inr r, s) \<Rightarrow> set_groups srv c values batches s)"

definition Cache_SetMany :: "gerr + conn \<Rightarrow> 's server \<Rightarrow> (string, string) gomap \<Rightarrow> 's \<Rightarrow> (gerr + unit) \<times> 's" where
  "Cache_SetMany cc srv values =
     (if length values = 0 then (\<lambda>s. (Inr (), s))
      else with_conn cc (\<lambda>c. set_groups srv c values (bySlot c (map (cache_key c) (gm_keys values)))))"

text \<open>A failing batch of deletions returns what it removed beside the error.\<close>

fun del_groups :: "'s server \<Rightarrow> conn \<Rightarrow> string list list \<Rightarrow> int \<Rightarrow> 's \<Rightarrow> (int \<times> gerr option) \<times> 's" where
  "del_groups srv c [] removed s = ((removed, None), s)"
| "del_groups srv c (batch # batches) removed s =
     (case srv (Cmd_Del batch) s of
        (Inl err, s) \<Rightarrow> ((removed, Some (cache_failed c err ''deleting a batch'' '''')), s)
      | (Inr r, s) \<Rightarrow> del_groups srv c batches (removed + as_int r) s)"

definition Cache_DeleteMany :: "gerr + conn \<Rightarrow> 's server \<Rightarrow> string list \<Rightarrow> 's \<Rightarrow> (int \<times> gerr option) \<times> 's" where
  "Cache_DeleteMany cc srv keys s =
     (if length keys = 0 then ((0, None), s)
      else case cc of
        Inl err \<Rightarrow> ((0, Some err), s)
      | Inr c \<Rightarrow> del_groups srv c (bySlot c (cache_names c keys)) 0 s)"

subsection \<open>Keys\<close>

definition Cache_Exists :: "gerr + conn \<Rightarrow> 's server \<Rightarrow> string \<Rightarrow> 's \<Rightarrow> (gerr + bool) \<times> 's" where
  "Cache_Exists cc srv key =
     with_conn cc (\<lambda>c. ask srv (Cmd_Exists (cache_key c key)) (failing c ''looking for'' key) (\<lambda>r. Inr (as_int r > 0)))"

text \<open>The reply is a number of seconds or one of two codes; a duration counts nanoseconds, at 64 bits.\<close>

definition keyMissing :: int where "keyMissing = -2"
definition noExpiry :: int where "noExpiry = -1"

definition Cache_TTL :: "gerr + conn \<Rightarrow> 's server \<Rightarrow> string \<Rightarrow> 's \<Rightarrow> (gerr + int \<times> bool) \<times> 's" where
  "Cache_TTL cc srv key =
     with_conn cc (\<lambda>c. ask srv (Cmd_TTL (cache_key c key)) (failing c ''reading the lifetime of'' key) (\<lambda>r.
        let seconds = as_int r in
        if seconds = keyMissing then Inl (holds_nothing c key)
        else if seconds = noExpiry then Inr (0, False)
        else Inr (wrap64 (seconds * 1000000000), True)))"

definition Cache_Expire :: "gerr + conn \<Rightarrow> 's server \<Rightarrow> string \<Rightarrow> int \<Rightarrow> 's \<Rightarrow> (gerr + bool) \<times> 's" where
  "Cache_Expire cc srv key ttl =
     with_conn cc (\<lambda>c. ask srv (Cmd_Expire (cache_key c key) ttl) (failing c ''setting the lifetime of'' key) (\<lambda>r. Inr (as_bool r)))"

definition Cache_Persist :: "gerr + conn \<Rightarrow> 's server \<Rightarrow> string \<Rightarrow> 's \<Rightarrow> (gerr + bool) \<times> 's" where
  "Cache_Persist cc srv key =
     with_conn cc (\<lambda>c. ask srv (Cmd_Persist (cache_key c key)) (failing c ''removing the lifetime of'' key) (\<lambda>r. Inr (as_bool r)))"

definition Cache_Type :: "gerr + conn \<Rightarrow> 's server \<Rightarrow> string \<Rightarrow> 's \<Rightarrow> (gerr + string) \<times> 's" where
  "Cache_Type cc srv key =
     with_conn cc (\<lambda>c. ask srv (Cmd_Type (cache_key c key)) (failing c ''reading the type of'' key) (\<lambda>r.
        if as_str r = ''none'' then Inl (holds_nothing c key) else Inr (as_str r)))"

definition Cache_Rename :: "gerr + conn \<Rightarrow> 's server \<Rightarrow> string \<Rightarrow> string \<Rightarrow> 's \<Rightarrow> (gerr + unit) \<times> 's" where
  "Cache_Rename cc srv key newKey =
     with_conn cc (\<lambda>c s.
        case sameSlot c ''renaming'' [cache_key c key, cache_key c newKey] of
          Some err \<Rightarrow> (Inl err, s)
        | None \<Rightarrow> ask srv (Cmd_Rename (cache_key c key) (cache_key c newKey))
            (\<lambda>err. if isNoSuchKey err then Inl (holds_nothing c key) else failing c ''renaming'' key err) (\<lambda>r. Inr ()) s)"

subsection \<open>Counters\<close>

definition Cache_Increment :: "gerr + conn \<Rightarrow> 's server \<Rightarrow> string \<Rightarrow> int \<Rightarrow> 's \<Rightarrow> (gerr + int) \<times> 's" where
  "Cache_Increment cc srv key delta =
     with_conn cc (\<lambda>c. ask srv (Cmd_IncrBy (cache_key c key) delta) (failing c ''incrementing'' key) (\<lambda>r. Inr (as_int r)))"

definition Cache_Decrement :: "gerr + conn \<Rightarrow> 's server \<Rightarrow> string \<Rightarrow> int \<Rightarrow> 's \<Rightarrow> (gerr + int) \<times> 's" where
  "Cache_Decrement cc srv key delta =
     with_conn cc (\<lambda>c. ask srv (Cmd_DecrBy (cache_key c key) delta) (failing c ''decrementing'' key) (\<lambda>r. Inr (as_int r)))"

definition Cache_IncrementFloat :: "gerr + conn \<Rightarrow> 's server \<Rightarrow> string \<Rightarrow> float64 \<Rightarrow> 's \<Rightarrow> (gerr + float64) \<times> 's" where
  "Cache_IncrementFloat cc srv key delta =
     with_conn cc (\<lambda>c. ask srv (Cmd_IncrByFloat (cache_key c key) delta) (failing c ''incrementing'' key) (\<lambda>r. Inr (as_float r)))"

subsection \<open>Hashes\<close>

definition Cache_HashGet :: "gerr + conn \<Rightarrow> 's server \<Rightarrow> string \<Rightarrow> string \<Rightarrow> 's \<Rightarrow> (gerr + string) \<times> 's" where
  "Cache_HashGet cc srv key field =
     with_conn cc (\<lambda>c. ask srv (Cmd_HGet (cache_key c key) field) (missing_or_failing c ''reading a field of'' key) (\<lambda>r. Inr (as_str r)))"

definition Cache_HashSet :: "gerr + conn \<Rightarrow> 's server \<Rightarrow> string \<Rightarrow> (string, string) gomap \<Rightarrow> 's \<Rightarrow> (gerr + unit) \<times> 's" where
  "Cache_HashSet cc srv key flds =
     (if length flds = 0 then (\<lambda>s. (Inr (), s))
      else with_conn cc (\<lambda>c. ask srv (Cmd_HSet (cache_key c key) flds) (failing c ''writing fields of'' key) (\<lambda>r. Inr (()))))"

definition Cache_HashDelete :: "gerr + conn \<Rightarrow> 's server \<Rightarrow> string \<Rightarrow> string list \<Rightarrow> 's \<Rightarrow> (gerr + int) \<times> 's" where
  "Cache_HashDelete cc srv key flds =
     (if length flds = 0 then (\<lambda>s. (Inr 0, s))
      else with_conn cc (\<lambda>c. ask srv (Cmd_HDel (cache_key c key) flds) (failing c ''deleting fields of'' key) (\<lambda>r. Inr (as_int r))))"

definition Cache_HashGetAll :: "gerr + conn \<Rightarrow> 's server \<Rightarrow> string \<Rightarrow> 's \<Rightarrow> (gerr + (string, string) gomap) \<times> 's" where
  "Cache_HashGetAll cc srv key =
     with_conn cc (\<lambda>c. ask srv (Cmd_HGetAll (cache_key c key)) (failing c ''reading'' key) (\<lambda>r. Inr (as_map r)))"

definition Cache_HashExists :: "gerr + conn \<Rightarrow> 's server \<Rightarrow> string \<Rightarrow> string \<Rightarrow> 's \<Rightarrow> (gerr + bool) \<times> 's" where
  "Cache_HashExists cc srv key field =
     with_conn cc (\<lambda>c. ask srv (Cmd_HExists (cache_key c key) field) (failing c ''looking for a field of'' key) (\<lambda>r. Inr (as_bool r)))"

definition Cache_HashIncrement :: "gerr + conn \<Rightarrow> 's server \<Rightarrow> string \<Rightarrow> string \<Rightarrow> int \<Rightarrow> 's \<Rightarrow> (gerr + int) \<times> 's" where
  "Cache_HashIncrement cc srv key field delta =
     with_conn cc (\<lambda>c. ask srv (Cmd_HIncrBy (cache_key c key) field delta) (failing c (''incrementing '' @ go_quote field @ '' of'') key) (\<lambda>r. Inr (as_int r)))"

definition Cache_HashKeys :: "gerr + conn \<Rightarrow> 's server \<Rightarrow> string \<Rightarrow> 's \<Rightarrow> (gerr + string list) \<times> 's" where
  "Cache_HashKeys cc srv key =
     with_conn cc (\<lambda>c. ask srv (Cmd_HKeys (cache_key c key)) (failing c ''reading the fields of'' key) (\<lambda>r. Inr (as_strs r)))"

definition Cache_HashLen :: "gerr + conn \<Rightarrow> 's server \<Rightarrow> string \<Rightarrow> 's \<Rightarrow> (gerr + int) \<times> 's" where
  "Cache_HashLen cc srv key =
     with_conn cc (\<lambda>c. ask srv (Cmd_HLen (cache_key c key)) (failing c ''counting the fields of'' key) (\<lambda>r. Inr (as_int r)))"

subsection \<open>Lists\<close>

definition Cache_ListLen :: "gerr + conn \<Rightarrow> 's server \<Rightarrow> string \<Rightarrow> 's \<Rightarrow> (gerr + int) \<times> 's" where
  "Cache_ListLen cc srv key =
     with_conn cc (\<lambda>c. ask srv (Cmd_LLen (cache_key c key)) (failing c ''measuring'' key) (\<lambda>r. Inr (as_int r)))"

definition Cache_ListPush :: "gerr + conn \<Rightarrow> 's server \<Rightarrow> string \<Rightarrow> string list \<Rightarrow> ((string \<Rightarrow> string) list) \<Rightarrow> 's \<Rightarrow> (gerr + int) \<times> 's" where
  "Cache_ListPush cc srv key values opts =
     (if length values = 0 then Cache_ListLen cc srv key
      else with_conn cc (\<lambda>c. ask srv
        (if ResolveEndOptions opts ''right'' = ''left'' then Cmd_LPush (cache_key c key) values else Cmd_RPush (cache_key c key) values)
        (failing c ''pushing onto'' key) (\<lambda>r. Inr (as_int r))))"

definition Cache_ListPop :: "gerr + conn \<Rightarrow> 's server \<Rightarrow> string \<Rightarrow> int \<Rightarrow> ((string \<Rightarrow> string) list) \<Rightarrow> 's \<Rightarrow> (gerr + string list) \<times> 's" where
  "Cache_ListPop cc srv key n opts =
     (let n = (if n \<le> 0 then 1 else n) in
      with_conn cc (\<lambda>c. ask srv
        (if ResolveEndOptions opts ''left'' = ''right'' then Cmd_RPopCount (cache_key c key) n else Cmd_LPopCount (cache_key c key) n)
        (\<lambda>err. if isNil err then Inr [] else failing c ''popping from'' key err) (\<lambda>r. Inr (as_strs r))))"

definition Cache_ListRange :: "gerr + conn \<Rightarrow> 's server \<Rightarrow> string \<Rightarrow> int \<Rightarrow> int \<Rightarrow> 's \<Rightarrow> (gerr + string list) \<times> 's" where
  "Cache_ListRange cc srv key start stop =
     with_conn cc (\<lambda>c. ask srv (Cmd_LRange (cache_key c key) start stop) (failing c ''reading a range of'' key) (\<lambda>r. Inr (as_strs r)))"

definition Cache_ListTrim :: "gerr + conn \<Rightarrow> 's server \<Rightarrow> string \<Rightarrow> int \<Rightarrow> int \<Rightarrow> 's \<Rightarrow> (gerr + unit) \<times> 's" where
  "Cache_ListTrim cc srv key start stop =
     with_conn cc (\<lambda>c. ask srv (Cmd_LTrim (cache_key c key) start stop) (failing c ''trimming'' key) (\<lambda>r. Inr (())))"

definition Cache_ListIndex :: "gerr + conn \<Rightarrow> 's server \<Rightarrow> string \<Rightarrow> int \<Rightarrow> 's \<Rightarrow> (gerr + string) \<times> 's" where
  "Cache_ListIndex cc srv key index =
     with_conn cc (\<lambda>c. ask srv (Cmd_LIndex (cache_key c key) index) (missing_or_failing c ''reading an element of'' key) (\<lambda>r. Inr (as_str r)))"

subsection \<open>Sets\<close>

definition Cache_SetAdd :: "gerr + conn \<Rightarrow> 's server \<Rightarrow> string \<Rightarrow> string list \<Rightarrow> 's \<Rightarrow> (gerr + int) \<times> 's" where
  "Cache_SetAdd cc srv key members =
     (if length members = 0 then (\<lambda>s. (Inr 0, s))
      else with_conn cc (\<lambda>c. ask srv (Cmd_SAdd (cache_key c key) members) (failing c ''adding to'' key) (\<lambda>r. Inr (as_int r))))"

definition Cache_SetRemove :: "gerr + conn \<Rightarrow> 's server \<Rightarrow> string \<Rightarrow> string list \<Rightarrow> 's \<Rightarrow> (gerr + int) \<times> 's" where
  "Cache_SetRemove cc srv key members =
     (if length members = 0 then (\<lambda>s. (Inr 0, s))
      else with_conn cc (\<lambda>c. ask srv (Cmd_SRem (cache_key c key) members) (failing c ''removing from'' key) (\<lambda>r. Inr (as_int r))))"

definition Cache_SetMembers :: "gerr + conn \<Rightarrow> 's server \<Rightarrow> string \<Rightarrow> 's \<Rightarrow> (gerr + string list) \<times> 's" where
  "Cache_SetMembers cc srv key =
     with_conn cc (\<lambda>c. ask srv (Cmd_SMembers (cache_key c key)) (failing c ''reading'' key) (\<lambda>r. Inr (as_strs r)))"

definition Cache_SetIsMember :: "gerr + conn \<Rightarrow> 's server \<Rightarrow> string \<Rightarrow> string \<Rightarrow> 's \<Rightarrow> (gerr + bool) \<times> 's" where
  "Cache_SetIsMember cc srv key member =
     with_conn cc (\<lambda>c. ask srv (Cmd_SIsMember (cache_key c key) member) (failing c ''looking in'' key) (\<lambda>r. Inr (as_bool r)))"

definition Cache_SetLen :: "gerr + conn \<Rightarrow> 's server \<Rightarrow> string \<Rightarrow> 's \<Rightarrow> (gerr + int) \<times> 's" where
  "Cache_SetLen cc srv key =
     with_conn cc (\<lambda>c. ask srv (Cmd_SCard (cache_key c key)) (failing c ''counting'' key) (\<lambda>r. Inr (as_int r)))"

definition cache_combine ::
    "gerr + conn \<Rightarrow> 's server \<Rightarrow> string \<Rightarrow> string list \<Rightarrow> (string list \<Rightarrow> redis_cmd) \<Rightarrow> 's \<Rightarrow> (gerr + string list) \<times> 's" where
  "cache_combine cc srv doing keys run =
     (if length keys = 0 then (\<lambda>s. (Inr [], s))
      else with_conn cc (\<lambda>c s.
        case sameSlot c doing (cache_names c keys) of
          Some err \<Rightarrow> (Inl err, s)
        | None \<Rightarrow> ask srv (run (cache_names c keys)) (failing c doing '''') (\<lambda>r. Inr (as_strs r)) s))"

definition Cache_SetUnion :: "gerr + conn \<Rightarrow> 's server \<Rightarrow> string list \<Rightarrow> 's \<Rightarrow> (gerr + string list) \<times> 's" where
  "Cache_SetUnion cc srv keys =
     cache_combine cc srv ''taking the union of'' keys Cmd_SUnion"

definition Cache_SetIntersect :: "gerr + conn \<Rightarrow> 's server \<Rightarrow> string list \<Rightarrow> 's \<Rightarrow> (gerr + string list) \<times> 's" where
  "Cache_SetIntersect cc srv keys =
     cache_combine cc srv ''taking the intersection of'' keys Cmd_SInter"

definition Cache_SetDiff :: "gerr + conn \<Rightarrow> 's server \<Rightarrow> string list \<Rightarrow> 's \<Rightarrow> (gerr + string list) \<times> 's" where
  "Cache_SetDiff cc srv keys =
     cache_combine cc srv ''taking the difference of'' keys Cmd_SDiff"

subsection \<open>Sorted sets\<close>

definition score_bound :: "(float64 \<Rightarrow> string) \<Rightarrow> float64 option \<Rightarrow> string \<Rightarrow> string" where
  "score_bound fmt score open' = (case score of None \<Rightarrow> open' | Some f \<Rightarrow> fmt f)"

definition scored_members :: "(string \<times> float64) list \<Rightarrow> sorted_set_member list" where
  "scored_members zs = map (\<lambda>(m, f). \<lparr>sm_Member = m, sm_Score = f\<rparr>) zs"

definition Cache_SortedSetAdd :: "gerr + conn \<Rightarrow> 's server \<Rightarrow> string \<Rightarrow> sorted_set_member list \<Rightarrow> 's \<Rightarrow> (gerr + int) \<times> 's" where
  "Cache_SortedSetAdd cc srv key members =
     (if length members = 0 then (\<lambda>s. (Inr 0, s))
      else with_conn cc (\<lambda>c. ask srv (Cmd_ZAdd (cache_key c key) (map (\<lambda>m. (sm_Member m, sm_Score m)) members)) (failing c ''adding to'' key) (\<lambda>r. Inr (as_int r))))"

definition Cache_SortedSetRemove :: "gerr + conn \<Rightarrow> 's server \<Rightarrow> string \<Rightarrow> string list \<Rightarrow> 's \<Rightarrow> (gerr + int) \<times> 's" where
  "Cache_SortedSetRemove cc srv key members =
     (if length members = 0 then (\<lambda>s. (Inr 0, s))
      else with_conn cc (\<lambda>c. ask srv (Cmd_ZRem (cache_key c key) members) (failing c ''removing from'' key) (\<lambda>r. Inr (as_int r))))"

definition Cache_SortedSetScore :: "gerr + conn \<Rightarrow> 's server \<Rightarrow> string \<Rightarrow> string \<Rightarrow> 's \<Rightarrow> (gerr + float64) \<times> 's" where
  "Cache_SortedSetScore cc srv key member =
     with_conn cc (\<lambda>c. ask srv (Cmd_ZScore (cache_key c key) member) (missing_or_failing c ''reading the score of a member of'' key) (\<lambda>r. Inr (as_float r)))"

definition Cache_SortedSetRank :: "gerr + conn \<Rightarrow> 's server \<Rightarrow> string \<Rightarrow> string \<Rightarrow> ((range_options \<Rightarrow> range_options) list) \<Rightarrow> 's \<Rightarrow> (gerr + int) \<times> 's" where
  "Cache_SortedSetRank cc srv key member opts =
     with_conn cc (\<lambda>c. ask srv
        (if ro_Descending (ResolveRangeOptions opts) then Cmd_ZRevRank (cache_key c key) member else Cmd_ZRank (cache_key c key) member)
        (missing_or_failing c ''reading the rank of a member of'' key) (\<lambda>r. Inr (as_int r)))"

definition Cache_SortedSetRange :: "gerr + conn \<Rightarrow> 's server \<Rightarrow> string \<Rightarrow> int \<Rightarrow> int \<Rightarrow> ((range_options \<Rightarrow> range_options) list) \<Rightarrow> 's \<Rightarrow> (gerr + sorted_set_member list) \<times> 's" where
  "Cache_SortedSetRange cc srv key start stop opts =
     with_conn cc (\<lambda>c. ask srv
        (if ro_Descending (ResolveRangeOptions opts) then Cmd_ZRevRangeWithScores (cache_key c key) start stop
         else Cmd_ZRangeWithScores (cache_key c key) start stop)
        (failing c ''reading a range of'' key) (\<lambda>r. Inr (scored_members (as_scored r))))"

definition Cache_SortedSetRangeByScore :: "gerr + conn \<Rightarrow> 's server \<Rightarrow> (float64 \<Rightarrow> string) \<Rightarrow> string \<Rightarrow> score_range \<Rightarrow> ((range_options \<Rightarrow> range_options) list) \<Rightarrow> 's \<Rightarrow> (gerr + sorted_set_member list) \<times> 's" where
  "Cache_SortedSetRangeByScore cc srv fmt key scores opts =
     (let o' = ResolveRangeOptions opts;
          lo = score_bound fmt (sr_Min scores) ''-inf''; hi = score_bound fmt (sr_Max scores) ''+inf''
      in with_conn cc (\<lambda>c. ask srv
        (if ro_Descending o' then Cmd_ZRevRangeByScore (cache_key c key) lo hi (ro_Offset o') (ro_Limit o')
         else Cmd_ZRangeByScore (cache_key c key) lo hi (ro_Offset o') (ro_Limit o'))
        (failing c ''reading a score range of'' key) (\<lambda>r. Inr (scored_members (as_scored r)))))"

definition Cache_SortedSetIncrement :: "gerr + conn \<Rightarrow> 's server \<Rightarrow> string \<Rightarrow> string \<Rightarrow> float64 \<Rightarrow> 's \<Rightarrow> (gerr + float64) \<times> 's" where
  "Cache_SortedSetIncrement cc srv key member delta =
     with_conn cc (\<lambda>c. ask srv (Cmd_ZIncrBy (cache_key c key) delta member) (failing c ''incrementing a member of'' key) (\<lambda>r. Inr (as_float r)))"

definition Cache_SortedSetLen :: "gerr + conn \<Rightarrow> 's server \<Rightarrow> string \<Rightarrow> 's \<Rightarrow> (gerr + int) \<times> 's" where
  "Cache_SortedSetLen cc srv key =
     with_conn cc (\<lambda>c. ask srv (Cmd_ZCard (cache_key c key)) (failing c ''counting'' key) (\<lambda>r. Inr (as_int r)))"

definition Cache_SortedSetCountByScore :: "gerr + conn \<Rightarrow> 's server \<Rightarrow> (float64 \<Rightarrow> string) \<Rightarrow> string \<Rightarrow> score_range \<Rightarrow> 's \<Rightarrow> (gerr + int) \<times> 's" where
  "Cache_SortedSetCountByScore cc srv fmt key scores =
     with_conn cc (\<lambda>c. ask srv (Cmd_ZCount (cache_key c key) (score_bound fmt (sr_Min scores) ''-inf'') (score_bound fmt (sr_Max scores) ''+inf'')) (failing c ''counting a score range of'' key) (\<lambda>r. Inr (as_int r)))"

definition Cache_SortedSetRemoveByRank :: "gerr + conn \<Rightarrow> 's server \<Rightarrow> string \<Rightarrow> int \<Rightarrow> int \<Rightarrow> 's \<Rightarrow> (gerr + int) \<times> 's" where
  "Cache_SortedSetRemoveByRank cc srv key start stop =
     with_conn cc (\<lambda>c. ask srv (Cmd_ZRemRangeByRank (cache_key c key) start stop) (failing c ''removing a rank range of'' key) (\<lambda>r. Inr (as_int r)))"

definition Cache_SortedSetRemoveByScore :: "gerr + conn \<Rightarrow> 's server \<Rightarrow> (float64 \<Rightarrow> string) \<Rightarrow> string \<Rightarrow> score_range \<Rightarrow> 's \<Rightarrow> (gerr + int) \<times> 's" where
  "Cache_SortedSetRemoveByScore cc srv fmt key scores =
     with_conn cc (\<lambda>c. ask srv (Cmd_ZRemRangeByScore (cache_key c key) (score_bound fmt (sr_Min scores) ''-inf'') (score_bound fmt (sr_Max scores) ''+inf'')) (failing c ''removing a score range of'' key) (\<lambda>r. Inr (as_int r)))"

subsection \<open>Walking the keys\<close>

fun yield_keys :: "conn \<Rightarrow> (string \<Rightarrow> gerr option \<Rightarrow> 'c \<Rightarrow> bool \<times> 'c) \<Rightarrow> string list \<Rightarrow> 'c \<Rightarrow> bool \<times> 'c" where
  "yield_keys c yield [] acc = (True, acc)"
| "yield_keys c yield (key # keys) acc =
     (let (go_on, acc) = yield (cache_strip c key) None acc in if \<not> go_on then (False, acc) else yield_keys c yield keys acc)"

text \<open>A walk of one shard ends when its cursor is zero again, which is the server's to say. The yield
  function takes a key or an error and says whether to go on.\<close>

partial_function (option) cache_walk ::
    "'s server \<Rightarrow> conn \<Rightarrow> string \<Rightarrow> scan_options \<Rightarrow> (string \<Rightarrow> gerr option \<Rightarrow> 'c \<Rightarrow> bool \<times> 'c) \<Rightarrow> nat \<Rightarrow> 'c \<Rightarrow> 's
      \<Rightarrow> (bool \<times> 'c \<times> 's) option" where
  "cache_walk srv c match opts yield cursor acc s =
     (case srv (if sc_Type opts \<noteq> '''' then Cmd_ScanType cursor match (sc_Count opts) (sc_Type opts)
                else Cmd_Scan cursor match (sc_Count opts)) s of
        (Inl err, s) \<Rightarrow> Some (False, snd (yield '''' (Some (cache_failed c err ''walking the keys'' '''')) acc), s)
      | (Inr r, s) \<Rightarrow>
          (case yield_keys c yield (fst (as_scan r)) acc of
             (go_on, acc) \<Rightarrow>
               (if \<not> go_on then Some (False, acc, s)
                else if snd (as_scan r) = 0 then Some (True, acc, s)
                else cache_walk srv c match opts yield (snd (as_scan r)) acc s)))"

fun walk_shards ::
    "'s server list \<Rightarrow> conn \<Rightarrow> string \<Rightarrow> scan_options \<Rightarrow> (string \<Rightarrow> gerr option \<Rightarrow> 'c \<Rightarrow> bool \<times> 'c) \<Rightarrow> 'c \<Rightarrow> 's
      \<Rightarrow> ('c \<times> 's) option" where
  "walk_shards [] c match opts yield acc s = Some (acc, s)"
| "walk_shards (shard # shards) c match opts yield acc s =
     (case cache_walk shard c match opts yield 0 acc s of
        None \<Rightarrow> None
      | Some (go_on, acc, s) \<Rightarrow> if \<not> go_on then Some (acc, s) else walk_shards shards c match opts yield acc s)"

text \<open>The masters of a cluster are what go-redis enumerates; without any, or on a single instance, the client
  itself is walked.\<close>

definition cache_shards :: "bool \<Rightarrow> 's server \<Rightarrow> 's server list \<Rightarrow> 's server list" where
  "cache_shards is_cluster client masters =
     (if \<not> is_cluster then [client] else if length masters = 0 then [client] else masters)"

definition scan_match :: "conn \<Rightarrow> scan_options \<Rightarrow> string" where
  "scan_match c opts = (if sc_Match opts = '''' then cn_keyPrefix c @ ''*'' else cn_keyPrefix c @ sc_Match opts)"

definition Cache_Scan ::
    "gerr + conn \<Rightarrow> 's server \<Rightarrow> 's server list \<Rightarrow> (scan_options \<Rightarrow> scan_options) list
      \<Rightarrow> (string \<Rightarrow> gerr option \<Rightarrow> 'c \<Rightarrow> bool \<times> 'c) \<Rightarrow> 'c \<Rightarrow> 's \<Rightarrow> ('c \<times> 's) option" where
  "Cache_Scan cc client masters opts yield acc s =
     (let resolved = ResolveScanOptions opts in
      case cc of
        Inl err \<Rightarrow> Some (snd (yield '''' (Some err) acc), s)
      | Inr c \<Rightarrow> walk_shards (cache_shards (cn_clustered c) client masters) c (scan_match c resolved) resolved yield acc s)"

subsection \<open>Transactions\<close>

datatype (plugins only: code size) tx_op =
    Tx_Set string string "(set_options \<Rightarrow> set_options) list" | Tx_Delete string | Tx_GetSet string string
  | Tx_Append string string | Tx_Increment string int | Tx_Decrement string int | Tx_IncrementFloat string float64
  | Tx_HashSet string "(string, string) gomap" | Tx_HashDelete string "string list" | Tx_HashIncrement string string int
  | Tx_ListPush string "string list" "(string \<Rightarrow> string) list" | Tx_ListTrim string int int
  | Tx_SetAdd string "string list" | Tx_SetRemove string "string list"
  | Tx_SortedSetAdd string "sorted_set_member list" | Tx_SortedSetRemove string "string list"
  | Tx_SortedSetIncrement string string float64 | Tx_Expire string int | Tx_Persist string | Tx_Rename string string

text \<open>The recorder's keys for one queued call, and the command the pipeline is given for it.\<close>

primrec record_op :: "conn \<Rightarrow> tx_op \<Rightarrow> string list" where
  "record_op c (Tx_Set key _ _) = [cache_key c key]"
| "record_op c (Tx_Delete key) = [cache_key c key]"
| "record_op c (Tx_GetSet key _) = [cache_key c key]"
| "record_op c (Tx_Append key _) = [cache_key c key]"
| "record_op c (Tx_Increment key _) = [cache_key c key]"
| "record_op c (Tx_Decrement key _) = [cache_key c key]"
| "record_op c (Tx_IncrementFloat key _) = [cache_key c key]"
| "record_op c (Tx_HashSet key _) = [cache_key c key]"
| "record_op c (Tx_HashDelete key _) = [cache_key c key]"
| "record_op c (Tx_HashIncrement key _ _) = [cache_key c key]"
| "record_op c (Tx_ListPush key _ _) = [cache_key c key]"
| "record_op c (Tx_ListTrim key _ _) = [cache_key c key]"
| "record_op c (Tx_SetAdd key _) = [cache_key c key]"
| "record_op c (Tx_SetRemove key _) = [cache_key c key]"
| "record_op c (Tx_SortedSetAdd key _) = [cache_key c key]"
| "record_op c (Tx_SortedSetRemove key _) = [cache_key c key]"
| "record_op c (Tx_SortedSetIncrement key _ _) = [cache_key c key]"
| "record_op c (Tx_Expire key _) = [cache_key c key]"
| "record_op c (Tx_Persist key) = [cache_key c key]"
| "record_op c (Tx_Rename key newKey) = [cache_key c key, cache_key c newKey]"

primrec pipeline_op :: "conn \<Rightarrow> tx_op \<Rightarrow> redis_cmd" where
  "pipeline_op c (Tx_Set key value opts) =
     (let o' = ResolveSetOptions opts in Cmd_SetArgs (cache_key c key) value (st_TTL o') (set_mode o'))"
| "pipeline_op c (Tx_Delete key) = Cmd_Del [cache_key c key]"
| "pipeline_op c (Tx_GetSet key value) = Cmd_GetSet (cache_key c key) value"
| "pipeline_op c (Tx_Append key value) = Cmd_Append (cache_key c key) value"
| "pipeline_op c (Tx_Increment key delta) = Cmd_IncrBy (cache_key c key) delta"
| "pipeline_op c (Tx_Decrement key delta) = Cmd_DecrBy (cache_key c key) delta"
| "pipeline_op c (Tx_IncrementFloat key delta) = Cmd_IncrByFloat (cache_key c key) delta"
| "pipeline_op c (Tx_HashSet key flds) = Cmd_HSet (cache_key c key) flds"
| "pipeline_op c (Tx_HashDelete key flds) = Cmd_HDel (cache_key c key) flds"
| "pipeline_op c (Tx_HashIncrement key field delta) = Cmd_HIncrBy (cache_key c key) field delta"
| "pipeline_op c (Tx_ListPush key values opts) =
     (if ResolveEndOptions opts ''right'' = ''left'' then Cmd_LPush (cache_key c key) values else Cmd_RPush (cache_key c key) values)"
| "pipeline_op c (Tx_ListTrim key start stop) = Cmd_LTrim (cache_key c key) start stop"
| "pipeline_op c (Tx_SetAdd key members) = Cmd_SAdd (cache_key c key) members"
| "pipeline_op c (Tx_SetRemove key members) = Cmd_SRem (cache_key c key) members"
| "pipeline_op c (Tx_SortedSetAdd key members) = Cmd_ZAdd (cache_key c key) (map (\<lambda>m. (sm_Member m, sm_Score m)) members)"
| "pipeline_op c (Tx_SortedSetRemove key members) = Cmd_ZRem (cache_key c key) members"
| "pipeline_op c (Tx_SortedSetIncrement key member delta) = Cmd_ZIncrBy (cache_key c key) delta member"
| "pipeline_op c (Tx_Expire key ttl) = Cmd_Expire (cache_key c key) ttl"
| "pipeline_op c (Tx_Persist key) = Cmd_Persist (cache_key c key)"
| "pipeline_op c (Tx_Rename key newKey) = Cmd_Rename (cache_key c key) (cache_key c newKey)"

datatype any_value = AErr gerr | AStr string | ANil | ABool bool | AInt int | AFloat float64

text \<open>The concrete type of go-redis' command decides how its reply is read.\<close>

datatype cmd_class = StatusCmd | StringCmd | IntCmd | FloatCmd | BoolCmd | OtherCmd

definition class_of :: "redis_cmd \<Rightarrow> cmd_class" where
  "class_of cmd =
     (case cmd of
        Cmd_SetArgs _ _ _ _ \<Rightarrow> StatusCmd
      | Cmd_LTrim _ _ _ \<Rightarrow> StatusCmd
      | Cmd_Rename _ _ \<Rightarrow> StatusCmd
      | Cmd_GetSet _ _ \<Rightarrow> StringCmd
      | Cmd_Del _ \<Rightarrow> IntCmd
      | Cmd_Append _ _ \<Rightarrow> IntCmd
      | Cmd_IncrBy _ _ \<Rightarrow> IntCmd
      | Cmd_DecrBy _ _ \<Rightarrow> IntCmd
      | Cmd_HSet _ _ \<Rightarrow> IntCmd
      | Cmd_HDel _ _ \<Rightarrow> IntCmd
      | Cmd_HIncrBy _ _ _ \<Rightarrow> IntCmd
      | Cmd_LPush _ _ \<Rightarrow> IntCmd
      | Cmd_RPush _ _ \<Rightarrow> IntCmd
      | Cmd_SAdd _ _ \<Rightarrow> IntCmd
      | Cmd_SRem _ _ \<Rightarrow> IntCmd
      | Cmd_ZAdd _ _ \<Rightarrow> IntCmd
      | Cmd_ZRem _ _ \<Rightarrow> IntCmd
      | Cmd_IncrByFloat _ _ \<Rightarrow> FloatCmd
      | Cmd_ZIncrBy _ _ _ \<Rightarrow> FloatCmd
      | Cmd_Expire _ _ \<Rightarrow> BoolCmd
      | Cmd_Persist _ \<Rightarrow> BoolCmd
      | _ \<Rightarrow> OtherCmd)"

text \<open>A reply that is an error reads as the zero value beside the error.\<close>

definition reply_of :: "gerr + redis_reply \<Rightarrow> redis_reply" where
  "reply_of r = (case r of Inl _ \<Rightarrow> RStr '''' | Inr reply \<Rightarrow> reply)"

definition nil_reply :: "gerr + redis_reply \<Rightarrow> bool" where
  "nil_reply r \<longleftrightarrow> (case r of Inl err \<Rightarrow> isNil err | Inr _ \<Rightarrow> False)"

definition valueOf :: "redis_cmd \<times> (gerr + redis_reply) \<Rightarrow> any_value" where
  "valueOf command =
     (case class_of (fst command) of
        StatusCmd \<Rightarrow> if nil_reply (snd command) then ABool False else AStr (as_str (reply_of (snd command)))
      | StringCmd \<Rightarrow> if nil_reply (snd command) then ANil else AStr (as_str (reply_of (snd command)))
      | IntCmd \<Rightarrow> AInt (as_int (reply_of (snd command)))
      | FloatCmd \<Rightarrow> AFloat (as_float (reply_of (snd command)))
      | BoolCmd \<Rightarrow> ABool (as_bool (reply_of (snd command)))
      | OtherCmd \<Rightarrow> ANil)"

definition answers :: "(redis_cmd \<times> (gerr + redis_reply)) list \<Rightarrow> any_value list" where
  "answers commands =
     map (\<lambda>command. case snd command of
            Inl err \<Rightarrow> if \<not> isNil err then AErr err else valueOf command
          | Inr _ \<Rightarrow> valueOf command) commands"

text \<open>\<open>queue n\<close> is what the application's function queues the n-th time it is run. \<open>txp\<close> is \<^verbatim>\<open>TxPipelined\<close>: it sends the
  queued commands as one and gives them back with their replies, beside an error.\<close>

type_synonym 's tx_server = "redis_cmd list \<Rightarrow> 's \<Rightarrow> ((redis_cmd \<times> (gerr + redis_reply)) list \<times> gerr option) \<times> 's"

definition Cache_Transaction ::
    "gerr + conn \<Rightarrow> 's tx_server \<Rightarrow> (nat \<Rightarrow> tx_op list) \<Rightarrow> 's \<Rightarrow> (gerr + any_value list) \<times> 's" where
  "Cache_Transaction cc txp queue =
     with_conn cc (\<lambda>c s.
       case (if cn_clustered c then sameSlot c ''a transaction'' (concat (map (record_op c) (queue 0))) else None) of
         Some err \<Rightarrow> (Inl err, s)
       | None \<Rightarrow>
           (let queued = queue (if cn_clustered c then 1 else 0);
                ((commands, err), s) = txp (map (pipeline_op c) queued) s
            in if err \<noteq> None \<and> \<not> isNil (the err) then (Inl (cache_failed c (the err) ''applying a transaction'' ''''), s)
               else if length queued = 0 then (Inr [], s)
               else (Inr (answers commands), s)))"

end
