(* ===== verification/Redis_Props.thy ===== *)
theory Redis_Props
  imports Redis_Ops
begin

text \<open>
  What the cache client guarantees whatever the server does: it stays within its application's keys and within one
  shard per command, and its batches are transparent to sharding.
\<close>

subsection \<open>What a command addresses\<close>

primrec cmd_keys :: "redis_cmd \<Rightarrow> string list" where
  "cmd_keys (Cmd_Get k) = [k]"
| "cmd_keys (Cmd_SetArgs k _ _ _) = [k]"
| "cmd_keys (Cmd_GetSet k _) = [k]"
| "cmd_keys (Cmd_Append k _) = [k]"
| "cmd_keys (Cmd_Exists k) = [k]"
| "cmd_keys (Cmd_TTL k) = [k]"
| "cmd_keys (Cmd_Expire k _) = [k]"
| "cmd_keys (Cmd_Persist k) = [k]"
| "cmd_keys (Cmd_Type k) = [k]"
| "cmd_keys (Cmd_IncrBy k _) = [k]"
| "cmd_keys (Cmd_DecrBy k _) = [k]"
| "cmd_keys (Cmd_IncrByFloat k _) = [k]"
| "cmd_keys (Cmd_HGet k _) = [k]"
| "cmd_keys (Cmd_HSet k _) = [k]"
| "cmd_keys (Cmd_HDel k _) = [k]"
| "cmd_keys (Cmd_HGetAll k) = [k]"
| "cmd_keys (Cmd_HExists k _) = [k]"
| "cmd_keys (Cmd_HIncrBy k _ _) = [k]"
| "cmd_keys (Cmd_HKeys k) = [k]"
| "cmd_keys (Cmd_HLen k) = [k]"
| "cmd_keys (Cmd_RPush k _) = [k]"
| "cmd_keys (Cmd_LPush k _) = [k]"
| "cmd_keys (Cmd_LPopCount k _) = [k]"
| "cmd_keys (Cmd_RPopCount k _) = [k]"
| "cmd_keys (Cmd_LRange k _ _) = [k]"
| "cmd_keys (Cmd_LLen k) = [k]"
| "cmd_keys (Cmd_LTrim k _ _) = [k]"
| "cmd_keys (Cmd_LIndex k _) = [k]"
| "cmd_keys (Cmd_SAdd k _) = [k]"
| "cmd_keys (Cmd_SRem k _) = [k]"
| "cmd_keys (Cmd_SMembers k) = [k]"
| "cmd_keys (Cmd_SIsMember k _) = [k]"
| "cmd_keys (Cmd_SCard k) = [k]"
| "cmd_keys (Cmd_ZAdd k _) = [k]"
| "cmd_keys (Cmd_ZRem k _) = [k]"
| "cmd_keys (Cmd_ZScore k _) = [k]"
| "cmd_keys (Cmd_ZRank k _) = [k]"
| "cmd_keys (Cmd_ZRevRank k _) = [k]"
| "cmd_keys (Cmd_ZRangeWithScores k _ _) = [k]"
| "cmd_keys (Cmd_ZRevRangeWithScores k _ _) = [k]"
| "cmd_keys (Cmd_ZRangeByScore k _ _ _ _) = [k]"
| "cmd_keys (Cmd_ZRevRangeByScore k _ _ _ _) = [k]"
| "cmd_keys (Cmd_ZIncrBy k _ _) = [k]"
| "cmd_keys (Cmd_ZCard k) = [k]"
| "cmd_keys (Cmd_ZCount k _ _) = [k]"
| "cmd_keys (Cmd_ZRemRangeByRank k _ _) = [k]"
| "cmd_keys (Cmd_ZRemRangeByScore k _ _) = [k]"
| "cmd_keys (Cmd_Del ks) = ks"
| "cmd_keys (Cmd_MGet ks) = ks"
| "cmd_keys (Cmd_SUnion ks) = ks"
| "cmd_keys (Cmd_SInter ks) = ks"
| "cmd_keys (Cmd_SDiff ks) = ks"
| "cmd_keys (Cmd_MSet kvs) = map fst kvs"
| "cmd_keys (Cmd_Rename k k') = [k, k']"
| "cmd_keys (Cmd_Scan _ _ _) = []"
| "cmd_keys (Cmd_ScanType _ _ _ _) = []"

definition cmd_patterns :: "redis_cmd \<Rightarrow> string list" where
  "cmd_patterns cmd = (case cmd of Cmd_Scan _ match _ \<Rightarrow> [match] | Cmd_ScanType _ match _ _ \<Rightarrow> [match] | _ \<Rightarrow> [])"

text \<open>A command stays within the application's own keys, and on a cluster within one shard.\<close>

definition allowed :: "conn \<Rightarrow> redis_cmd \<Rightarrow> bool" where
  "allowed c cmd \<longleftrightarrow> (\<forall>k \<in> set (cmd_keys cmd @ cmd_patterns cmd). has_prefix k (cn_keyPrefix c))
     \<and> (cn_clustered c \<longrightarrow> (\<forall>k \<in> set (cmd_keys cmd). \<forall>k' \<in> set (cmd_keys cmd). slotOf k = slotOf k'))"

text \<open>Any server, with a log of what it is sent.\<close>

definition logged :: "'s server \<Rightarrow> ('s \<times> redis_cmd list) server" where
  "logged srv cmd st = (let (r, s) = srv cmd (fst st) in (r, (s, snd st @ [cmd])))"

definition logged_tx :: "'s tx_server \<Rightarrow> ('s \<times> redis_cmd list) tx_server" where
  "logged_tx txp cmds st = (let (r, s) = txp cmds (fst st) in (r, (s, snd st @ cmds)))"

datatype (plugins only: code size) cache_op =
    Op_Get string
  | Op_Set string string "(set_options \<Rightarrow> set_options) list"
  | Op_Delete string
  | Op_GetSet string string
  | Op_Append string string
  | Op_GetMany "string list"
  | Op_SetMany "(string, string) gomap"
  | Op_Exists string
  | Op_TTL string
  | Op_Expire string int
  | Op_Persist string
  | Op_Type string
  | Op_Rename string string
  | Op_Increment string int
  | Op_Decrement string int
  | Op_IncrementFloat string float64
  | Op_HashGet string string
  | Op_HashSet string "(string, string) gomap"
  | Op_HashDelete string "string list"
  | Op_HashGetAll string
  | Op_HashExists string string
  | Op_HashIncrement string string int
  | Op_HashKeys string
  | Op_HashLen string
  | Op_ListLen string
  | Op_ListPush string "string list" "(string \<Rightarrow> string) list"
  | Op_ListPop string int "(string \<Rightarrow> string) list"
  | Op_ListRange string int int
  | Op_ListTrim string int int
  | Op_ListIndex string int
  | Op_SetAdd string "string list"
  | Op_SetRemove string "string list"
  | Op_SetMembers string
  | Op_SetIsMember string string
  | Op_SetLen string
  | Op_SetUnion "string list"
  | Op_SetIntersect "string list"
  | Op_SetDiff "string list"
  | Op_SortedSetAdd string "sorted_set_member list"
  | Op_SortedSetRemove string "string list"
  | Op_SortedSetScore string string
  | Op_SortedSetRank string string "(range_options \<Rightarrow> range_options) list"
  | Op_SortedSetRange string int int "(range_options \<Rightarrow> range_options) list"
  | Op_SortedSetRangeByScore string score_range "(range_options \<Rightarrow> range_options) list"
  | Op_SortedSetIncrement string string float64
  | Op_SortedSetLen string
  | Op_SortedSetCountByScore string score_range
  | Op_SortedSetRemoveByRank string int int
  | Op_SortedSetRemoveByScore string score_range
  | Op_DeleteMany "string list"
  | Op_Transaction "nat \<Rightarrow> tx_op list"

primrec cache_do :: "gerr + conn \<Rightarrow> 's server \<Rightarrow> 's tx_server \<Rightarrow> (float64 \<Rightarrow> string) \<Rightarrow> cache_op \<Rightarrow> 's \<Rightarrow> 's" where
  "cache_do cc srv txp fmt (Op_Get key) st = snd (Cache_Get cc srv key st)"
| "cache_do cc srv txp fmt (Op_Set key value opts) st = snd (Cache_Set cc srv key value opts st)"
| "cache_do cc srv txp fmt (Op_Delete key) st = snd (Cache_Delete cc srv key st)"
| "cache_do cc srv txp fmt (Op_GetSet key value) st = snd (Cache_GetSet cc srv key value st)"
| "cache_do cc srv txp fmt (Op_Append key value) st = snd (Cache_Append cc srv key value st)"
| "cache_do cc srv txp fmt (Op_GetMany keys) st = snd (Cache_GetMany cc srv keys st)"
| "cache_do cc srv txp fmt (Op_SetMany values) st = snd (Cache_SetMany cc srv values st)"
| "cache_do cc srv txp fmt (Op_Exists key) st = snd (Cache_Exists cc srv key st)"
| "cache_do cc srv txp fmt (Op_TTL key) st = snd (Cache_TTL cc srv key st)"
| "cache_do cc srv txp fmt (Op_Expire key ttl) st = snd (Cache_Expire cc srv key ttl st)"
| "cache_do cc srv txp fmt (Op_Persist key) st = snd (Cache_Persist cc srv key st)"
| "cache_do cc srv txp fmt (Op_Type key) st = snd (Cache_Type cc srv key st)"
| "cache_do cc srv txp fmt (Op_Rename key newKey) st = snd (Cache_Rename cc srv key newKey st)"
| "cache_do cc srv txp fmt (Op_Increment key delta) st = snd (Cache_Increment cc srv key delta st)"
| "cache_do cc srv txp fmt (Op_Decrement key delta) st = snd (Cache_Decrement cc srv key delta st)"
| "cache_do cc srv txp fmt (Op_IncrementFloat key delta) st = snd (Cache_IncrementFloat cc srv key delta st)"
| "cache_do cc srv txp fmt (Op_HashGet key field) st = snd (Cache_HashGet cc srv key field st)"
| "cache_do cc srv txp fmt (Op_HashSet key flds) st = snd (Cache_HashSet cc srv key flds st)"
| "cache_do cc srv txp fmt (Op_HashDelete key flds) st = snd (Cache_HashDelete cc srv key flds st)"
| "cache_do cc srv txp fmt (Op_HashGetAll key) st = snd (Cache_HashGetAll cc srv key st)"
| "cache_do cc srv txp fmt (Op_HashExists key field) st = snd (Cache_HashExists cc srv key field st)"
| "cache_do cc srv txp fmt (Op_HashIncrement key field delta) st = snd (Cache_HashIncrement cc srv key field delta st)"
| "cache_do cc srv txp fmt (Op_HashKeys key) st = snd (Cache_HashKeys cc srv key st)"
| "cache_do cc srv txp fmt (Op_HashLen key) st = snd (Cache_HashLen cc srv key st)"
| "cache_do cc srv txp fmt (Op_ListLen key) st = snd (Cache_ListLen cc srv key st)"
| "cache_do cc srv txp fmt (Op_ListPush key values opts) st = snd (Cache_ListPush cc srv key values opts st)"
| "cache_do cc srv txp fmt (Op_ListPop key n opts) st = snd (Cache_ListPop cc srv key n opts st)"
| "cache_do cc srv txp fmt (Op_ListRange key start stop) st = snd (Cache_ListRange cc srv key start stop st)"
| "cache_do cc srv txp fmt (Op_ListTrim key start stop) st = snd (Cache_ListTrim cc srv key start stop st)"
| "cache_do cc srv txp fmt (Op_ListIndex key index) st = snd (Cache_ListIndex cc srv key index st)"
| "cache_do cc srv txp fmt (Op_SetAdd key members) st = snd (Cache_SetAdd cc srv key members st)"
| "cache_do cc srv txp fmt (Op_SetRemove key members) st = snd (Cache_SetRemove cc srv key members st)"
| "cache_do cc srv txp fmt (Op_SetMembers key) st = snd (Cache_SetMembers cc srv key st)"
| "cache_do cc srv txp fmt (Op_SetIsMember key member) st = snd (Cache_SetIsMember cc srv key member st)"
| "cache_do cc srv txp fmt (Op_SetLen key) st = snd (Cache_SetLen cc srv key st)"
| "cache_do cc srv txp fmt (Op_SetUnion keys) st = snd (Cache_SetUnion cc srv keys st)"
| "cache_do cc srv txp fmt (Op_SetIntersect keys) st = snd (Cache_SetIntersect cc srv keys st)"
| "cache_do cc srv txp fmt (Op_SetDiff keys) st = snd (Cache_SetDiff cc srv keys st)"
| "cache_do cc srv txp fmt (Op_SortedSetAdd key members) st = snd (Cache_SortedSetAdd cc srv key members st)"
| "cache_do cc srv txp fmt (Op_SortedSetRemove key members) st = snd (Cache_SortedSetRemove cc srv key members st)"
| "cache_do cc srv txp fmt (Op_SortedSetScore key member) st = snd (Cache_SortedSetScore cc srv key member st)"
| "cache_do cc srv txp fmt (Op_SortedSetRank key member opts) st = snd (Cache_SortedSetRank cc srv key member opts st)"
| "cache_do cc srv txp fmt (Op_SortedSetRange key start stop opts) st = snd (Cache_SortedSetRange cc srv key start stop opts st)"
| "cache_do cc srv txp fmt (Op_SortedSetRangeByScore key scores opts) st = snd (Cache_SortedSetRangeByScore cc srv fmt key scores opts st)"
| "cache_do cc srv txp fmt (Op_SortedSetIncrement key member delta) st = snd (Cache_SortedSetIncrement cc srv key member delta st)"
| "cache_do cc srv txp fmt (Op_SortedSetLen key) st = snd (Cache_SortedSetLen cc srv key st)"
| "cache_do cc srv txp fmt (Op_SortedSetCountByScore key scores) st = snd (Cache_SortedSetCountByScore cc srv fmt key scores st)"
| "cache_do cc srv txp fmt (Op_SortedSetRemoveByRank key start stop) st = snd (Cache_SortedSetRemoveByRank cc srv key start stop st)"
| "cache_do cc srv txp fmt (Op_SortedSetRemoveByScore key scores) st = snd (Cache_SortedSetRemoveByScore cc srv fmt key scores st)"
| "cache_do cc srv txp fmt (Op_DeleteMany keys) st = snd (Cache_DeleteMany cc srv keys st)"
| "cache_do cc srv txp fmt (Op_Transaction queue) st = snd (Cache_Transaction cc txp queue st)"

text \<open>An action sends allowed commands only.\<close>

definition sends_allowed :: "conn \<Rightarrow> ('s \<times> redis_cmd list \<Rightarrow> 'r \<times> 's \<times> redis_cmd list) \<Rightarrow> bool" where
  "sends_allowed c act \<longleftrightarrow> (\<forall>st. \<forall>cmd \<in> set (snd (snd (act st))). cmd \<in> set (snd st) \<or> allowed c cmd)"

named_theorems sends

lemma sends_return [sends]: "sends_allowed c (\<lambda>st. (x, st))"
  by (simp add: sends_allowed_def)

lemma sends_with_conn [sends]: "(\<And>c. cc = Inr c \<Longrightarrow> sends_allowed c (f c)) \<Longrightarrow> cc = Inr c \<Longrightarrow> sends_allowed c (with_conn cc f)"
  by (simp add: sends_allowed_def with_conn_def)

lemma sends_ask [sends]: "allowed c cmd \<Longrightarrow> sends_allowed c (ask (logged srv) cmd on_err on_ok)"
  by (auto simp: sends_allowed_def ask_def logged_def Let_def split: sum.splits prod.splits)

lemma sends_if [sends]: "(b \<Longrightarrow> sends_allowed c f) \<Longrightarrow> (\<not> b \<Longrightarrow> sends_allowed c g) \<Longrightarrow> sends_allowed c (if b then f else g)"
  by simp

lemma allowed_one [simp]:
  "cmd_keys cmd = [cache_key c key] \<Longrightarrow> cmd_patterns cmd = [] \<Longrightarrow> allowed c cmd"
  by (simp add: allowed_def)

lemma set_bySlot: "concat (bySlot c keys) = keys \<or> mset (concat (bySlot c keys)) = mset keys"
proof (cases "cn_clustered c \<and> keys \<noteq> []")
  case True
  with bySlot_form [of c keys] obtain order where "distinct order" "set order = slotOf ` set keys"
    "bySlot c keys = map (\<lambda>slot. filter (\<lambda>k. slotOf k = slot) keys) order" by blast
  then show ?thesis by (simp add: mset_filter_classes)
next
  case False
  then show ?thesis by (auto simp: bySlot_def)
qed

lemma bySlot_sub: "batch \<in> set (bySlot c keys) \<Longrightarrow> set batch \<subseteq> set keys"
  using set_bySlot [of c keys] by (metis UN_upper set_concat set_mset_mset)

lemma bySlot_one_slot:
  assumes "cn_clustered c" and "batch \<in> set (bySlot c keys)" and "k \<in> set batch" and "k' \<in> set batch"
  shows "slotOf k = slotOf k'"
proof (cases "keys = []")
  case True
  with assms show ?thesis by (simp add: bySlot_def)
next
  case False
  with bySlot_form [OF assms(1), of keys] assms(2-4) show ?thesis by auto
qed

text \<open>A command that addresses exactly the keys of one batch is allowed.\<close>

lemma allowed_batch:
  assumes "batch \<in> set (bySlot c (map (cache_key c) keys))" and "cmd_keys cmd = batch" and "cmd_patterns cmd = []"
  shows "allowed c cmd"
  unfolding allowed_def assms(2,3) append_Nil2
proof (intro conjI ballI impI)
  fix k assume "k \<in> set batch"
  with bySlot_sub [OF assms(1)] have "k \<in> cache_key c ` set keys" by auto
  then show "has_prefix k (cn_keyPrefix c)" by auto
next
  fix k k' assume "cn_clustered c" and "k \<in> set batch" and "k' \<in> set batch"
  then show "slotOf k = slotOf k'" using bySlot_one_slot assms(1) by blast
qed

text \<open>Sending one command before going on.\<close>

lemma sends_then:
  assumes "allowed c cmd" and "\<And>r. sends_allowed c (go_on r)"
    and "\<And>err. sends_allowed c (stop err)"
  shows "sends_allowed c (\<lambda>st. case logged srv cmd st of (Inl err, st) \<Rightarrow> stop err st | (Inr r, st) \<Rightarrow> go_on r st)"
  unfolding sends_allowed_def
proof (intro allI ballI)
  fix st cmd'
  assume a: "cmd' \<in> set (snd (snd (case logged srv cmd st of (Inl err, st) \<Rightarrow> stop err st | (Inr r, st) \<Rightarrow> go_on r st)))"
  obtain r s where r: "srv cmd (fst st) = (r, s)" by force
  let ?log = "snd st @ [cmd]"
  have "x \<in> set ?log \<or> allowed c x" if "x \<in> set (snd (snd (go_on q (s, ?log))))" for q x
    using assms(2) that unfolding sends_allowed_def by (metis snd_conv)
  moreover have "x \<in> set ?log \<or> allowed c x" if "x \<in> set (snd (snd (stop err (s, ?log))))" for err x
    using assms(3) that unfolding sends_allowed_def by (metis snd_conv)
  ultimately have "cmd' \<in> set ?log \<or> allowed c cmd'"
    using a r by (cases r) (simp_all add: logged_def)
  with assms(1) show "cmd' \<in> set (snd st) \<or> allowed c cmd'" by auto
qed

lemma sends_get_groups:
  "(\<And>batch. batch \<in> set batches \<Longrightarrow> allowed c (Cmd_MGet batch)) \<Longrightarrow> sends_allowed c (get_groups (logged srv) c batches found)"
proof (induction batches arbitrary: found)
  case Nil
  then show ?case by (simp add: sends_allowed_def)
next
  case (Cons batch batches)
  show ?case
    unfolding get_groups.simps by (rule sends_then) (use Cons in \<open>simp_all add: sends\<close>)
qed

lemma sends_set_groups:
  "(\<And>batch cmd. batch \<in> set batches \<Longrightarrow> cmd_keys cmd = batch \<Longrightarrow> cmd_patterns cmd = [] \<Longrightarrow> allowed c cmd) \<Longrightarrow>
     sends_allowed c (set_groups (logged srv) c values batches)"
proof (induction batches)
  case Nil
  then show ?case by (simp add: sends_allowed_def)
next
  case (Cons batch batches)
  let ?cmd = "Cmd_MSet (map (\<lambda>key. (key, value_at values (cache_strip c key))) batch)"
  have "cmd_keys ?cmd = batch" by (induction batch) simp_all
  then have "allowed c ?cmd"
    using Cons.prems [of batch ?cmd] by (simp add: cmd_patterns_def)
  moreover have "sends_allowed c (set_groups (logged srv) c values batches)"
    by (rule Cons.IH) (use Cons.prems in auto)
  ultimately show ?case
    unfolding set_groups.simps by (intro sends_then) (simp_all add: sends)
qed

lemma sends_del_groups:
  "(\<And>batch. batch \<in> set batches \<Longrightarrow> allowed c (Cmd_Del batch)) \<Longrightarrow> sends_allowed c (del_groups (logged srv) c batches removed)"
proof (induction batches arbitrary: removed)
  case Nil
  then show ?case by (simp add: sends_allowed_def)
next
  case (Cons batch batches)
  show ?case
    unfolding del_groups.simps by (rule sends_then) (use Cons in \<open>simp_all add: sends\<close>)
qed


lemma with_conn_Inr: "with_conn (Inr c) f = f c"
  by (rule ext) (simp add: with_conn_def)

lemma allowed_same_slot:
  assumes "sameSlot c doing (cmd_keys cmd) = None" and "\<forall>k \<in> set (cmd_keys cmd). has_prefix k (cn_keyPrefix c)"
    and "cmd_patterns cmd = []"
  shows "allowed c cmd"
  unfolding allowed_def assms(3) append_Nil2 using assms(1,2) sameSlot_None_iff [of c doing "cmd_keys cmd"] by blast

lemma sends_combine [sends]:
  assumes "\<And>ks. cmd_keys (run ks) = ks" and "\<And>ks. cmd_patterns (run ks) = []" and "cc = Inr c"
  shows "sends_allowed c (cache_combine cc (logged srv) doing keys run)"
proof -
  have "sends_allowed c (\<lambda>s. case sameSlot c doing (cache_names c keys) of Some err \<Rightarrow> (Inl err, s)
      | None \<Rightarrow> ask (logged srv) (run (cache_names c keys)) (failing c doing []) (\<lambda>r. Inr (as_strs r)) s)"
  proof (cases "sameSlot c doing (cache_names c keys)")
    case None
    then have "allowed c (run (cache_names c keys))"
      using assms by (intro allowed_same_slot [of c doing]) (auto simp: cache_names_def)
    then show ?thesis using None by (simp add: sends)
  next
    case (Some err)
    then show ?thesis by (simp add: sends)
  qed
  with assms(3) show ?thesis
    unfolding cache_combine_def by (intro sends) simp_all
qed

lemma pipeline_op_keys: "set (cmd_keys (pipeline_op c opn)) = set (record_op c opn) \<and> cmd_patterns (pipeline_op c opn) = []"
  by (cases opn) (simp_all add: cmd_patterns_def Let_def)

lemma record_op_prefixed: "k \<in> set (record_op c opn) \<Longrightarrow> has_prefix k (cn_keyPrefix c)"
  by (cases opn) auto

text \<open>A function that queues the same calls both times it is run sends commands on one shard.\<close>

lemma sends_transaction:
  assumes "cc = Inr c" and "queue 0 = queue 1"
  shows "sends_allowed c (Cache_Transaction cc (logged_tx txp) queue)"
  unfolding sends_allowed_def
proof (intro allI ballI)
  fix st cmd
  assume a: "cmd \<in> set (snd (snd (Cache_Transaction cc (logged_tx txp) queue st)))"
  show "cmd \<in> set (snd st) \<or> allowed c cmd"
  proof (rule disjCI)
    assume "\<not> allowed c cmd"
    let ?keys = "concat (map (record_op c) (queue 0))"
    have pre: "has_prefix k (cn_keyPrefix c)" if "opn \<in> set (queue 0)" "k \<in> set (cmd_keys (pipeline_op c opn))" for opn k
      using that pipeline_op_keys [of c opn] record_op_prefixed by auto
    have "allowed c (pipeline_op c opn)"
      if "opn \<in> set (queue 0)" "cn_clustered c \<Longrightarrow> sameSlot c doing ?keys = None" for opn doing
      unfolding allowed_def
    proof (intro conjI ballI impI)
      show "has_prefix k (cn_keyPrefix c)" if "k \<in> set (cmd_keys (pipeline_op c opn) @ cmd_patterns (pipeline_op c opn))" for k
        using that pre [OF \<open>opn \<in> set (queue 0)\<close>] pipeline_op_keys [of c opn] by simp
    next
      fix k k' assume c: "cn_clustered c" and k: "k \<in> set (cmd_keys (pipeline_op c opn))" "k' \<in> set (cmd_keys (pipeline_op c opn))"
      have "k \<in> set ?keys" "k' \<in> set ?keys"
        using k that(1) pipeline_op_keys [of c opn] by auto
      with c that(2) sameSlot_None_iff [of c doing ?keys] show "slotOf k = slotOf k'" by blast
    qed
    with \<open>\<not> allowed c cmd\<close> have "cmd \<notin> pipeline_op c ` set (queue 0)"
      if "cn_clustered c \<Longrightarrow> sameSlot c ''a transaction'' ?keys = None"
      using that by blast
    then show "cmd \<in> set (snd st)"
      using a assms by (auto simp: Cache_Transaction_def with_conn_def logged_tx_def Let_def
          split: option.splits prod.splits if_splits)
  qed
qed

lemma sends_rename:
  assumes "cc = Inr c"
  shows "sends_allowed c (Cache_Rename cc (logged srv) key newKey)"
proof (cases "sameSlot c ''renaming'' [cache_key c key, cache_key c newKey]")
  case None
  then have "allowed c (Cmd_Rename (cache_key c key) (cache_key c newKey))"
    by (intro allowed_same_slot [of c "''renaming''"]) (auto simp: cmd_patterns_def)
  with None show ?thesis
    using assms by (simp add: Cache_Rename_def with_conn_Inr sends)
next
  case (Some err)
  then show ?thesis using assms by (simp add: Cache_Rename_def with_conn_Inr sends)
qed

lemma sends_batches:
  assumes "cc = Inr c"
  shows "sends_allowed c (Cache_GetMany cc (logged srv) keys)"
    and "sends_allowed c (Cache_SetMany cc (logged srv) values)"
    and "sends_allowed c (Cache_DeleteMany cc (logged srv) keys)"
proof -
  have "sends_allowed c (get_groups (logged srv) c (bySlot c (cache_names c keys)) [])"
    by (rule sends_get_groups, rule allowed_batch) (auto simp: cache_names_def cmd_patterns_def)
  then show "sends_allowed c (Cache_GetMany cc (logged srv) keys)"
    using assms by (auto simp: Cache_GetMany_def intro!: sends)
  have "sends_allowed c (set_groups (logged srv) c values (bySlot c (map (cache_key c) (gm_keys values))))"
    by (rule sends_set_groups, rule allowed_batch [where keys = "gm_keys values"]) simp_all
  then show "sends_allowed c (Cache_SetMany cc (logged srv) values)"
    using assms by (auto simp: Cache_SetMany_def intro!: sends)
  have "sends_allowed c (del_groups (logged srv) c (bySlot c (cache_names c keys)) 0)"
    by (rule sends_del_groups, rule allowed_batch) (auto simp: cache_names_def cmd_patterns_def)
  then show "sends_allowed c (Cache_DeleteMany cc (logged srv) keys)"
    using assms by (auto simp: Cache_DeleteMany_def sends_allowed_def)
qed

lemma logged_sends: "logged srv cmd st = (r, st') \<Longrightarrow> snd st' = snd st @ [cmd]"
  by (auto simp: logged_def Let_def split: prod.splits)

lemma cache_walk_allowed:
  assumes "cache_walk (logged srv) c match opts yield cursor acc st = Some y" and pre: "has_prefix match (cn_keyPrefix c)"
  shows "\<forall>cmd \<in> set (snd (snd (snd y))). cmd \<in> set (snd st) \<or> allowed c cmd"
proof -
  let ?P = "\<lambda>srv' c' match' opts yield cursor acc st y. srv' = logged srv \<and> c' = c \<and> match' = match \<longrightarrow>
      (\<forall>cmd \<in> set (snd (snd (snd y))). cmd \<in> set (snd st) \<or> allowed c cmd)"
  have "?P (logged srv) c match opts yield cursor acc st y"
  proof (rule cache_walk.raw_induct [where P = ?P, OF _ assms(1)], intro impI ballI)
    fix walk srv' c' match' and opts :: scan_options and yield cursor acc st y cmd
    let ?cmd = "if sc_Type opts \<noteq> [] then Cmd_ScanType cursor match' (sc_Count opts) (sc_Type opts)
                else Cmd_Scan cursor match' (sc_Count opts)"
    assume step: "(case srv' ?cmd st of
        (Inl err, s) \<Rightarrow> Some (False, snd (yield [] (Some (cache_failed c' err ''walking the keys'' [])) acc), s)
      | (Inr r, s) \<Rightarrow>
          (case yield_keys c' yield (fst (as_scan r)) acc of
             (go_on, acc) \<Rightarrow>
               (if \<not> go_on then Some (False, acc, s)
                else if snd (as_scan r) = 0 then Some (True, acc, s)
                else walk srv' c' match' opts yield (snd (as_scan r)) acc s))) = Some y"
      and eq: "srv' = logged srv \<and> c' = c \<and> match' = match" and cmd: "cmd \<in> set (snd (snd (snd y)))"
    assume IH: "\<And>srv' c' match' (opts :: scan_options) yield cursor acc st y. walk srv' c' match' opts yield cursor acc st = Some y \<Longrightarrow>
        ?P srv' c' match' opts yield cursor acc st y"
    obtain r st1 where r: "logged srv ?cmd st = (r, st1)" by (meson surj_pair)
    have ok: "allowed c ?cmd" using pre eq by (simp add: allowed_def cmd_patterns_def)
    have "cmd \<in> set (snd st1) \<or> allowed c cmd"
    proof (cases "st1 = snd (snd y)")
      case True
      with cmd show ?thesis by simp
    next
      case False
      with step eq r obtain cur acc1 where "walk srv' c' match' opts yield cur acc1 st1 = Some y"
        by (auto split: sum.splits prod.splits if_splits)
      from IH [OF this] eq cmd show ?thesis by blast
    qed
    then show "cmd \<in> set (snd st) \<or> allowed c cmd"
      using logged_sends [OF r] ok by auto
  qed
  then show ?thesis by simp
qed

lemma walk_shards_allowed:
  assumes "\<forall>shard \<in> set shards. \<exists>srv. shard = logged srv" and "has_prefix match (cn_keyPrefix c)"
    and "walk_shards shards c match opts yield acc st = Some (acc', st')"
  shows "\<forall>cmd \<in> set (snd st'). cmd \<in> set (snd st) \<or> allowed c cmd"
  using assms
proof (induction shards arbitrary: acc st)
  case Nil
  then show ?case by simp
next
  case (Cons shard shards)
  from Cons.prems(1) obtain srv where srv: "shard = logged srv" by auto
  from Cons.prems(3) obtain go_on acc1 st1 where w: "cache_walk shard c match opts yield 0 acc st = Some (go_on, acc1, st1)"
    by (auto split: option.splits prod.splits)
  from cache_walk_allowed [OF w [unfolded srv] Cons.prems(2)]
  have first: "\<forall>cmd \<in> set (snd st1). cmd \<in> set (snd st) \<or> allowed c cmd" by simp
  show ?case
  proof (cases go_on)
    case True
    with Cons.prems(3) w have "walk_shards shards c match opts yield acc1 st1 = Some (acc', st')" by simp
    with Cons.IH [of acc1 st1] Cons.prems(1,2) first show ?thesis by auto
  next
    case False
    with Cons.prems(3) w first show ?thesis by simp
  qed
qed

lemma sends_from_start: "sends_allowed c act \<Longrightarrow> \<forall>cmd \<in> set (snd (snd (act (s, [])))). allowed c cmd"
  unfolding sends_allowed_def by (metis empty_iff empty_set snd_conv)

lemmas cache_op_defs =
  Cache_Get_def Cache_Set_def Cache_Delete_def Cache_GetSet_def
  Cache_Append_def Cache_Exists_def Cache_TTL_def Cache_Expire_def
  Cache_Persist_def Cache_Type_def Cache_Increment_def Cache_Decrement_def
  Cache_IncrementFloat_def Cache_HashGet_def Cache_HashSet_def Cache_HashDelete_def
  Cache_HashGetAll_def Cache_HashExists_def Cache_HashIncrement_def Cache_HashKeys_def
  Cache_HashLen_def Cache_ListLen_def Cache_ListPush_def Cache_ListPop_def
  Cache_ListRange_def Cache_ListTrim_def Cache_ListIndex_def Cache_SetAdd_def
  Cache_SetRemove_def Cache_SetMembers_def Cache_SetIsMember_def Cache_SetLen_def
  Cache_SetUnion_def Cache_SetIntersect_def Cache_SetDiff_def Cache_SortedSetAdd_def
  Cache_SortedSetRemove_def Cache_SortedSetScore_def Cache_SortedSetRank_def Cache_SortedSetRange_def
  Cache_SortedSetRangeByScore_def Cache_SortedSetIncrement_def Cache_SortedSetLen_def Cache_SortedSetCountByScore_def
  Cache_SortedSetRemoveByRank_def Cache_SortedSetRemoveByScore_def

text \<open>The operations that send one command for one key.\<close>

lemma sends_one_key:
  "sends_allowed c (Cache_Get (Inr c) (logged srv) key)"
  "sends_allowed c (Cache_Set (Inr c) (logged srv) key value opts)"
  "sends_allowed c (Cache_Delete (Inr c) (logged srv) key)"
  "sends_allowed c (Cache_GetSet (Inr c) (logged srv) key value)"
  "sends_allowed c (Cache_Append (Inr c) (logged srv) key value)"
  "sends_allowed c (Cache_Exists (Inr c) (logged srv) key)"
  "sends_allowed c (Cache_TTL (Inr c) (logged srv) key)"
  "sends_allowed c (Cache_Expire (Inr c) (logged srv) key ttl)"
  "sends_allowed c (Cache_Persist (Inr c) (logged srv) key)"
  "sends_allowed c (Cache_Type (Inr c) (logged srv) key)"
  "sends_allowed c (Cache_Increment (Inr c) (logged srv) key delta)"
  "sends_allowed c (Cache_Decrement (Inr c) (logged srv) key delta)"
  "sends_allowed c (Cache_IncrementFloat (Inr c) (logged srv) key delta')"
  "sends_allowed c (Cache_HashGet (Inr c) (logged srv) key field)"
  "sends_allowed c (Cache_HashSet (Inr c) (logged srv) key flds)"
  "sends_allowed c (Cache_HashDelete (Inr c) (logged srv) key flds')"
  "sends_allowed c (Cache_HashGetAll (Inr c) (logged srv) key)"
  "sends_allowed c (Cache_HashExists (Inr c) (logged srv) key field)"
  "sends_allowed c (Cache_HashIncrement (Inr c) (logged srv) key field delta)"
  "sends_allowed c (Cache_HashKeys (Inr c) (logged srv) key)"
  "sends_allowed c (Cache_HashLen (Inr c) (logged srv) key)"
  "sends_allowed c (Cache_ListLen (Inr c) (logged srv) key)"
  "sends_allowed c (Cache_ListPush (Inr c) (logged srv) key values' opts')"
  "sends_allowed c (Cache_ListPop (Inr c) (logged srv) key n opts')"
  "sends_allowed c (Cache_ListRange (Inr c) (logged srv) key start stop)"
  "sends_allowed c (Cache_ListTrim (Inr c) (logged srv) key start stop)"
  "sends_allowed c (Cache_ListIndex (Inr c) (logged srv) key index)"
  "sends_allowed c (Cache_SetAdd (Inr c) (logged srv) key members)"
  "sends_allowed c (Cache_SetRemove (Inr c) (logged srv) key members)"
  "sends_allowed c (Cache_SetMembers (Inr c) (logged srv) key)"
  "sends_allowed c (Cache_SetIsMember (Inr c) (logged srv) key member)"
  "sends_allowed c (Cache_SetLen (Inr c) (logged srv) key)"
  "sends_allowed c (Cache_SetUnion (Inr c) (logged srv) keys)"
  "sends_allowed c (Cache_SetIntersect (Inr c) (logged srv) keys)"
  "sends_allowed c (Cache_SetDiff (Inr c) (logged srv) keys)"
  "sends_allowed c (Cache_SortedSetAdd (Inr c) (logged srv) key members')"
  "sends_allowed c (Cache_SortedSetRemove (Inr c) (logged srv) key members)"
  "sends_allowed c (Cache_SortedSetScore (Inr c) (logged srv) key member)"
  "sends_allowed c (Cache_SortedSetRank (Inr c) (logged srv) key member opts'')"
  "sends_allowed c (Cache_SortedSetRange (Inr c) (logged srv) key start stop opts'')"
  "sends_allowed c (Cache_SortedSetRangeByScore (Inr c) (logged srv) fmt key scores opts'')"
  "sends_allowed c (Cache_SortedSetIncrement (Inr c) (logged srv) key member delta')"
  "sends_allowed c (Cache_SortedSetLen (Inr c) (logged srv) key)"
  "sends_allowed c (Cache_SortedSetCountByScore (Inr c) (logged srv) fmt key scores)"
  "sends_allowed c (Cache_SortedSetRemoveByRank (Inr c) (logged srv) key start stop)"
  "sends_allowed c (Cache_SortedSetRemoveByScore (Inr c) (logged srv) fmt key scores)"
  unfolding cache_op_defs with_conn_Inr Let_def
  by (intro sends allowed_one refl; simp add: cmd_patterns_def)+

subsection \<open>Properties\<close>

text \<open>C17. Applications that share a cache are kept apart, and a cluster is never sent a command it refuses: with
  any server behind it, every command any operation sends addresses only keys that begin with the
  application's own prefix (a walk only patterns that do), and on a cluster the keys of one command are on one
  shard. A transaction needs its function to queue the same calls both times it is run, which is what
  the contract asks of it.\<close>

theorem cache_stays_within:
  assumes "\<forall>queue. opn = Op_Transaction queue \<longrightarrow> queue 0 = queue 1"
  shows "(\<forall>cmd \<in> set (snd (cache_do (Inr c) (logged srv) (logged_tx txp) fmt opn (s, []))).
       (\<forall>k \<in> set (cmd_keys cmd @ cmd_patterns cmd). has_prefix k (cn_keyPrefix c))
     \<and> (cn_clustered c \<longrightarrow> (\<forall>k \<in> set (cmd_keys cmd). \<forall>k' \<in> set (cmd_keys cmd). slotOf k = slotOf k')))
   \<and> (\<forall>acc' s' log. Cache_Scan (Inr c) (logged srv) (map logged masters) opts yield acc (s, []) = Some (acc', s', log) \<longrightarrow>
       (\<forall>cmd \<in> set log. \<forall>k \<in> set (cmd_keys cmd @ cmd_patterns cmd). has_prefix k (cn_keyPrefix c)))"
proof (intro conjI)
  have "\<forall>cmd \<in> set (snd (cache_do (Inr c) (logged srv) (logged_tx txp) fmt opn (s, []))). allowed c cmd"
  proof (cases opn)
    case (Op_Transaction queue)
    with assms sends_from_start [OF sends_transaction [OF refl]] show ?thesis by simp
  next
    case (Op_Rename key newKey)
    with sends_from_start [OF sends_rename [OF refl]] show ?thesis by simp
  next
    case (Op_GetMany keys)
    with sends_from_start [OF sends_batches(1) [OF refl]] show ?thesis by simp
  next
    case (Op_SetMany vals)
    with sends_from_start [OF sends_batches(2) [OF refl]] show ?thesis by simp
  next
    case (Op_DeleteMany keys)
    with sends_from_start [OF sends_batches(3) [OF refl]] show ?thesis by simp
  qed (simp only: cache_do.simps, rule sends_from_start, rule sends_one_key)+
  then show "\<forall>cmd \<in> set (snd (cache_do (Inr c) (logged srv) (logged_tx txp) fmt opn (s, []))).
       (\<forall>k \<in> set (cmd_keys cmd @ cmd_patterns cmd). has_prefix k (cn_keyPrefix c))
     \<and> (cn_clustered c \<longrightarrow> (\<forall>k \<in> set (cmd_keys cmd). \<forall>k' \<in> set (cmd_keys cmd). slotOf k = slotOf k'))"
    unfolding allowed_def .
  have "has_prefix (scan_match c resolved) (cn_keyPrefix c)" for resolved
    by (simp add: scan_match_def)
  moreover have "\<forall>shard \<in> set (cache_shards (cn_clustered c) (logged srv) (map logged masters)). \<exists>srv. shard = logged srv"
    by (auto simp: cache_shards_def)
  ultimately show "\<forall>acc' s' log. Cache_Scan (Inr c) (logged srv) (map logged masters) opts yield acc (s, []) = Some (acc', s', log) \<longrightarrow>
       (\<forall>cmd \<in> set log. \<forall>k \<in> set (cmd_keys cmd @ cmd_patterns cmd). has_prefix k (cn_keyPrefix c))"
    using walk_shards_allowed [of "cache_shards (cn_clustered c) (logged srv) (map logged masters)"]
    unfolding Cache_Scan_def Let_def allowed_def by fastforce
qed


theorem cache_stays_within_witness:
  "list_all (\<lambda>cmd. list_all (\<lambda>k. has_prefix k ''app:'') (cmd_keys cmd))
     (snd (cache_do (Inr \<lparr>cn_ref = ''cache'', cn_keyPrefix = ''app:'', cn_clustered = True\<rparr>)
       (logged (\<lambda>cmd s. (Inl redis_Nil, s))) (logged_tx (\<lambda>cmds s. (([], None), s))) (\<lambda>f. ''0'')
       (Op_Transaction (\<lambda>n. [Tx_Delete ''{u}:a'', Tx_Rename ''{u}:b'' ''{u}:c''])) ((), [])))"
  using conjunct1 [OF cache_stays_within [of "Op_Transaction (\<lambda>n. [Tx_Delete ''{u}:a'', Tx_Rename ''{u}:b'' ''{u}:c''])"
      "\<lparr>cn_ref = ''cache'', cn_keyPrefix = ''app:'', cn_clustered = True\<rparr>" "\<lambda>cmd s. (Inl redis_Nil, s)"
      "\<lambda>cmds s. (([], None), s)" "\<lambda>f. ''0''" "()"]]
  by (simp add: list_all_iff)

subsection \<open>Batches and what a server holds\<close>

lemma gm_get_keep_found:
  assumes "\<forall>k \<in> set batch. k = cache_key c (cache_strip c k)"
  shows "gm_get (keep_found c batch (map f batch) found) key =
     (if cache_key c key \<in> set batch \<and> f (cache_key c key) \<noteq> None then f (cache_key c key) else gm_get found key)"
  using assms
proof (induction batch arbitrary: found)
  case Nil
  then show ?case by (simp add: keep_found_def)
next
  case (Cons k batch)
  let ?found = "case f k of None \<Rightarrow> found | Some text \<Rightarrow> gm_put (cache_strip c k) text found"
  have "keep_found c (k # batch) (map f (k # batch)) found = keep_found c batch (map f batch) ?found"
    by (simp add: keep_found_def)
  moreover have "k = cache_key c key \<longleftrightarrow> cache_strip c k = key"
    using Cons.prems by (metis cache_strip_key list.set_intros(1))
  ultimately show ?case
    using Cons by (auto split: option.splits)
qed

lemma get_groups_holds:
  assumes "\<And>ks. srv (Cmd_MGet ks) s = (Inr (RMaybe (map f ks)), s)"
    and "\<forall>k \<in> set (concat batches). k = cache_key c (cache_strip c k)"
  shows "\<exists>m. get_groups srv c batches found s = (Inr m, s) \<and> (\<forall>key. gm_get m key =
     (if cache_key c key \<in> set (concat batches) \<and> f (cache_key c key) \<noteq> None then f (cache_key c key) else gm_get found key))"
  using assms(2)
proof (induction batches arbitrary: found)
  case Nil
  then show ?case by simp
next
  case (Cons batch batches)
  from Cons.IH [of "keep_found c batch (map f batch) found"] Cons.prems obtain m where
    "get_groups srv c batches (keep_found c batch (map f batch) found) s = (Inr m, s)"
    "\<forall>key. gm_get m key = (if cache_key c key \<in> set (concat batches) \<and> f (cache_key c key) \<noteq> None then f (cache_key c key)
       else gm_get (keep_found c batch (map f batch) found) key)" by auto
  with Cons.prems show ?case
    by (intro exI [of _ m]) (auto simp: assms(1) gm_get_keep_found)
qed

lemma map_of_rev_pairs: "map_of (rev (map (\<lambda>k. (k, g k)) ks)) x = (if x \<in> set ks then Some (g x) else None)"
  using map_of_map_restrict [of g "rev ks"] by (simp add: rev_map restrict_map_def)

lemma set_groups_holds:
  assumes "\<And>kvs s. \<exists>r s'. srv (Cmd_MSet kvs) s = (Inr r, s')
      \<and> holds s' = (\<lambda>k. case map_of (rev kvs) k of Some v \<Rightarrow> Some v | None \<Rightarrow> holds s k)"
  shows "\<exists>s'. set_groups srv c values batches s = (Inr (), s') \<and> (\<forall>k. holds s' k =
     (if k \<in> set (concat batches) then Some (value_at values (cache_strip c k)) else holds s k))"
proof (induction batches arbitrary: s)
  case Nil
  then show ?case by simp
next
  case (Cons batch batches)
  from assms [of "map (\<lambda>key. (key, value_at values (cache_strip c key))) batch" s] obtain r s1 where
    one: "srv (Cmd_MSet (map (\<lambda>key. (key, value_at values (cache_strip c key))) batch)) s = (Inr r, s1)"
    "\<And>k. holds s1 k = (if k \<in> set batch then Some (value_at values (cache_strip c k)) else holds s k)"
    by (auto simp: map_of_rev_pairs split: if_splits)
  from Cons.IH [of s1] one show ?case by auto
qed

lemma bySlot_keys: "set (concat (bySlot c keys)) = set keys"
  using set_bySlot [of c keys] by (metis set_mset_mset)

lemma SetMany_holds:
  assumes "\<And>kvs s. \<exists>r s'. srv (Cmd_MSet kvs) s = (Inr r, s')
      \<and> holds s' = (\<lambda>k. case map_of (rev kvs) k of Some v \<Rightarrow> Some v | None \<Rightarrow> holds s k)"
  shows "\<exists>s'. Cache_SetMany (Inr c) srv vals s = (Inr (), s') \<and> (\<forall>key. holds s' (cache_key c key) =
     (case gm_get vals key of Some v \<Rightarrow> Some v | None \<Rightarrow> holds s (cache_key c key)))"
proof (cases "vals = []")
  case True
  then show ?thesis by (simp add: Cache_SetMany_def)
next
  case False
  let ?names = "map (cache_key c) (gm_keys vals)"
  from set_groups_holds [of srv holds c vals "bySlot c ?names" s, OF assms] obtain s1 where
    w: "set_groups srv c vals (bySlot c ?names) s = (Inr (), s1)"
    "\<And>k. holds s1 k = (if k \<in> set (concat (bySlot c ?names)) then Some (value_at vals (cache_strip c k)) else holds s k)" by blast
  have "holds s1 (cache_key c key) = (case gm_get vals key of Some v \<Rightarrow> Some v | None \<Rightarrow> holds s (cache_key c key))" for key
  proof -
    have "cache_key c key \<in> set ?names \<longleftrightarrow> gm_get vals key \<noteq> None"
      by (force simp: cache_key_def map_of_eq_None_iff)
    then show ?thesis
      using w(2) [of "cache_key c key"] unfolding bySlot_keys by (auto simp: value_at_def split: option.splits)
  qed
  with False w(1) show ?thesis by (simp add: Cache_SetMany_def with_conn_Inr)
qed

text \<open>C18. Batches are transparent to sharding. Given a server that answers \<^verbatim>\<open>MGET\<close> with what it holds under each key
  and whose \<^verbatim>\<open>MSET\<close> stores each pair, writing many values succeeds, and reading any keys afterwards answers, under
  the names the handler used, with the written value where one was written, with what the server held
  otherwise, and with nothing for a key that holds nothing; single instance and cluster answer alike.\<close>

theorem SetMany_GetMany:
  assumes mget: "\<And>ks s. srv (Cmd_MGet ks) s = (Inr (RMaybe (map (holds s) ks)), s)"
    and mset: "\<And>kvs s. \<exists>r s'. srv (Cmd_MSet kvs) s = (Inr r, s')
      \<and> holds s' = (\<lambda>k. case map_of (rev kvs) k of Some v \<Rightarrow> Some v | None \<Rightarrow> holds s k)"
  shows "\<exists>s' m. Cache_SetMany (Inr c) srv vals s = (Inr (), s') \<and> Cache_GetMany (Inr c) srv keys s' = (Inr m, s')
     \<and> (\<forall>key. gm_get m key =
         (if key \<in> set keys then (case gm_get vals key of Some v \<Rightarrow> Some v | None \<Rightarrow> holds s (cache_key c key)) else None))"
proof -
  obtain s1 where wrote: "Cache_SetMany (Inr c) srv vals s = (Inr (), s1)"
    and held: "\<And>key. holds s1 (cache_key c key) = (case gm_get vals key of Some v \<Rightarrow> Some v | None \<Rightarrow> holds s (cache_key c key))"
    using SetMany_holds [OF mset] by blast
  have pre: "\<forall>k \<in> set (concat (bySlot c (cache_names c keys))). k = cache_key c (cache_strip c k)"
    unfolding bySlot_keys by (auto simp: cache_names_def)
  from get_groups_holds [of srv s1 "holds s1", OF mget pre, of "[]"] obtain m where
    g: "get_groups srv c (bySlot c (cache_names c keys)) [] s1 = (Inr m, s1)"
    "\<And>key. gm_get m key = (if cache_key c key \<in> set (concat (bySlot c (cache_names c keys))) \<and> holds s1 (cache_key c key) \<noteq> None
        then holds s1 (cache_key c key) else gm_get [] key)" by blast
  have "cache_key c key \<in> set (concat (bySlot c (cache_names c keys))) \<longleftrightarrow> key \<in> set keys" for key
    unfolding bySlot_keys by (auto simp: cache_names_def cache_key_def)
  with g(2) held have got: "gm_get m key =
      (if key \<in> set keys then (case gm_get vals key of Some v \<Rightarrow> Some v | None \<Rightarrow> holds s (cache_key c key)) else None)" for key
    by (auto split: option.splits)
  show ?thesis
  proof (cases keys)
    case Nil
    with wrote show ?thesis by (auto simp: Cache_GetMany_def intro!: exI [of _ s1] exI [of _ "[]"])
  next
    case (Cons k ks)
    then have "Cache_GetMany (Inr c) srv keys s1 = (Inr m, s1)"
      using g(1) by (simp add: Cache_GetMany_def with_conn_Inr)
    with wrote got show ?thesis by blast
  qed
qed

text \<open>A server that holds strings.\<close>

definition string_server :: "(string, string) gomap server" where
  "string_server cmd s = (case cmd of
       Cmd_MGet ks \<Rightarrow> (Inr (RMaybe (map (gm_get s) ks)), s)
     | Cmd_MSet kvs \<Rightarrow> (Inr (RStr ''OK''), rev kvs @ s)
     | _ \<Rightarrow> (Inl redis_Nil, s))"

theorem SetMany_GetMany_witness:
  "\<exists>s' m. Cache_SetMany (Inr \<lparr>cn_ref = ''cache'', cn_keyPrefix = ''app:'', cn_clustered = True\<rparr>) string_server
        [(''a'', ''1''), (''b'', ''2'')] [] = (Inr (), s')
     \<and> Cache_GetMany (Inr \<lparr>cn_ref = ''cache'', cn_keyPrefix = ''app:'', cn_clustered = True\<rparr>) string_server [''b'', ''z''] s' = (Inr m, s')
     \<and> gm_get m ''b'' = Some ''2'' \<and> gm_get m ''z'' = None"
proof -
  have "\<And>ks s. string_server (Cmd_MGet ks) s = (Inr (RMaybe (map (gm_get s) ks)), s)"
    by (simp add: string_server_def)
  moreover have "\<exists>r s'. string_server (Cmd_MSet kvs) s = (Inr r, s')
      \<and> gm_get s' = (\<lambda>k. case map_of (rev kvs) k of Some v \<Rightarrow> Some v | None \<Rightarrow> gm_get s k)" for kvs s
    by (auto simp: string_server_def map_add_def fun_eq_iff split: option.splits)
  ultimately show ?thesis
    using SetMany_GetMany [of string_server gm_get "\<lparr>cn_ref = ''cache'', cn_keyPrefix = ''app:'', cn_clustered = True\<rparr>"
        "[(''a'', ''1''), (''b'', ''2'')]" "[]" "[''b'', ''z'']"] by fastforce
qed

end
