(* ===== verification/Dispatch.thy ===== *)
theory Dispatch
  imports Bind Routes
begin

text \<open>
  One dispatch, from the event to the result: the wrappers that turn a typed handler into the
  untyped one (\<^verbatim>\<open>src/celerity/wrap.go\<close>), layers (\<^verbatim>\<open>src/layer/layer.go\<close>), guards (\<^verbatim>\<open>src/guard/guard.go\<close>),
  what a context carries (\<^verbatim>\<open>src/celerity/context.go\<close>), tracing (\<^verbatim>\<open>src/telemetry/tracer.go\<close>,
  \<^verbatim>\<open>src/telemetry/telemetry.go\<close>) and the pipeline that composes them (\<^verbatim>\<open>src/celerity/pipeline.go\<close>).

  User code (handlers, layers, guards, an installed tracer) acts on a state \<^typ>\<open>'s\<close> that stands for
  everything outside the SDK, and may panic: an action takes the state and gives an outcome and
  the state after. A context's values are keyed by private types, so a context is a record with one
  field per key.
\<close>

type_synonym ('s, 'a) action = "'s \<Rightarrow> (pval, 'a) outcome \<times> 's"

abbreviation returns :: "'a \<Rightarrow> ('s, 'a) action" where
  "returns x \<equiv> (\<lambda>s. (Done x, s))"

definition and_then :: "('s, 'a) action \<Rightarrow> ('a \<Rightarrow> ('s, 'b) action) \<Rightarrow> ('s, 'b) action" where
  "and_then m f = (\<lambda>s. case m s of (Done x, s') \<Rightarrow> f x s' | (Panic p, s') \<Rightarrow> (Panic p, s'))"

lemma and_then_returns [simp]: "and_then (returns x) f = f x"
  by (simp add: and_then_def)

lemma and_then_assoc: "and_then (and_then m f) g = and_then m (\<lambda>x. and_then (f x) g)"
  by (rule ext) (simp add: and_then_def split: prod.splits outcome.splits)

lemma and_then_Done:
  "and_then m f s = (Done y, s'') \<longleftrightarrow> (\<exists>x s'. m s = (Done x, s') \<and> f x s' = (Done y, s''))"
  by (auto simp: and_then_def split: prod.splits outcome.splits)

lemma and_then_cong:
  "(\<And>x s'. m s = (Done x, s') \<Longrightarrow> f x s' = f' x s') \<Longrightarrow> and_then m f s = and_then m f' s"
  by (cases "m s") (auto simp: and_then_def split: outcome.splits)

subsection \<open>Guards\<close>

record decision =
  dec_Allowed :: bool
  dec_Reason :: string
  dec_Identity :: "json option"
  dec_Claims :: "(string, json) gomap"

definition Allow :: "json option \<Rightarrow> decision" where
  "Allow identity = \<lparr>dec_Allowed = True, dec_Reason = '''', dec_Identity = identity, dec_Claims = []\<rparr>"

definition Deny :: "string \<Rightarrow> decision" where
  "Deny reason = \<lparr>dec_Allowed = False, dec_Reason = reason, dec_Identity = None, dec_Claims = []\<rparr>"

record guard_request =
  gr_Kind :: kind
  gr_Method :: string
  gr_Route :: string
  gr_Headers :: params
  gr_Query :: params
  gr_ConnectionID :: string
  gr_SourceIP :: string
  gr_RequestID :: string

subsection \<open>Contexts\<close>

text \<open>\<open>cx_Logger\<close> is the attributes bound into the logger a handler writes through, \<open>cx_Sender\<close> the
  WebSocket sender attached, named by the endpoint it pushes to.\<close>

record ctx =
  cx_Event :: "event option"
  cx_Trace :: "(string, string) gomap option"
  cx_Logger :: "(string \<times> string) list option"
  cx_Identity :: "decision option"
  cx_Sender :: "string option"
  cx_Deadline :: "gotime option"

definition background :: ctx where
  "background = \<lparr>cx_Event = None, cx_Trace = None, cx_Logger = None, cx_Identity = None,
     cx_Sender = None, cx_Deadline = None\<rparr>"

definition WithEvent :: "ctx \<Rightarrow> event \<Rightarrow> ctx" where
  "WithEvent ctx ev = ctx\<lparr>cx_Event := Some ev\<rparr>"

definition EventFrom :: "ctx \<Rightarrow> event option" where
  "EventFrom ctx = cx_Event ctx"

definition WebSocketEventFrom :: "ctx \<Rightarrow> websocket_message option" where
  "WebSocketEventFrom ctx = (case EventFrom ctx of None \<Rightarrow> None | Some ev \<Rightarrow> ev_WebSocket ev)"

definition ConnectionID :: "ctx \<Rightarrow> string" where
  "ConnectionID ctx = (case WebSocketEventFrom ctx of Some ws \<Rightarrow> wm_ConnectionID ws | None \<Rightarrow> '''')"

definition RequestID :: "ctx \<Rightarrow> string" where
  "RequestID ctx =
     (case EventFrom ctx of
        None \<Rightarrow> ''''
      | Some ev \<Rightarrow>
          (case ev_HTTP ev of
             Some req \<Rightarrow> req_RequestID req
           | None \<Rightarrow> (case ev_WebSocket ev of Some ws \<Rightarrow> wm_RequestID ws | None \<Rightarrow> ev_ID ev)))"

definition WithIdentity :: "ctx \<Rightarrow> decision \<Rightarrow> ctx" where
  "WithIdentity ctx d = ctx\<lparr>cx_Identity := Some d\<rparr>"

definition IdentityFrom :: "ctx \<Rightarrow> decision option" where
  "IdentityFrom ctx = cx_Identity ctx"

definition WithTraceContext :: "ctx \<Rightarrow> (string, string) gomap \<Rightarrow> ctx" where
  "WithTraceContext ctx tc = ctx\<lparr>cx_Trace := Some tc\<rparr>"

definition WithLogger :: "ctx \<Rightarrow> (string \<times> string) list \<Rightarrow> ctx" where
  "WithLogger ctx l = ctx\<lparr>cx_Logger := Some l\<rparr>"

subsection \<open>Layers\<close>

type_synonym 's nxt = "ctx \<Rightarrow> event \<Rightarrow> ('s, result option \<times> gerr option) action"
type_synonym 's layer = "'s nxt \<Rightarrow> 's nxt"

text \<open>The loop of \<^verbatim>\<open>Chain\<close> runs from the last layer to the first and skips a nil one.\<close>

fun chain_down :: "nat \<Rightarrow> 's layer option list \<Rightarrow> 's nxt \<Rightarrow> 's nxt" where
  "chain_down 0 layers next = next"
| "chain_down (Suc i) layers next =
     chain_down i layers (case layers ! i of None \<Rightarrow> next | Some l \<Rightarrow> l next)"

definition Chain :: "'s layer option list \<Rightarrow> 's layer" where
  "Chain layers = (\<lambda>next. chain_down (length layers) layers next)"

definition Apply :: "'s nxt \<Rightarrow> 's layer option list \<Rightarrow> 's nxt" where
  "Apply h layers = Chain layers h"

subsection \<open>Tracing\<close>

text \<open>A tracer and the spans it starts are an installed implementation; a span's identity is empty
  where nothing is recorded.\<close>

record 's span =
  sp_RecordError :: "gerr \<Rightarrow> 's \<Rightarrow> 's"
  sp_End :: "'s \<Rightarrow> 's"
  sp_TraceID :: string
  sp_SpanID :: string

type_synonym attr = "string \<times> json"
type_synonym 's tracer = "ctx \<Rightarrow> string \<Rightarrow> attr list \<Rightarrow> 's \<Rightarrow> (ctx \<times> 's span) \<times> 's"

definition noopSpan :: "'s span" where
  "noopSpan = \<lparr>sp_RecordError = (\<lambda>_ s. s), sp_End = (\<lambda>s. s), sp_TraceID = '''', sp_SpanID = ''''\<rparr>"

definition noopTracer :: "'s tracer" where
  "noopTracer ctx name attrs s = ((ctx, noopSpan), s)"

definition CurrentTracer :: "'s tracer option \<Rightarrow> 's tracer" where
  "CurrentTracer installed = (case installed of Some t \<Rightarrow> t | None \<Rightarrow> noopTracer)"

definition sc_Recorded :: "'s span \<Rightarrow> bool" where
  "sc_Recorded sp \<longleftrightarrow> sp_TraceID sp \<noteq> ''''"

definition Traced ::
    "'s tracer option \<Rightarrow> ctx \<Rightarrow> string \<Rightarrow> attr list
       \<Rightarrow> (ctx \<Rightarrow> 's span \<Rightarrow> ('s, 'a \<times> gerr option) action) \<Rightarrow> ('s, 'a \<times> gerr option) action" where
  "Traced installed ctx name attrs fn s =
     (case CurrentTracer installed ctx name attrs s of
        ((ctx', sp), s1) \<Rightarrow>
          (case fn ctx' sp s1 of
             (Panic p, s2) \<Rightarrow> (Panic p, sp_End sp s2)
           | (Done (result, err), s2) \<Rightarrow>
               (let s3 = (case err of Some e \<Rightarrow> sp_RecordError sp e s2 | None \<Rightarrow> s2)
                in (Done (result, err), sp_End sp s3))))"

subsection \<open>Wrappers\<close>

text \<open>What the SDK knows of a typed handler's \<^verbatim>\<open>In\<close> and \<^verbatim>\<open>Out\<close>: the Go type it binds into, and how
  the application's types decode from and encode to JSON. A handler may answer with a
  \<^verbatim>\<open>*handler.Response\<close>, which may be nil.\<close>

datatype 'o hout = ResponseOut "response option" | ValueOut 'o

record 'o codec =
  cd_Type :: gotype
  cd_Unmarshal :: "byte list \<Rightarrow> govalue \<Rightarrow> gerr + govalue"
  cd_Marshal :: "'o hout \<Rightarrow> gerr + byte list"
  cd_ParseFloat :: "string \<Rightarrow> nat \<Rightarrow> gerr + 64 word"

type_synonym ('s, 'o) handler_func = "ctx \<Rightarrow> govalue \<Rightarrow> ('s, 'o hout \<times> gerr option) action"
type_synonym validation = "(govalue \<Rightarrow> gerr option) option"

definition httpErrorResult :: "event \<Rightarrow> gerr \<Rightarrow> result option \<times> gerr option" where
  "httpErrorResult ev err =
     (case ResponseForError err of
        Some res \<Rightarrow> (Some ((result_of_id (ev_ID ev))\<lparr>r_HTTP := Some res\<rparr>), None)
      | None \<Rightarrow> (None, Some err))"

definition wrongSource :: "event \<Rightarrow> kind \<Rightarrow> gerr" where
  "wrongSource ev serves =
     (let arrived = (if ev_Kind ev = KindNone then ''unknown'' else kind_string (ev_Kind ev))
      in Errorf (''celerity: handler '' @ go_quote (ev_Tag ev) @ '' serves '' @ kind_string serves
           @ '' events and was dispatched a '' @ arrived @ '' event'') None)"

definition wrapHTTP ::
    "(ctx \<Rightarrow> request \<Rightarrow> ('s, response option \<times> gerr option) action) \<Rightarrow> 's nxt" where
  "wrapHTTP h ctx ev =
     (case ev_HTTP ev of
        None \<Rightarrow> returns (None, Some (wrongSource ev KindHTTP))
      | Some req \<Rightarrow>
          and_then (h ctx req) (\<lambda>(res, err).
            returns (case err of
                Some e \<Rightarrow> httpErrorResult ev e
              | None \<Rightarrow> (Some ((result_of_id (ev_ID ev))\<lparr>r_HTTP := res\<rparr>), None))))"

definition jsonResponse :: "'o codec \<Rightarrow> 'o hout \<Rightarrow> gerr + response option" where
  "jsonResponse cd out =
     (case out of
        ResponseOut res \<Rightarrow> Inr res
      | ValueOut _ \<Rightarrow>
          (case cd_Marshal cd out of
             Inl err \<Rightarrow> Inl (Errorf (''encoding response body: '' @ error_text err) (Some err))
           | Inr body \<Rightarrow> Inr (Some \<lparr>res_Status = 200,
               res_Headers = [(''content-type'', [''application/json''])], res_Body = body\<rparr>)))"

text \<open>Running the check a registration resolved, where there is one.\<close>

definition run_validation :: "validation \<Rightarrow> govalue \<Rightarrow> gerr option" where
  "run_validation validate input = (case validate of None \<Rightarrow> None | Some f \<Rightarrow> f input)"

definition wrapTypedHTTP :: "'o codec \<Rightarrow> validation \<Rightarrow> ('s, 'o) handler_func \<Rightarrow> 's nxt" where
  "wrapTypedHTTP cd validate h ctx ev =
     (case ev_HTTP ev of
        None \<Rightarrow> returns (None, Some (wrongSource ev KindHTTP))
      | Some req \<Rightarrow>
          (case bindRequest (cd_ParseFloat cd) (cd_Unmarshal cd) (cd_Type cd) (Some req)
              (zero_value (cd_Type cd)) of
             Inl err \<Rightarrow> returns (httpErrorResult ev (decodeFailure err))
           | Inr input \<Rightarrow>
               (case run_validation validate input of
                  Some err \<Rightarrow> returns (httpErrorResult ev err)
                | None \<Rightarrow>
                    and_then (h ctx input) (\<lambda>(out, err).
                      returns (case err of
                          Some e \<Rightarrow> httpErrorResult ev e
                        | None \<Rightarrow>
                            (case jsonResponse cd out of
                               Inl e \<Rightarrow> (None, Some e)
                             | Inr res \<Rightarrow> (Some ((result_of_id (ev_ID ev))\<lparr>r_HTTP := res\<rparr>), None)))))))"

definition wrapTypedWebSocket :: "'o codec \<Rightarrow> validation \<Rightarrow> ('s, 'o) handler_func \<Rightarrow> 's nxt" where
  "wrapTypedWebSocket cd validate h ctx ev =
     (case ev_WebSocket ev of
        None \<Rightarrow> returns (None, Some (wrongSource ev KindWebSocket))
      | Some ws \<Rightarrow>
          (case decodeInto (cd_Unmarshal cd) (wm_Message ws) (zero_value (cd_Type cd)) of
             Inl err \<Rightarrow> returns (None, Some err)
           | Inr input \<Rightarrow>
               (case run_validation validate input of
                  Some err \<Rightarrow> returns (Some ((result_of_id (ev_ID ev))\<lparr>r_WebSocket :=
                      Some \<lparr>ack_Success = False, ack_Error = error_text err\<rparr>\<rparr>), None)
                | None \<Rightarrow>
                    and_then (h ctx input) (\<lambda>(_, err).
                      returns (case err of
                          Some e \<Rightarrow> (None, Some e)
                        | None \<Rightarrow> (Some ((result_of_id (ev_ID ev))\<lparr>r_WebSocket :=
                            Some \<lparr>ack_Success = True, ack_Error = ''''\<rparr>\<rparr>), None))))))"

definition wrapConsumer ::
    "(ctx \<Rightarrow> consumer_batch \<Rightarrow> ('s, batch_result option \<times> gerr option) action) \<Rightarrow> 's nxt" where
  "wrapConsumer h ctx ev =
     (case ev_Consumer ev of
        None \<Rightarrow> returns (None, Some (wrongSource ev KindConsumer))
      | Some batch \<Rightarrow>
          and_then (h ctx batch) (\<lambda>(res, err).
            returns (case err of
                Some e \<Rightarrow> (None, Some e)
              | None \<Rightarrow>
                  (let res = (case res of None \<Rightarrow> \<lparr>br_Failures = []\<rparr> | Some r \<Rightarrow> r)
                   in (Some ((result_of_id (ev_ID ev))\<lparr>r_Consumer := Some res\<rparr>), None)))))"

definition wrapSchedule :: "(ctx \<Rightarrow> schedule_trigger \<Rightarrow> ('s, gerr option) action) \<Rightarrow> 's nxt" where
  "wrapSchedule h ctx ev =
     (case ev_Schedule ev of
        None \<Rightarrow> returns (None, Some (wrongSource ev KindSchedule))
      | Some trigger \<Rightarrow>
          and_then (h ctx trigger) (\<lambda>err.
            returns (case err of
                Some e \<Rightarrow> (None, Some e)
              | None \<Rightarrow> (Some ((result_of_id (ev_ID ev))\<lparr>r_Schedule :=
                  Some \<lparr>ack_Success = True, ack_Error = ''''\<rparr>\<rparr>), None))))"

definition wrapCustom :: "'o codec \<Rightarrow> validation \<Rightarrow> ('s, 'o) handler_func \<Rightarrow> 's nxt" where
  "wrapCustom cd validate h ctx ev =
     (case ev_Custom ev of
        None \<Rightarrow> returns (None, Some (wrongSource ev KindCustom))
      | Some custom \<Rightarrow>
          (case decodeInto (cd_Unmarshal cd) (ci_Input custom) (zero_value (cd_Type cd)) of
             Inl err \<Rightarrow> returns (None, Some err)
           | Inr input \<Rightarrow>
               (case run_validation validate input of
                  Some err \<Rightarrow> returns (None, Some err)
                | None \<Rightarrow>
                    and_then (h ctx input) (\<lambda>(out, err).
                      returns (case err of
                          Some e \<Rightarrow> (None, Some e)
                        | None \<Rightarrow>
                            (case cd_Marshal cd out of
                               Inl e \<Rightarrow> (None, Some (Errorf
                                 (''encoding custom handler output: '' @ error_text e) (Some e)))
                             | Inr encoded \<Rightarrow> (Some ((result_of_id (ev_ID ev))\<lparr>r_Custom :=
                                 Some \<lparr>cu_Output = encoded\<rparr>\<rparr>), None)))))))"

definition wrapTypedAny :: "'o codec \<Rightarrow> validation \<Rightarrow> ('s, 'o) handler_func \<Rightarrow> 's nxt" where
  "wrapTypedAny cd validate h ctx ev =
     (case ev_Kind ev of
        KindHTTP \<Rightarrow> wrapTypedHTTP cd validate h ctx ev
      | KindWebSocket \<Rightarrow> wrapTypedWebSocket cd validate h ctx ev
      | KindCustom \<Rightarrow> wrapCustom cd validate h ctx ev
      | k \<Rightarrow> returns (None, Some (Errorf (''handler '' @ go_quote (ev_Tag ev)
            @ '' takes a decoded input, and the blueprint binds it to a '' @ kind_string k
            @ '' source: register it with Consume or Schedule instead'') None)))"

subsection \<open>Registrations and the pipeline\<close>

record 's registration =
  reg_Tag :: string
  reg_Name :: string
  reg_PublishedName :: string
  reg_Kind :: kind
  reg_Method :: string
  reg_Route :: string
  reg_RouteKey :: string
  reg_SourceID :: string
  reg_SourceFile :: string
  reg_SourceLine :: int
  reg_FuncPath :: string
  reg_Handler :: "'s nxt"
  reg_Layers :: "'s layer option list"
  reg_Guards :: "string list"
  reg_Uses :: "string list"
  reg_Public :: bool
  reg_MaxConcurrent :: int
  reg_FromBlueprint :: bool

type_synonym 's guard = "ctx \<Rightarrow> guard_request \<Rightarrow> ('s, decision \<times> gerr option) action"

definition guardRequestFrom :: "event \<Rightarrow> guard_request" where
  "guardRequestFrom ev =
     (let req = \<lparr>gr_Kind = ev_Kind ev, gr_Method = '''', gr_Route = '''', gr_Headers = [], gr_Query = [],
            gr_ConnectionID = '''', gr_SourceIP = '''', gr_RequestID = ''''\<rparr>
      in case ev_HTTP ev of
           Some h \<Rightarrow> req\<lparr>gr_Method := req_Method h, gr_Route := req_Route h, gr_Headers := req_Headers h,
               gr_Query := req_QueryParams h, gr_SourceIP := req_SourceIP h, gr_RequestID := req_RequestID h\<rparr>
         | None \<Rightarrow>
             (case ev_WebSocket ev of
                Some w \<Rightarrow> req\<lparr>gr_Route := wm_Route w, gr_ConnectionID := wm_ConnectionID w,
                    gr_SourceIP := wm_SourceIP w, gr_RequestID := wm_RequestID w\<rparr>
              | None \<Rightarrow> req))"

definition refused :: "event \<Rightarrow> decision \<Rightarrow> result" where
  "refused ev d =
     (let reason = (if dec_Reason d = '''' then ''Unauthorized'' else dec_Reason d);
          base = result_of_id (ev_ID ev)
      in case ev_Kind ev of
           KindHTTP \<Rightarrow> base\<lparr>r_HTTP := Some (JSONMessage 401 reason)\<rparr>
         | KindWebSocket \<Rightarrow> base\<lparr>r_WebSocket := Some \<lparr>ack_Success = False, ack_Error = reason\<rparr>\<rparr>
         | _ \<Rightarrow> base\<lparr>r_Error := Some \<lparr>he_Message = reason, he_Type = ''Unauthorized'', he_Stack = ''''\<rparr>\<rparr>)"

fun guard_loop ::
    "(string, 's guard) gomap \<Rightarrow> string \<Rightarrow> string list \<Rightarrow> guard_request \<Rightarrow> 's nxt \<Rightarrow> 's nxt" where
  "guard_loop guards tag [] req next ctx ev = next ctx ev"
| "guard_loop guards tag (name # names) req next ctx ev =
     (case gm_get guards name of
        None \<Rightarrow> returns (None, Some (Errorf (''handler '' @ go_quote tag @ '' is protected by guard ''
            @ go_quote name @ '', which is not registered'') None))
      | Some g \<Rightarrow>
          and_then (g ctx req) (\<lambda>(d, err).
            case err of
              Some e \<Rightarrow> returns (None, Some (Errorf (''guard '' @ go_quote name @ '': '' @ error_text e) (Some e)))
            | None \<Rightarrow>
                if \<not> dec_Allowed d then returns (Some (refused ev d), None)
                else guard_loop guards tag names req next (WithIdentity ctx d) ev))"

definition guardLayer :: "(string, 's guard) gomap \<Rightarrow> 's registration \<Rightarrow> 's layer" where
  "guardLayer guards reg next ctx ev =
     guard_loop guards (reg_Tag reg) (reg_Guards reg) (guardRequestFrom ev) next ctx ev"

definition dispatchSpan :: "'s registration \<Rightarrow> string" where
  "dispatchSpan reg = ''celerity.handler.'' @ kind_string (reg_Kind reg)"

definition dispatchAttrs :: "'s registration \<Rightarrow> event \<Rightarrow> attr list" where
  "dispatchAttrs reg ev =
     [(''handler.name'', JStr (reg_Name reg)), (''handler.tag'', JStr (reg_Tag reg)),
      (''handler.event_id'', JStr (ev_ID ev))]
     @ (case ev_HTTP ev of None \<Rightarrow> []
        | Some h \<Rightarrow> [(''http.request.method'', JStr (req_Method h)), (''http.route'', JStr (reg_Route reg))])
     @ (case ev_Consumer ev of None \<Rightarrow> []
        | Some b \<Rightarrow> [(''handler.batch_size'', JInt (int (length (cb_Records b))))])"

text \<open>\<open>logger\<close> is the attributes bound into the application's logger, or into the default one.\<close>

definition dispatchLogger ::
    "(string \<times> string) list \<Rightarrow> 's registration \<Rightarrow> event \<Rightarrow> 's span \<Rightarrow> (string \<times> string) list" where
  "dispatchLogger logger reg ev sp =
     (let logger = logger @ [(''handler'', reg_Name reg), (''tag'', reg_Tag reg), (''eventId'', ev_ID ev)]
      in if sc_Recorded sp
         then logger @ [(''trace_id'', sp_TraceID sp), (''span_id'', sp_SpanID sp)] else logger)"

definition traced ::
    "'s tracer option \<Rightarrow> (string \<times> string) list \<Rightarrow> ctx \<Rightarrow> 's registration \<Rightarrow> event \<Rightarrow> 's nxt
       \<Rightarrow> ('s, result option \<times> gerr option) action" where
  "traced installed logger ctx reg ev next =
     Traced installed ctx (dispatchSpan reg) (dispatchAttrs reg ev) (\<lambda>ctx sp.
       (let ctx = WithLogger ctx (dispatchLogger logger reg ev sp)
        in and_then (next ctx ev) (\<lambda>(res, err).
             if err = None \<and> res \<noteq> None \<and> r_Error (the res) \<noteq> None
             then returns (res, None) else returns (res, err))))"

definition contextLayer ::
    "'s tracer option \<Rightarrow> (string \<times> string) list \<Rightarrow> 's registration \<Rightarrow> 's layer" where
  "contextLayer installed logger reg next ctx ev =
     (let ctx = WithEvent ctx ev;
          ctx = (if length (ev_TraceContext ev) > 0 then WithTraceContext ctx (ev_TraceContext ev) else ctx)
      in traced installed logger ctx reg ev next)"

definition Pipeline ::
    "'s tracer option \<Rightarrow> (string \<times> string) list \<Rightarrow> (string, 's guard) gomap \<Rightarrow> 's registration \<Rightarrow> 's nxt" where
  "Pipeline installed logger guards reg =
     (let next = Apply (reg_Handler reg) (reg_Layers reg);
          next = (if length (reg_Guards reg) > 0 then guardLayer guards reg next else next)
      in contextLayer installed logger reg next)"

subsection \<open>Lemmas: layers\<close>

definition layer_apply :: "'s layer option \<Rightarrow> 's layer" where
  "layer_apply l next = (case l of None \<Rightarrow> next | Some f \<Rightarrow> f next)"

lemma chain_down_foldr:
  "n \<le> length layers \<Longrightarrow> chain_down n layers next = foldr layer_apply (take n layers) next"
  by (induction n arbitrary: "next")
    (auto simp: take_Suc_conv_app_nth layer_apply_def split: option.splits)

lemma Chain_foldr: "Chain layers next = foldr layer_apply layers next"
  by (simp add: Chain_def chain_down_foldr)

lemma Chain_append: "Chain (xs @ ys) next = Chain xs (Chain ys next)"
  by (simp add: Chain_foldr)

subsection \<open>Lemmas: guards\<close>

lemma guard_loop_append:
  "guard_loop guards tag (ns @ ms) req next ctx ev
     = guard_loop guards tag ns req (guard_loop guards tag ms req next) ctx ev"
proof (induction ns arbitrary: ctx)
  case Nil
  then show ?case by simp
next
  case (Cons n ns)
  show ?case unfolding append_Cons guard_loop.simps Cons.IH by (rule refl)
qed

text \<open>A guard that never allows: it is missing, or it answers with an error, a refusal or a panic.\<close>

definition never_allows :: "(string, 's guard) gomap \<Rightarrow> string \<Rightarrow> bool" where
  "never_allows guards name \<longleftrightarrow>
     (\<forall>g ctx req s d s'. gm_get guards name = Some g \<longrightarrow> g ctx req s = (Done (d, None), s') \<longrightarrow> \<not> dec_Allowed d)"

lemma guard_loop_blocked:
  assumes "never_allows guards name"
  shows "guard_loop guards tag (name # names) req next ctx ev
    = guard_loop guards tag (name # names) req next' ctx ev"
proof (cases "gm_get guards name")
  case None
  then show ?thesis by simp
next
  case (Some g)
  have "guard_loop guards tag (name # names) req next ctx ev s
      = guard_loop guards tag (name # names) req next' ctx ev s" for s
    unfolding guard_loop.simps Some option.case
  proof (rule and_then_cong)
    fix x s'
    assume run: "g ctx req s = (Done x, s')"
    obtain d err where x: "x = (d, err)" by (cases x)
    have "err = None \<Longrightarrow> \<not> dec_Allowed d"
      using assms Some run unfolding x never_allows_def by blast
    then show "(case x of (d, None) \<Rightarrow> if \<not> dec_Allowed d then returns (Some (refused ev d), None)
          else guard_loop guards tag names req next (WithIdentity ctx d) ev
        | (d, Some e) \<Rightarrow> returns (None, Some (Errorf (''guard '' @ go_quote name @ '': '' @ error_text e) (Some e)))) s'
      = (case x of (d, None) \<Rightarrow> if \<not> dec_Allowed d then returns (Some (refused ev d), None)
          else guard_loop guards tag names req next' (WithIdentity ctx d) ev
        | (d, Some e) \<Rightarrow> returns (None, Some (Errorf (''guard '' @ go_quote name @ '': '' @ error_text e) (Some e)))) s'"
      unfolding x by (cases err) simp_all
  qed
  then show ?thesis by (rule ext)
qed

lemma guard_loop_hidden:
  assumes "name \<in> set names" and "never_allows guards name"
  shows "guard_loop guards tag names req next ctx ev = guard_loop guards tag names req next' ctx ev"
proof -
  from assms(1) obtain ns ms where names: "names = ns @ name # ms" by (meson split_list)
  have "guard_loop guards tag (name # ms) req next = guard_loop guards tag (name # ms) req next'"
    by (intro ext) (rule fun_cong [OF guard_loop_blocked [OF assms(2)]])
  then show ?thesis by (simp only: names guard_loop_append)
qed

subsection \<open>Lemmas: tracing\<close>

lemma Traced_cases:
  assumes "CurrentTracer installed ctx name attrs s = ((ctx', sp), s1)"
    and "fn ctx' sp s1 = (out, s2)"
  shows "Traced installed ctx name attrs fn s =
    (out, sp_End sp (case out of Done (_, Some e) \<Rightarrow> sp_RecordError sp e s2 | _ \<Rightarrow> s2))"
  using assms by (auto simp: Traced_def Let_def split: outcome.splits option.splits)

lemma Traced_noop: "Traced None ctx name attrs fn = fn ctx noopSpan"
  by (rule ext)
    (auto simp: Traced_def CurrentTracer_def noopTracer_def noopSpan_def Let_def
      split: prod.splits outcome.splits option.splits)

subsection \<open>The contract of a wrapped handler\<close>

text \<open>Every wrapper serves one source. Given another, it refuses without touching anything; it gives
  a result or an error, never both and never neither; and its result names the event and sets no
  outcome but its source's own.\<close>

fun source_absent :: "kind \<Rightarrow> event \<Rightarrow> bool" where
  "source_absent KindHTTP ev \<longleftrightarrow> ev_HTTP ev = None"
| "source_absent KindWebSocket ev \<longleftrightarrow> ev_WebSocket ev = None"
| "source_absent KindConsumer ev \<longleftrightarrow> ev_Consumer ev = None"
| "source_absent KindSchedule ev \<longleftrightarrow> ev_Schedule ev = None"
| "source_absent KindCustom ev \<longleftrightarrow> ev_Custom ev = None"
| "source_absent KindNone ev \<longleftrightarrow> True"

definition only_outcome :: "kind \<Rightarrow> result \<Rightarrow> bool" where
  "only_outcome k r \<longleftrightarrow> r_Error r = None
     \<and> (k \<noteq> KindHTTP \<longrightarrow> r_HTTP r = None) \<and> (k \<noteq> KindWebSocket \<longrightarrow> r_WebSocket r = None)
     \<and> (k \<noteq> KindConsumer \<longrightarrow> r_Consumer r = None) \<and> (k \<noteq> KindSchedule \<longrightarrow> r_Schedule r = None)
     \<and> (k \<noteq> KindCustom \<longrightarrow> r_Custom r = None)"

definition answers_kind :: "kind \<Rightarrow> event \<Rightarrow> result option \<times> gerr option \<Rightarrow> bool" where
  "answers_kind k ev p \<longleftrightarrow>
     (case p of
        (Some r, None) \<Rightarrow> r_ID r = ev_ID ev \<and> only_outcome k r
      | (None, Some _) \<Rightarrow> True
      | _ \<Rightarrow> False)"

locale source_handler =
  fixes run :: "'s nxt" and serves :: kind
  assumes wrong_source:
    "source_absent serves ev \<Longrightarrow> run ctx ev s = (Done (None, Some (wrongSource ev serves)), s)"
    and answer: "run ctx ev s = (Done p, s') \<Longrightarrow> answers_kind serves ev p"
begin

lemma result_or_error: "run ctx ev s = (Done (res, err), s') \<Longrightarrow> (res = None) \<noteq> (err = None)"
  by (drule answer) (auto simp: answers_kind_def split: option.splits)

lemma result_names_event: "run ctx ev s = (Done (Some r, err), s') \<Longrightarrow> r_ID r = ev_ID ev \<and> only_outcome serves r"
  by (drule answer) (auto simp: answers_kind_def split: option.splits)

end

lemma answers_simps [simp]:
  "answers_kind k ev (None, Some e)" "answers_kind k ev (Some r, None) \<longleftrightarrow> r_ID r = ev_ID ev \<and> only_outcome k r"
  by (simp_all add: answers_kind_def)

lemma answers_httpErrorResult [simp]: "answers_kind KindHTTP ev (httpErrorResult ev e)"
  by (simp add: httpErrorResult_def only_outcome_def split: option.splits)

lemma httpErrorResult_answers: "httpErrorResult ev e = p \<Longrightarrow> answers_kind KindHTTP ev p"
  using answers_httpErrorResult [of ev e] by simp

interpretation http: source_handler "wrapHTTP h" KindHTTP for h
  by unfold_locales
    (auto simp: wrapHTTP_def and_then_Done only_outcome_def dest: httpErrorResult_answers
      split: option.splits)

interpretation typed_http: source_handler "wrapTypedHTTP cd validate h" KindHTTP for cd validate h
  by unfold_locales
    (auto simp: wrapTypedHTTP_def and_then_Done only_outcome_def dest: httpErrorResult_answers
      split: option.splits sum.splits)

interpretation typed_ws: source_handler "wrapTypedWebSocket cd validate h" KindWebSocket for cd validate h
  by unfold_locales
    (auto simp: wrapTypedWebSocket_def and_then_Done only_outcome_def split: option.splits sum.splits)

interpretation consumer: source_handler "wrapConsumer h" KindConsumer for h
  by unfold_locales
    (auto simp: wrapConsumer_def and_then_Done only_outcome_def Let_def split: option.splits)

interpretation schedule: source_handler "wrapSchedule h" KindSchedule for h
  by unfold_locales
    (auto simp: wrapSchedule_def and_then_Done only_outcome_def split: option.splits)

interpretation custom: source_handler "wrapCustom cd validate h" KindCustom for cd validate h
  by unfold_locales
    (auto simp: wrapCustom_def and_then_Done only_outcome_def split: option.splits sum.splits)

subsection \<open>When an event passes its guards\<close>

text \<open>The specification of a guarded handler: each named guard is registered and, run in order on the
  context and state the ones before it left, allows. The last one's decision is the identity the
  handler sees.\<close>

inductive guards_pass ::
    "(string, 's guard) gomap \<Rightarrow> guard_request \<Rightarrow> string list \<Rightarrow> ctx \<Rightarrow> 's \<Rightarrow> ctx \<Rightarrow> 's \<Rightarrow> bool"
  for guards req where
  pass_done: "guards_pass guards req [] ctx s ctx s"
| pass_allow: "gm_get guards name = Some g \<Longrightarrow> g ctx req s = (Done (d, None), s1) \<Longrightarrow> dec_Allowed d \<Longrightarrow>
    guards_pass guards req names (WithIdentity ctx d) s1 ctx' s' \<Longrightarrow>
    guards_pass guards req (name # names) ctx s ctx' s'"

inductive_cases guards_pass_NilE: "guards_pass guards req [] ctx s ctx' s'"
inductive_cases guards_pass_ConsE: "guards_pass guards req (name # names) ctx s ctx' s'"

lemma guards_pass_run:
  "guards_pass guards req names ctx s ctx' s' \<Longrightarrow> guard_loop guards tag names req next ctx ev s = next ctx' ev s'"
  by (induction rule: guards_pass.induct) (simp_all add: and_then_def)

lemma guards_pass_stuck:
  assumes "\<nexists>ctx' s'. guards_pass guards req names ctx s ctx' s'"
  shows "guard_loop guards tag names req next ctx ev s = guard_loop guards tag names req next' ctx ev s"
  using assms
proof (induction names arbitrary: ctx s)
  case Nil
  then show ?case by (blast intro: guards_pass.pass_done)
next
  case (Cons name names)
  show ?case
  proof (cases "gm_get guards name")
    case None
    then show ?thesis by simp
  next
    case (Some g)
    show ?thesis unfolding guard_loop.simps Some option.case
    proof (rule and_then_cong)
      fix x s1
      assume run: "g ctx req s = (Done x, s1)"
      obtain d err where x: "x = (d, err)" by (cases x)
      have "guard_loop guards tag names req next (WithIdentity ctx d) ev s1
          = guard_loop guards tag names req next' (WithIdentity ctx d) ev s1"
        if "err = None" "dec_Allowed d"
        using Cons.IH Cons.prems guards_pass.pass_allow [OF Some] run that unfolding x by blast
      then show "(case x of (d, None) \<Rightarrow> if \<not> dec_Allowed d then returns (Some (refused ev d), None)
          else guard_loop guards tag names req next (WithIdentity ctx d) ev
        | (d, Some e) \<Rightarrow> returns (None, Some (Errorf (''guard '' @ go_quote name @ '': '' @ error_text e) (Some e)))) s1
      = (case x of (d, None) \<Rightarrow> if \<not> dec_Allowed d then returns (Some (refused ev d), None)
          else guard_loop guards tag names req next' (WithIdentity ctx d) ev
        | (d, Some e) \<Rightarrow> returns (None, Some (Errorf (''guard '' @ go_quote name @ '': '' @ error_text e) (Some e)))) s1"
        unfolding x by (cases err) simp_all
    qed
  qed
qed

text \<open>A registration for examples.\<close>

definition plain_registration :: "string \<Rightarrow> kind \<Rightarrow> 's nxt \<Rightarrow> 's registration" where
  "plain_registration tag k h =
     \<lparr>reg_Tag = tag, reg_Name = tag, reg_PublishedName = '''', reg_Kind = k, reg_Method = '''', reg_Route = '''',
      reg_RouteKey = '''', reg_SourceID = '''', reg_SourceFile = '''', reg_SourceLine = 0, reg_FuncPath = '''',
      reg_Handler = h, reg_Layers = [], reg_Guards = [], reg_Uses = [], reg_Public = False,
      reg_MaxConcurrent = 0, reg_FromBlueprint = False\<rparr>"

subsection \<open>Properties\<close>

text \<open>C4. Guards are requirements, not alternatives: a guarded handler is reached exactly when every
  guard it names is registered and allows, in order, and then with the last guard's decision as
  its identity; in every other case what happens does not depend on the handler at all.\<close>

theorem guardLayer_reaches_handler:
  "if \<exists>ctx' s'. guards_pass guards (guardRequestFrom ev) (reg_Guards reg) ctx s ctx' s'
   then \<exists>ctx' s'. guards_pass guards (guardRequestFrom ev) (reg_Guards reg) ctx s ctx' s'
        \<and> (\<forall>next. guardLayer guards reg next ctx ev s = next ctx' ev s')
   else (\<forall>next next'. guardLayer guards reg next ctx ev s = guardLayer guards reg next' ctx ev s)"
  unfolding guardLayer_def
proof (split if_split, intro conjI impI)
  assume "\<exists>ctx' s'. guards_pass guards (guardRequestFrom ev) (reg_Guards reg) ctx s ctx' s'"
  then obtain ctx' s' where p: "guards_pass guards (guardRequestFrom ev) (reg_Guards reg) ctx s ctx' s'" by blast
  with guards_pass_run [OF p] show "\<exists>ctx' s'. guards_pass guards (guardRequestFrom ev) (reg_Guards reg) ctx s ctx' s'
        \<and> (\<forall>next. guard_loop guards (reg_Tag reg) (reg_Guards reg) (guardRequestFrom ev) next ctx ev s = next ctx' ev s')"
    by blast
next
  assume "\<nexists>ctx' s'. guards_pass guards (guardRequestFrom ev) (reg_Guards reg) ctx s ctx' s'"
  from guards_pass_stuck [OF this]
  show "\<forall>next next'. guard_loop guards (reg_Tag reg) (reg_Guards reg) (guardRequestFrom ev) next ctx ev s
      = guard_loop guards (reg_Tag reg) (reg_Guards reg) (guardRequestFrom ev) next' ctx ev s" by blast
qed

text \<open>A guard that never allows closes the whole pipeline: for a handler protected by one (even
  one nobody registered), replacing the handler and its layers by anything else changes nothing
  about any dispatch, whatever the other guards do, with any tracer installed.\<close>

theorem Pipeline_refusing_guard:
  assumes "name \<in> set (reg_Guards reg)" and "never_allows guards name"
  shows "Pipeline installed logger guards reg
    = Pipeline installed logger guards (reg\<lparr>reg_Handler := h, reg_Layers := ls\<rparr>)"
proof -
  have "guardLayer guards reg next = guardLayer guards reg next'" for "next" next'
    unfolding guardLayer_def using guard_loop_hidden [OF assms] by (intro ext) (metis (full_types))
  moreover have "reg_Guards reg \<noteq> []" using assms(1) by auto
  moreover have "contextLayer installed logger (reg\<lparr>reg_Handler := h, reg_Layers := ls\<rparr>) = contextLayer installed logger reg"
  proof -
    let ?r = "reg\<lparr>reg_Handler := h, reg_Layers := ls\<rparr>"
    have "dispatchSpan ?r = dispatchSpan reg" by (simp add: dispatchSpan_def)
    moreover have "dispatchAttrs ?r = dispatchAttrs reg" by (intro ext) (simp add: dispatchAttrs_def split: option.splits)
    moreover have "dispatchLogger logger ?r = dispatchLogger logger reg" by (intro ext) (simp add: dispatchLogger_def)
    ultimately have "traced installed logger ctx ?r ev next = traced installed logger ctx reg ev next" for ctx ev "next"
      by (simp add: traced_def)
    then show ?thesis by (intro ext) (simp add: contextLayer_def)
  qed
  moreover have "guardLayer guards (reg\<lparr>reg_Handler := h, reg_Layers := ls\<rparr>) = guardLayer guards reg"
    by (intro ext) (simp add: guardLayer_def)
  ultimately show ?thesis by (simp add: Pipeline_def) metis
qed

theorem Pipeline_refusing_guard_witness:
  "never_allows [(''jwt'', \<lambda>ctx req s. (Done (Deny ''no token'', None), s :: nat))] ''jwt''
   \<and> Pipeline None [] [(''jwt'', \<lambda>ctx req s. (Done (Deny ''no token'', None), s :: nat))]
       ((plain_registration ''GET::/a'' KindHTTP (\<lambda>ctx ev s. (Done (None, None), s + 1)))\<lparr>reg_Guards := [''jwt'']\<rparr>)
     = Pipeline None [] [(''jwt'', \<lambda>ctx req s. (Done (Deny ''no token'', None), s :: nat))]
       ((plain_registration ''GET::/a'' KindHTTP (\<lambda>ctx ev s. (Done (None, None), s + 1)))
          \<lparr>reg_Guards := [''jwt''], reg_Handler := (\<lambda>ctx ev s. (Panic (PanicText ''boom''), s)), reg_Layers := []\<rparr>)"
proof -
  have na: "never_allows [(''jwt'', \<lambda>ctx req s. (Done (Deny ''no token'', None), s :: nat))] ''jwt''"
    by (auto simp: never_allows_def Deny_def)
  show ?thesis
    using na Pipeline_refusing_guard [of "''jwt''"
      "(plain_registration ''GET::/a'' KindHTTP (\<lambda>ctx ev s. (Done (None, None), s + 1)))\<lparr>reg_Guards := [''jwt'']\<rparr>"
      "[(''jwt'', \<lambda>ctx req s. (Done (Deny ''no token'', None), s :: nat))]",
      where h = "\<lambda>ctx ev s. (Panic (PanicText ''boom''), s)" and ls = "[]" and installed = None and logger = "[]"]
    by simp
qed

text \<open>Tracing is transparent and every span is ended: whatever the traced code does, a panic
  included, the outcome is the code's own, the error it returned (and only that) is recorded on
  the span it was given, and ending that span is the last thing that happens.\<close>

theorem Traced_transparent:
  "\<exists>ctx' sp s1 out s2.
     CurrentTracer installed ctx name attrs s = ((ctx', sp), s1) \<and> fn ctx' sp s1 = (out, s2)
     \<and> Traced installed ctx name attrs fn s
         = (out, sp_End sp (case out of Done (_, Some e) \<Rightarrow> sp_RecordError sp e s2 | _ \<Rightarrow> s2))"
proof -
  obtain ctx' sp s1 where t: "CurrentTracer installed ctx name attrs s = ((ctx', sp), s1)"
    by (metis prod.exhaust)
  obtain out s2 where f: "fn ctx' sp s1 = (out, s2)" by (metis prod.exhaust)
  from Traced_cases [where fn = fn, OF t f] t f show ?thesis by blast
qed

text \<open>A failure that travels as a result is not recorded: where the rest of the pipeline returns
  a result and no error, the dispatch's span is ended with nothing recorded on it, also when the
  result carries an error.\<close>

theorem traced_result_error_unrecorded:
  assumes "CurrentTracer installed ctx (dispatchSpan reg) (dispatchAttrs reg ev) s = ((ctx', sp), s1)"
    and "next (WithLogger ctx' (dispatchLogger logger reg ev sp)) ev s1 = (Done (Some r, None), s2)"
  shows "traced installed logger ctx reg ev next s = (Done (Some r, None), sp_End sp s2)"
proof -
  let ?fn = "\<lambda>ctx sp. let ctx = WithLogger ctx (dispatchLogger logger reg ev sp)
        in and_then (next ctx ev) (\<lambda>(res, err).
             if err = None \<and> res \<noteq> None \<and> r_Error (the res) \<noteq> None
             then returns (res, None) else returns (res, err))"
  have "?fn ctx' sp s1 = (Done (Some r, None), s2)"
    using assms(2) by (simp add: and_then_def)
  from Traced_cases [where fn = ?fn, OF assms(1) this] show ?thesis by (simp add: traced_def)
qed

theorem traced_result_error_unrecorded_witness:
  "traced (Some (\<lambda>ctx name attrs s. ((ctx, \<lparr>sp_RecordError = (\<lambda>e s. s @ [''error'']), sp_End = (\<lambda>s. s @ [''end'']),
       sp_TraceID = ''t'', sp_SpanID = ''s''\<rparr>), s @ [''start'']))) [] background
     (plain_registration ''custom::x'' KindCustom (\<lambda>ctx ev s. (Done (None, None), s)))
     \<lparr>ev_ID = ''1'', ev_Tag = ''custom::x'', ev_Kind = KindCustom, ev_Timestamp = 0, ev_Deadline = zero_time,
       ev_TraceContext = [], ev_HTTP = None, ev_WebSocket = None, ev_Consumer = None, ev_Schedule = None,
       ev_Custom = None\<rparr>
     (\<lambda>ctx ev s. (Done (Some ((result_of_id ''1'')\<lparr>r_Error := Some \<lparr>he_Message = ''failed'', he_Type = ''T'',
        he_Stack = ''''\<rparr>\<rparr>), None), s)) []
   = (Done (Some ((result_of_id ''1'')\<lparr>r_Error := Some \<lparr>he_Message = ''failed'', he_Type = ''T'',
        he_Stack = ''''\<rparr>\<rparr>), None), [''start'', ''end''])"
  by (rule traced_result_error_unrecorded [THEN trans]) (simp_all add: CurrentTracer_def, simp)

end
