(* ===== verification/Registry.thy ===== *)
theory Registry
  imports Dispatch
begin

text \<open>
  The handler registry of an application and its reconciliation with the blueprint
  (\<^verbatim>\<open>src/celerity/registry.go\<close>, \<^verbatim>\<open>src/celerity/reconcile.go\<close>).

  Registrations are shared by pointer: the map from tags, the snapshot a loop walks and the
  dispatcher all hold the same object, and reconciliation changes its fields in place. The model
  keeps that aliasing: \<open>rg_store\<close> is the heap of registrations, a pointer is an index into it, and
  the map and every list of registrations hold pointers, a nil one being \<open>None\<close>.
\<close>

subsection \<open>The registry\<close>

record 's registry =
  rg_store :: "'s registration list"
  rg_byTag :: "(string, nat) gomap"
  rg_order :: "string list"

definition NewRegistry :: "'s registry" where
  "NewRegistry = \<lparr>rg_store = [], rg_byTag = [], rg_order = []\<rparr>"

definition at_reg :: "'s registry \<Rightarrow> nat \<Rightarrow> 's registration" where
  "at_reg r i = rg_store r ! i"

definition already_registered :: "'s registration \<Rightarrow> 's registration \<Rightarrow> gerr" where
  "already_registered existing reg = Errorf (''handler '' @ go_quote (reg_Tag reg) @ '' is already registered at ''
     @ reg_SourceFile existing @ '':'' @ itoa (reg_SourceLine existing) @ '', and '' @ reg_SourceFile reg @ '':''
     @ itoa (reg_SourceLine reg) @ '' registers it again'') None"

definition Add :: "'s registration \<Rightarrow> 's registry \<Rightarrow> gerr option \<times> 's registry" where
  "Add reg r =
     (case gm_get (rg_byTag r) (reg_Tag reg) of
        Some existing \<Rightarrow> (Some (already_registered (at_reg r existing) reg), r)
      | None \<Rightarrow>
          (None, \<lparr>rg_store = rg_store r @ [reg],
                  rg_byTag = gm_put (reg_Tag reg) (length (rg_store r)) (rg_byTag r),
                  rg_order = rg_order r @ [reg_Tag reg]\<rparr>))"

fun replace_first :: "'a \<Rightarrow> 'a \<Rightarrow> 'a list \<Rightarrow> 'a list" where
  "replace_first x y [] = []"
| "replace_first x y (z # zs) = (if z = x then y # zs else z # replace_first x y zs)"

definition Retag :: "string \<Rightarrow> string \<Rightarrow> 's registry \<Rightarrow> 's registry" where
  "Retag from to r =
     (case gm_get (rg_byTag r) from of
        None \<Rightarrow> r
      | Some reg \<Rightarrow>
          if from = to then r
          else r\<lparr>rg_byTag := gm_put to reg (gm_del from (rg_byTag r)),
                 rg_order := replace_first from to (rg_order r)\<rparr>)"

definition Get :: "'s registry \<Rightarrow> string \<Rightarrow> nat option" where
  "Get r tag = gm_get (rg_byTag r) tag"

fun by_name :: "'s registry \<Rightarrow> string \<Rightarrow> string list \<Rightarrow> (pval, nat option) outcome" where
  "by_name r name [] = Done None"
| "by_name r name (tag # tags) =
     (case gm_get (rg_byTag r) tag of
        None \<Rightarrow> Panic nil_dereference
      | Some i \<Rightarrow>
          if reg_Name (at_reg r i) = name \<or> reg_PublishedName (at_reg r i) = name then Done (Some i)
          else by_name r name tags)"

definition ByName :: "'s registry \<Rightarrow> string \<Rightarrow> (pval, nat option) outcome" where
  "ByName r name = by_name r name (rg_order r)"

definition All :: "'s registry \<Rightarrow> nat option list" where
  "All r = map (gm_get (rg_byTag r)) (rg_order r)"

fun of_kind :: "'s registry \<Rightarrow> kind \<Rightarrow> nat option list \<Rightarrow> (pval, nat list) outcome" where
  "of_kind r k [] = Done []"
| "of_kind r k (None # regs) = Panic nil_dereference"
| "of_kind r k (Some i # regs) =
     bind_outcome (of_kind r k regs) (\<lambda>matched. Done (if reg_Kind (at_reg r i) = k then i # matched else matched))"

definition OfKind :: "'s registry \<Rightarrow> kind \<Rightarrow> (pval, nat list) outcome" where
  "OfKind r k = of_kind r k (All r)"

definition Tags :: "'s registry \<Rightarrow> string list" where
  "Tags r = sorted_keys (rg_byTag r)"

definition Len :: "'s registry \<Rightarrow> nat" where
  "Len r = length (rg_byTag r)"

subsection \<open>Reconciliation with the blueprint\<close>

record blueprint_handler =
  bh_Name :: string
  bh_PublishedName :: string
  bh_Tag :: string

record unresolved_error =
  ue_Names :: "string list"
  ue_Declared :: "string list"

definition unresolved_text :: "unresolved_error \<Rightarrow> string" where
  "unresolved_text e =
     ''these handlers take their wiring from the blueprint and are not declared in it: ''
     @ join '', '' (ue_Names e) @ ''. The blueprint declares: '' @ join '', '' (ue_Declared e)"

definition webSocketTagsByRoute :: "blueprint_handler list \<Rightarrow> (string, string) gomap" where
  "webSocketTagsByRoute blueprint =
     fold (\<lambda>declared byRoute.
        (case str_cut ''::'' (bh_Tag declared) of
           None \<Rightarrow> byRoute
         | Some (key, route) \<Rightarrow>
             if key = '''' \<or> contains route ''::'' then byRoute
             else if has_prefix route ''/'' then byRoute
             else gm_put route (bh_Tag declared) byRoute)) blueprint []"

definition tagsByName :: "blueprint_handler list \<Rightarrow> (string, blueprint_handler) gomap" where
  "tagsByName blueprint =
     fold (\<lambda>declared byName.
        (let byName = gm_put (bh_Name declared) declared byName
         in if bh_PublishedName declared \<noteq> '''' then gm_put (bh_PublishedName declared) declared byName
            else byName)) blueprint []"

definition namesOf :: "blueprint_handler list \<Rightarrow> string list" where
  "namesOf blueprint = sort (map bh_Name blueprint)"

definition set_reg :: "nat \<Rightarrow> 's registration \<Rightarrow> 's registry \<Rightarrow> 's registry" where
  "set_reg i reg r = r\<lparr>rg_store := (rg_store r)[i := reg]\<rparr>"

text \<open>\<^verbatim>\<open>App.bind\<close>: the registration object is changed before and after the registry moves it.\<close>

definition bind_reg :: "nat \<Rightarrow> string \<Rightarrow> 's registry \<Rightarrow> 's registry" where
  "bind_reg i tag r =
     (let r = (if reg_Kind (at_reg r i) = KindNone
               then set_reg i ((at_reg r i)\<lparr>reg_Kind := kindOfTag tag\<rparr>) r else r)
      in if tag = reg_Tag (at_reg r i) then r
         else let r = Retag (reg_Tag (at_reg r i)) tag r
              in set_reg i ((at_reg r i)\<lparr>reg_Tag := tag\<rparr>) r)"

text \<open>One pass of the loop, with the names found missing so far.\<close>

fun reconcile_loop ::
    "(string, blueprint_handler) gomap \<Rightarrow> (string, string) gomap \<Rightarrow> nat option list \<Rightarrow> string list \<Rightarrow> 's registry
       \<Rightarrow> (pval, string list \<times> 's registry) outcome" where
  "reconcile_loop byName byRoute [] unresolved r = Done (unresolved, r)"
| "reconcile_loop byName byRoute (None # regs) unresolved r = Panic nil_dereference"
| "reconcile_loop byName byRoute (Some i # regs) unresolved r =
     (let reg = at_reg r i in
      if reg_FromBlueprint reg then
        (case gm_get byName (reg_Name reg) of
           None \<Rightarrow> reconcile_loop byName byRoute regs (unresolved @ [reg_Name reg]) r
         | Some declared \<Rightarrow> reconcile_loop byName byRoute regs unresolved (bind_reg i (bh_Tag declared) r))
      else if reg_Kind reg = KindWebSocket then
        (case gm_get byRoute (reg_Route reg) of
           None \<Rightarrow> reconcile_loop byName byRoute regs unresolved r
         | Some declared \<Rightarrow>
             (let r = bind_reg i declared r
              in reconcile_loop byName byRoute regs unresolved
                   (set_reg i ((at_reg r i)\<lparr>reg_RouteKey := routeKeyOf declared\<rparr>) r)))
      else reconcile_loop byName byRoute regs unresolved r)"

definition ReconcileTags ::
    "blueprint_handler list \<Rightarrow> 's registry
       \<Rightarrow> (pval, (unresolved_error + string list) \<times> 's registry) outcome" where
  "ReconcileTags blueprint r =
     bind_outcome (reconcile_loop (tagsByName blueprint) (webSocketTagsByRoute blueprint) (All r) [] r)
       (\<lambda>(unresolved, r).
          if length unresolved > 0
          then Done (Inl \<lparr>ue_Names = sort unresolved, ue_Declared = namesOf blueprint\<rparr>, r)
          else Done (Inr (Tags r), r))"

fun handler_limits :: "'s registry \<Rightarrow> nat option list \<Rightarrow> (string, int) gomap \<Rightarrow> (pval, (string, int) gomap) outcome" where
  "handler_limits r [] limits = Done limits"
| "handler_limits r (None # regs) limits = Panic nil_dereference"
| "handler_limits r (Some i # regs) limits =
     (if reg_MaxConcurrent (at_reg r i) \<le> 0 then handler_limits r regs limits
      else handler_limits r regs (gm_put (reg_Tag (at_reg r i)) (reg_MaxConcurrent (at_reg r i)) limits))"

definition HandlerLimits :: "'s registry \<Rightarrow> (pval, (string, int) gomap) outcome" where
  "HandlerLimits r = handler_limits r (All r) []"

subsection \<open>The invariant and what the registry stands for\<close>

text \<open>The map, the order and the objects agree: the objects in allocation order are the
  registrations in registration order, their tags are distinct, and the map finds exactly them.
  So a registry stands for the list \<open>rg_store\<close> of registrations, and every operation is an
  operation on that list.\<close>

definition registry_ok :: "'s registry \<Rightarrow> bool" where
  "registry_ok r \<longleftrightarrow> gm_wf (rg_byTag r) \<and> rg_order r = map reg_Tag (rg_store r) \<and> distinct (rg_order r)
     \<and> (\<forall>t i. gm_get (rg_byTag r) t = Some i \<longleftrightarrow> i < length (rg_store r) \<and> reg_Tag (rg_store r ! i) = t)"

lemma registry_okI:
  assumes "gm_wf (rg_byTag r)" and "rg_order r = map reg_Tag (rg_store r)" and "distinct (map reg_Tag (rg_store r))"
    and "\<And>i. i < length (rg_store r) \<Longrightarrow> gm_get (rg_byTag r) (reg_Tag (rg_store r ! i)) = Some i"
    and "\<And>t i. gm_get (rg_byTag r) t = Some i \<Longrightarrow> i < length (rg_store r) \<and> reg_Tag (rg_store r ! i) = t"
  shows "registry_ok r"
  unfolding registry_ok_def using assms by metis

lemma registry_ok_NewRegistry [inv_intros]: "registry_ok NewRegistry"
  by (simp add: registry_ok_def NewRegistry_def)

lemma registry_ok_order: "registry_ok r \<Longrightarrow> rg_order r = map reg_Tag (rg_store r)"
  and registry_ok_distinct: "registry_ok r \<Longrightarrow> distinct (map reg_Tag (rg_store r))"
  by (auto simp: registry_ok_def)

lemma registry_ok_get:
  "registry_ok r \<Longrightarrow> gm_get (rg_byTag r) t = Some i \<longleftrightarrow> i < length (rg_store r) \<and> reg_Tag (rg_store r ! i) = t"
  by (simp add: registry_ok_def)

lemma registry_ok_get_None:
  assumes "registry_ok r"
  shows "gm_get (rg_byTag r) t = None \<longleftrightarrow> t \<notin> set (map reg_Tag (rg_store r))"
  using registry_ok_get [OF assms, of t] by (metis in_set_conv_nth length_map nth_map option.exhaust option.distinct(1))

lemma registry_ok_dom: "registry_ok r \<Longrightarrow> dom (gm_get (rg_byTag r)) = set (map reg_Tag (rg_store r))"
  using registry_ok_get_None [of r] by (auto simp: dom_def)

lemma All_pointers:
  assumes "registry_ok r"
  shows "All r = map Some [0..<length (rg_store r)]"
proof (rule nth_equalityI)
  show "length (All r) = length (map Some [0..<length (rg_store r)])"
    by (simp add: All_def registry_ok_order [OF assms])
  fix i assume "i < length (All r)"
  then have "i < length (rg_store r)" by (simp add: All_def registry_ok_order [OF assms])
  with registry_ok_get [OF assms] show "All r ! i = map Some [0..<length (rg_store r)] ! i"
    by (auto simp: All_def registry_ok_order [OF assms])
qed

lemma Add_duplicate:
  "registry_ok r \<Longrightarrow> reg_Tag reg \<in> set (map reg_Tag (rg_store r)) \<Longrightarrow> \<exists>e. Add reg r = (Some e, r)"
  using registry_ok_get_None [of r "reg_Tag reg"] by (auto simp: Add_def split: option.splits)

lemma Add_fresh:
  assumes "registry_ok r" and "reg_Tag reg \<notin> set (map reg_Tag (rg_store r))"
  shows "\<exists>r'. Add reg r = (None, r') \<and> registry_ok r' \<and> rg_store r' = rg_store r @ [reg]"
proof -
  let ?n = "length (rg_store r)"
  let ?r = "\<lparr>rg_store = rg_store r @ [reg], rg_byTag = gm_put (reg_Tag reg) ?n (rg_byTag r),
      rg_order = rg_order r @ [reg_Tag reg]\<rparr>"
  have "gm_get (rg_byTag r) (reg_Tag reg) = None" using assms registry_ok_get_None by blast
  then have "Add reg r = (None, ?r)" by (simp add: Add_def)
  moreover have "registry_ok ?r"
  proof (rule registry_okI)
    fix i assume "i < length (rg_store ?r)"
    then consider "i < ?n" | "i = ?n" by fastforce
    then show "gm_get (rg_byTag ?r) (reg_Tag (rg_store ?r ! i)) = Some i"
    proof cases
      case 1
      then have "reg_Tag (rg_store r ! i) \<noteq> reg_Tag reg" using assms(2) by (metis in_set_conv_nth length_map nth_map)
      with 1 registry_ok_get [OF assms(1)] show ?thesis by (simp add: nth_append)
    qed simp
  next
    fix t i assume "gm_get (rg_byTag ?r) t = Some i"
    then show "i < length (rg_store ?r) \<and> reg_Tag (rg_store ?r ! i) = t"
      using registry_ok_get [OF assms(1)] by (auto simp: nth_append split: if_splits)
  qed (use assms in \<open>auto simp: registry_ok_def\<close>)
  ultimately show ?thesis by simp
qed

lemma registry_ok_Add [inv_intros]: "registry_ok r \<Longrightarrow> registry_ok (snd (Add reg r))"
  using Add_duplicate [of r reg] Add_fresh [of r reg] by (metis snd_conv)

lemma Tags_store: "registry_ok r \<Longrightarrow> Tags r = sort (map reg_Tag (rg_store r))"
  unfolding Tags_def
  by (rule sorted_keys_unique)
    (simp_all only: registry_ok_dom set_sort distinct_sort registry_ok_distinct sorted_sort, simp add: registry_ok_def)

lemma Len_store: "registry_ok r \<Longrightarrow> Len r = length (rg_store r)"
proof -
  assume ok: "registry_ok r"
  have "length (gm_keys (rg_byTag r)) = card (set (gm_keys (rg_byTag r)))"
    using ok distinct_card [of "gm_keys (rg_byTag r)"] unfolding registry_ok_def gm_wf_def by metis
  also have "\<dots> = card (set (map reg_Tag (rg_store r)))" using ok by (simp only: gm_keys_set registry_ok_dom)
  also have "\<dots> = length (map reg_Tag (rg_store r))" using registry_ok_distinct [OF ok] by (rule distinct_card)
  finally show ?thesis by (simp add: Len_def)
qed

lemma by_name_find:
  assumes "registry_ok r" and "\<forall>i\<in>set is. i < length (rg_store r)"
  shows "by_name r name (map (\<lambda>i. reg_Tag (rg_store r ! i)) is)
    = Done (List.find (\<lambda>i. reg_Name (rg_store r ! i) = name \<or> reg_PublishedName (rg_store r ! i) = name) is)"
  using assms(2)
proof (induction "is")
  case (Cons i "is")
  have "gm_get (rg_byTag r) (reg_Tag (rg_store r ! i)) = Some i"
    using Cons.prems by (simp add: registry_ok_get [OF assms(1)])
  with Cons show ?case by (simp add: at_reg_def)
qed simp

lemma ByName_store:
  assumes "registry_ok r"
  shows "ByName r name = Done (List.find (\<lambda>i. reg_Name (rg_store r ! i) = name \<or> reg_PublishedName (rg_store r ! i) = name)
    [0..<length (rg_store r)])"
proof -
  have "rg_order r = map (\<lambda>i. reg_Tag (rg_store r ! i)) [0..<length (rg_store r)]"
    using arg_cong [OF map_nth [of "rg_store r"], of "map reg_Tag"] by (simp add: registry_ok_order [OF assms] comp_def)
  then show ?thesis unfolding ByName_def using by_name_find [OF assms, of "[0..<length (rg_store r)]"] by simp
qed

lemma of_kind_filter: "of_kind r k (map Some is) = Done (filter (\<lambda>i. reg_Kind (rg_store r ! i) = k) is)"
  by (induction "is") (simp_all add: at_reg_def)

lemma OfKind_store:
  "registry_ok r \<Longrightarrow> OfKind r k = Done (filter (\<lambda>i. reg_Kind (rg_store r ! i) = k) [0..<length (rg_store r)])"
  by (simp add: OfKind_def All_pointers of_kind_filter)

definition limit_of :: "'s registration \<Rightarrow> (string, int) gomap \<Rightarrow> (string, int) gomap" where
  "limit_of reg limits = (if reg_MaxConcurrent reg \<le> 0 then limits else gm_put (reg_Tag reg) (reg_MaxConcurrent reg) limits)"

lemma gm_get_limit_of [simp]:
  "gm_get (limit_of a m) t = (if t = reg_Tag a \<and> 0 < reg_MaxConcurrent a then Some (reg_MaxConcurrent a) else gm_get m t)"
  by (simp add: limit_of_def)

lemma handler_limits_fold:
  "handler_limits r (map Some is) limits = Done (fold limit_of (map ((!) (rg_store r)) is) limits)"
  by (induction "is" arbitrary: limits) (simp_all add: at_reg_def limit_of_def)

lemma HandlerLimits_store: "registry_ok r \<Longrightarrow> HandlerLimits r = Done (fold limit_of (rg_store r) [])"
  by (simp add: HandlerLimits_def All_pointers handler_limits_fold map_nth)

lemma fold_limit_of_absent:
  "t \<notin> set (map reg_Tag regs) \<Longrightarrow> gm_get (fold limit_of regs m) t = gm_get m t"
  by (induction regs arbitrary: m) auto

lemma fold_limit_of_present:
  assumes "distinct (map reg_Tag regs)" and "reg \<in> set regs"
  shows "gm_get (fold limit_of regs m) (reg_Tag reg)
    = (if 0 < reg_MaxConcurrent reg then Some (reg_MaxConcurrent reg) else gm_get m (reg_Tag reg))"
  using assms
proof (induction regs arbitrary: m)
  case (Cons a regs)
  show ?case
  proof (cases "reg = a")
    case True
    then have "reg_Tag reg \<notin> set (map reg_Tag regs)" using Cons.prems by simp
    from fold_limit_of_absent [OF this] True show ?thesis by simp
  next
    case False
    then have "reg_Tag reg \<noteq> reg_Tag a" using Cons.prems by (metis distinct.simps(2) image_eqI list.set_map list.simps(9) set_ConsD)
    with False Cons show ?thesis by simp
  qed
qed simp

subsection \<open>Binding one registration\<close>

lemma at_set_reg [simp]: "i < length (rg_store r) \<Longrightarrow> at_reg (set_reg i reg r) i = reg"
  by (simp add: at_reg_def set_reg_def)

lemma replace_first_update:
  "distinct xs \<Longrightarrow> i < length xs \<Longrightarrow> replace_first (xs ! i) y xs = xs[i := y]"
proof (induction xs arbitrary: i)
  case (Cons x xs)
  then show ?case by (cases i) (auto simp: in_set_conv_nth)
qed simp

lemma registry_ok_set_reg:
  assumes "registry_ok r" and "i < length (rg_store r)" and "reg_Tag reg = reg_Tag (rg_store r ! i)"
  shows "registry_ok (set_reg i reg r)"
proof -
  have "map reg_Tag ((rg_store r)[i := reg]) = map reg_Tag (rg_store r)"
    using assms(2,3) by (simp add: map_update list_update_same_conv)
  moreover have "reg_Tag ((rg_store r)[i := reg] ! j) = reg_Tag (rg_store r ! j)" if "j < length (rg_store r)" for j
    using that assms(2,3) by (cases "i = j") auto
  ultimately show ?thesis
    using assms(1) unfolding registry_ok_def set_reg_def by (auto simp: map_update)
qed

lemma move_tag:
  assumes ok: "registry_ok r" and i: "i < length (rg_store r)" and fresh: "tag \<notin> set (map reg_Tag (rg_store r))"
  shows "registry_ok (set_reg i (at_reg (Retag (reg_Tag (at_reg r i)) tag r) i \<lparr>reg_Tag := tag\<rparr>) (Retag (reg_Tag (at_reg r i)) tag r))"
    and "rg_store (set_reg i (at_reg (Retag (reg_Tag (at_reg r i)) tag r) i \<lparr>reg_Tag := tag\<rparr>) (Retag (reg_Tag (at_reg r i)) tag r))
      = (rg_store r)[i := (rg_store r ! i)\<lparr>reg_Tag := tag\<rparr>]"
proof -
  let ?s = "rg_store r" and ?t = "reg_Tag (rg_store r ! i)"
  let ?s' = "?s[i := (?s ! i)\<lparr>reg_Tag := tag\<rparr>]"
  let ?r' = "r\<lparr>rg_store := ?s', rg_byTag := gm_put tag i (gm_del ?t (rg_byTag r)), rg_order := replace_first ?t tag (rg_order r)\<rparr>"
  have get: "gm_get (rg_byTag r) ?t = Some i" using i by (simp add: registry_ok_get [OF ok])
  have "?t \<noteq> tag" using i fresh by auto
  with get have eq: "set_reg i (at_reg (Retag (reg_Tag (at_reg r i)) tag r) i \<lparr>reg_Tag := tag\<rparr>) (Retag (reg_Tag (at_reg r i)) tag r) = ?r'"
    by (simp add: Retag_def at_reg_def set_reg_def)
  have tags: "map reg_Tag ?s' = (map reg_Tag ?s)[i := tag]" by (simp add: map_update)
  have others: "reg_Tag (?s ! j) \<noteq> tag" "j \<noteq> i \<Longrightarrow> reg_Tag (?s ! j) \<noteq> ?t" if "j < length ?s" for j
    using that fresh i registry_ok_distinct [OF ok] by (auto simp: distinct_conv_nth)
  have "registry_ok ?r'"
  proof (rule registry_okI)
    show "rg_order ?r' = map reg_Tag (rg_store ?r')"
      using i replace_first_update [of "map reg_Tag ?s" i tag] registry_ok_distinct [OF ok]
      by (simp add: registry_ok_order [OF ok] tags)
    show "distinct (map reg_Tag (rg_store ?r'))"
      using fresh registry_ok_distinct [OF ok] by (simp add: tags distinct_list_update)
  next
    fix j assume "j < length (rg_store ?r')"
    then show "gm_get (rg_byTag ?r') (reg_Tag (rg_store ?r' ! j)) = Some j"
      using i others [of j] registry_ok_get [OF ok] by (cases "j = i") simp_all
  next
    fix t j assume "gm_get (rg_byTag ?r') t = Some j"
    then show "j < length (rg_store ?r') \<and> reg_Tag (rg_store ?r' ! j) = t"
      using i registry_ok_get [OF ok] by (cases "j = i") (auto split: if_splits)
  qed (use ok in \<open>simp add: registry_ok_def\<close>)
  with eq show "registry_ok (set_reg i (at_reg (Retag (reg_Tag (at_reg r i)) tag r) i \<lparr>reg_Tag := tag\<rparr>) (Retag (reg_Tag (at_reg r i)) tag r))"
    and "rg_store (set_reg i (at_reg (Retag (reg_Tag (at_reg r i)) tag r) i \<lparr>reg_Tag := tag\<rparr>) (Retag (reg_Tag (at_reg r i)) tag r)) = ?s'"
    by simp_all
qed

text \<open>What reconciliation makes of one registration.\<close>

definition bound_to :: "string \<Rightarrow> 's registration \<Rightarrow> 's registration" where
  "bound_to tag reg =
     (if reg_Kind reg = KindNone then reg\<lparr>reg_Kind := kindOfTag tag\<rparr> else reg)\<lparr>reg_Tag := tag\<rparr>"

definition settle :: "(string, blueprint_handler) gomap \<Rightarrow> (string, string) gomap \<Rightarrow> 's registration \<Rightarrow> 's registration" where
  "settle byName byRoute reg =
     (if reg_FromBlueprint reg then
        (case gm_get byName (reg_Name reg) of None \<Rightarrow> reg | Some d \<Rightarrow> bound_to (bh_Tag d) reg)
      else if reg_Kind reg = KindWebSocket then
        (case gm_get byRoute (reg_Route reg) of
           None \<Rightarrow> reg | Some tag \<Rightarrow> (bound_to tag reg)\<lparr>reg_RouteKey := routeKeyOf tag\<rparr>)
      else reg)"

definition missing :: "(string, blueprint_handler) gomap \<Rightarrow> 's registration \<Rightarrow> bool" where
  "missing byName reg \<longleftrightarrow> reg_FromBlueprint reg \<and> gm_get byName (reg_Name reg) = None"

definition tag_free :: "'s registry \<Rightarrow> nat \<Rightarrow> string \<Rightarrow> bool" where
  "tag_free r i tag \<longleftrightarrow> tag = reg_Tag (rg_store r ! i) \<or> tag \<notin> set (map reg_Tag (rg_store r))"

lemma bind_reg_ok:
  assumes ok: "registry_ok r" and i: "i < length (rg_store r)" and free: "tag_free r i tag"
  shows "registry_ok (bind_reg i tag r)" and "rg_store (bind_reg i tag r) = (rg_store r)[i := bound_to tag (rg_store r ! i)]"
proof -
  let ?reg = "rg_store r ! i"
  let ?k = "if reg_Kind ?reg = KindNone then ?reg\<lparr>reg_Kind := kindOfTag tag\<rparr> else ?reg"
  define r1 where "r1 = (if reg_Kind (at_reg r i) = KindNone
    then set_reg i ((at_reg r i)\<lparr>reg_Kind := kindOfTag tag\<rparr>) r else r)"
  have bind: "bind_reg i tag r = (if tag = reg_Tag (at_reg r1 i) then r1
      else set_reg i (at_reg (Retag (reg_Tag (at_reg r1 i)) tag r1) i \<lparr>reg_Tag := tag\<rparr>) (Retag (reg_Tag (at_reg r1 i)) tag r1))"
    unfolding bind_reg_def r1_def Let_def by (rule refl)
  have ok1: "registry_ok r1" using registry_ok_set_reg [OF ok i] ok by (simp add: at_reg_def r1_def)
  have store1: "rg_store r1 = (rg_store r)[i := ?k]" using i by (simp add: at_reg_def set_reg_def r1_def)
  have tags1: "map reg_Tag (rg_store r1) = map reg_Tag (rg_store r)"
    using i by (simp add: store1 map_update list_update_same_conv)
  have i1: "i < length (rg_store r1)" and at1: "at_reg r1 i = ?k" using i store1 by (simp_all add: at_reg_def)
  have "registry_ok (bind_reg i tag r) \<and> rg_store (bind_reg i tag r) = (rg_store r)[i := bound_to tag ?reg]"
  proof (cases "tag = reg_Tag ?reg")
    case True
    then have "bind_reg i tag r = r1" using at1 bind by simp
    moreover have "?k\<lparr>reg_Tag := tag\<rparr> = ?k" using True by simp
    ultimately show ?thesis using ok1 store1 by (simp add: bound_to_def)
  next
    case False
    then have fresh: "tag \<notin> set (map reg_Tag (rg_store r1))" using free unfolding tags1 tag_free_def by blast
    have "tag \<noteq> reg_Tag (at_reg r1 i)" using False at1 by simp
    then show ?thesis unfolding bind using move_tag [OF ok1 i1 fresh] at1 store1 i
      by (simp add: bound_to_def at_reg_def)
  qed
  then show "registry_ok (bind_reg i tag r)"
    and "rg_store (bind_reg i tag r) = (rg_store r)[i := bound_to tag (rg_store r ! i)]" by simp_all
qed

lemma reg_Tag_bound_to [simp]: "reg_Tag (bound_to tag reg) = tag"
  by (simp add: bound_to_def)

lemma reconcile_step:
  fixes r :: "'s registry"
  assumes ok: "registry_ok r" and i: "i < length (rg_store r)"
    and free: "tag_free r i (reg_Tag (settle byName byRoute (rg_store r ! i)))"
  obtains r' where "registry_ok r'" and "rg_store r' = (rg_store r)[i := settle byName byRoute (rg_store r ! i)]"
    and "\<And>regs unresolved. reconcile_loop byName byRoute (Some i # regs) unresolved r
       = reconcile_loop byName byRoute regs
           (unresolved @ (if missing byName (rg_store r ! i) then [reg_Name (rg_store r ! i)] else [])) r'"
proof -
  let ?reg = "rg_store r ! i"
  consider (bp) d where "reg_FromBlueprint ?reg" "gm_get byName (reg_Name ?reg) = Some d"
    | (ws) tag where "\<not> reg_FromBlueprint ?reg" "reg_Kind ?reg = KindWebSocket" "gm_get byRoute (reg_Route ?reg) = Some tag"
    | (keep) "settle byName byRoute ?reg = ?reg" "reg_FromBlueprint ?reg \<longrightarrow> missing byName ?reg"
        "reg_FromBlueprint ?reg \<or> reg_Kind ?reg \<noteq> KindWebSocket \<or> gm_get byRoute (reg_Route ?reg) = None"
    by (cases "reg_FromBlueprint ?reg"; cases "gm_get byName (reg_Name ?reg)"; cases "gm_get byRoute (reg_Route ?reg)";
        cases "reg_Kind ?reg = KindWebSocket") (auto simp: settle_def missing_def)
  then show thesis
  proof cases
    case bp
    have s: "settle byName byRoute ?reg = bound_to (bh_Tag d) ?reg" using bp by (simp add: settle_def)
    with free have "tag_free r i (bh_Tag d)" by simp
    from bind_reg_ok [OF ok i this] s bp show thesis
      by (intro that [of "bind_reg i (bh_Tag d) r"]) (simp_all add: missing_def at_reg_def)
  next
    case ws
    have s: "settle byName byRoute ?reg = (bound_to tag ?reg)\<lparr>reg_RouteKey := routeKeyOf tag\<rparr>"
      using ws by (simp add: settle_def)
    with free have "tag_free r i tag" by simp
    note b = bind_reg_ok [OF ok i this]
    let ?r = "bind_reg i tag r"
    have at: "at_reg ?r i = bound_to tag ?reg" using b(2) i by (simp add: at_reg_def)
    have "registry_ok (set_reg i ((at_reg ?r i)\<lparr>reg_RouteKey := routeKeyOf tag\<rparr>) ?r)"
      using i b by (intro registry_ok_set_reg) (simp_all add: at_reg_def)
    moreover have "rg_store (set_reg i ((at_reg ?r i)\<lparr>reg_RouteKey := routeKeyOf tag\<rparr>) ?r)
        = (rg_store r)[i := settle byName byRoute ?reg]"
      using b(2) at s by (simp add: set_reg_def)
    ultimately show thesis using ws
      by (intro that [of "set_reg i ((at_reg ?r i)\<lparr>reg_RouteKey := routeKeyOf tag\<rparr>) ?r"])
        (simp_all add: missing_def at_reg_def Let_def)
  next
    case keep
    then show thesis
      by (intro that [of r]) (use ok in \<open>auto simp: missing_def at_reg_def Let_def split: option.splits\<close>)
  qed
qed

subsection \<open>Reconciling every registration\<close>

text \<open>The tags the blueprint gives do not collide: no two registrations settle on one tag, and none
  settles on the tag a later one still holds when its turn comes.\<close>

definition settles_apart :: "blueprint_handler list \<Rightarrow> 's registration list \<Rightarrow> bool" where
  "settles_apart blueprint regs \<longleftrightarrow>
     (let f = reg_Tag \<circ> settle (tagsByName blueprint) (webSocketTagsByRoute blueprint)
      in distinct (map f regs)
         \<and> list_all (\<lambda>j. list_all (\<lambda>i. f (regs ! i) \<noteq> reg_Tag (regs ! j)) [0..<j]) [0..<length regs])"

lemma settles_apart_free:
  fixes r :: "'s registry"
  assumes "settles_apart bp s" and "k < length s"
    and "rg_store r = map (settle (tagsByName bp) (webSocketTagsByRoute bp)) (take k s) @ drop k s"
    and "distinct (map reg_Tag s)"
  shows "tag_free r k (reg_Tag (settle (tagsByName bp) (webSocketTagsByRoute bp) (rg_store r ! k)))"
proof -
  let ?f = "settle (tagsByName bp) (webSocketTagsByRoute bp)"
  have at: "rg_store r ! k = s ! k" using assms(2,3) by (simp add: nth_append)
  have "reg_Tag (?f (s ! k)) = reg_Tag (s ! k)" if hit: "reg_Tag (?f (s ! k)) \<in> set (map reg_Tag (rg_store r))"
  proof -
    have len: "length (rg_store r) = length s" using assms(2,3) by simp
    from hit obtain reg where "reg \<in> set (rg_store r)" "reg_Tag reg = reg_Tag (?f (s ! k))" by auto
    then obtain j where j: "j < length s" "reg_Tag (rg_store r ! j) = reg_Tag (?f (s ! k))"
      unfolding in_set_conv_nth len by blast
    show ?thesis
    proof (cases "j < k")
      case True
      then have "reg_Tag (?f (s ! j)) = reg_Tag (?f (s ! k))" using j assms(2,3) by (simp add: nth_append)
      with True j(1) assms(1,2) show ?thesis by (auto simp: settles_apart_def Let_def distinct_conv_nth)
    next
      case False
      then have eq: "reg_Tag (s ! j) = reg_Tag (?f (s ! k))" using j assms(2,3) by (simp add: nth_append)
      show ?thesis
      proof (cases "j = k")
        case False
        then have "k < j" using \<open>\<not> j < k\<close> by simp
        then have "reg_Tag (?f (s ! k)) \<noteq> reg_Tag (s ! j)"
          using j(1) assms(1) by (simp add: settles_apart_def Let_def list_all_iff)
        with eq show ?thesis by simp
      qed (use eq in simp)
    qed
  qed
  then show ?thesis by (auto simp: tag_free_def at)
qed

lemma reconcile_loop_settles:
  fixes r :: "'s registry"
  assumes "settles_apart bp s" and "distinct (map reg_Tag s)" and "k \<le> length s" and "registry_ok r"
    and "rg_store r = map (settle (tagsByName bp) (webSocketTagsByRoute bp)) (take k s) @ drop k s"
  shows "\<exists>r'. reconcile_loop (tagsByName bp) (webSocketTagsByRoute bp) (map Some [k..<length s]) unresolved r
      = Done (unresolved @ map reg_Name (filter (missing (tagsByName bp)) (drop k s)), r')
    \<and> registry_ok r' \<and> rg_store r' = map (settle (tagsByName bp) (webSocketTagsByRoute bp)) s"
  using assms(3-5)
proof (induction "length s - k" arbitrary: k unresolved r)
  case 0
  then show ?case by simp
next
  case (Suc m)
  let ?f = "settle (tagsByName bp) (webSocketTagsByRoute bp)"
  have k: "k < length s" using Suc.hyps(2) by simp
  have at: "rg_store r ! k = s ! k" and len: "k < length (rg_store r)" using Suc.prems k by (simp_all add: nth_append)
  from reconcile_step [OF Suc.prems(2) len settles_apart_free [OF assms(1) k Suc.prems(3) assms(2)]]
  obtain r1 where r1: "registry_ok r1" "rg_store r1 = (rg_store r)[k := ?f (s ! k)]"
    and step: "\<And>regs u. reconcile_loop (tagsByName bp) (webSocketTagsByRoute bp) (Some k # regs) u r
       = reconcile_loop (tagsByName bp) (webSocketTagsByRoute bp) regs
           (u @ (if missing (tagsByName bp) (s ! k) then [reg_Name (s ! k)] else [])) r1"
    unfolding at by blast
  have "rg_store r1 = map ?f (take (Suc k) s) @ drop (Suc k) s"
    using r1(2) Suc.prems(3) k
    by (simp add: list_update_append take_Suc_conv_app_nth Cons_nth_drop_Suc [symmetric] min_def)
  with Suc.hyps(1) [of "Suc k" r1] Suc.hyps(2) k r1(1)
  have IH: "\<exists>r'. reconcile_loop (tagsByName bp) (webSocketTagsByRoute bp) (map Some [Suc k..<length s]) u r1
      = Done (u @ map reg_Name (filter (missing (tagsByName bp)) (drop (Suc k) s)), r')
    \<and> registry_ok r' \<and> rg_store r' = map ?f s" for u by simp
  have "map Some [k..<length s] = Some k # map Some [Suc k..<length s]" using k by (simp add: upt_conv_Cons)
  moreover have "drop k s = s ! k # drop (Suc k) s" using k by (simp add: Cons_nth_drop_Suc)
  ultimately show ?case
    using IH [of "unresolved @ (if missing (tagsByName bp) (s ! k) then [reg_Name (s ! k)] else [])"]
    by (simp only: step) (simp split: if_splits)
qed

lemma ReconcileTags_settles:
  assumes "registry_ok r" and "settles_apart bp (rg_store r)"
  shows "\<exists>r'. ReconcileTags bp r
      = Done (let m = map reg_Name (filter (missing (tagsByName bp)) (rg_store r))
              in if m = [] then Inr (Tags r') else Inl \<lparr>ue_Names = sort m, ue_Declared = namesOf bp\<rparr>, r')
    \<and> registry_ok r' \<and> rg_store r' = map (settle (tagsByName bp) (webSocketTagsByRoute bp)) (rg_store r)"
proof -
  from reconcile_loop_settles [OF assms(2) registry_ok_distinct [OF assms(1)] le0 assms(1), of "[]"]
  show ?thesis by (auto simp: ReconcileTags_def All_pointers [OF assms(1)] Let_def)
qed

subsection \<open>What an application relies on\<close>

text \<open>The contract an application builds on: registering under a free tag makes the handler the one
  found there and disturbs no other; registering under a taken one is refused and changes nothing.
  From it follows what any sequence of registrations leaves behind.\<close>

locale handler_table =
  fixes ok :: "'r \<Rightarrow> bool" and add :: "'e \<Rightarrow> 'r \<Rightarrow> gerr option \<times> 'r" and found :: "'r \<Rightarrow> string \<Rightarrow> 'e option"
    and tag_of :: "'e \<Rightarrow> string"
  assumes ok_add: "ok r \<Longrightarrow> ok (snd (add e r))"
    and add_taken: "ok r \<Longrightarrow> found r (tag_of e) \<noteq> None \<Longrightarrow> \<exists>err. add e r = (Some err, r)"
    and add_free: "ok r \<Longrightarrow> found r (tag_of e) = None \<Longrightarrow>
      \<exists>r'. add e r = (None, r') \<and> (\<forall>t. found r' t = (if t = tag_of e then Some e else found r t))"
begin

lemma add_all_ok: "ok r \<Longrightarrow> ok (fold (\<lambda>e r. snd (add e r)) es r)"
  by (induction es arbitrary: r) (simp_all add: ok_add)

lemma first_registration_wins:
  "ok r \<Longrightarrow> found (fold (\<lambda>e r. snd (add e r)) es r) t
     = (case found r t of Some e \<Rightarrow> Some e | None \<Rightarrow> List.find (\<lambda>e. tag_of e = t) es)"
proof (induction es arbitrary: r)
  case (Cons e es)
  show ?case
  proof (cases "found r (tag_of e)")
    case None
    from add_free [OF Cons.prems None] obtain r' where
      "add e r = (None, r')" "\<forall>t. found r' t = (if t = tag_of e then Some e else found r t)" by blast
    with Cons ok_add [OF Cons.prems, of e] None show ?thesis by (auto split: option.splits)
  next
    case (Some e')
    with add_taken [OF Cons.prems, of e] Cons show ?thesis by (auto split: option.splits)
  qed
qed (simp split: option.splits)

lemma refusals:
  assumes "ok r"
    and "fold (\<lambda>e (errs, r). case add e r of (None, r') \<Rightarrow> (errs, r') | (Some err, r') \<Rightarrow> (errs @ [err], r')) es (errs, r)
      = (errs', r')"
  shows "r' = fold (\<lambda>e r. snd (add e r)) es r" and "\<exists>new. errs' = errs @ new"
    and "errs' = errs \<longleftrightarrow> distinct (map tag_of es) \<and> (\<forall>e\<in>set es. found r (tag_of e) = None)"
proof -
  have "r' = fold (\<lambda>e r. snd (add e r)) es r \<and> (\<exists>new. errs' = errs @ new)
    \<and> (errs' = errs \<longleftrightarrow> distinct (map tag_of es) \<and> (\<forall>e\<in>set es. found r (tag_of e) = None))"
    using assms
  proof (induction es arbitrary: errs r)
    case (Cons e es)
    show ?case
    proof (cases "found r (tag_of e)")
      case None
      from add_free [OF Cons.prems(1) None] obtain r1 where
        r1: "add e r = (None, r1)" "\<And>t. found r1 t = (if t = tag_of e then Some e else found r t)" by blast
      have "ok r1" using ok_add [OF Cons.prems(1), of e] r1(1) by simp
      from Cons.IH [OF this, of errs] Cons.prems(2) r1(1)
      have "r' = fold (\<lambda>e r. snd (add e r)) (e # es) r" "\<exists>new. errs' = errs @ new"
        "errs' = errs \<longleftrightarrow> distinct (map tag_of es) \<and> (\<forall>x\<in>set es. found r1 (tag_of x) = None)" by auto
      moreover have "(\<forall>x\<in>set es. found r1 (tag_of x) = None)
          \<longleftrightarrow> tag_of e \<notin> set (map tag_of es) \<and> (\<forall>x\<in>set es. found r (tag_of x) = None)"
        unfolding r1(2) by (metis (mono_tags, lifting) in_set_conv_nth length_map nth_map option.distinct(1))
      ultimately show ?thesis using None by auto
    next
      case (Some e')
      with add_taken [OF Cons.prems(1), of e] obtain err where err: "add e r = (Some err, r)" by blast
      from Cons.IH [OF Cons.prems(1), of "errs @ [err]"] Cons.prems(2) err Some show ?thesis by auto
    qed
  qed simp
  then show "r' = fold (\<lambda>e r. snd (add e r)) es r" and "\<exists>new. errs' = errs @ new"
    and "errs' = errs \<longleftrightarrow> distinct (map tag_of es) \<and> (\<forall>e\<in>set es. found r (tag_of e) = None)" by blast+
qed

end

definition found_in :: "'s registry \<Rightarrow> string \<Rightarrow> 's registration option" where
  "found_in r tag = map_option (at_reg r) (Get r tag)"

lemma found_in_None: "registry_ok r \<Longrightarrow> found_in r t = None \<longleftrightarrow> t \<notin> set (map reg_Tag (rg_store r))"
  by (simp only: found_in_def Get_def option.map_disc_iff registry_ok_get_None)

lemma found_in_Some:
  assumes "registry_ok r"
  shows "found_in r t = Some reg \<longleftrightarrow> reg \<in> set (rg_store r) \<and> reg_Tag reg = t"
proof -
  have "found_in r t = Some reg \<longleftrightarrow> (\<exists>i. Get r t = Some i \<and> reg = rg_store r ! i)"
    by (auto simp: found_in_def at_reg_def)
  also have "\<dots> \<longleftrightarrow> (\<exists>i. i < length (rg_store r) \<and> reg_Tag (rg_store r ! i) = t \<and> reg = rg_store r ! i)"
    by (simp add: Get_def registry_ok_get [OF assms])
  also have "\<dots> \<longleftrightarrow> reg \<in> set (rg_store r) \<and> reg_Tag reg = t" unfolding in_set_conv_nth by blast
  finally show ?thesis .
qed

lemma found_in_find:
  assumes "registry_ok r"
  shows "found_in r tag = List.find (\<lambda>reg. reg_Tag reg = tag) (rg_store r)"
proof (cases "List.find (\<lambda>reg. reg_Tag reg = tag) (rg_store r)")
  case None
  then have "tag \<notin> set (map reg_Tag (rg_store r))" by (auto simp: find_None_iff)
  then show ?thesis using None found_in_None [OF assms, of tag] by presburger
next
  case (Some reg)
  then have "reg \<in> set (rg_store r)" "reg_Tag reg = tag" by (auto simp: find_Some_iff)
  then show ?thesis using Some found_in_Some [OF assms] by simp
qed

interpretation registry: handler_table registry_ok Add found_in reg_Tag
proof
  fix r :: "'s registry" and reg
  assume ok: "registry_ok r"
  show "registry_ok (snd (Add reg r))" using ok by (rule registry_ok_Add)
  show "\<exists>err. Add reg r = (Some err, r)" if "found_in r (reg_Tag reg) \<noteq> None"
    using that Add_duplicate [OF ok, of reg] unfolding found_in_None [OF ok] by blast
  show "\<exists>r'. Add reg r = (None, r') \<and> (\<forall>t. found_in r' t = (if t = reg_Tag reg then Some reg else found_in r t))"
    if "found_in r (reg_Tag reg) = None"
  proof -
    from that have fresh: "reg_Tag reg \<notin> set (map reg_Tag (rg_store r))" using found_in_None [OF ok] by blast
    from Add_fresh [OF ok this] obtain r' where
      r': "Add reg r = (None, r')" "registry_ok r'" "rg_store r' = rg_store r @ [reg]" by blast
    have "found_in r' t = (if t = reg_Tag reg then Some reg else found_in r t)" for t
    proof (cases "found_in r' t")
      case None
      then have "t \<notin> set (map reg_Tag (rg_store r @ [reg]))" using found_in_None [OF r'(2), of t] unfolding r'(3) by blast
      then show ?thesis using None found_in_None [OF ok, of t] by simp
    next
      case (Some x)
      then have x: "x \<in> set (rg_store r) \<or> x = reg" "reg_Tag x = t" using found_in_Some [OF r'(2)] r'(3) by auto
      show ?thesis
      proof (cases "x = reg")
        case False
        then have "x \<in> set (rg_store r)" using x(1) by blast
        then have "found_in r t = Some x" and "reg_Tag x \<in> set (map reg_Tag (rg_store r))"
          using x(2) found_in_Some [OF ok, of t x] by auto
        with Some x(2) fresh show ?thesis by metis
      qed (use Some x in simp)
    qed
    with r'(1) show ?thesis by blast
  qed
qed

text \<open>A registry for examples: a WebSocket handler and a handler wired by the blueprint.\<close>

definition example_registry :: "nat registry" where
  "example_registry =
     snd (Add ((plain_registration ''blueprint::getOrder'' KindNone (\<lambda>ctx ev s. (Done (None, None), s)))
                 \<lparr>reg_Name := ''getOrder'', reg_FromBlueprint := True\<rparr>)
       (snd (Add ((plain_registration ''event::send'' KindWebSocket (\<lambda>ctx ev s. (Done (None, None), s + 1)))
                    \<lparr>reg_Route := ''send'', reg_MaxConcurrent := 2\<rparr>) NewRegistry)))"

lemma example_registry_ok: "registry_ok example_registry"
  by (simp only: example_registry_def registry_ok_Add registry_ok_NewRegistry)

lemma example_registry_store:
  "rg_store example_registry =
     [(plain_registration ''event::send'' KindWebSocket (\<lambda>ctx ev s. (Done (None, None), s + 1)))
        \<lparr>reg_Route := ''send'', reg_MaxConcurrent := 2\<rparr>,
      (plain_registration ''blueprint::getOrder'' KindNone (\<lambda>ctx ev s. (Done (None, None), s)))
        \<lparr>reg_Name := ''getOrder'', reg_FromBlueprint := True\<rparr>]"
  by (simp add: example_registry_def Add_def NewRegistry_def plain_registration_def)

subsection \<open>Properties\<close>

text \<open>C5. A registry implements a list of registrations with distinct tags: registering appends where
  the tag is free and is refused, changing nothing, where it is taken; lookup by tag, by name and by
  kind, the declared tags and the count are those of the list; and nothing panics.\<close>

theorem Registry_refines_list:
  assumes "registry_ok r"
  shows "(case Add reg r of (err, r') \<Rightarrow> registry_ok r'
           \<and> rg_store r' = (if reg_Tag reg \<in> set (map reg_Tag (rg_store r)) then rg_store r else rg_store r @ [reg])
           \<and> (err = None \<longleftrightarrow> reg_Tag reg \<notin> set (map reg_Tag (rg_store r))))
    \<and> map_option (at_reg r) (Get r tag) = List.find (\<lambda>reg. reg_Tag reg = tag) (rg_store r)
    \<and> (\<exists>res. ByName r name = Done res
         \<and> map_option (at_reg r) res = List.find (\<lambda>reg. reg_Name reg = name \<or> reg_PublishedName reg = name) (rg_store r))
    \<and> (\<exists>res. OfKind r k = Done res \<and> map (at_reg r) res = filter (\<lambda>reg. reg_Kind reg = k) (rg_store r))
    \<and> map (map_option (at_reg r)) (All r) = map Some (rg_store r)
    \<and> Tags r = sort (map reg_Tag (rg_store r)) \<and> Len r = length (rg_store r)"
proof -
  have add: "case Add reg r of (err, r') \<Rightarrow> registry_ok r'
           \<and> rg_store r' = (if reg_Tag reg \<in> set (map reg_Tag (rg_store r)) then rg_store r else rg_store r @ [reg])
           \<and> (err = None \<longleftrightarrow> reg_Tag reg \<notin> set (map reg_Tag (rg_store r)))"
    using Add_duplicate [OF assms, of reg] Add_fresh [OF assms, of reg] assms
    by (cases "reg_Tag reg \<in> set (map reg_Tag (rg_store r))") (auto simp del: set_map)
  have ptrs: "map (map_option ((!) xs)) (map Some is) = map Some (map ((!) xs) is)" for xs :: "'a registration list" and "is"
    by simp
  show ?thesis
    using add found_in_find [OF assms, of tag] filter_indexes [of "\<lambda>reg. reg_Kind reg = k" "rg_store r"]
      find_indexes [of "\<lambda>reg. reg_Name reg = name \<or> reg_PublishedName reg = name" "rg_store r"]
    by (simp add: ByName_store [OF assms] OfKind_store [OF assms] All_pointers [OF assms] Tags_store [OF assms]
        Len_store [OF assms] found_in_def at_reg_def [abs_def] map_nth ptrs del: map_map)
qed

theorem Registry_refines_list_witness:
  "registry_ok NewRegistry
   \<and> (case Add (plain_registration ''custom::x'' KindCustom (\<lambda>ctx ev s :: nat. (Done (None, None), s))) NewRegistry of
        (err, r') \<Rightarrow> registry_ok r' \<and> err = None)"
  using Registry_refines_list [OF registry_ok_NewRegistry,
      of "plain_registration ''custom::x'' KindCustom (\<lambda>ctx ev s :: nat. (Done (None, None), s))"]
    registry_ok_NewRegistry
  by (auto simp: NewRegistry_def)



text \<open>Moving a registration onto a tag that is taken silently drops the one that held it: no error
  is possible, the count falls by one, the dropped registration is no longer found anywhere, and
  the one that moved is listed twice. So a blueprint whose tags collide leaves fewer handlers than
  were registered, unlike a colliding registration, which is refused.\<close>

theorem Retag_onto_taken_tag:
  assumes "registry_ok r" and "i < length (rg_store r)" and "j < length (rg_store r)" and "i \<noteq> j"
  shows "let r' = Retag (reg_Tag (rg_store r ! i)) (reg_Tag (rg_store r ! j)) r
    in Len r' = Len r - 1 \<and> (\<forall>t. Get r' t \<noteq> Some j)
      \<and> All r' = (map Some [0..<length (rg_store r)])[j := Some i]"
proof -
  let ?ti = "reg_Tag (rg_store r ! i)" and ?tj = "reg_Tag (rg_store r ! j)" and ?tags = "map reg_Tag (rg_store r)"
  define r' where "r' = Retag ?ti ?tj r"
  have get: "gm_get (rg_byTag r) t = Some k \<longleftrightarrow> k < length (rg_store r) \<and> reg_Tag (rg_store r ! k) = t" for t k
    using assms(1) by (rule registry_ok_get)
  have d: "distinct ?tags" using assms(1) by (rule registry_ok_distinct)
  then have ne: "?ti \<noteq> ?tj" using assms by (auto simp: distinct_conv_nth)
  have r'_def': "r' = r\<lparr>rg_byTag := gm_put ?tj i (gm_del ?ti (rg_byTag r)), rg_order := ?tags[i := ?tj]\<rparr>"
    using ne assms get [of ?ti i] replace_first_update [OF d, of i] by (simp add: r'_def Retag_def registry_ok_order)
  have wf: "gm_wf (rg_byTag r)" using assms(1) by (simp add: registry_ok_def)
  have Len_card: "Len q = card (dom (gm_get (rg_byTag q)))" if "gm_wf (rg_byTag q)" for q :: "'b registry"
    using that distinct_card [of "gm_keys (rg_byTag q)"] unfolding Len_def gm_wf_def gm_keys_set [symmetric] by simp
  have "dom (gm_get (rg_byTag r')) = dom (gm_get (rg_byTag r)) - {?ti}"
    using ne get [of ?tj j] assms(3) by (auto simp: r'_def')
  moreover have "?ti \<in> dom (gm_get (rg_byTag r))" using get [of ?ti i] assms(2) by auto
  ultimately have len: "Len r' = Len r - 1"
    using Len_card [OF wf] Len_card [of r'] wf by (simp add: r'_def' finite_dom_map_of)
  have get': "Get r' t \<noteq> Some j" for t using get assms by (auto simp: Get_def r'_def')
  have All': "All r' = (map Some [0..<length (rg_store r)])[j := Some i]"
  proof (rule nth_equalityI)
    show "length (All r') = length ((map Some [0..<length (rg_store r)])[j := Some i])" by (simp add: All_def r'_def')
    fix k assume "k < length (All r')"
    then have k: "k < length (rg_store r)" by (simp add: All_def r'_def')
    moreover have "k \<noteq> i \<Longrightarrow> reg_Tag (rg_store r ! k) \<noteq> ?ti" "k \<noteq> j \<Longrightarrow> reg_Tag (rg_store r ! k) \<noteq> ?tj"
      using k d assms by (auto simp: distinct_conv_nth)
    ultimately show "All r' ! k = (map Some [0..<length (rg_store r)])[j := Some i] ! k"
      using ne get assms by (cases "k = i"; cases "k = j") (simp_all add: All_def r'_def')
  qed
  show ?thesis
    using len get' All' unfolding r'_def [symmetric] Let_def by blast
qed

theorem Retag_onto_taken_tag_witness:
  "let r' = Retag ''blueprint::getOrder'' ''event::send'' example_registry
   in Len r' = Len example_registry - 1 \<and> (\<forall>t. Get r' t \<noteq> Some 0)"
proof -
  have tags: "reg_Tag (rg_store example_registry ! 1) = ''blueprint::getOrder''"
    "reg_Tag (rg_store example_registry ! 0) = ''event::send''" "length (rg_store example_registry) = 2"
    by (simp_all add: example_registry_store plain_registration_def)
  from Retag_onto_taken_tag [OF example_registry_ok, of 1 0] tags show ?thesis by (simp add: Let_def)
qed

text \<open>The declared concurrency caps name only handlers that are served: reading them never panics,
  a tag has a cap exactly when the registration found under it states a positive one, and the cap
  is the one it states.\<close>

theorem HandlerLimits_of_served:
  assumes "registry_ok r"
  shows "\<exists>limits. HandlerLimits r = Done limits
    \<and> (\<forall>t. gm_get limits t = (case Get r t of
          None \<Rightarrow> None
        | Some i \<Rightarrow> if 0 < reg_MaxConcurrent (at_reg r i) then Some (reg_MaxConcurrent (at_reg r i)) else None))"
proof (intro exI conjI allI)
  show "HandlerLimits r = Done (fold limit_of (rg_store r) [])" using assms by (rule HandlerLimits_store)
  fix t
  show "gm_get (fold limit_of (rg_store r) []) t = (case Get r t of
          None \<Rightarrow> None
        | Some i \<Rightarrow> if 0 < reg_MaxConcurrent (at_reg r i) then Some (reg_MaxConcurrent (at_reg r i)) else None)"
  proof (cases "Get r t")
    case None
    then have "t \<notin> set (map reg_Tag (rg_store r))" using registry_ok_get_None [OF assms] by (simp add: Get_def)
    with None fold_limit_of_absent [OF this, of "[]"] show ?thesis by simp
  next
    case (Some i)
    then have i: "i < length (rg_store r)" "reg_Tag (rg_store r ! i) = t" by (auto simp: Get_def registry_ok_get [OF assms])
    with Some fold_limit_of_present [OF registry_ok_distinct [OF assms], of "rg_store r ! i" "[]"]
    show ?thesis by (simp add: at_reg_def)
  qed
qed

theorem HandlerLimits_of_served_witness:
  "\<exists>limits. HandlerLimits example_registry = Done limits \<and> gm_get limits ''event::send'' = Some 2
     \<and> gm_get limits ''blueprint::getOrder'' = None"
proof -
  have get: "Get example_registry ''event::send'' = Some 0" "Get example_registry ''blueprint::getOrder'' = Some 1"
    "reg_MaxConcurrent (at_reg example_registry 0) = 2" "reg_MaxConcurrent (at_reg example_registry 1) = 0"
    using registry_ok_get [OF example_registry_ok]
    by (simp_all add: Get_def at_reg_def example_registry_store plain_registration_def)
  from HandlerLimits_of_served [OF example_registry_ok] get show ?thesis by auto
qed

end
