(* ===== verification/App.thy ===== *)
theory App
  imports Registry
begin

text \<open>
  An application: what is linked into the binary (\<^verbatim>\<open>src/serverless/registry.go\<close>,
  \<^verbatim>\<open>src/resources/registry.go\<close>), its options and the functions that register handlers
  (\<^verbatim>\<open>src/celerity/app.go\<close>, \<^verbatim>\<open>register.go\<close>, \<^verbatim>\<open>host.go\<close>), how it is asked to run and the ways a
  dispatcher or a serverless adapter reaches a handler (\<^verbatim>\<open>run.go\<close>, \<^verbatim>\<open>runtime.go\<close>, \<^verbatim>\<open>pipeline.go\<close>).

  What Go's reflection and runtime tell a registration (the function's own name, the call site) are
  arguments, as are the environment, the number of processors and the outcomes of the calls \<open>RunContext\<close> makes.
\<close>

subsection \<open>Adapters and providers linked into the binary\<close>

record adapter =
  ad_Name :: string
  ad_Detect :: bool

definition registered_twice :: "string \<Rightarrow> string \<Rightarrow> pval" where
  "registered_twice what name = PanicText (''celerity: '' @ what @ '' '' @ go_quote name @ '' is registered twice'')"

definition Register :: "adapter \<Rightarrow> adapter list \<Rightarrow> (pval, adapter list) outcome" where
  "Register a registered =
     (if list_ex (\<lambda>existing. ad_Name existing = ad_Name a) registered
      then Panic (registered_twice ''serverless adapter'' (ad_Name a)) else Done (registered @ [a]))"

definition Registered :: "adapter list \<Rightarrow> string list" where
  "Registered registered = sort (map ad_Name registered)"

definition Detected :: "adapter list \<Rightarrow> adapter option" where
  "Detected registered = List.find ad_Detect registered"

definition newline :: string where
  "newline = [CHR 0x0A]"

definition tab :: string where
  "tab = [CHR 0x09]"

definition MissingAdapterError :: "string list \<Rightarrow> gerr" where
  "MissingAdapterError linked = Errorf
     (''running in a serverless environment that no linked adapter serves.'' @ newline
      @ ''Import the adapter for the platform being deployed to, for example:'' @ newline @ newline
      @ tab @ ''import _ '' @ [CHR 0x22] @ ''github.com/newstack-cloud/celerity-go-sdk/serverless/aws'' @ [CHR 0x22] @ newline
      @ (if length linked > 0
         then newline @ ''Adapters linked into this binary: '' @ join '', '' linked
         else newline @ ''No serverless adapters are linked into this binary.'')) None"

text \<open>A resource provider, over the state \<^typ>\<open>'w\<close> of the process: its name, \<^verbatim>\<open>Detect\<close> where it has
  one and \<^verbatim>\<open>Close\<close> where it holds something.\<close>

record 'w provider =
  pv_Name :: string
  pv_Detect :: "bool option"
  pv_Close :: "('w \<Rightarrow> gerr option \<times> 'w) option"

definition RegisterProvider :: "'w provider \<Rightarrow> 'w provider list \<Rightarrow> (pval, 'w provider list) outcome" where
  "RegisterProvider p providers =
     (if list_ex (\<lambda>existing. pv_Name existing = pv_Name p) providers
      then Panic (registered_twice ''resource provider'' (pv_Name p)) else Done (providers @ [p]))"

definition RegisteredProviders :: "'w provider list \<Rightarrow> string list" where
  "RegisteredProviders providers = sort (map pv_Name providers)"

definition DetectedProvider :: "'w provider list \<Rightarrow> 'w provider option" where
  "DetectedProvider providers =
     (case providers of
        [p] \<Rightarrow> Some p
      | _ \<Rightarrow> List.find (\<lambda>p. pv_Detect p = Some True) providers)"

definition FallbackProvider :: "string \<Rightarrow> 'w provider list \<Rightarrow> 'w provider option" where
  "FallbackProvider excluding providers = List.find (\<lambda>p. pv_Name p \<noteq> excluding) providers"

definition join_errors :: "gerr option list \<Rightarrow> gerr option" where
  "join_errors errs = (case List.map_filter (\<lambda>e. e) errs of [] \<Rightarrow> None | es \<Rightarrow> Some (JoinError es))"

fun release_all :: "('w \<Rightarrow> gerr option \<times> 'w) list \<Rightarrow> 'w \<Rightarrow> gerr option list \<times> 'w" where
  "release_all [] w = ([], w)"
| "release_all (close # holders) w =
     (let (err, w1) = close w; (errs, w2) = release_all holders w1 in (err # errs, w2))"

definition Release :: "'w provider list \<Rightarrow> 'w \<Rightarrow> gerr option \<times> 'w" where
  "Release providers w =
     (let (errs, w') = release_all (List.map_filter pv_Close providers) w in (join_errors errs, w'))"

definition MissingProviderError :: "string \<Rightarrow> string \<Rightarrow> string list \<Rightarrow> gerr" where
  "MissingProviderError kind name linked = Errorf
     (''no resource provider for '' @ kind @ '' '' @ go_quote name @ ''.'' @ newline
      @ ''Import the provider for the platform being deployed to, for example:'' @ newline @ newline
      @ tab @ ''import _ '' @ [CHR 0x22] @ ''github.com/newstack-cloud/celerity-go-sdk/resources/aws'' @ [CHR 0x22] @ newline
      @ (if length linked > 1
         then newline @ ''More than one provider is linked and none matched this environment: '' @ join '', '' linked
         else [])) None"

subsection \<open>An application and its options\<close>

type_synonym validator = "govalue \<Rightarrow> gerr option"

record ('s, 'c) options =
  op_layers :: "'s layer option list"
  op_guards :: "(string, 's guard) gomap"
  op_adapter :: "adapter option"
  op_logger :: "(string \<times> string) list option"
  op_resourceProvider :: "string option"
  op_webSocketRouteKey :: string
  op_validator :: "validator option"
  op_config :: "'c option"

record ('s, 'c) app =
  ap_registry :: "'s registry"
  ap_options :: "('s, 'c) options"
  ap_errs :: "gerr list"
  ap_resourceRefs :: "(string, (string, unit) gomap) gomap"

definition WithLayers :: "'s layer option list \<Rightarrow> ('s, 'c) options \<Rightarrow> ('s, 'c) options" where
  "WithLayers layers o' = o'\<lparr>op_layers := op_layers o' @ layers\<rparr>"

definition WithAdapter :: "adapter option \<Rightarrow> ('s, 'c) options \<Rightarrow> ('s, 'c) options" where
  "WithAdapter a o' = o'\<lparr>op_adapter := a\<rparr>"

definition WithWebSocketRouteKey :: "string \<Rightarrow> ('s, 'c) options \<Rightarrow> ('s, 'c) options" where
  "WithWebSocketRouteKey key o' = o'\<lparr>op_webSocketRouteKey := key\<rparr>"

definition WithConfig :: "'c option \<Rightarrow> ('s, 'c) options \<Rightarrow> ('s, 'c) options" where
  "WithConfig svc o' = o'\<lparr>op_config := svc\<rparr>"

definition With_Logger :: "(string \<times> string) list option \<Rightarrow> ('s, 'c) options \<Rightarrow> ('s, 'c) options" where
  "With_Logger l o' = o'\<lparr>op_logger := l\<rparr>"

definition WithResourceProvider :: "string option \<Rightarrow> ('s, 'c) options \<Rightarrow> ('s, 'c) options" where
  "WithResourceProvider p o' = o'\<lparr>op_resourceProvider := p\<rparr>"

definition WithValidator :: "validator option \<Rightarrow> ('s, 'c) options \<Rightarrow> ('s, 'c) options" where
  "WithValidator v o' = o'\<lparr>op_validator := v\<rparr>"

text \<open>\<open>fromEnvironment\<close> is what \<^verbatim>\<open>config.FromEnvironment\<close> returns in this process's environment and
  \<open>newConfig\<close> the empty service; \<open>newLogger\<close> the logger built where none is given.\<close>

definition New ::
    "(string \<times> string) list \<Rightarrow> (gerr + 'c) \<Rightarrow> 'c \<Rightarrow> (('s, 'c) options \<Rightarrow> ('s, 'c) options) list \<Rightarrow> ('s, 'c) app" where
  "New newLogger fromEnvironment newConfig opts =
     (let o0 = \<lparr>op_layers = [], op_guards = [], op_adapter = None, op_logger = None, op_resourceProvider = None,
            op_webSocketRouteKey = DefaultWebSocketRouteKey, op_validator = None, op_config = None\<rparr>;
          o1 = fold (\<lambda>opt o'. opt o') opts o0;
          o2 = (if op_logger o1 = None then o1\<lparr>op_logger := Some newLogger\<rparr> else o1);
          app = \<lparr>ap_registry = NewRegistry, ap_options = o2, ap_errs = [], ap_resourceRefs = []\<rparr>
      in case op_config o2 of
           Some _ \<Rightarrow> app
         | None \<Rightarrow>
             (case fromEnvironment of
                Inl err \<Rightarrow> app\<lparr>ap_errs := [err], ap_options := o2\<lparr>op_config := Some newConfig\<rparr>\<rparr>
              | Inr svc \<Rightarrow> app\<lparr>ap_options := o2\<lparr>op_config := Some svc\<rparr>\<rparr>))"

definition Err :: "('s, 'c) app \<Rightarrow> gerr option" where
  "Err app = join_errors (map Some (ap_errs app))"

text \<open>\<^verbatim>\<open>App.register\<close>: the application's layers go outside the registration's own.\<close>

definition register :: "'s registration \<Rightarrow> 's layer option list \<Rightarrow> ('s, 'c) app \<Rightarrow> ('s, 'c) app" where
  "register reg layers app =
     (let reg = reg\<lparr>reg_Layers := op_layers (ap_options app) @ layers\<rparr>
      in case Add reg (ap_registry app) of
           (None, r) \<Rightarrow> app\<lparr>ap_registry := r\<rparr>
         | (Some err, r) \<Rightarrow> app\<lparr>ap_registry := r, ap_errs := ap_errs app @ [err]\<rparr>)"

definition guardRedefinedError :: "string \<Rightarrow> string \<times> int \<Rightarrow> gerr" where
  "guardRedefinedError name site = Errorf (''guard '' @ go_quote name @ '' is already registered, and '' @ fst site
     @ '':'' @ itoa (snd site) @ '' registers it again'') None"

definition AddGuard :: "string \<Rightarrow> 's guard \<Rightarrow> string \<times> int \<Rightarrow> ('s, 'c) app \<Rightarrow> ('s, 'c) app" where
  "AddGuard name g site app =
     (case gm_get (op_guards (ap_options app)) name of
        Some _ \<Rightarrow> app\<lparr>ap_errs := ap_errs app @ [guardRedefinedError name site]\<rparr>
      | None \<Rightarrow> app\<lparr>ap_options := (ap_options app)\<lparr>op_guards := gm_put name g (op_guards (ap_options app))\<rparr>\<rparr>)"

definition ResourceError :: "gerr \<Rightarrow> ('s, 'c) app \<Rightarrow> ('s, 'c) app" where
  "ResourceError err app = app\<lparr>ap_errs := ap_errs app @ [err]\<rparr>"

definition RecordResourceRef :: "string \<Rightarrow> string \<Rightarrow> ('s, 'c) app \<Rightarrow> ('s, 'c) app" where
  "RecordResourceRef kind name app =
     (let names = (case gm_get (ap_resourceRefs app) kind of None \<Rightarrow> [] | Some ns \<Rightarrow> ns)
      in app\<lparr>ap_resourceRefs := gm_put kind (gm_put name () names) (ap_resourceRefs app)\<rparr>)"

definition ResourceRefs :: "('s, 'c) app \<Rightarrow> (string, string list) gomap" where
  "ResourceRefs app = map (\<lambda>(kind, names). (kind, sorted_keys names)) (ap_resourceRefs app)"

subsection \<open>Registering handlers\<close>

record 's register_options =
  ro_name :: string
  ro_publishedName :: string
  ro_layers :: "'s layer option list"
  ro_guards :: "string list"
  ro_uses :: "string list"
  ro_public :: bool
  ro_maxConcurrent :: int
  ro_skipValidation :: bool
  ro_validator :: "validator option"

type_synonym 's register_option = "'s register_options \<Rightarrow> 's register_options"

definition Named :: "string \<Rightarrow> 's register_option" where
  "Named name o' = o'\<lparr>ro_name := name\<rparr>"

definition PublishedAs :: "string \<Rightarrow> 's register_option" where
  "PublishedAs name o' = o'\<lparr>ro_publishedName := name\<rparr>"

definition With :: "'s layer option list \<Rightarrow> 's register_option" where
  "With layers o' = o'\<lparr>ro_layers := ro_layers o' @ layers\<rparr>"

definition ProtectedBy :: "string list \<Rightarrow> 's register_option" where
  "ProtectedBy guards o' = o'\<lparr>ro_guards := ro_guards o' @ guards\<rparr>"

definition MaxConcurrent :: "int \<Rightarrow> 's register_option" where
  "MaxConcurrent n o' = o'\<lparr>ro_maxConcurrent := n\<rparr>"

definition SkipValidation :: "'s register_option" where
  "SkipValidation o' = o'\<lparr>ro_skipValidation := True\<rparr>"

definition ValidateWith :: "validator option \<Rightarrow> 's register_option" where
  "ValidateWith v o' = o'\<lparr>ro_validator := v\<rparr>"

definition Public :: "'s register_option" where
  "Public o' = o'\<lparr>ro_public := True\<rparr>"

definition Uses :: "string list \<Rightarrow> 's register_option" where
  "Uses names o' = o'\<lparr>ro_uses := ro_uses o' @ names\<rparr>"

definition applyOptions :: "'s register_option list \<Rightarrow> 's register_options" where
  "applyOptions opts = fold (\<lambda>opt o'. opt o') opts
     \<lparr>ro_name = '''', ro_publishedName = '''', ro_layers = [], ro_guards = [], ro_uses = [], ro_public = False,
      ro_maxConcurrent = 0, ro_skipValidation = False, ro_validator = None\<rparr>"

fun first_named :: "string list \<Rightarrow> string option" where
  "first_named [] = None"
| "first_named (part # parts) = (if \<not> has_prefix part ''func'' then Some part else first_named parts)"

definition after_last_slash :: "string \<Rightarrow> string" where
  "after_last_slash full = last (split_on (CHR ''/'') full)"

definition shortFuncName :: "string \<Rightarrow> string" where
  "shortFuncName full =
     (if full = '''' then ''''
      else let parts = split_on (CHR ''.'') (after_last_slash full)
           in case first_named (tl parts) of Some part \<Rightarrow> part | None \<Rightarrow> last parts)"

text \<open>\<open>fname\<close> is the name the Go runtime gives the handler function (\<^verbatim>\<open>funcNameOf\<close>), empty where it
  has none.\<close>

definition handlerName :: "string \<Rightarrow> string \<Rightarrow> string" where
  "handlerName explicit fname = (if explicit \<noteq> '''' then explicit else shortFuncName fname)"

text \<open>The fields every registration takes from its options and its call site.\<close>

definition base_registration ::
    "'s register_options \<Rightarrow> string \<Rightarrow> string \<times> int \<Rightarrow> string \<Rightarrow> string \<Rightarrow> kind \<Rightarrow> 's nxt \<Rightarrow> 's registration" where
  "base_registration o' fname site tag name k h =
     \<lparr>reg_Tag = tag, reg_Name = name, reg_PublishedName = ro_publishedName o', reg_Kind = k, reg_Method = '''',
      reg_Route = '''', reg_RouteKey = '''', reg_SourceID = '''', reg_SourceFile = fst site, reg_SourceLine = snd site,
      reg_FuncPath = fname, reg_Handler = h, reg_Layers = [], reg_Guards = ro_guards o', reg_Uses = ro_uses o',
      reg_Public = ro_public o', reg_MaxConcurrent = ro_maxConcurrent o', reg_FromBlueprint = False\<rparr>"

definition validation_of :: "'s register_options \<Rightarrow> ('s, 'c) app \<Rightarrow> validator option \<Rightarrow> validation" where
  "validation_of o' app self = validationFor (ro_skipValidation o') (ro_validator o') (op_validator (ap_options app)) self"

definition HTTP ::
    "string \<Rightarrow> string \<Rightarrow> (ctx \<Rightarrow> request \<Rightarrow> ('s, response option \<times> gerr option) action) \<Rightarrow> string \<Rightarrow> string \<times> int
       \<Rightarrow> 's register_option list \<Rightarrow> ('s, 'c) app \<Rightarrow> ('s, 'c) app" where
  "HTTP method route h fname site opts app =
     (let o' = applyOptions opts; normalised = NormaliseRoute route
      in register ((base_registration o' fname site (HTTPTag method normalised) (handlerName (ro_name o') fname)
           KindHTTP (wrapHTTP h))\<lparr>reg_Method := method, reg_Route := normalised\<rparr>) (ro_layers o') app)"

definition registerHTTP ::
    "string \<Rightarrow> string \<Rightarrow> 'o codec \<Rightarrow> validator option \<Rightarrow> ('s, 'o) handler_func \<Rightarrow> string \<Rightarrow> string \<times> int
       \<Rightarrow> 's register_option list \<Rightarrow> ('s, 'c) app \<Rightarrow> ('s, 'c) app" where
  "registerHTTP method route cd self h fname site opts app =
     (let o' = applyOptions opts; normalised = NormaliseRoute route
      in register ((base_registration o' fname site (HTTPTag method normalised) (handlerName (ro_name o') fname)
           KindHTTP (wrapTypedHTTP cd (validation_of o' app self) h))\<lparr>reg_Method := method, reg_Route := normalised\<rparr>)
           (ro_layers o') app)"

definition registerWebSocket ::
    "string \<Rightarrow> 'o codec \<Rightarrow> validator option \<Rightarrow> ('s, 'o) handler_func \<Rightarrow> string \<Rightarrow> string \<times> int
       \<Rightarrow> 's register_option list \<Rightarrow> ('s, 'c) app \<Rightarrow> ('s, 'c) app" where
  "registerWebSocket route cd self h fname site opts app =
     (let o' = applyOptions opts; routeKey = op_webSocketRouteKey (ap_options app)
      in register ((base_registration o' fname site (WebSocketTag routeKey route) (handlerName (ro_name o') fname)
           KindWebSocket (wrapTypedWebSocket cd (validation_of o' app self) h))\<lparr>reg_RouteKey := routeKey, reg_Route := route\<rparr>)
           (ro_layers o') app)"

definition Consume ::
    "string \<Rightarrow> (ctx \<Rightarrow> consumer_batch \<Rightarrow> ('s, batch_result option \<times> gerr option) action) \<Rightarrow> string \<Rightarrow> string \<times> int
       \<Rightarrow> 's register_option list \<Rightarrow> ('s, 'c) app \<Rightarrow> ('s, 'c) app" where
  "Consume sourceID h fname site opts app =
     (let o' = applyOptions opts; name = handlerName (ro_name o') fname
      in register ((base_registration o' fname site (SourceTag sourceID name) name KindConsumer (wrapConsumer h))
           \<lparr>reg_SourceID := sourceID\<rparr>) (ro_layers o') app)"

definition Schedule ::
    "string \<Rightarrow> (ctx \<Rightarrow> schedule_trigger \<Rightarrow> ('s, gerr option) action) \<Rightarrow> string \<Rightarrow> string \<times> int
       \<Rightarrow> 's register_option list \<Rightarrow> ('s, 'c) app \<Rightarrow> ('s, 'c) app" where
  "Schedule sourceID h fname site opts app =
     (let o' = applyOptions opts; name = handlerName (ro_name o') fname
      in register ((base_registration o' fname site (SourceTag sourceID name) name KindSchedule (wrapSchedule h))
           \<lparr>reg_SourceID := sourceID\<rparr>) (ro_layers o') app)"

definition Invoke ::
    "string \<Rightarrow> 'o codec \<Rightarrow> validator option \<Rightarrow> ('s, 'o) handler_func \<Rightarrow> string \<Rightarrow> string \<times> int
       \<Rightarrow> 's register_option list \<Rightarrow> ('s, 'c) app \<Rightarrow> ('s, 'c) app" where
  "Invoke name cd self h fname site opts app =
     (let o' = applyOptions opts
      in register (base_registration o' fname site (CustomTag name) name KindCustom
           (wrapCustom cd (validation_of o' app self) h)) (ro_layers o') app)"

definition Handler ::
    "string \<Rightarrow> 'o codec \<Rightarrow> validator option \<Rightarrow> ('s, 'o) handler_func \<Rightarrow> string \<Rightarrow> string \<times> int
       \<Rightarrow> 's register_option list \<Rightarrow> ('s, 'c) app \<Rightarrow> ('s, 'c) app" where
  "Handler name cd self h fname site opts app =
     (let o' = applyOptions opts
      in register ((base_registration o' fname site (pendingTagPrefix @ name) name KindNone
           (wrapTypedAny cd (validation_of o' app self) h))\<lparr>reg_FromBlueprint := True\<rparr>) (ro_layers o') app)"

definition RouteConnect :: string where
  "RouteConnect = ''$connect''"

definition RouteDisconnect :: string where
  "RouteDisconnect = ''$disconnect''"

definition Get_h ::
    "string \<Rightarrow> 'o codec \<Rightarrow> validator option \<Rightarrow> ('s, 'o) handler_func \<Rightarrow> string \<Rightarrow> string \<times> int
       \<Rightarrow> 's register_option list \<Rightarrow> ('s, 'c) app \<Rightarrow> ('s, 'c) app" where
  "Get_h = registerHTTP ''GET''"

definition OnMessage ::
    "string \<Rightarrow> 'o codec \<Rightarrow> validator option \<Rightarrow> ('s, 'o) handler_func \<Rightarrow> string \<Rightarrow> string \<times> int
       \<Rightarrow> 's register_option list \<Rightarrow> ('s, 'c) app \<Rightarrow> ('s, 'c) app" where
  "OnMessage = registerWebSocket"

definition OnConnect ::
    "'o codec \<Rightarrow> validator option \<Rightarrow> ('s, 'o) handler_func \<Rightarrow> string \<Rightarrow> string \<times> int
       \<Rightarrow> 's register_option list \<Rightarrow> ('s, 'c) app \<Rightarrow> ('s, 'c) app" where
  "OnConnect = registerWebSocket RouteConnect"

definition OnDisconnect ::
    "'o codec \<Rightarrow> validator option \<Rightarrow> ('s, 'o) handler_func \<Rightarrow> string \<Rightarrow> string \<times> int
       \<Rightarrow> 's register_option list \<Rightarrow> ('s, 'c) app \<Rightarrow> ('s, 'c) app" where
  "OnDisconnect = registerWebSocket RouteDisconnect"

subsection \<open>Running and resolving\<close>

datatype mode = ModeRuntime | ModeServerless | ModeExtract

type_synonym environ = "string \<Rightarrow> string"

definition DetectMode :: "environ \<Rightarrow> adapter list \<Rightarrow> mode" where
  "DetectMode getenv adapters =
     (if getenv ''CELERITY_EXTRACT_MANIFEST'' \<noteq> '''' then ModeExtract
      else if getenv ''CELERITY_RUNTIME_SOCKET'' \<noteq> '''' \<or> getenv ''CELERITY_RUNTIME_CALL_MODE'' = ''ipc'' then ModeRuntime
      else if Detected adapters \<noteq> None then ModeServerless
      else ModeRuntime)"

definition adapter_for :: "adapter list \<Rightarrow> ('s, 'c) app \<Rightarrow> gerr + adapter" where
  "adapter_for adapters app =
     (case op_adapter (ap_options app) of
        Some a \<Rightarrow> Inr a
      | None \<Rightarrow>
          (case Detected adapters of
             Some a \<Rightarrow> Inr a
           | None \<Rightarrow> Inl (MissingAdapterError (Registered adapters))))"

text \<open>\<open>RunContext\<close> over the state \<^typ>\<open>'w\<close> of the process. The calls it makes are arguments: writing the
  manifest, a serverless event loop, serving the runtime, flushing telemetry and releasing resources.\<close>

definition RunContext ::
    "environ \<Rightarrow> adapter list \<Rightarrow> ('w \<Rightarrow> gerr option \<times> 'w) \<Rightarrow> (adapter \<Rightarrow> 'w \<Rightarrow> gerr option \<times> 'w)
       \<Rightarrow> ('w \<Rightarrow> gerr option \<times> 'w) \<Rightarrow> ('w \<Rightarrow> gerr option \<times> 'w) \<Rightarrow> ('w \<Rightarrow> gerr option \<times> 'w)
       \<Rightarrow> ('s, 'c) app \<Rightarrow> 'w \<Rightarrow> gerr option \<times> 'w" where
  "RunContext getenv adapters writeManifest serve serveRuntime flushTelemetry releaseResources app w =
     (case Err app of
        Some err \<Rightarrow> (Some (Errorf (''registration failed:'' @ newline @ error_text err) (Some err)), w)
      | None \<Rightarrow>
          if Len (ap_registry app) = 0 then (Some (Errorf ''no handlers registered'' None), w)
          else (case DetectMode getenv adapters of
             ModeExtract \<Rightarrow> writeManifest w
           | ModeServerless \<Rightarrow>
               (case adapter_for adapters app of
                  Inl err \<Rightarrow> (Some err, w)
                | Inr a \<Rightarrow> serve a w)
           | ModeRuntime \<Rightarrow>
               (let (err, w) = serveRuntime w;
                    (ferr, w) = flushTelemetry w;
                    (rerr, w) = releaseResources w
                in (join_errors [err, ferr, rerr], w))))"

definition handlerConcurrency :: "environ \<Rightarrow> nat \<Rightarrow> int" where
  "handlerConcurrency getenv numCPU =
     (let raw = getenv ''CELERITY_HANDLER_CONCURRENCY''
      in if raw \<noteq> '''' then
           (case ParseInt raw 64 of
              Inr n \<Rightarrow> if n > 0 then n else int numCPU * 4
            | Inl _ \<Rightarrow> int numCPU * 4)
         else int numCPU * 4)"

definition resolvePipeline :: "'s tracer option \<Rightarrow> ('s, 'c) app \<Rightarrow> string \<Rightarrow> 's nxt option" where
  "resolvePipeline installed app tag =
     (case Get (ap_registry app) tag of
        None \<Rightarrow> None
      | Some i \<Rightarrow> Some (Pipeline installed (slice (op_logger (ap_options app))) (op_guards (ap_options app))
          (at_reg (ap_registry app) i)))"

record 's serverless_handler =
  sh_Tag :: string
  sh_Name :: string
  sh_Kind :: kind
  sh_Invoke :: "'s nxt"

definition toServerlessHandler :: "'s tracer option \<Rightarrow> ('s, 'c) app \<Rightarrow> nat \<Rightarrow> 's serverless_handler" where
  "toServerlessHandler installed app i =
     (let reg = at_reg (ap_registry app) i
      in \<lparr>sh_Tag = reg_Tag reg, sh_Name = reg_Name reg, sh_Kind = reg_Kind reg,
          sh_Invoke = Pipeline installed (slice (op_logger (ap_options app))) (op_guards (ap_options app)) reg\<rparr>)"

definition resolver_ByName :: "'s tracer option \<Rightarrow> ('s, 'c) app \<Rightarrow> string \<Rightarrow> (pval, 's serverless_handler option) outcome" where
  "resolver_ByName installed app name =
     bind_outcome (ByName (ap_registry app) name) (\<lambda>reg. Done (map_option (toServerlessHandler installed app) reg))"

definition resolver_ByTag :: "'s tracer option \<Rightarrow> ('s, 'c) app \<Rightarrow> string \<Rightarrow> 's serverless_handler option" where
  "resolver_ByTag installed app tag = map_option (toServerlessHandler installed app) (Get (ap_registry app) tag)"

definition resolver_Only :: "'s tracer option \<Rightarrow> ('s, 'c) app \<Rightarrow> kind \<Rightarrow> (pval, 's serverless_handler option) outcome" where
  "resolver_Only installed app k =
     bind_outcome (OfKind (ap_registry app) k) (\<lambda>matched.
       Done (case matched of [i] \<Rightarrow> Some (toServerlessHandler installed app i) | _ \<Rightarrow> None))"

subsection \<open>Lemmas\<close>

definition layered :: "('s, 'c) app \<Rightarrow> 's registration \<times> 's layer option list \<Rightarrow> 's registration" where
  "layered app = (\<lambda>(reg, layers). reg\<lparr>reg_Layers := op_layers (ap_options app) @ layers\<rparr>)"

lemma reg_Tag_layered [simp]: "reg_Tag (layered app x) = reg_Tag (fst x)"
  by (simp add: layered_def split: prod.splits)

lemma register_options_same [simp]: "ap_options (register reg layers app) = ap_options app"
  by (simp add: register_def Let_def split: prod.splits option.splits)

lemma register_step:
  "(ap_errs (register reg layers app), ap_registry (register reg layers app))
     = (case Add (layered app (reg, layers)) (ap_registry app) of
          (None, r') \<Rightarrow> (ap_errs app, r') | (Some err, r') \<Rightarrow> (ap_errs app @ [err], r'))"
  by (simp add: register_def layered_def Let_def split: prod.splits option.splits)

lemma registry_ok_register [inv_intros]:
  "registry_ok (ap_registry app) \<Longrightarrow> registry_ok (ap_registry (register reg layers app))"
  using registry_ok_Add [of "ap_registry app" "reg\<lparr>reg_Layers := op_layers (ap_options app) @ layers\<rparr>"]
  by (auto simp: register_def Let_def split: prod.splits option.splits)

lemma register_all:
  "(ap_errs (fold (\<lambda>(reg, layers). register reg layers) regs app),
    ap_registry (fold (\<lambda>(reg, layers). register reg layers) regs app))
     = fold (\<lambda>e (errs, r). case Add e r of (None, r') \<Rightarrow> (errs, r') | (Some err, r') \<Rightarrow> (errs @ [err], r'))
         (map (layered app) regs) (ap_errs app, ap_registry app)"
proof (induction regs arbitrary: app)
  case (Cons x regs)
  obtain reg layers where x: "x = (reg, layers)" by (cases x)
  have "layered (register reg layers app) = layered app" by (simp add: layered_def)
  with Cons [of "register reg layers app"] register_step [of reg layers app] show ?case
    unfolding x fold.simps list.map comp_apply prod.case by metis
qed simp

lemma join_errors_None: "join_errors errs = None \<longleftrightarrow> (\<forall>e\<in>set errs. e = None)"
proof -
  have "List.map_filter (\<lambda>e. e) errs = [] \<longleftrightarrow> (\<forall>e\<in>set errs. e = None)"
    by (induction errs) (auto simp: map_filter_simps split: option.splits)
  then show ?thesis by (cases "List.map_filter (\<lambda>e. e) errs") (auto simp: join_errors_def)
qed

lemma Err_None: "Err app = None \<longleftrightarrow> ap_errs app = []"
  by (simp add: Err_def join_errors_None)

lemma release_all_state: "snd (release_all holders w) = fold (\<lambda>close w. snd (close w)) holders w"
proof (induction holders arbitrary: w)
  case (Cons close holders)
  then show ?case by (simp add: case_prod_beta Let_def)
qed simp

subsection \<open>Properties\<close>

text \<open>C7. Registering a list of handlers, in order, with a consistent registry: the registry stays
  consistent; for every tag the first registration is the one served, with the application's
  layers outside its own, and none registered later displaces it; and the application reports no
  error exactly when no two of them, and none registered before, share a tag.\<close>

theorem register_first_wins:
  assumes "registry_ok (ap_registry app)"
  shows "let app' = fold (\<lambda>(reg, layers). register reg layers) regs app
    in registry_ok (ap_registry app')
      \<and> found_in (ap_registry app') t
          = (case found_in (ap_registry app) t of
               Some reg \<Rightarrow> Some reg
             | None \<Rightarrow> map_option (\<lambda>(reg, layers). reg\<lparr>reg_Layers := op_layers (ap_options app) @ layers\<rparr>)
                 (List.find (\<lambda>(reg, _). reg_Tag reg = t) regs))
      \<and> (ap_errs app' = ap_errs app
          \<longleftrightarrow> distinct (map (reg_Tag \<circ> fst) regs) \<and> list_all (\<lambda>(reg, _). found_in (ap_registry app) (reg_Tag reg) = None) regs)"
proof -
  let ?app = "fold (\<lambda>(reg, layers). register reg layers) regs app"
  note all = registry.refusals [OF assms register_all [symmetric]]
  have find: "List.find (\<lambda>e. reg_Tag e = t) (map (layered app) regs)
      = map_option (layered app) (List.find (\<lambda>(reg, _). reg_Tag reg = t) regs)"
    by (induction regs) (auto simp: case_prod_beta)
  have "registry_ok (ap_registry ?app)"
    unfolding all(1) using assms by (rule registry.add_all_ok)
  moreover have "found_in (ap_registry ?app) t = (case found_in (ap_registry app) t of Some reg \<Rightarrow> Some reg
      | None \<Rightarrow> map_option (layered app) (List.find (\<lambda>(reg, _). reg_Tag reg = t) regs))"
    unfolding all(1) find [symmetric] using assms by (rule registry.first_registration_wins)
  moreover have "ap_errs ?app = ap_errs app \<longleftrightarrow> distinct (map (reg_Tag \<circ> fst) regs)
      \<and> list_all (\<lambda>(reg, _). found_in (ap_registry app) (reg_Tag reg) = None) regs"
    unfolding all(3) by (simp add: comp_def list_all_iff case_prod_beta)
  ultimately show ?thesis unfolding Let_def layered_def by blast
qed

theorem register_first_wins_witness:
  "let app = New [] (Inr ()) () [];
       h = (\<lambda>n ctx ev s. (Done (None, None), s + n :: nat));
       app' = fold (\<lambda>(reg, layers). register reg layers)
         [(plain_registration ''custom::x'' KindCustom (h 1), []), (plain_registration ''custom::x'' KindCustom (h 2), [])] app
   in registry_ok (ap_registry app) \<and> registry_ok (ap_registry app')
     \<and> map_option reg_Handler (found_in (ap_registry app') ''custom::x'') = Some (h 1) \<and> ap_errs app' \<noteq> ap_errs app"
proof -
  let ?app = "New [] (Inr ()) () [] :: (nat, unit) app"
  let ?h = "\<lambda>n ctx ev s. (Done (None, None), s + n :: nat)"
  have reg: "ap_registry ?app = NewRegistry" by (simp add: New_def)
  have ok: "registry_ok (ap_registry ?app)" unfolding reg by (rule registry_ok_NewRegistry)
  have none: "found_in (ap_registry ?app) t = None" for t
    unfolding reg by (simp add: found_in_def Get_def NewRegistry_def)
  from register_first_wins [OF ok, of "[(plain_registration ''custom::x'' KindCustom (?h 1), []),
      (plain_registration ''custom::x'' KindCustom (?h 2), [])]" "''custom::x''"] ok none
  show ?thesis by (simp add: Let_def plain_registration_def)
qed

text \<open>A run that serves the runtime always hands over its telemetry and gives back its resources,
  in that order and after serving, whatever serving returned, and reports no error exactly when
  none of the three did; and an application with a registration error or without handlers does none
  of it and fails.\<close>

theorem RunContext_cleans_up:
  assumes "DetectMode getenv adapters = ModeRuntime"
  shows "let (err, w') = RunContext getenv adapters writeManifest serve serveRuntime flush release app w
    in if ap_errs app \<noteq> [] \<or> Len (ap_registry app) = 0 then err \<noteq> None \<and> w' = w
       else w' = snd (release (snd (flush (snd (serveRuntime w)))))
         \<and> (err = None \<longleftrightarrow> fst (serveRuntime w) = None \<and> fst (flush (snd (serveRuntime w))) = None
              \<and> fst (release (snd (flush (snd (serveRuntime w))))) = None)"
proof (cases "ap_errs app = []")
  case False
  then obtain e where "Err app = Some e" using Err_None by fastforce
  with False show ?thesis by (simp add: RunContext_def)
next
  case True
  then have "Err app = None" by (simp add: Err_None)
  with True assms show ?thesis by (simp add: RunContext_def Let_def join_errors_None split: prod.splits)
qed

theorem RunContext_cleans_up_witness:
  "DetectMode (\<lambda>_. '''') [] = ModeRuntime
   \<and> RunContext (\<lambda>_. '''') [] (\<lambda>w. (None, w)) (\<lambda>a w. (None, w)) (\<lambda>w. (Some (Errorf ''lost'' None), w @ [''serve'']))
       (\<lambda>w. (None, w @ [''flush''])) (\<lambda>w. (None, w @ [''release'']))
       (register (plain_registration ''custom::x'' KindCustom (\<lambda>ctx ev s. (Done (None, None), s :: nat))) []
          (New [] (Inr ()) () [])) []
     \<noteq> (None, [''serve'', ''flush'', ''release''])"
proof -
  let ?app = "register (plain_registration ''custom::x'' KindCustom (\<lambda>ctx ev s. (Done (None, None), s :: nat))) []
          (New [] (Inr ()) () [])"
  have m: "DetectMode (\<lambda>_. '''') [] = ModeRuntime" by (simp add: DetectMode_def Detected_def)
  from RunContext_cleans_up [OF m, of "\<lambda>w. (None, w)" "\<lambda>a w. (None, w)" "\<lambda>w. (Some (Errorf ''lost'' None), w @ [''serve''])"
      "\<lambda>w. (None, w @ [''flush''])" "\<lambda>w. (None, w @ [''release''])" ?app "[]"] m
  show ?thesis by (auto simp: Let_def split: prod.splits if_splits)
qed

end
