(* ===== verification/Serverless.thy ===== *)
theory Serverless
  imports App
begin

text \<open>
  The seam between the SDK and a serverless platform: \<^verbatim>\<open>src/serverless/serve.go\<close>, \<^verbatim>\<open>event.go\<close>, \<^verbatim>\<open>context.go\<close> and
  the interfaces of \<^verbatim>\<open>adapter.go\<close>.

  An invocation is a step of the dispatcher: it takes the payload, the dispatcher with what it has resolved so
  far and the state \<^typ>\<open>'s\<close> of the world, and gives what the platform serialises and both states after. An
  adapter is a record of functions; the interfaces it may or may not implement are options. What the platform
  serialises is an interface value: nil, the status map the dispatcher itself makes, or a value of the
  adapter's own.
\<close>

subsection \<open>The interfaces\<close>

datatype 'v any = AnyNil | AnyStatus "(string, int) gomap" | AnyOf 'v

record 'v event_mapper =
  em_Detect :: "byte list \<Rightarrow> gerr + kind"
  em_ToRequest :: "byte list \<Rightarrow> request option \<times> gerr option"
  em_FromResponse :: "response option \<Rightarrow> 'v any \<times> gerr option"
  em_ToWebSocketMessage :: "byte list \<Rightarrow> websocket_message option \<times> gerr option"
  em_ToConsumerBatch :: "byte list \<Rightarrow> string \<Rightarrow> consumer_batch option \<times> gerr option"
  em_FromBatchResult :: "batch_result option \<Rightarrow> 'v any \<times> gerr option"
  em_ToScheduleTrigger :: "byte list \<Rightarrow> string \<Rightarrow> schedule_trigger option \<times> gerr option"
  em_ToCustomInvoke :: "byte list \<Rightarrow> custom_invoke option \<times> gerr option"
  em_FromCustomResult :: "custom_result option \<Rightarrow> 'v any \<times> gerr option"

text \<open>\<open>sa_WebSocketSender\<close> and \<open>sa_AcknowledgeReceipt\<close> are \<^verbatim>\<open>WebSocketSenderProvider\<close> and \<^verbatim>\<open>ReceiptAcknowledger\<close>, for
  an adapter that implements them.\<close>

record ('s, 'v) sl_adapter =
  sa_Mapper :: "'v event_mapper"
  sa_WebSocketSender :: "(ctx \<Rightarrow> byte list \<Rightarrow> 's \<Rightarrow> (gerr + string) \<times> 's) option"
  sa_AcknowledgeReceipt :: "(ctx \<Rightarrow> websocket_message \<Rightarrow> 's \<Rightarrow> gerr option \<times> 's) option"

record 's resolver =
  rv_ByName :: "string \<Rightarrow> (pval, 's serverless_handler option) outcome"
  rv_ByTag :: "string \<Rightarrow> (pval, 's serverless_handler option) outcome"
  rv_Only :: "kind \<Rightarrow> (pval, 's serverless_handler option) outcome"

definition Resolver_of :: "'s tracer option \<Rightarrow> ('s, 'c) app \<Rightarrow> 's resolver" where
  "Resolver_of installed app = \<lparr>rv_ByName = resolver_ByName installed app,
     rv_ByTag = (\<lambda>tag. Done (resolver_ByTag installed app tag)), rv_Only = resolver_Only installed app\<rparr>"

text \<open>The process around an invocation: the installed flusher, standard error and the logger's warnings.\<close>

record 's process =
  pr_flusher :: "('s \<Rightarrow> gerr option \<times> 's) option"
  pr_Stderr :: "string \<Rightarrow> 's \<Rightarrow> 's"
  pr_Warn :: "ctx \<Rightarrow> string \<Rightarrow> (string \<times> string) list \<Rightarrow> 's \<Rightarrow> 's"

subsection \<open>Contexts\<close>

definition WithWebSocketSender :: "ctx \<Rightarrow> string \<Rightarrow> ctx" where
  "WithWebSocketSender ctx s = ctx\<lparr>cx_Sender := Some s\<rparr>"

definition WebSocketSenderFrom :: "ctx \<Rightarrow> string option" where
  "WebSocketSenderFrom ctx = cx_Sender ctx"

subsection \<open>The dispatcher\<close>

record ('s, 'v) dispatcher =
  ds_adapter :: "('s, 'v) sl_adapter"
  ds_resolver :: "'s resolver"
  ds_handlerID :: string
  ds_handlerTag :: string
  ds_once :: bool
  ds_resolved :: "'s serverless_handler option"
  ds_resolveErr :: "gerr option"

abbreviation ds_mapper :: "('s, 'v) dispatcher \<Rightarrow> 'v event_mapper" where
  "ds_mapper d \<equiv> sa_Mapper (ds_adapter d)"

definition NewInvoker :: "environ \<Rightarrow> ('s, 'v) sl_adapter \<Rightarrow> 's resolver \<Rightarrow> ('s, 'v) dispatcher" where
  "NewInvoker getenv adapter resolver =
     \<lparr>ds_adapter = adapter, ds_resolver = resolver, ds_handlerID = getenv ''CELERITY_HANDLER_ID'',
      ds_handlerTag = getenv ''CELERITY_HANDLER_TAG'', ds_once = False, ds_resolved = None, ds_resolveErr = None\<rparr>"

definition ErrNoHandler :: gerr where
  "ErrNoHandler = Errorf ''celerity: no handler for event'' None"

definition unresolved :: "('s, 'v) dispatcher \<Rightarrow> kind \<Rightarrow> gerr" where
  "unresolved d k = Errorf (error_text ErrNoHandler @ '': kind '' @ go_quote (kind_string k)
     @ '', CELERITY_HANDLER_ID='' @ go_quote (ds_handlerID d)
     @ '', CELERITY_HANDLER_TAG='' @ go_quote (ds_handlerTag d)) (Some ErrNoHandler)"

definition resolve :: "('s, 'v) dispatcher \<Rightarrow> kind \<Rightarrow> (pval, gerr + 's serverless_handler) outcome" where
  "resolve d k =
     (let none = Done None; r = ds_resolver d
      in bind_outcome (if ds_handlerID d \<noteq> '''' then rv_ByName r (ds_handlerID d) else none) (\<lambda>named.
         case named of Some h \<Rightarrow> Done (Inr h) | None \<Rightarrow>
         bind_outcome (if ds_handlerTag d \<noteq> '''' then rv_ByTag r (ds_handlerTag d) else none) (\<lambda>tagged.
         case tagged of Some h \<Rightarrow> Done (Inr h) | None \<Rightarrow>
         bind_outcome (rv_Only r k) (\<lambda>only.
         case only of Some h \<Rightarrow> Done (Inr h) | None \<Rightarrow> Done (Inl (unresolved d k))))))"

text \<open>\<^verbatim>\<open>once.Do\<close>: a function that panics has still been done, and leaves neither a handler nor an error.\<close>

definition resolve_once :: "kind \<Rightarrow> ('s, 'v) dispatcher \<Rightarrow> (pval, unit) outcome \<times> ('s, 'v) dispatcher" where
  "resolve_once k d =
     (if ds_once d then (Done (), d)
      else case resolve d k of
        Panic p \<Rightarrow> (Panic p, d\<lparr>ds_once := True\<rparr>)
      | Done (Inl err) \<Rightarrow> (Done (), d\<lparr>ds_once := True, ds_resolveErr := Some err\<rparr>)
      | Done (Inr h) \<Rightarrow> (Done (), d\<lparr>ds_once := True, ds_resolved := Some h\<rparr>))"

definition not_found_response :: response where
  "not_found_response = \<lparr>res_Status = 404, res_Headers = [(''content-type'', [''application/json''])],
     res_Body = bytes_of (''{'' @ [CHR 0x22] @ ''message'' @ [CHR 0x22] @ '':'' @ [CHR 0x22] @ ''Not Found'' @ [CHR 0x22] @ ''}'')\<rparr>"

definition noHandler :: "'v event_mapper \<Rightarrow> kind \<Rightarrow> gerr \<Rightarrow> 'v any \<times> gerr option" where
  "noHandler m k cause =
     (case k of
        KindHTTP \<Rightarrow> em_FromResponse m (Some not_found_response)
      | KindWebSocket \<Rightarrow> (AnyStatus [(''statusCode'', 404)], None)
      | KindCustom \<Rightarrow> em_FromCustomResult m (Some \<lparr>cu_Output = []\<rparr>)
      | _ \<Rightarrow> (AnyNil, Some cause))"

definition webSocketSender :: "('s, 'v) sl_adapter \<Rightarrow> ctx \<Rightarrow> kind \<Rightarrow> byte list \<Rightarrow> 's \<Rightarrow> string option \<times> 's" where
  "webSocketSender a ctx k payload s =
     (if k \<noteq> KindWebSocket then (None, s)
      else case sa_WebSocketSender a of
        None \<Rightarrow> (None, s)
      | Some provide \<Rightarrow>
          (case provide ctx payload s of (Inl err, s') \<Rightarrow> (None, s') | (Inr sender, s') \<Rightarrow> (Some sender, s')))"

definition acknowledgeReceipt :: "'s process \<Rightarrow> ('s, 'v) sl_adapter \<Rightarrow> ctx \<Rightarrow> byte list \<Rightarrow> 's \<Rightarrow> 's" where
  "acknowledgeReceipt p a ctx payload s =
     (case sa_AcknowledgeReceipt a of
        None \<Rightarrow> s
      | Some acker \<Rightarrow>
          (case em_ToWebSocketMessage (sa_Mapper a) payload of
             (Some msg, None) \<Rightarrow>
               (case acker ctx msg s of
                  (None, s') \<Rightarrow> s'
                | (Some err, s') \<Rightarrow> pr_Warn p ctx ''could not acknowledge receipt of a websocket message''
                    [(''connectionID'', wm_ConnectionID msg), (''messageID'', wm_MessageID msg), (''error'', error_text err)] s')
           | _ \<Rightarrow> s))"

definition Flush :: "'s process \<Rightarrow> 's \<Rightarrow> gerr option \<times> 's" where
  "Flush p s = (case pr_flusher p of None \<Rightarrow> (None, s) | Some f \<Rightarrow> f s)"

definition flushTelemetry :: "'s process \<Rightarrow> 's \<Rightarrow> 's" where
  "flushTelemetry p s =
     (case Flush p s of (None, s') \<Rightarrow> s' | (Some err, s') \<Rightarrow> pr_Stderr p (error_text err @ newline) s')"

subsection \<open>Events in, results out\<close>

definition unsupported :: "kind \<Rightarrow> gerr" where
  "unsupported k = Errorf (''unsupported event source '' @ go_quote (kind_string k)) None"

definition mapping_failed :: "kind \<Rightarrow> gerr \<Rightarrow> gerr" where
  "mapping_failed k err = Errorf (''mapping '' @ kind_string k @ '' event: '' @ error_text err) (Some err)"

definition new_event :: "kind \<Rightarrow> string \<Rightarrow> event" where
  "new_event k tag = \<lparr>ev_ID = '''', ev_Tag = tag, ev_Kind = k, ev_Timestamp = zero_time, ev_Deadline = zero_time,
     ev_TraceContext = [], ev_HTTP = None, ev_WebSocket = None, ev_Consumer = None, ev_Schedule = None, ev_Custom = None\<rparr>"

definition id_of :: "('a \<Rightarrow> string) \<Rightarrow> 'a option \<Rightarrow> string" where
  "id_of f x = (case x of None \<Rightarrow> '''' | Some y \<Rightarrow> f y)"

definition toEvent :: "'v event_mapper \<Rightarrow> string \<Rightarrow> kind \<Rightarrow> byte list \<Rightarrow> gerr + event" where
  "toEvent m tag k payload =
     (let ev = new_event k tag;
          finish = (\<lambda>ev err. case err of None \<Rightarrow> Inr ev | Some e \<Rightarrow> Inl (mapping_failed k e))
      in case k of
           KindHTTP \<Rightarrow> (let (x, err) = em_ToRequest m payload in finish (ev\<lparr>ev_HTTP := x, ev_ID := id_of req_RequestID x\<rparr>) err)
         | KindWebSocket \<Rightarrow> (let (x, err) = em_ToWebSocketMessage m payload
             in finish (ev\<lparr>ev_WebSocket := x, ev_ID := id_of wm_RequestID x\<rparr>) err)
         | KindConsumer \<Rightarrow> (let (x, err) = em_ToConsumerBatch m payload tag in finish (ev\<lparr>ev_Consumer := x\<rparr>) err)
         | KindSchedule \<Rightarrow> (let (x, err) = em_ToScheduleTrigger m payload tag
             in finish (ev\<lparr>ev_Schedule := x, ev_ID := id_of st_MessageID x\<rparr>) err)
         | KindCustom \<Rightarrow> (let (x, err) = em_ToCustomInvoke m payload in finish (ev\<lparr>ev_Custom := x\<rparr>) err)
         | KindNone \<Rightarrow> Inl (unsupported k))"

definition webSocketStatus :: "ack option \<Rightarrow> (string, int) gomap" where
  "webSocketStatus a =
     (case a of
        Some x \<Rightarrow> if \<not> ack_Success x then [(''statusCode'', 401)] else [(''statusCode'', 200)]
      | None \<Rightarrow> [(''statusCode'', 200)])"

definition scheduleError :: "ack option \<Rightarrow> gerr option" where
  "scheduleError a =
     (case a of
        None \<Rightarrow> None
      | Some x \<Rightarrow> if ack_Success x then None else Some (Errorf (''scheduled handler failed: '' @ ack_Error x) None))"

definition fromResult :: "'v event_mapper \<Rightarrow> kind \<Rightarrow> result option \<Rightarrow> 'v any \<times> gerr option" where
  "fromResult m k r =
     (case r of
        None \<Rightarrow> (AnyNil, None)
      | Some res \<Rightarrow>
          (case r_Error res of
             Some e \<Rightarrow> (AnyNil, Some (HandlerError e))
           | None \<Rightarrow>
               (case k of
                  KindHTTP \<Rightarrow> em_FromResponse m (r_HTTP res)
                | KindWebSocket \<Rightarrow> (AnyStatus (webSocketStatus (r_WebSocket res)), None)
                | KindConsumer \<Rightarrow> em_FromBatchResult m (r_Consumer res)
                | KindSchedule \<Rightarrow> (AnyNil, scheduleError (r_Schedule res))
                | KindCustom \<Rightarrow> em_FromCustomResult m (r_Custom res)
                | KindNone \<Rightarrow> (AnyNil, Some (unsupported k)))))"

subsection \<open>One invocation\<close>

definition invoke_handler ::
    "'v event_mapper \<Rightarrow> 's serverless_handler \<Rightarrow> ctx \<Rightarrow> kind \<Rightarrow> byte list \<Rightarrow> ('s, 'v any \<times> gerr option) action" where
  "invoke_handler m h ctx k payload =
     (case toEvent m (sh_Tag h) k payload of
        Inl err \<Rightarrow> returns (AnyNil, Some err)
      | Inr ev \<Rightarrow> and_then (sh_Invoke h ctx ev) (\<lambda>(res, err).
          returns (case err of Some e \<Rightarrow> (AnyNil, Some e) | None \<Rightarrow> fromResult m k res)))"

definition detect_failed :: "gerr \<Rightarrow> gerr" where
  "detect_failed err = Errorf (''detecting event source: '' @ error_text err) (Some err)"

definition receive :: "'s process \<Rightarrow> ('s, 'v) sl_adapter \<Rightarrow> ctx \<Rightarrow> kind \<Rightarrow> byte list \<Rightarrow> 's \<Rightarrow> ctx \<times> 's" where
  "receive p a ctx k payload s =
     (case webSocketSender a ctx k payload s of
        (None, s') \<Rightarrow> (ctx, s')
      | (Some sender, s') \<Rightarrow>
          (let ctx = WithWebSocketSender ctx sender in (ctx, acknowledgeReceipt p a ctx payload s')))"

text \<open>\<^verbatim>\<open>invoke\<close> without and with its deferred flush, which runs whatever happened, a panic included.\<close>

definition invoke_body ::
    "'s process \<Rightarrow> ctx \<Rightarrow> byte list \<Rightarrow> ('s, 'v) dispatcher \<Rightarrow> 's
       \<Rightarrow> (pval, 'v any \<times> gerr option) outcome \<times> ('s, 'v) dispatcher \<times> 's" where
  "invoke_body p ctx payload d s =
     (case em_Detect (ds_mapper d) payload of
        Inl err \<Rightarrow> (Done (AnyNil, Some (detect_failed err)), d, s)
      | Inr k \<Rightarrow>
          (let (ctx, s) = receive p (ds_adapter d) ctx k payload s; (once, d) = resolve_once k d
           in case once of
                Panic v \<Rightarrow> (Panic v, d, s)
              | Done _ \<Rightarrow>
                  (case ds_resolveErr d of
                     Some err \<Rightarrow> (Done (noHandler (ds_mapper d) k err), d, s)
                   | None \<Rightarrow>
                       (case ds_resolved d of
                          None \<Rightarrow> (Panic nil_dereference, d, s)
                        | Some h \<Rightarrow> (let (out, s) = invoke_handler (ds_mapper d) h ctx k payload s in (out, d, s))))))"

definition invoke ::
    "'s process \<Rightarrow> ctx \<Rightarrow> byte list \<Rightarrow> ('s, 'v) dispatcher \<Rightarrow> 's
       \<Rightarrow> (pval, 'v any \<times> gerr option) outcome \<times> ('s, 'v) dispatcher \<times> 's" where
  "invoke p ctx payload d s =
     (case invoke_body p ctx payload d s of (out, d', s') \<Rightarrow> (out, d', flushTelemetry p s'))"

text \<open>\<^verbatim>\<open>Serve\<close>: the platform's loop, over the payloads it delivers. A panic ends the process.\<close>

fun serve_all ::
    "'s process \<Rightarrow> (ctx \<times> byte list) list \<Rightarrow> ('s, 'v) dispatcher \<Rightarrow> 's \<Rightarrow> (pval, 'v any \<times> gerr option) outcome list \<times> 's" where
  "serve_all p [] d s = ([], s)"
| "serve_all p ((ctx, payload) # xs) d s =
     (case invoke p ctx payload d s of
        (Panic v, d', s') \<Rightarrow> ([Panic v], s')
      | (Done x, d', s') \<Rightarrow> (let (outs, s'') = serve_all p xs d' s' in (Done x # outs, s'')))"

subsection \<open>Resolution over the list of registrations\<close>

text \<open>What a function serves, told by the list of registrations: the first with the name the deployment set,
  else the one with the tag it set, else the only one of the kind.\<close>

definition chosen :: "string \<Rightarrow> string \<Rightarrow> kind \<Rightarrow> 's registration list \<Rightarrow> 's registration option" where
  "chosen hid tag k regs =
     (case (if hid = '''' then None else List.find (\<lambda>reg. reg_Name reg = hid \<or> reg_PublishedName reg = hid) regs) of
        Some reg \<Rightarrow> Some reg
      | None \<Rightarrow>
          (case (if tag = '''' then None else List.find (\<lambda>reg. reg_Tag reg = tag) regs) of
             Some reg \<Rightarrow> Some reg
           | None \<Rightarrow> (case filter (\<lambda>reg. reg_Kind reg = k) regs of [reg] \<Rightarrow> Some reg | _ \<Rightarrow> None)))"

definition served :: "'s tracer option \<Rightarrow> ('s, 'c) app \<Rightarrow> 's registration \<Rightarrow> 's serverless_handler" where
  "served installed app reg = \<lparr>sh_Tag = reg_Tag reg, sh_Name = reg_Name reg, sh_Kind = reg_Kind reg,
     sh_Invoke = Pipeline installed (slice (op_logger (ap_options app))) (op_guards (ap_options app)) reg\<rparr>"

lemma toServerlessHandler_served: "toServerlessHandler installed app i = served installed app (at_reg (ap_registry app) i)"
  by (simp add: toServerlessHandler_def served_def Let_def)

lemma resolver_ByName_find:
  assumes "registry_ok (ap_registry app)"
  shows "resolver_ByName installed app name = Done (map_option (served installed app)
           (List.find (\<lambda>reg. reg_Name reg = name \<or> reg_PublishedName reg = name) (rg_store (ap_registry app))))"
  by (simp add: resolver_ByName_def ByName_store [OF assms] toServerlessHandler_served [abs_def] option.map_comp comp_def
      at_reg_def find_indexes [of _ "rg_store (ap_registry app)"])

lemma resolver_ByTag_find:
  assumes "registry_ok (ap_registry app)"
  shows "resolver_ByTag installed app tag = map_option (served installed app)
           (List.find (\<lambda>reg. reg_Tag reg = tag) (rg_store (ap_registry app)))"
  unfolding found_in_find [OF assms, symmetric]
  by (simp add: resolver_ByTag_def toServerlessHandler_served [abs_def] found_in_def option.map_comp comp_def)

lemma resolver_Only_filter:
  assumes "registry_ok (ap_registry app)"
  shows "resolver_Only installed app k = Done
     (case filter (\<lambda>reg. reg_Kind reg = k) (rg_store (ap_registry app)) of [reg] \<Rightarrow> Some (served installed app reg) | _ \<Rightarrow> None)"
  unfolding filter_indexes [of _ "rg_store (ap_registry app)"]
  by (simp add: resolver_Only_def OfKind_store [OF assms] toServerlessHandler_served at_reg_def split: list.splits)

lemma resolve_chosen:
  assumes "registry_ok (ap_registry app)"
  shows "resolve (NewInvoker getenv a (Resolver_of installed app)) k =
     Done (case chosen (getenv ''CELERITY_HANDLER_ID'') (getenv ''CELERITY_HANDLER_TAG'') k (rg_store (ap_registry app)) of
             Some reg \<Rightarrow> Inr (served installed app reg)
           | None \<Rightarrow> Inl (unresolved (NewInvoker getenv a (Resolver_of installed app)) k))"
  by (auto simp: resolve_def NewInvoker_def Resolver_of_def resolver_ByName_find [OF assms] resolver_ByTag_find [OF assms]
      resolver_Only_filter [OF assms] chosen_def Let_def split: option.splits list.splits)

subsection \<open>Serving one handler\<close>

text \<open>The reference: no cache and no lookup, only what the function was found to serve, a handler or the
  reason there is none.\<close>

definition answer_with ::
    "'s process \<Rightarrow> ('s, 'v) sl_adapter \<Rightarrow> gerr + 's serverless_handler \<Rightarrow> ctx \<Rightarrow> byte list \<Rightarrow> ('s, 'v any \<times> gerr option) action" where
  "answer_with p a found ctx payload s =
     (let (out, s) =
        (case em_Detect (sa_Mapper a) payload of
           Inl err \<Rightarrow> (Done (AnyNil, Some (detect_failed err)), s)
         | Inr k \<Rightarrow>
             (let (ctx, s) = receive p a ctx k payload s
              in case found of
                   Inl err \<Rightarrow> (Done (noHandler (sa_Mapper a) k err), s)
                 | Inr h \<Rightarrow> invoke_handler (sa_Mapper a) h ctx k payload s))
      in (out, flushTelemetry p s))"

fun serve_with ::
    "'s process \<Rightarrow> ('s, 'v) sl_adapter \<Rightarrow> gerr + 's serverless_handler \<Rightarrow> (ctx \<times> byte list) list \<Rightarrow> 's
       \<Rightarrow> (pval, 'v any \<times> gerr option) outcome list \<times> 's" where
  "serve_with p a found [] s = ([], s)"
| "serve_with p a found ((ctx, payload) # xs) s =
     (case answer_with p a found ctx payload s of
        (Panic v, s') \<Rightarrow> ([Panic v], s')
      | (Done x, s') \<Rightarrow> (let (outs, s'') = serve_with p a found xs s' in (Done x # outs, s'')))"

text \<open>The kind of the first payload the mapper can tell: the one resolution is done for.\<close>

fun first_kind :: "'v event_mapper \<Rightarrow> (ctx \<times> byte list) list \<Rightarrow> kind option" where
  "first_kind m [] = None"
| "first_kind m ((ctx, payload) # xs) = (case em_Detect m payload of Inl err \<Rightarrow> first_kind m xs | Inr k \<Rightarrow> Some k)"

definition settled :: "gerr + 's serverless_handler \<Rightarrow> ('s, 'v) dispatcher \<Rightarrow> bool" where
  "settled found d \<longleftrightarrow> ds_once d
     \<and> (case found of Inl err \<Rightarrow> ds_resolveErr d = Some err | Inr h \<Rightarrow> ds_resolveErr d = None \<and> ds_resolved d = Some h)"

definition unsettled :: "('s, 'v) dispatcher \<Rightarrow> bool" where
  "unsettled d \<longleftrightarrow> \<not> ds_once d \<and> ds_resolved d = None \<and> ds_resolveErr d = None"

lemma unsettled_NewInvoker [simp, intro]: "unsettled (NewInvoker getenv a r)"
  by (simp add: unsettled_def NewInvoker_def)

lemma resolve_once_settled: "settled found d \<Longrightarrow> resolve_once k d = (Done (), d)"
  by (simp add: settled_def resolve_once_def)

lemma resolve_once_unsettled:
  assumes "unsettled d" and "resolve d k = Done found"
  shows "\<exists>d'. resolve_once k d = (Done (), d') \<and> settled found d' \<and> ds_adapter d' = ds_adapter d"
  using assms by (cases found) (auto simp: resolve_once_def settled_def unsettled_def)

lemma invoke_after_once:
  assumes "resolve_once k d = (Done (), d')" and "settled found d'" and "ds_adapter d' = ds_adapter d"
    and "em_Detect (ds_mapper d) payload = Inr k"
  shows "invoke p ctx payload d s =
     (let (out, s') = answer_with p (ds_adapter d) found ctx payload s in (out, d', s'))"
  using assms
  by (cases found) (auto simp: invoke_def invoke_body_def answer_with_def settled_def Let_def split: prod.splits)

lemma invoke_undetected:
  assumes "em_Detect (ds_mapper d) payload = Inl err"
  shows "invoke p ctx payload d s = (let (out, s') = answer_with p (ds_adapter d) found ctx payload s in (out, d, s'))"
  using assms by (simp add: invoke_def invoke_body_def answer_with_def)

lemma invoke_settled:
  assumes "settled found d"
  shows "invoke p ctx payload d s = (let (out, s') = answer_with p (ds_adapter d) found ctx payload s in (out, d, s'))"
proof (cases "em_Detect (ds_mapper d) payload")
  case (Inr k)
  then show ?thesis using invoke_after_once [OF resolve_once_settled [OF assms] assms refl] by blast
qed (rule invoke_undetected)

lemma serve_all_settled:
  "settled found d \<Longrightarrow> serve_all p xs d s = serve_with p (ds_adapter d) found xs s"
  by (induction xs arbitrary: s) (auto simp: invoke_settled Let_def split: prod.splits outcome.splits)

lemma serve_all_unsettled:
  assumes "unsettled d" and "\<And>k. first_kind (ds_mapper d) xs = Some k \<Longrightarrow> resolve d k = Done found"
  shows "serve_all p xs d s = serve_with p (ds_adapter d) found xs s"
  using assms(2)
proof (induction xs arbitrary: s)
  case (Cons x xs)
  obtain ctx payload where x: "x = (ctx, payload)" by (cases x)
  show ?case
  proof (cases "em_Detect (ds_mapper d) payload")
    case (Inl err)
    with Cons x show ?thesis
      by (simp add: invoke_undetected [OF Inl, of p ctx s found] Let_def split: prod.splits outcome.splits)
  next
    case (Inr k)
    with Cons.prems x have "resolve d k = Done found" by simp
    with assms(1) obtain d' where d': "resolve_once k d = (Done (), d')" "settled found d'" "ds_adapter d' = ds_adapter d"
      using resolve_once_unsettled by blast
    show ?thesis
      using serve_all_settled [OF d'(2)] d'(3)
      by (simp add: x invoke_after_once [OF d' Inr] Let_def split: prod.splits outcome.splits)
  qed
qed simp

subsection \<open>An example\<close>

text \<open>A mapper that reads the kind off the first byte and keeps the rest as the body, and a function with one
  schedule handler and two consumers.\<close>

definition plain_mapper :: "byte list event_mapper" where
  "plain_mapper =
     \<lparr>em_Detect = (\<lambda>b. case b of [] \<Rightarrow> Inl (Errorf ''empty payload'' None) | x # _ \<Rightarrow> Inr (if x = 1 then KindConsumer else KindSchedule)),
      em_ToRequest = (\<lambda>b. (None, None)), em_FromResponse = (\<lambda>r. (AnyNil, None)),
      em_ToWebSocketMessage = (\<lambda>b. (None, None)),
      em_ToConsumerBatch = (\<lambda>b tag. (Some \<lparr>cb_Records = [], cb_SourceID = tag, cb_SourceType = ''queue'', cb_Vendor = []\<rparr>, None)),
      em_FromBatchResult = (\<lambda>r. (AnyOf [], None)),
      em_ToScheduleTrigger = (\<lambda>b tag. (Some \<lparr>st_ScheduleID = tag, st_MessageID = '''', st_Schedule = '''', st_Input = b, st_Vendor = []\<rparr>, None)),
      em_ToCustomInvoke = (\<lambda>b. (None, None)), em_FromCustomResult = (\<lambda>r. (AnyNil, None))\<rparr>"

definition plain_adapter :: "(nat, byte list) sl_adapter" where
  "plain_adapter = \<lparr>sa_Mapper = plain_mapper, sa_WebSocketSender = None, sa_AcknowledgeReceipt = None\<rparr>"

definition plain_process :: "nat process" where
  "plain_process = \<lparr>pr_flusher = None, pr_Stderr = (\<lambda>t s. s), pr_Warn = (\<lambda>ctx t xs s. s)\<rparr>"

definition function_app :: "(nat, unit) app" where
  "function_app = fold (\<lambda>(reg, layers). register reg layers)
     [(plain_registration ''source::nightly::run'' KindSchedule (wrapSchedule (\<lambda>ctx t s. (Done None, s + 1))), []),
      (plain_registration ''source::a::x'' KindConsumer (wrapConsumer (\<lambda>ctx b s. (Done (None, None), s))), []),
      (plain_registration ''source::b::y'' KindConsumer (wrapConsumer (\<lambda>ctx b s. (Done (None, None), s))), [])]
     (New [] (Inr ()) () [])"

lemma function_app_ok: "registry_ok (ap_registry function_app)"
proof -
  have "ap_registry (New [] (Inr ()) () [] :: (nat, unit) app) = NewRegistry" by (simp add: New_def)
  then show ?thesis unfolding function_app_def by (simp add: registry_ok_register registry_ok_NewRegistry)
qed

lemma function_app_kinds:
  "map reg_Kind (rg_store (ap_registry function_app)) = [KindSchedule, KindConsumer, KindConsumer]"
  by (simp add: function_app_def register_def Add_def New_def NewRegistry_def plain_registration_def Let_def)

lemma chosen_by_kind:
  "map reg_Kind regs = ks \<Longrightarrow> chosen '''' '''' k regs = None \<longleftrightarrow> length (filter ((=) k) ks) \<noteq> 1"
proof -
  have "length (filter (\<lambda>reg. reg_Kind reg = k) regs) = length (filter ((=) k) (map reg_Kind regs))"
    by (simp add: filter_map comp_def eq_commute)
  then show "map reg_Kind regs = ks \<Longrightarrow> chosen '''' '''' k regs = None \<longleftrightarrow> length (filter ((=) k) ks) \<noteq> 1"
    by (auto simp: chosen_def split: list.splits)
qed

subsection \<open>Properties\<close>

text \<open>C19. A function looks its handler up once and serves that one: for a consistent registry, answering any
  sequence of payloads with the dispatcher, which resolves on the first event and keeps what it found, is
  answering each of them with the handler chosen from the list of registrations by the deployment's name,
  else by its tag, else by being the only one of the first event's kind, or with the fact that there is
  none. In particular a lookup is not repeated for a later event of another kind.\<close>

theorem Serve_resolves_once:
  assumes "registry_ok (ap_registry app)" and "first_kind (sa_Mapper a) payloads = Some k"
  shows "serve_all p payloads (NewInvoker getenv a (Resolver_of installed app)) s
    = serve_with p a
        (case chosen (getenv ''CELERITY_HANDLER_ID'') (getenv ''CELERITY_HANDLER_TAG'') k (rg_store (ap_registry app)) of
           Some reg \<Rightarrow> Inr (served installed app reg)
         | None \<Rightarrow> Inl (unresolved (NewInvoker getenv a (Resolver_of installed app)) k)) payloads s"
proof -
  let ?d = "NewInvoker getenv a (Resolver_of installed app)"
  have a: "ds_adapter ?d = a" by (simp add: NewInvoker_def)
  show ?thesis
    using serve_all_unsettled [OF unsettled_NewInvoker, of getenv a "Resolver_of installed app" payloads] assms(2)
    by (simp only: a resolve_chosen [OF assms(1)] option.inject outcome.inject)
qed

theorem Serve_resolves_once_witness:
  "registry_ok (ap_registry function_app)
   \<and> first_kind (sa_Mapper plain_adapter) [(background, []), (background, [2]), (background, [1])] = Some KindSchedule
   \<and> serve_all plain_process [(background, []), (background, [2]), (background, [1])]
        (NewInvoker (\<lambda>v. '''') plain_adapter (Resolver_of None function_app)) 0
      = serve_with plain_process plain_adapter
          (case chosen '''' '''' KindSchedule (rg_store (ap_registry function_app)) of
             Some reg \<Rightarrow> Inr (served None function_app reg)
           | None \<Rightarrow> Inl (unresolved (NewInvoker (\<lambda>v. '''') plain_adapter (Resolver_of None function_app)) KindSchedule))
          [(background, []), (background, [2]), (background, [1])] 0"
proof -
  have k: "first_kind (sa_Mapper plain_adapter) [(background, []), (background, [2]), (background, [1])] = Some KindSchedule"
    by (simp add: plain_adapter_def plain_mapper_def)
  from Serve_resolves_once [OF function_app_ok k, of plain_process "\<lambda>v. ''''" None 0] function_app_ok k
  show ?thesis by blast
qed



end
