(* ===== verification/Encodings.thy ===== *)
theory Encodings
  imports Errors
begin

text \<open>
  The encodings of the standard library that the AWS adapter reads and writes: base64, the validity of UTF-8,
  form-encoded queries, the folding and trimming of header text, and JSON as a tree.

  Case folding and trimming are exact on ASCII text. A number of a JSON text is kept as its digits, which is what
  \<^verbatim>\<open>json.Number\<close> is.
\<close>

subsection \<open>Letters and blanks\<close>

definition lower_char :: "char \<Rightarrow> char" where
  "lower_char c = (if CHR ''A'' \<le> c \<and> c \<le> CHR ''Z'' then char_of (of_char c + (32 :: nat)) else c)"

definition to_lower :: "string \<Rightarrow> string" where
  "to_lower s = map lower_char s"

definition equal_fold :: "string \<Rightarrow> string \<Rightarrow> bool" where
  "equal_fold s t \<longleftrightarrow> to_lower s = to_lower t"

definition is_space :: "char \<Rightarrow> bool" where
  "is_space c \<longleftrightarrow> c \<in> set [CHR '' '', CHR 0x09, CHR 0x0A, CHR 0x0B, CHR 0x0C, CHR 0x0D]"

definition trim_space :: "string \<Rightarrow> string" where
  "trim_space s = rev (dropWhile is_space (rev (dropWhile is_space s)))"

definition trim_prefix :: "string \<Rightarrow> string \<Rightarrow> string" where
  "trim_prefix s p = (if has_prefix s p then drop (length p) s else s)"

definition cut_prefix :: "string \<Rightarrow> string \<Rightarrow> string option" where
  "cut_prefix s p = (if has_prefix s p then Some (drop (length p) s) else None)"

text \<open>\<^verbatim>\<open>strings.SplitN\<close> with a one-byte separator: the last part keeps the separators that are left.\<close>

fun split_n :: "nat \<Rightarrow> char \<Rightarrow> string \<Rightarrow> string list" where
  "split_n 0 d s = []"
| "split_n (Suc 0) d s = [s]"
| "split_n (Suc (Suc n)) d s = (case str_cut [d] s of None \<Rightarrow> [s] | Some (a, b) \<Rightarrow> a # split_n (Suc n) d b)"

subsection \<open>Base64\<close>

definition b64_alphabet :: string where
  "b64_alphabet = ''ABCDEFGHIJKLMNOPQRSTUVWXYZabcdefghijklmnopqrstuvwxyz0123456789+/''"

definition b64_char :: "nat \<Rightarrow> char" where
  "b64_char n = b64_alphabet ! n"

definition b64_value :: "char \<Rightarrow> nat option" where
  "b64_value c = List.find (\<lambda>n. b64_alphabet ! n = c) [0..<64]"

fun b64_encode_nats :: "nat list \<Rightarrow> string" where
  "b64_encode_nats (a # b # c # rest) =
     b64_char (a div 4) # b64_char (a mod 4 * 16 + b div 16) # b64_char (b mod 16 * 4 + c div 64) # b64_char (c mod 64)
       # b64_encode_nats rest"
| "b64_encode_nats [a, b] =
     [b64_char (a div 4), b64_char (a mod 4 * 16 + b div 16), b64_char (b mod 16 * 4), CHR ''='']"
| "b64_encode_nats [a] = [b64_char (a div 4), b64_char (a mod 4 * 16), CHR ''='', CHR ''='']"
| "b64_encode_nats [] = []"

definition base64_EncodeToString :: "byte list \<Rightarrow> string" where
  "base64_EncodeToString bs = b64_encode_nats (map unat bs)"

text \<open>The decoder reads four characters at a time; padding is only taken at the end, and bits left over under it
  are not looked at. Line breaks are skipped anywhere.\<close>

fun b64_decode_nats :: "string \<Rightarrow> nat list option" where
  "b64_decode_nats [] = Some []"
| "b64_decode_nats (p # q # r # s # rest) =
     (case (b64_value p, b64_value q) of
        (Some a, Some b) \<Rightarrow>
          (case b64_value r of
             Some c \<Rightarrow>
               (case b64_value s of
                  Some d \<Rightarrow> map_option (\<lambda>ns. (a * 4 + b div 16) # (b mod 16 * 16 + c div 4) # (c mod 4 * 64 + d) # ns)
                      (b64_decode_nats rest)
                | None \<Rightarrow> if s = CHR ''='' \<and> rest = [] then Some [a * 4 + b div 16, b mod 16 * 16 + c div 4] else None)
           | None \<Rightarrow> if r = CHR ''='' \<and> s = CHR ''='' \<and> rest = [] then Some [a * 4 + b div 16] else None)
      | _ \<Rightarrow> None)"
| "b64_decode_nats _ = None"

definition base64_DecodeString :: "string \<Rightarrow> byte list option" where
  "base64_DecodeString s =
     map_option (map word_of_nat) (b64_decode_nats (filter (\<lambda>c. c \<noteq> CHR 0x0A \<and> c \<noteq> CHR 0x0D) s))"

subsection \<open>UTF-8\<close>

definition in_range :: "nat \<Rightarrow> nat \<Rightarrow> nat \<Rightarrow> bool" where
  "in_range lo hi n \<longleftrightarrow> lo \<le> n \<and> n \<le> hi"

definition cont :: "nat \<Rightarrow> bool" where
  "cont = in_range 0x80 0xBF"

text \<open>The second byte a leading byte admits, and how many more follow.\<close>

definition utf8_lead :: "nat \<Rightarrow> ((nat \<times> nat) \<times> nat) option" where
  "utf8_lead n =
     (if in_range 0xC2 0xDF n then Some ((0x80, 0xBF), 0)
      else if n = 0xE0 then Some ((0xA0, 0xBF), 1)
      else if in_range 0xE1 0xEC n \<or> in_range 0xEE 0xEF n then Some ((0x80, 0xBF), 1)
      else if n = 0xED then Some ((0x80, 0x9F), 1)
      else if n = 0xF0 then Some ((0x90, 0xBF), 2)
      else if in_range 0xF1 0xF3 n then Some ((0x80, 0xBF), 2)
      else if n = 0xF4 then Some ((0x80, 0x8F), 2)
      else None)"

function (sequential) utf8_valid_nats :: "nat list \<Rightarrow> bool" where
  "utf8_valid_nats [] = True"
| "utf8_valid_nats (n # ns) =
     (if n < 0x80 then utf8_valid_nats ns
      else case utf8_lead n of
        None \<Rightarrow> False
      | Some ((lo, hi), n2) \<Rightarrow>
          (case ns of
             [] \<Rightarrow> False
           | m # ms \<Rightarrow> in_range lo hi m \<and> length (take n2 ms) = n2 \<and> list_all cont (take n2 ms)
               \<and> utf8_valid_nats (drop n2 ms)))"
  by pat_completeness auto
termination by (relation "measure length") auto

definition utf8_Valid :: "byte list \<Rightarrow> bool" where
  "utf8_Valid bs = utf8_valid_nats (map unat bs)"

subsection \<open>Form-encoded queries\<close>

definition hex_val :: "char \<Rightarrow> nat option" where
  "hex_val c =
     (let n = (of_char c :: nat)
      in if in_range 48 57 n then Some (n - 48)
         else if in_range 97 102 n then Some (n - 87)
         else if in_range 65 70 n then Some (n - 55)
         else None)"

text \<open>\<^verbatim>\<open>url.QueryUnescape\<close>: \<open>None\<close> is the error of a malformed escape.\<close>

fun QueryUnescape :: "string \<Rightarrow> string option" where
  "QueryUnescape [] = Some []"
| "QueryUnescape (c # s) =
     (if c = CHR ''%'' then
        (case s of
           a # b # rest \<Rightarrow>
             (case (hex_val a, hex_val b) of
                (Some x, Some y) \<Rightarrow> map_option (\<lambda>t. char_of (x * 16 + y) # t) (QueryUnescape rest)
              | _ \<Rightarrow> None)
         | _ \<Rightarrow> None)
      else map_option (\<lambda>t. (if c = CHR ''+'' then CHR '' '' else c) # t) (QueryUnescape s))"

definition parse_pair :: "string \<Rightarrow> (string \<times> string) option" where
  "parse_pair part =
     (if contains part '';'' \<or> part = '''' then None
      else let (key, val) = (case str_cut ''='' part of Some (k, v) \<Rightarrow> (k, v) | None \<Rightarrow> (part, ''''))
           in case QueryUnescape key of
                None \<Rightarrow> None
              | Some k \<Rightarrow> map_option (\<lambda>v. (k, v)) (QueryUnescape val))"

text \<open>\<^verbatim>\<open>url.ParseQuery\<close>: the pairs that parse, the others being what its error is about. Splitting at every \<^verbatim>\<open>&\<close> is
  what its loop of cuts does.\<close>

definition ParseQuery :: "string \<Rightarrow> params" where
  "ParseQuery query =
     fold (\<lambda>part m. case parse_pair part of None \<Rightarrow> m | Some (k, v) \<Rightarrow> params_Add m k v) (split_on (CHR ''&'') query) []"

subsection \<open>JSON as a tree\<close>

datatype jtree = TNull | TBool bool | TNum string | TStr string | TArr "jtree list" | TObj "(string \<times> jtree) list"

text \<open>\<^verbatim>\<open>json.Marshal\<close> of a value made of maps, slices, strings, numbers and booleans, where an object is a Go
  map: its keys are sorted.\<close>

fun tree_text :: "jtree \<Rightarrow> string" where
  "tree_text TNull = ''null''"
| "tree_text (TBool b) = (if b then ''true'' else ''false'')"
| "tree_text (TNum t) = t"
| "tree_text (TStr s) = json_string s"
| "tree_text (TArr xs) = ''['' @ join '','' (map tree_text xs) @ '']''"
| "tree_text (TObj kvs) = ''{'' @ join '',''
     (map snd (sort_key fst (map (\<lambda>(k, v). (k, json_string k @ '':'' @ tree_text v)) kvs))) @ ''}''"

text \<open>The grammar of a JSON number.\<close>

definition is_digit_char :: "char \<Rightarrow> bool" where
  "is_digit_char c = in_range 48 57 (of_char c)"

definition skip_digits :: "string \<Rightarrow> string option" where
  "skip_digits s = (case s of [] \<Rightarrow> None | c # t \<Rightarrow> if is_digit_char c then Some (dropWhile is_digit_char t) else None)"

definition skip_int :: "string \<Rightarrow> string option" where
  "skip_int s = (case s of [] \<Rightarrow> None | c # t \<Rightarrow> if c = CHR ''0'' then Some t else skip_digits s)"

definition skip_fraction :: "string \<Rightarrow> string option" where
  "skip_fraction s = (case s of c # t \<Rightarrow> if c = CHR ''.'' then skip_digits t else Some s | [] \<Rightarrow> Some s)"

definition skip_exponent :: "string \<Rightarrow> string option" where
  "skip_exponent s =
     (case s of
        c # t \<Rightarrow>
          if c = CHR ''e'' \<or> c = CHR ''E''
          then (case t of d # u \<Rightarrow> if d = CHR ''+'' \<or> d = CHR ''-'' then skip_digits u else skip_digits t | [] \<Rightarrow> None)
          else Some s
      | [] \<Rightarrow> Some s)"

definition isValidNumber :: "string \<Rightarrow> bool" where
  "isValidNumber s =
     (let unsigned = (case s of c # t \<Rightarrow> if c = CHR ''-'' then t else s | [] \<Rightarrow> s)
      in Option.bind (Option.bind (skip_int unsigned) skip_fraction) skip_exponent = Some [])"

text \<open>Decoding into the SDK's own structs. A field takes the member whose name it has, the case of letters
  aside; of a member given twice the last counts. \<^verbatim>\<open>null\<close> leaves a field as it was, at its zero value, and a
  member of another JSON type is an error.\<close>

definition member :: "string \<Rightarrow> (string \<times> jtree) list \<Rightarrow> jtree" where
  "member name kvs = (case List.find (\<lambda>(k, v). equal_fold k name) (rev kvs) of None \<Rightarrow> TNull | Some (k, v) \<Rightarrow> v)"

definition mismatch :: "string \<Rightarrow> string \<Rightarrow> gerr" where
  "mismatch field typ = UnmarshalTypeError field typ (''json: cannot unmarshal into Go struct field '' @ field @ '' of type '' @ typ)"

definition dec_object :: "string \<Rightarrow> jtree \<Rightarrow> gerr + (string \<times> jtree) list" where
  "dec_object name t = (case t of TObj kvs \<Rightarrow> Inr kvs | TNull \<Rightarrow> Inr [] | _ \<Rightarrow> Inl (mismatch name ''struct''))"

definition dec_string :: "string \<Rightarrow> jtree \<Rightarrow> gerr + string" where
  "dec_string name t = (case t of TStr s \<Rightarrow> Inr s | TNull \<Rightarrow> Inr '''' | _ \<Rightarrow> Inl (mismatch name ''string''))"

definition dec_bool :: "string \<Rightarrow> jtree \<Rightarrow> gerr + bool" where
  "dec_bool name t = (case t of TBool b \<Rightarrow> Inr b | TNull \<Rightarrow> Inr False | _ \<Rightarrow> Inl (mismatch name ''bool''))"

definition dec_number :: "string \<Rightarrow> jtree \<Rightarrow> gerr + string" where
  "dec_number name t =
     (case t of
        TNum s \<Rightarrow> Inr s
      | TStr s \<Rightarrow> if isValidNumber s then Inr s else Inl (Errorf (''json: invalid number literal, trying to unmarshal '' @ go_quote (json_string s) @ '' into Number'') None)
      | TNull \<Rightarrow> Inr ''''
      | _ \<Rightarrow> Inl (mismatch name ''json.Number''))"

text \<open>A pointer: \<^verbatim>\<open>null\<close> is nil.\<close>

definition dec_ptr :: "(jtree \<Rightarrow> gerr + 'a) \<Rightarrow> jtree \<Rightarrow> gerr + 'a option" where
  "dec_ptr dec t = (case t of TNull \<Rightarrow> Inr None | _ \<Rightarrow> (case dec t of Inl e \<Rightarrow> Inl e | Inr x \<Rightarrow> Inr (Some x)))"

fun sequence_sum :: "('e + 'a) list \<Rightarrow> 'e + 'a list" where
  "sequence_sum [] = Inr []"
| "sequence_sum (x # xs) =
     (case x of Inl e \<Rightarrow> Inl e | Inr y \<Rightarrow> (case sequence_sum xs of Inl e \<Rightarrow> Inl e | Inr ys \<Rightarrow> Inr (y # ys)))"

lemma sequence_sum_InrD: "sequence_sum rs = Inr xs \<Longrightarrow> rs = map Inr xs"
  by (induction rs arbitrary: xs) (auto split: sum.splits)

text \<open>A slice: \<^verbatim>\<open>null\<close> is nil, an empty array is not.\<close>

definition dec_slice :: "string \<Rightarrow> (jtree \<Rightarrow> gerr + 'a) \<Rightarrow> jtree \<Rightarrow> gerr + 'a list option" where
  "dec_slice name dec t =
     (case t of
        TNull \<Rightarrow> Inr None
      | TArr xs \<Rightarrow> (case sequence_sum (map dec xs) of Inl e \<Rightarrow> Inl e | Inr ys \<Rightarrow> Inr (Some ys))
      | _ \<Rightarrow> Inl (mismatch name ''slice''))"

subsection \<open>Round trips\<close>

lemma find_index:
  assumes "distinct xs" and "n < length xs"
  shows "List.find (\<lambda>i. xs ! i = xs ! n) [0..<length xs] = Some n"
  using assms by (auto simp: find_Some_iff nth_eq_iff_index_eq intro!: exI [of _ n])

lemma b64_alphabet_facts:
  "length b64_alphabet = 64" "distinct b64_alphabet"
  "CHR 0x0A \<notin> set b64_alphabet" "CHR 0x0D \<notin> set b64_alphabet" "CHR ''='' \<notin> set b64_alphabet"
  by (simp_all add: b64_alphabet_def)

lemma b64_char_simps [simp]:
  assumes "n < 64"
  shows "b64_value (b64_char n) = Some n" and "b64_char n \<noteq> CHR 0x0A" and "b64_char n \<noteq> CHR 0x0D"
proof -
  have n: "b64_char n \<in> set b64_alphabet" and l: "n < length b64_alphabet"
    using assms by (simp_all add: b64_char_def b64_alphabet_facts(1))
  from find_index [OF b64_alphabet_facts(2) l] show "b64_value (b64_char n) = Some n"
    by (simp only: b64_value_def b64_char_def b64_alphabet_facts(1))
  from n b64_alphabet_facts(3,4) show "b64_char n \<noteq> CHR 0x0A" and "b64_char n \<noteq> CHR 0x0D" by metis+
qed

lemma b64_value_pad [simp]: "b64_value CHR ''='' = None"
  using b64_alphabet_facts(1,5) by (auto simp: b64_value_def find_None_iff in_set_conv_nth)

lemma b64_digits:
  assumes "a < 256" and "b < 256" and "c < (256 :: nat)"
  shows "a div 4 < 64" "a mod 4 * 16 + b div 16 < 64" "b mod 16 * 4 + c div 64 < 64" "c mod 64 < 64"
    "a div 4 * 4 + (a mod 4 * 16 + b div 16) div 16 = a"
    "(a mod 4 * 16 + b div 16) mod 16 * 16 + (b mod 16 * 4 + c div 64) div 4 = b"
    "(b mod 16 * 4 + c div 64) mod 4 * 64 + c mod 64 = c"
    "b div 16 mod 16 * 16 + b mod 16 = b"
proof -
  from assms have b: "b div 16 < 16" and c: "c div 64 < 4" and a: "a div 4 < 64"
    by (simp_all add: less_mult_imp_div_less)
  have "a mod 4 < 4" and "b mod 16 < 16" by simp_all
  with b c show "a mod 4 * 16 + b div 16 < 64" and "b mod 16 * 4 + c div 64 < 64" by linarith+
  show "a div 4 * 4 + (a mod 4 * 16 + b div 16) div 16 = a"
    and "(a mod 4 * 16 + b div 16) mod 16 * 16 + (b mod 16 * 4 + c div 64) div 4 = b"
    and "(b mod 16 * 4 + c div 64) mod 4 * 64 + c mod 64 = c" and "b div 16 mod 16 * 16 + b mod 16 = b"
    using b c by simp_all
qed (use assms in \<open>simp_all add: less_mult_imp_div_less\<close>)

lemma b64_encode_chars:
  "list_all (\<lambda>n. n < 256) ns \<Longrightarrow> list_all (\<lambda>c. c \<noteq> CHR 0x0A \<and> c \<noteq> CHR 0x0D) (b64_encode_nats ns)"
proof (induction ns rule: b64_encode_nats.induct)
  case (1 a b c rest)
  then show ?case using b64_digits [of a b c] by simp
next
  case (2 a b)
  then show ?case using b64_digits [of a b 0] by simp
next
  case (3 a)
  then show ?case using b64_digits [of a 0 0] by simp
qed simp

lemma b64_roundtrip: "list_all (\<lambda>n. n < 256) ns \<Longrightarrow> b64_decode_nats (b64_encode_nats ns) = Some ns"
proof (induction ns rule: b64_encode_nats.induct)
  case (1 a b c rest)
  then show ?case using b64_digits [of a b c] by simp
next
  case (2 a b)
  then show ?case using b64_digits [of a b 0] by simp
next
  case (3 a)
  then show ?case using b64_digits [of a 0 0] by simp
qed simp

lemma unat_byte [simp]: "unat (b :: byte) < 256"
  using unsigned_less [of b] by simp

lemma base64_roundtrip [simp]: "base64_DecodeString (base64_EncodeToString bs) = Some bs"
proof -
  have b: "list_all (\<lambda>n. n < 256) (map unat bs)"
    by (simp add: list_all_iff)
  from b64_encode_chars [OF b] have "filter (\<lambda>c. c \<noteq> CHR 0x0A \<and> c \<noteq> CHR 0x0D) (b64_encode_nats (map unat bs)) = b64_encode_nats (map unat bs)"
    by (simp add: list_all_iff filter_id_conv)
  with b64_roundtrip [OF b] show ?thesis
    by (simp add: base64_DecodeString_def base64_EncodeToString_def comp_def)
qed

lemma base64_Encode_Nil [simp]: "base64_EncodeToString bs = [] \<longleftrightarrow> bs = []"
  using base64_roundtrip [of bs] base64_roundtrip [of "[]"] by (auto simp: base64_EncodeToString_def)

lemma bytes_of_string_of_bytes [simp]: "bytes_of (string_of_bytes bs) = bs"
proof -
  have "(of_char (char_of (unat b) :: char) :: byte) = b" for b :: byte
  proof -
    have "(of_char (char_of (unat b) :: char) :: nat) = unat b" by (simp add: of_char_of)
    then show ?thesis using of_char_byte [of "char_of (unat b)"] by (metis word_unat_eq_iff)
  qed
  then show ?thesis by (induction bs) (simp_all add: bytes_of_def string_of_bytes_def)
qed

text \<open>\<^verbatim>\<open>url.QueryEscape\<close>, what a client writes a query with.\<close>

definition unreserved :: "char \<Rightarrow> bool" where
  "unreserved c = (let n = (of_char c :: nat) in in_range 48 57 n \<or> in_range 65 90 n \<or> in_range 97 122 n \<or> n \<in> set [45, 95, 46, 126])"

definition hex_upper :: "nat \<Rightarrow> char" where
  "hex_upper k = (if k < 10 then char_of (48 + k) else char_of (55 + k))"

definition escape_char :: "char \<Rightarrow> string" where
  "escape_char c =
     (if unreserved c then [c] else if c = CHR '' '' then ''+''
      else let n = (of_char c :: nat) in [CHR ''%'', hex_upper (n div 16), hex_upper (n mod 16)])"

definition QueryEscape :: "string \<Rightarrow> string" where
  "QueryEscape s = concat (map escape_char s)"

lemma hex_upper_facts:
  assumes "k < 16"
  shows "hex_val (hex_upper k) = Some k" and "hex_upper k \<notin> set ''&=;''"
proof -
  have n: "(of_char (hex_upper k) :: nat) = (if k < 10 then 48 + k else 55 + k)"
    using assms by (simp add: hex_upper_def of_char_of)
  then show "hex_val (hex_upper k) = Some k" using assms by (auto simp: hex_val_def in_range_def Let_def)
  from n assms have "(of_char (hex_upper k) :: nat) \<notin> set [38, 61, 59]" by auto
  then show "hex_upper k \<notin> set ''&=;''" by auto
qed

lemma escape_char_cases:
  obtains (plain) "escape_char c = [c]" "c \<notin> set ''%+&=;''"
  | (space) "escape_char c = ''+''" "c = CHR '' ''"
  | (hex) d1 d2 x y where "escape_char c = [CHR ''%'', d1, d2]" "hex_val d1 = Some x" "hex_val d2 = Some y"
      "c = char_of (x * 16 + y)" "d1 \<notin> set ''&=;''" "d2 \<notin> set ''&=;''"
proof -
  let ?n = "of_char c :: nat"
  have n: "?n < 256" by simp
  consider "unreserved c" | "\<not> unreserved c" "c = CHR '' ''" | "\<not> unreserved c" "c \<noteq> CHR '' ''" by blast
  then show thesis
  proof cases
    case 1
    then have "c \<notin> set ''%+&=;''" by (auto simp: unreserved_def in_range_def)
    with 1 show thesis by (intro plain) (simp_all add: escape_char_def)
  next
    case 2
    then show thesis by (intro space) (simp_all add: escape_char_def)
  next
    case 3
    have x: "?n div 16 < 16" and y: "?n mod 16 < 16" using n by (simp_all add: less_mult_imp_div_less)
    show thesis
    proof (rule hex)
      show "escape_char c = [CHR ''%'', hex_upper (?n div 16), hex_upper (?n mod 16)]"
        using 3 by (simp add: escape_char_def Let_def)
      show "c = char_of (?n div 16 * 16 + ?n mod 16)" by simp
    qed (use hex_upper_facts [OF x] hex_upper_facts [OF y] in simp_all)
  qed
qed

lemma QueryUnescape_escape [simp]:
  "QueryUnescape (escape_char c @ t) = map_option (\<lambda>u. c # u) (QueryUnescape t)"
  by (cases c rule: escape_char_cases) auto

lemma QueryUnescape_Escape [simp]: "QueryUnescape (QueryEscape s) = Some s"
  by (induction s) (simp_all add: QueryEscape_def)

lemma QueryEscape_chars: "set (QueryEscape s) \<inter> set ''&=;'' = {}"
proof -
  have "set (escape_char c) \<inter> set ''&=;'' = {}" for c
    by (cases c rule: escape_char_cases) auto
  then show ?thesis by (induction s) (simp_all add: QueryEscape_def Int_Un_distrib2)
qed

lemma str_cut_char: "d \<notin> set a \<Longrightarrow> str_cut [d] (a @ d # b) = Some (a, b)"
  by (induction a) auto

lemma str_cut_absent: "d \<notin> set s \<Longrightarrow> str_cut [d] s = None"
  by (induction s) auto

definition query_pair :: "string \<times> string \<Rightarrow> string" where
  "query_pair = (\<lambda>(k, v). QueryEscape k @ ''='' @ QueryEscape v)"

lemma parse_query_pair [simp]: "parse_pair (query_pair (k, v)) = Some (k, v)"
proof -
  have k: "CHR ''='' \<notin> set (QueryEscape k)" "CHR '';'' \<notin> set (QueryEscape k)" "CHR '';'' \<notin> set (QueryEscape v)"
    using QueryEscape_chars [of k] QueryEscape_chars [of v] by auto
  then have "\<not> contains (QueryEscape k @ CHR ''='' # QueryEscape v) '';''"
    by (simp add: contains_def str_cut_absent)
  with k show ?thesis by (simp add: parse_pair_def query_pair_def str_cut_char)
qed

text \<open>A query a client wrote is read back as it was written: every value of a name, in order.\<close>

lemma ParseQuery_written:
  "params_at (ParseQuery (join ''&'' (map query_pair kvs))) name = map snd (filter (\<lambda>(k, v). k = name) kvs)"
proof -
  let ?add = "\<lambda>part m. case parse_pair part of None \<Rightarrow> m | Some (k, v) \<Rightarrow> params_Add m k v"
  have "params_at (fold ?add (map query_pair kvs) m) name = params_at m name @ map snd (filter (\<lambda>(k, v). k = name) kvs)" for m
    by (induction kvs arbitrary: m) (auto simp: case_prod_beta)
  moreover have "split_on (CHR ''&'') (join ''&'' (map query_pair kvs)) = map query_pair kvs" if "kvs \<noteq> []"
    using that QueryEscape_chars by (intro split_on_join) (auto simp: query_pair_def)
  moreover have "fold ?add (split_on (CHR ''&'') []) [] = []" by (simp add: parse_pair_def)
  ultimately show ?thesis by (cases "kvs = []") (simp_all add: ParseQuery_def params_at_def)
qed

end
