(* ===== verification/Aws_Mapper.thy ===== *)
theory Aws_Mapper
  imports Serverless Encodings
begin

text \<open>
  The event mapper of the AWS adapter: \<^verbatim>\<open>src/serverless/aws/detect.go\<close>, \<^verbatim>\<open>headers.go\<close>, \<^verbatim>\<open>http.go\<close>, \<^verbatim>\<open>custom.go\<close>,
  \<^verbatim>\<open>schedule.go\<close>, \<^verbatim>\<open>websocket.go\<close>, \<^verbatim>\<open>consumer.go\<close> and \<^verbatim>\<open>dynamo.go\<close>.

  The event types are those of \<^verbatim>\<open>aws-lambda-go\<close>, with the fields the mapper reads. Reading a payload into one of
  them, and splitting a JSON text into a tree, are arguments (\<open>aws_json\<close>); the structs the adapter declares itself
  are decoded from the tree here.
\<close>

subsection \<open>Events\<close>

record apigw_request =
  gw_RouteKey :: string
  gw_RawPath :: string
  gw_RawQueryString :: string
  gw_Cookies :: "string list"
  gw_Headers :: "(string, string) gomap"
  gw_QueryStringParameters :: "(string, string) gomap"
  gw_PathParameters :: "(string, string) gomap"
  gw_Method :: string
  gw_SourceIP :: string
  gw_RequestID :: string
  gw_Body :: string
  gw_IsBase64Encoded :: bool

record apigw_response =
  gp_StatusCode :: int
  gp_Headers :: "(string, string) gomap option"
  gp_Body :: string
  gp_IsBase64Encoded :: bool
  gp_Cookies :: "string list"

record apigw_ws_request =
  gs_RouteKey :: string
  gs_ConnectionID :: string
  gs_DomainName :: string
  gs_Stage :: string
  gs_SourceIP :: string
  gs_RequestID :: string
  gs_Body :: string

text \<open>\<open>sq_MessageAttributes\<close> is the map of attributes as the JSON value it marshals to, \<open>None\<close> where it cannot be.\<close>

record sqs_message =
  sq_MessageId :: string
  sq_ReceiptHandle :: string
  sq_Body :: string
  sq_Md5OfBody :: string
  sq_Attributes :: "(string, string) gomap option"
  sq_MessageAttributes :: "jtree option"
  sq_EventSourceARN :: string
  sq_EventSource :: string
  sq_AWSRegion :: string

record cloudwatch_event =
  cw_ID :: string
  cw_DetailType :: string
  cw_Source :: string
  cw_AccountID :: string
  cw_Region :: string
  cw_Resources :: "string list option"
  cw_Detail :: "byte list"

text \<open>\<open>aj_custom\<close> reads \<^verbatim>\<open>{"handlerName": ..., "payload": ...}\<close>, the payload as the bytes it was written in.\<close>

record aws_json =
  aj_parse :: "byte list \<Rightarrow> gerr + jtree"
  aj_http :: "byte list \<Rightarrow> gerr + apigw_request"
  aj_websocket :: "byte list \<Rightarrow> gerr + apigw_ws_request"
  aj_sqs :: "byte list \<Rightarrow> gerr + sqs_message list"
  aj_cloudwatch :: "byte list \<Rightarrow> gerr + cloudwatch_event"
  aj_custom :: "byte list \<Rightarrow> gerr + string \<times> byte list option"

definition decode :: "(byte list \<Rightarrow> gerr + 'a) \<Rightarrow> byte list \<Rightarrow> string \<Rightarrow> gerr + 'a" where
  "decode read payload source =
     (case read payload of
        Inl err \<Rightarrow> Inl (Errorf (''reading a '' @ source @ '' event: '' @ error_text err) (Some err))
      | Inr event \<Rightarrow> Inr event)"

datatype aws_out = OutHTTP apigw_response | OutSQS "string list" | OutJSON "byte list" | OutText string

text \<open>Configuration, and what of the environment it is captured from.\<close>

record mapper =
  mp_splitHeaders :: "(string, unit) gomap option"
  mp_handlerKind :: kind
  mp_handlerID :: string

subsection \<open>Headers\<close>

definition SplitHeaders :: "string list" where
  "SplitHeaders = [''accept'', ''accept-charset'', ''accept-encoding'', ''accept-language'', ''access-control-request-headers'',
     ''cache-control'', ''connection'', ''content-encoding'', ''content-language'', ''content-type'', ''if-match'',
     ''if-none-match'', ''te'', ''trailer'', ''transfer-encoding'', ''upgrade'', ''vary'', ''via'', ''x-forwarded-for'']"

definition buildSplitNames :: "string \<Rightarrow> (string, unit) gomap" where
  "buildSplitNames configured =
     fold (\<lambda>name names. let trimmed = to_lower (trim_space name) in if trimmed \<noteq> '''' then gm_put trimmed () names else names)
       (split_on (CHR '','') configured) (fold (\<lambda>name names. gm_put name () names) SplitHeaders [])"

definition defaultSplitNames :: "(string, unit) gomap" where
  "defaultSplitNames = buildSplitNames ''''"

definition kindFromEnv :: "environ \<Rightarrow> kind" where
  "kindFromEnv getenv =
     (case List.find (\<lambda>k. kind_string k = getenv ''CELERITY_HANDLER_TYPE'')
         [KindHTTP, KindWebSocket, KindConsumer, KindSchedule, KindCustom] of
        Some k \<Rightarrow> k | None \<Rightarrow> KindNone)"

definition NewMapper :: "environ \<Rightarrow> mapper" where
  "NewMapper getenv = \<lparr>mp_splitHeaders = Some (buildSplitNames (getenv ''CELERITY_SPLIT_HEADERS'')),
     mp_handlerKind = kindFromEnv getenv, mp_handlerID = getenv ''CELERITY_HANDLER_ID''\<rparr>"

subsection \<open>Detection\<close>

record envelope_context =
  ec_HTTP :: bool
  ec_ConnectionID :: "string option"
  ec_EventType :: "string option"

record envelope =
  en_RequestContext :: "envelope_context option"
  en_Records :: "string list option"
  en_Source :: "string option"
  en_DetailType :: "string option"

text \<open>\<^verbatim>\<open>rc.HTTP\<close> is a pointer to raw JSON, of which only its being there is read.\<close>

definition dec_context :: "jtree \<Rightarrow> gerr + envelope_context" where
  "dec_context t =
     (case dec_object ''requestContext'' t of Inl e \<Rightarrow> Inl e | Inr kvs \<Rightarrow>
      (case dec_ptr (dec_string ''connectionId'') (member ''connectionId'' kvs) of Inl e \<Rightarrow> Inl e | Inr conn \<Rightarrow>
       (case dec_ptr (dec_string ''eventType'') (member ''eventType'' kvs) of Inl e \<Rightarrow> Inl e | Inr typ \<Rightarrow>
        Inr \<lparr>ec_HTTP = (member ''http'' kvs \<noteq> TNull), ec_ConnectionID = conn, ec_EventType = typ\<rparr>)))"

definition dec_event_source :: "jtree \<Rightarrow> gerr + string" where
  "dec_event_source t =
     (case dec_object ''Records'' t of Inl e \<Rightarrow> Inl e | Inr kvs \<Rightarrow> dec_string ''eventSource'' (member ''eventSource'' kvs))"

definition dec_envelope :: "jtree \<Rightarrow> gerr + envelope" where
  "dec_envelope t =
     (case dec_object ''envelope'' t of Inl e \<Rightarrow> Inl e | Inr kvs \<Rightarrow>
      (case dec_ptr dec_context (member ''requestContext'' kvs) of Inl e \<Rightarrow> Inl e | Inr rc \<Rightarrow>
       (case dec_slice ''Records'' dec_event_source (member ''Records'' kvs) of Inl e \<Rightarrow> Inl e | Inr records \<Rightarrow>
        (case dec_ptr (dec_string ''source'') (member ''source'' kvs) of Inl e \<Rightarrow> Inl e | Inr source \<Rightarrow>
         (case dec_ptr (dec_string ''detail-type'') (member ''detail-type'' kvs) of Inl e \<Rightarrow> Inl e | Inr typ \<Rightarrow>
          Inr \<lparr>en_RequestContext = rc, en_Records = records, en_Source = source, en_DetailType = typ\<rparr>)))))"

definition sqsEventSource :: string where "sqsEventSource = ''aws:sqs''"
definition s3EventSource :: string where "s3EventSource = ''aws:s3''"
definition ddbEventSource :: string where "ddbEventSource = ''aws:dynamodb''"

definition unmarshal :: "aws_json \<Rightarrow> (jtree \<Rightarrow> gerr + 'a) \<Rightarrow> byte list \<Rightarrow> gerr + 'a" where
  "unmarshal aj dec payload = (case aj_parse aj payload of Inl e \<Rightarrow> Inl e | Inr t \<Rightarrow> dec t)"

definition kind_of_envelope :: "envelope \<Rightarrow> kind" where
  "kind_of_envelope env =
     (case en_RequestContext env of
        Some rc \<Rightarrow> if ec_HTTP rc then KindHTTP
          else if ec_ConnectionID rc \<noteq> None \<and> ec_EventType rc \<noteq> None then KindWebSocket else KindNone
      | None \<Rightarrow> KindNone)"

definition Detect :: "aws_json \<Rightarrow> mapper \<Rightarrow> byte list \<Rightarrow> kind" where
  "Detect aj m payload =
     (if mp_handlerKind m \<noteq> KindNone then mp_handlerKind m
      else case unmarshal aj dec_envelope payload of
        Inl err \<Rightarrow> KindCustom
      | Inr env \<Rightarrow>
          if kind_of_envelope env \<noteq> KindNone then kind_of_envelope env
          else if length (slice (en_Records env)) > 0 \<and> slice (en_Records env) ! 0 = sqsEventSource then KindConsumer
          else if en_Source env \<noteq> None \<and> en_DetailType env \<noteq> None then KindSchedule
          else KindCustom)"

subsection \<open>HTTP\<close>

definition routeOf :: "string \<Rightarrow> string \<Rightarrow> string" where
  "routeOf routeKey rawPath =
     (if routeKey = '''' \<or> routeKey = ''$default'' then rawPath
      else NormaliseRoute (case str_cut '' '' routeKey of Some (_, rest) \<Rightarrow> rest | None \<Rightarrow> routeKey))"

definition pathParamsOf :: "(string, string) gomap \<Rightarrow> string \<Rightarrow> params" where
  "pathParamsOf ps route =
     fold (\<lambda>(name, value) out.
         if CatchAllParam route = Some name then gm_put name (split_on (CHR ''/'') value) out else gm_put name [value] out)
       ps []"

definition splitHeaderValue :: "string \<Rightarrow> go_values" where
  "splitHeaderValue value = map trim_space (split_on (CHR '','') value)"

definition headersOf :: "mapper \<Rightarrow> (string, string) gomap \<Rightarrow> string list \<Rightarrow> params" where
  "headersOf m headers cookies =
     (let splittable = (case mp_splitHeaders m of None \<Rightarrow> defaultSplitNames | Some names \<Rightarrow> names);
          out = fold (\<lambda>(name, value) out.
              let lower = to_lower name
              in if gm_get splittable lower \<noteq> None \<and> contains value '','' then gm_put lower (splitHeaderValue value) out
                 else gm_put lower [value] out) headers []
      in if length cookies > 0 then gm_put ''cookie'' [join ''; '' cookies] out else out)"

definition singleValued :: "(string, string) gomap \<Rightarrow> params" where
  "singleValued ps = fold (\<lambda>(name, value) out. gm_put name [value] out) ps []"

definition queryParamsOf :: "string \<Rightarrow> (string, string) gomap \<Rightarrow> params" where
  "queryParamsOf raw ps = (if raw = '''' then singleValued ps else ParseQuery raw)"

definition bodyOf :: "string \<Rightarrow> bool \<Rightarrow> byte list" where
  "bodyOf body isBase64 =
     (if body = '''' then []
      else if \<not> isBase64 then bytes_of body
      else case base64_DecodeString body of None \<Rightarrow> bytes_of body | Some decoded \<Rightarrow> decoded)"

definition ToRequest :: "aws_json \<Rightarrow> mapper \<Rightarrow> byte list \<Rightarrow> gerr + request" where
  "ToRequest aj m payload =
     (case decode (aj_http aj) payload ''API Gateway HTTP'' of
        Inl err \<Rightarrow> Inl err
      | Inr event \<Rightarrow>
          (let route = routeOf (gw_RouteKey event) (gw_RawPath event)
           in Inr \<lparr>req_Method = to_upper (gw_Method event), req_Path = gw_RawPath event, req_Route = route,
                req_PathParams = pathParamsOf (gw_PathParameters event) route,
                req_QueryParams = queryParamsOf (gw_RawQueryString event) (gw_QueryStringParameters event),
                req_Headers = headersOf m (gw_Headers event) (gw_Cookies event),
                req_SourceIP = gw_SourceIP event, req_RequestID = gw_RequestID event,
                req_Body = bodyOf (gw_Body event) (gw_IsBase64Encoded event)\<rparr>))"

definition responseHeaders :: "params \<Rightarrow> (string, string) gomap option \<times> string list" where
  "responseHeaders headers =
     (if length headers = 0 then (None, [])
      else let (out, cookies) =
             fold (\<lambda>(name, values') (out, cookies).
                 if equal_fold name ''set-cookie'' then (out, cookies @ values') else (gm_put name (join '', '' values') out, cookies))
               headers ([], [])
           in (Some out, cookies))"

definition FromResponse :: "response option \<Rightarrow> apigw_response" where
  "FromResponse res =
     (case res of
        None \<Rightarrow> \<lparr>gp_StatusCode = 204, gp_Headers = None, gp_Body = '''', gp_IsBase64Encoded = False, gp_Cookies = []\<rparr>
      | Some r \<Rightarrow>
          (let (headers, cookies) = responseHeaders (res_Headers r);
               out = \<lparr>gp_StatusCode = res_Status r, gp_Headers = headers, gp_Body = '''', gp_IsBase64Encoded = False, gp_Cookies = cookies\<rparr>
           in if length (res_Body r) > 0
              then if utf8_Valid (res_Body r) then out\<lparr>gp_Body := string_of_bytes (res_Body r)\<rparr>
                   else out\<lparr>gp_Body := base64_EncodeToString (res_Body r), gp_IsBase64Encoded := True\<rparr>
              else out))"

subsection \<open>Direct invocations\<close>

definition ToCustomInvoke :: "aws_json \<Rightarrow> mapper \<Rightarrow> byte list \<Rightarrow> custom_invoke" where
  "ToCustomInvoke aj m payload =
     (if mp_handlerID m \<noteq> '''' then \<lparr>ci_HandlerName = mp_handlerID m, ci_Input = payload\<rparr>
      else case aj_custom aj payload of
        Inr (name, inner) \<Rightarrow>
          if name \<noteq> '''' then \<lparr>ci_HandlerName = name, ci_Input = (case inner of Some raw \<Rightarrow> raw | None \<Rightarrow> payload)\<rparr>
          else \<lparr>ci_HandlerName = '''', ci_Input = payload\<rparr>
      | Inl err \<Rightarrow> \<lparr>ci_HandlerName = '''', ci_Input = payload\<rparr>)"

definition json_Valid :: "aws_json \<Rightarrow> byte list \<Rightarrow> bool" where
  "json_Valid aj b = (case aj_parse aj b of Inl e \<Rightarrow> False | Inr t \<Rightarrow> True)"

definition FromCustomResult :: "aws_json \<Rightarrow> custom_result option \<Rightarrow> aws_out any" where
  "FromCustomResult aj res =
     (case res of
        None \<Rightarrow> AnyNil
      | Some r \<Rightarrow>
          if length (cu_Output r) = 0 then AnyNil
          else if json_Valid aj (cu_Output r) then AnyOf (OutJSON (cu_Output r))
          else AnyOf (OutText (string_of_bytes (cu_Output r))))"

subsection \<open>Schedules\<close>

definition arnResourceSegment :: "string \<Rightarrow> string \<Rightarrow> string" where
  "arnResourceSegment arn prefix =
     (let parts = split_n 6 (CHR '':'') arn
      in if length parts < 6 then ''''
         else let resource = parts ! 5
              in case (if prefix \<noteq> '''' then cut_prefix resource prefix else Some resource) of
                   None \<Rightarrow> ''''
                 | Some resource \<Rightarrow> (case str_cut ''/'' resource of Some (name, _) \<Rightarrow> name | None \<Rightarrow> resource))"

text \<open>The source a handler tag names: shared by schedules and batches.\<close>

definition tag_source :: "string \<Rightarrow> string option" where
  "tag_source tag =
     (case cut_prefix tag ''source::'' of
        None \<Rightarrow> None
      | Some rest \<Rightarrow> map_option fst (str_cut ''::'' rest))"

definition scheduleIDOf :: "string \<Rightarrow> string list \<Rightarrow> string" where
  "scheduleIDOf tag resources =
     (case tag_source tag of
        Some sourceID \<Rightarrow> sourceID
      | None \<Rightarrow> if length resources > 0 then arnResourceSegment (resources ! 0) ''rule/'' else '''')"

definition ToScheduleTrigger :: "aws_json \<Rightarrow> byte list \<Rightarrow> string \<Rightarrow> gerr + schedule_trigger" where
  "ToScheduleTrigger aj payload tag =
     (case decode (aj_cloudwatch aj) payload ''EventBridge'' of
        Inl err \<Rightarrow> Inl err
      | Inr event \<Rightarrow>
          Inr \<lparr>st_ScheduleID = scheduleIDOf tag (slice (cw_Resources event)), st_MessageID = cw_ID event, st_Schedule = '''',
               st_Input = cw_Detail event,
               st_Vendor = bytes_of (tree_text (TObj
                 [(''source'', TStr (cw_Source event)), (''detailType'', TStr (cw_DetailType event)),
                  (''account'', TStr (cw_AccountID event)), (''region'', TStr (cw_Region event)),
                  (''resources'', case cw_Resources event of None \<Rightarrow> TNull | Some rs \<Rightarrow> TArr (map TStr rs))]))\<rparr>)"

subsection \<open>WebSocket messages\<close>

definition parseClientRequest :: "aws_json \<Rightarrow> string \<Rightarrow> (bool \<times> string) option" where
  "parseClientRequest aj body =
     (if body = '''' then None
      else case unmarshal aj (\<lambda>t.
          case dec_object ''clientRequest'' t of Inl e \<Rightarrow> Inl e | Inr kvs \<Rightarrow>
          (case dec_bool ''ack'' (member ''ack'' kvs) of Inl e \<Rightarrow> Inl e | Inr a \<Rightarrow>
           (case dec_string ''messageId'' (member ''messageId'' kvs) of Inl e \<Rightarrow> Inl e | Inr i \<Rightarrow> Inr (a, i)))) (bytes_of body) of
        Inl err \<Rightarrow> None
      | Inr req \<Rightarrow> Some req)"

definition clientMessageID :: "aws_json \<Rightarrow> string \<Rightarrow> string" where
  "clientMessageID aj body = (case parseClientRequest aj body of None \<Rightarrow> '''' | Some (ack, messageID) \<Rightarrow> messageID)"

definition clientAckRequest :: "aws_json \<Rightarrow> string \<Rightarrow> string option" where
  "clientAckRequest aj body =
     (case parseClientRequest aj body of
        None \<Rightarrow> None
      | Some (ack, messageID) \<Rightarrow> if \<not> ack \<or> messageID = '''' then None else Some messageID)"

definition composeClientAck :: "string \<Rightarrow> int \<Rightarrow> byte list" where
  "composeClientAck messageID epochSeconds = bytes_of (tree_text (TObj
     [(''event'', TStr ''ack''), (''data'', TObj [(''messageId'', TStr messageID), (''timestamp'', TStr (itoa epochSeconds))])]))"

fun firstNonEmpty :: "string list \<Rightarrow> string" where
  "firstNonEmpty [] = ''''"
| "firstNonEmpty (v # vs) = (if v \<noteq> '''' then v else firstNonEmpty vs)"

definition ToWebSocketMessage :: "aws_json \<Rightarrow> byte list \<Rightarrow> gerr + websocket_message" where
  "ToWebSocketMessage aj payload =
     (case decode (aj_websocket aj) payload ''API Gateway WebSocket'' of
        Inl err \<Rightarrow> Inl err
      | Inr event \<Rightarrow>
          Inr \<lparr>wm_Route = gs_RouteKey event, wm_ConnectionID = gs_ConnectionID event, wm_SourceIP = gs_SourceIP event,
               wm_RequestID = gs_RequestID event, wm_Message = bytes_of (gs_Body event), wm_IsBinary = False,
               wm_MessageID = firstNonEmpty [clientMessageID aj (gs_Body event), gs_RequestID event]\<rparr>)"

definition ManagementEndpoint :: "aws_json \<Rightarrow> byte list \<Rightarrow> gerr + string" where
  "ManagementEndpoint aj payload =
     (case decode (aj_websocket aj) payload ''API Gateway WebSocket'' of
        Inl err \<Rightarrow> Inl err
      | Inr event \<Rightarrow> Inr (''https://'' @ gs_DomainName event @ ''/'' @ gs_Stage event))"

subsection \<open>What crosses the platform\<close>

lemma FromResponse_Some:
  "gp_StatusCode (FromResponse (Some r)) = res_Status r"
  "(gp_Headers (FromResponse (Some r)), gp_Cookies (FromResponse (Some r))) = responseHeaders (res_Headers r)"
  "gp_Body (FromResponse (Some r)) = (if utf8_Valid (res_Body r) then string_of_bytes (res_Body r) else base64_EncodeToString (res_Body r))"
  "gp_IsBase64Encoded (FromResponse (Some r)) \<longleftrightarrow> \<not> utf8_Valid (res_Body r)"
  by (auto simp: FromResponse_def Let_def utf8_Valid_def string_of_bytes_def split: prod.splits)

lemma string_of_bytes_Nil [simp]: "string_of_bytes bs = [] \<longleftrightarrow> bs = []"
  by (simp add: string_of_bytes_def)

lemma FromResponse_body:
  "bodyOf (gp_Body (FromResponse (Some r))) (gp_IsBase64Encoded (FromResponse (Some r))) = res_Body r"
  by (auto simp: bodyOf_def FromResponse_Some utf8_Valid_def)

lemma responseHeaders_fold:
  assumes "gm_wf (hs @ headers)" and "\<forall>n. gm_get out n \<noteq> None \<longrightarrow> n \<in> set (gm_keys hs)"
  shows "case fold (\<lambda>(name, values') (out, cookies).
             if equal_fold name ''set-cookie'' then (out, cookies @ values') else (gm_put name (join '', '' values') out, cookies))
           headers (out, cookies) of (out', cookies') \<Rightarrow>
     cookies' = cookies @ concat (map snd (filter (\<lambda>(n, v). equal_fold n ''set-cookie'') headers))
     \<and> (\<forall>n. \<not> equal_fold n ''set-cookie'' \<longrightarrow> gm_get out' n =
          (if gm_get headers n = None then gm_get out n else map_option (join '', '') (gm_get headers n)))
     \<and> (\<forall>n. equal_fold n ''set-cookie'' \<longrightarrow> gm_get out' n = gm_get out n)"
  using assms
proof (induction headers arbitrary: hs out cookies)
  case (Cons h headers)
  obtain name v where h: "h = (name, v)" by (cases h)
  have wf: "gm_wf ((hs @ [h]) @ headers)" using Cons.prems(1) by simp
  have fresh: "gm_get headers name = None" using Cons.prems(1) h
    by (auto simp: gm_wf_def map_of_eq_None_iff)
  show ?case
  proof (cases "equal_fold name ''set-cookie''")
    case True
    have "\<forall>n. gm_get out n \<noteq> None \<longrightarrow> n \<in> set (gm_keys (hs @ [h]))" using Cons.prems(2) by auto
    from Cons.IH [OF wf this, of "cookies @ v"] True h show ?thesis by (auto split: prod.splits)
  next
    case False
    have "\<forall>n. gm_get (gm_put name (join '', '' v) out) n \<noteq> None \<longrightarrow> n \<in> set (gm_keys (hs @ [h]))"
      using Cons.prems(2) h by auto
    from Cons.IH [OF wf this, of cookies] False h fresh show ?thesis by (auto split: prod.splits)
  qed
qed simp

lemma responseHeaders_carries:
  assumes "gm_wf headers" and "responseHeaders headers = (out, cookies)"
  shows "cookies = concat (map snd (filter (\<lambda>(n, v). equal_fold n ''set-cookie'') headers))"
    and "\<not> equal_fold n ''set-cookie'' \<Longrightarrow> gm_get (slice out) n = map_option (join '', '') (gm_get headers n)"
    and "equal_fold n ''set-cookie'' \<Longrightarrow> gm_get (slice out) n = None"
  using responseHeaders_fold [of "[]" headers "[]" "[]"] assms
  by (cases "gm_get headers n"; fastforce simp: responseHeaders_def slice_def split: if_splits prod.splits)+

text \<open>C21. What a handler answers is what the client receives through API Gateway: the status, the bytes of the
  body whether or not they are text (they are declared as base64 exactly when they are not valid UTF-8, and
  reading the answer back gives them), every cookie as an entry of its own and in order, and every other header
  with its values joined, none of them under the name of a cookie.\<close>

theorem FromResponse_carries:
  assumes "gm_wf (res_Headers r)"
  shows "let out = FromResponse (Some r) in
     gp_StatusCode out = res_Status r
     \<and> bodyOf (gp_Body out) (gp_IsBase64Encoded out) = res_Body r
     \<and> (gp_IsBase64Encoded out \<longleftrightarrow> \<not> utf8_Valid (res_Body r))
     \<and> gp_Cookies out = concat (map snd (filter (\<lambda>(n, v). equal_fold n ''set-cookie'') (res_Headers r)))
     \<and> gm_get (slice (gp_Headers out)) name =
         (if equal_fold name ''set-cookie'' then None else map_option (join '', '') (gm_get (res_Headers r) name))"
  using responseHeaders_carries(1) [OF assms FromResponse_Some(2) [symmetric]]
    responseHeaders_carries(2,3) [OF assms FromResponse_Some(2) [symmetric], of name] FromResponse_body [of r]
  by (simp add: FromResponse_Some Let_def)

theorem FromResponse_carries_witness:
  "let r = \<lparr>res_Status = 200, res_Headers = [(''Set-Cookie'', [''a=1'', ''b=2'']), (''Vary'', [''x'', ''y''])], res_Body = [0xFF, 0x41]\<rparr>;
       out = FromResponse (Some r)
   in gp_Cookies out = [''a=1'', ''b=2''] \<and> gm_get (slice (gp_Headers out)) ''Vary'' = Some ''x, y''
      \<and> gp_IsBase64Encoded out \<and> bodyOf (gp_Body out) (gp_IsBase64Encoded out) = [0xFF, 0x41]"
proof -
  let ?r = "\<lparr>res_Status = 200, res_Headers = [(''Set-Cookie'', [''a=1'', ''b=2'']), (''Vary'', [''x'', ''y''])], res_Body = [0xFF, 0x41]\<rparr>"
  have wf: "gm_wf (res_Headers ?r)" by (simp add: gm_wf_def)
  have "\<not> utf8_Valid (res_Body ?r)" by (simp add: utf8_Valid_def utf8_lead_def in_range_def)
  moreover have "equal_fold ''Set-Cookie'' ''set-cookie''" "\<not> equal_fold ''Vary'' ''set-cookie''" by code_simp+
  moreover have "gm_get (res_Headers ?r) ''Vary'' = Some [''x'', ''y'']" by simp
  ultimately show ?thesis
    using FromResponse_carries [OF wf, of "''Vary''", unfolded Let_def] unfolding Let_def by auto
qed

end
