(* ===== verification/Aws_Consumer.thy ===== *)
theory Aws_Consumer
  imports Aws_Mapper
begin

text \<open>
  Batches: SQS messages, the bucket and data store events they may carry, and the partial-failure answer
  (\<^verbatim>\<open>src/serverless/aws/consumer.go\<close>, \<^verbatim>\<open>dynamo.go\<close>).
\<close>

subsection \<open>DynamoDB attribute values\<close>

datatype attribute_value = AttributeValue
  (av_S: "string option") (av_N: "string option") (av_B: "string option") (av_Bool: "bool option") (av_Null: "bool option")
  (av_M: "(string \<times> attribute_value) list option") (av_L: "attribute_value list option")
  (av_SS: "string list option") (av_NS: "string list option") (av_BS: "string list option")

text \<open>\<^verbatim>\<open>plainValue\<close> and \<^verbatim>\<open>plainItem\<close>: the first tag that is set decides.\<close>

fun plainValue :: "attribute_value \<Rightarrow> jtree" where
  "plainValue (AttributeValue s n b bl nl m l ss ns bs) =
     (case s of Some x \<Rightarrow> TStr x | None \<Rightarrow>
      (case n of Some x \<Rightarrow> TNum x | None \<Rightarrow>
       (case bl of Some x \<Rightarrow> TBool x | None \<Rightarrow>
        (case nl of Some x \<Rightarrow> TNull | None \<Rightarrow>
         (case b of Some x \<Rightarrow> TStr x | None \<Rightarrow>
          (case m of Some item \<Rightarrow> TObj (map (\<lambda>(name, v). (name, plainValue v)) item) | None \<Rightarrow>
           (case l of Some xs \<Rightarrow> TArr (map plainValue xs) | None \<Rightarrow>
            (case ss of Some xs \<Rightarrow> TArr (map TStr xs) | None \<Rightarrow>
             (case ns of Some xs \<Rightarrow> TArr (map TNum xs) | None \<Rightarrow>
              (case bs of Some xs \<Rightarrow> TArr (map TStr xs) | None \<Rightarrow> TNull))))))))))"

definition plainItem :: "(string \<times> attribute_value) list option \<Rightarrow> jtree option" where
  "plainItem item = map_option (\<lambda>kvs. TObj (map (\<lambda>(name, v). (name, plainValue v)) kvs)) item"

text \<open>Reading a tagged value. A Go map takes each name once, the last value given for it.\<close>

lemma size_value: "(k, v) \<in> set kvs \<Longrightarrow> size v < Suc (size_list (size_prod (\<lambda>_. 0) size) kvs)"
  by (induction kvs) auto

lemma member_size: "member name kvs \<noteq> TNull \<Longrightarrow> size (member name kvs) < Suc (size_list (size_prod (\<lambda>_. 0) size) kvs)"
proof -
  assume "member name kvs \<noteq> TNull"
  then obtain k where "(k, member name kvs) \<in> set kvs"
    by (auto simp: member_def find_Some_iff split: option.splits) (metis length_rev nth_mem set_rev)
  then show ?thesis by (rule size_value)
qed

lemma size_elem: "x \<in> set xs \<Longrightarrow> size x < Suc (size_list size xs)"
  by (induction xs) auto

definition dec_map :: "string \<Rightarrow> (jtree \<Rightarrow> gerr + 'a) \<Rightarrow> jtree \<Rightarrow> gerr + (string \<times> 'a) list option" where
  "dec_map name dec t =
     (case t of
        TNull \<Rightarrow> Inr None
      | TObj kvs \<Rightarrow>
          (case sequence_sum (map (\<lambda>(k, v). case dec v of Inl e \<Rightarrow> Inl e | Inr x \<Rightarrow> Inr (k, x)) kvs) of
             Inl e \<Rightarrow> Inl e
           | Inr pairs \<Rightarrow> Inr (Some (fold (\<lambda>(k, x) m. gm_put k x m) pairs [])))
      | _ \<Rightarrow> Inl (mismatch name ''map''))"

lemma dec_map_cong [fundef_cong]:
  assumes "t = t'" and "name = name'" and "\<And>kvs k v. t' = TObj kvs \<Longrightarrow> (k, v) \<in> set kvs \<Longrightarrow> dec v = dec' v"
  shows "dec_map name dec t = dec_map name' dec' t'"
proof (cases t')
  case (TObj kvs)
  then have eq: "map (\<lambda>(k, v). case dec v of Inl e \<Rightarrow> Inl e | Inr x \<Rightarrow> Inr (k, x)) kvs
    = map (\<lambda>(k, v). case dec' v of Inl e \<Rightarrow> Inl e | Inr x \<Rightarrow> Inr (k, x)) kvs"
    using assms(3) by (auto simp: case_prod_beta)
  from assms(1,2) TObj show ?thesis by (simp only: dec_map_def jtree.case eq)
qed (use assms in \<open>simp_all add: dec_map_def\<close>)

lemma dec_slice_cong [fundef_cong]:
  assumes "t = t'" and "name = name'" and "\<And>xs x. t' = TArr xs \<Longrightarrow> x \<in> set xs \<Longrightarrow> dec x = dec' x"
  shows "dec_slice name dec t = dec_slice name' dec' t'"
proof (cases t')
  case (TArr xs)
  then have eq: "map dec xs = map dec' xs" using assms(3) by auto
  from assms(1,2) TArr show ?thesis by (simp only: dec_slice_def jtree.case eq)
qed (use assms in \<open>simp_all add: dec_slice_def\<close>)

function dec_attribute :: "jtree \<Rightarrow> gerr + attribute_value" where
  "dec_attribute t =
     (case dec_object ''attributeValue'' t of Inl e \<Rightarrow> Inl e | Inr kvs \<Rightarrow>
      (case dec_ptr (dec_string ''S'') (member ''S'' kvs) of Inl e \<Rightarrow> Inl e | Inr s \<Rightarrow>
      (case dec_ptr (dec_number ''N'') (member ''N'' kvs) of Inl e \<Rightarrow> Inl e | Inr n \<Rightarrow>
      (case dec_ptr (dec_string ''B'') (member ''B'' kvs) of Inl e \<Rightarrow> Inl e | Inr b \<Rightarrow>
      (case dec_ptr (dec_bool ''BOOL'') (member ''BOOL'' kvs) of Inl e \<Rightarrow> Inl e | Inr bl \<Rightarrow>
      (case dec_ptr (dec_bool ''NULL'') (member ''NULL'' kvs) of Inl e \<Rightarrow> Inl e | Inr nl \<Rightarrow>
      (case dec_map ''M'' dec_attribute (member ''M'' kvs) of Inl e \<Rightarrow> Inl e | Inr m \<Rightarrow>
      (case dec_slice ''L'' dec_attribute (member ''L'' kvs) of Inl e \<Rightarrow> Inl e | Inr l \<Rightarrow>
      (case dec_slice ''SS'' (dec_string ''SS'') (member ''SS'' kvs) of Inl e \<Rightarrow> Inl e | Inr ss \<Rightarrow>
      (case dec_slice ''NS'' (dec_number ''NS'') (member ''NS'' kvs) of Inl e \<Rightarrow> Inl e | Inr ns \<Rightarrow>
      (case dec_slice ''BS'' (dec_string ''BS'') (member ''BS'' kvs) of Inl e \<Rightarrow> Inl e | Inr bs \<Rightarrow>
       Inr (AttributeValue s n b bl nl m l ss ns bs))))))))))))"
  by pat_completeness auto
termination
proof (relation "measure size", simp)
  show "(v, t) \<in> measure size"
    if "dec_object ''attributeValue'' t = Inr kvs" "member ''M'' kvs = TObj items" "(k, v) \<in> set items"
    for t kvs items k v
  proof -
    from that(1,2) have "t = TObj kvs" by (auto simp: dec_object_def member_def split: jtree.splits)
    with member_size [of "''M''" kvs] size_value [OF that(3)] that(2) show ?thesis by simp
  qed
  show "(x, t) \<in> measure size"
    if "dec_object ''attributeValue'' t = Inr kvs" "member ''L'' kvs = TArr xs" "x \<in> set xs" for t kvs xs x
  proof -
    from that(1,2) have "t = TObj kvs" by (auto simp: dec_object_def member_def split: jtree.splits)
    with member_size [of "''L''" kvs] size_elem [OF that(3)] that(2) show ?thesis by simp
  qed
qed

declare dec_attribute.simps [simp del]

subsection \<open>Stream records\<close>

record stream_images =
  si_Keys :: "(string \<times> attribute_value) list option"
  si_NewImage :: "(string \<times> attribute_value) list option"
  si_OldImage :: "(string \<times> attribute_value) list option"

record stream_record =
  sr_EventSource :: string
  sr_EventName :: string
  sr_EventSourceARN :: string
  sr_DynamoDB :: "stream_images option"

definition dec_images :: "jtree \<Rightarrow> gerr + stream_images" where
  "dec_images t =
     (case dec_object ''dynamodb'' t of Inl e \<Rightarrow> Inl e | Inr kvs \<Rightarrow>
      (case dec_map ''Keys'' dec_attribute (member ''Keys'' kvs) of Inl e \<Rightarrow> Inl e | Inr ks \<Rightarrow>
       (case dec_map ''NewImage'' dec_attribute (member ''NewImage'' kvs) of Inl e \<Rightarrow> Inl e | Inr ni \<Rightarrow>
        (case dec_map ''OldImage'' dec_attribute (member ''OldImage'' kvs) of Inl e \<Rightarrow> Inl e | Inr oi \<Rightarrow>
         Inr \<lparr>si_Keys = ks, si_NewImage = ni, si_OldImage = oi\<rparr>))))"

definition dec_stream_record :: "jtree \<Rightarrow> gerr + stream_record" where
  "dec_stream_record t =
     (case dec_object ''streamRecord'' t of Inl e \<Rightarrow> Inl e | Inr kvs \<Rightarrow>
      (case dec_string ''eventSource'' (member ''eventSource'' kvs) of Inl e \<Rightarrow> Inl e | Inr src \<Rightarrow>
       (case dec_string ''eventName'' (member ''eventName'' kvs) of Inl e \<Rightarrow> Inl e | Inr nm \<Rightarrow>
        (case dec_string ''eventSourceARN'' (member ''eventSourceARN'' kvs) of Inl e \<Rightarrow> Inl e | Inr arn \<Rightarrow>
         (case dec_ptr dec_images (member ''dynamodb'' kvs) of Inl e \<Rightarrow> Inl e | Inr db \<Rightarrow>
          Inr \<lparr>sr_EventSource = src, sr_EventName = nm, sr_EventSourceARN = arn, sr_DynamoDB = db\<rparr>)))))"

definition put_item :: "string \<Rightarrow> jtree option \<Rightarrow> (string, jtree) gomap \<Rightarrow> (string, jtree) gomap" where
  "put_item name item out = (case item of None \<Rightarrow> out | Some t \<Rightarrow> gm_put name t out)"

text \<open>Every value put together here marshals, so the error of \<^verbatim>\<open>body\<close> does not arise.\<close>

definition stream_body :: "stream_record \<Rightarrow> byte list" where
  "stream_body r =
     (let out = [(''keys'', TObj [])]
      in bytes_of (tree_text (TObj
           (case sr_DynamoDB r of
              None \<Rightarrow> out
            | Some db \<Rightarrow> put_item ''oldItem'' (plainItem (si_OldImage db)) (put_item ''newItem'' (plainItem (si_NewImage db))
                (put_item ''keys'' (plainItem (si_Keys db)) out))))))"

definition tableName :: "stream_record \<Rightarrow> string" where
  "tableName r = arnResourceSegment (sr_EventSourceARN r) ''table/''"

definition datastoreEventType :: "string \<Rightarrow> string" where
  "datastoreEventType eventName =
     (if eventName = ''INSERT'' then ''inserted'' else if eventName = ''MODIFY'' then ''modified''
      else if eventName = ''REMOVE'' then ''removed'' else '''')"

definition dynamoDBStreamRecord :: "aws_json \<Rightarrow> string \<Rightarrow> stream_record option" where
  "dynamoDBStreamRecord aj body =
     (case unmarshal aj dec_stream_record (bytes_of body) of
        Inl err \<Rightarrow> None
      | Inr record \<Rightarrow> if sr_EventSource record \<noteq> ddbEventSource then None else Some record)"

subsection \<open>Bucket notifications\<close>

record s3_record =
  s3_EventSource :: string
  s3_EventName :: string
  s3_BucketName :: string
  s3_Key :: string
  s3_Size :: "int option"
  s3_ETag :: string

definition dec_int64 :: "string \<Rightarrow> jtree \<Rightarrow> gerr + int" where
  "dec_int64 name t =
     (case t of
        TNum s \<Rightarrow> (case ParseInt s 64 of Inr n \<Rightarrow> Inr n | Inl e \<Rightarrow> Inl (mismatch name ''int64''))
      | TNull \<Rightarrow> Inr 0
      | _ \<Rightarrow> Inl (mismatch name ''int64''))"

definition dec_s3_record :: "jtree \<Rightarrow> gerr + s3_record" where
  "dec_s3_record t =
     (case dec_object ''s3Record'' t of Inl e \<Rightarrow> Inl e | Inr kvs \<Rightarrow>
      (case dec_string ''eventSource'' (member ''eventSource'' kvs) of Inl e \<Rightarrow> Inl e | Inr src \<Rightarrow>
      (case dec_string ''eventName'' (member ''eventName'' kvs) of Inl e \<Rightarrow> Inl e | Inr nm \<Rightarrow>
      (case dec_object ''s3'' (member ''s3'' kvs) of Inl e \<Rightarrow> Inl e | Inr s3 \<Rightarrow>
      (case dec_object ''bucket'' (member ''bucket'' s3) of Inl e \<Rightarrow> Inl e | Inr bucket \<Rightarrow>
      (case dec_string ''name'' (member ''name'' bucket) of Inl e \<Rightarrow> Inl e | Inr bname \<Rightarrow>
      (case dec_object ''object'' (member ''object'' s3) of Inl e \<Rightarrow> Inl e | Inr object \<Rightarrow>
      (case dec_string ''key'' (member ''key'' object) of Inl e \<Rightarrow> Inl e | Inr key \<Rightarrow>
      (case dec_ptr (dec_int64 ''size'') (member ''size'' object) of Inl e \<Rightarrow> Inl e | Inr sz \<Rightarrow>
      (case dec_string ''eTag'' (member ''eTag'' object) of Inl e \<Rightarrow> Inl e | Inr etag \<Rightarrow>
       Inr \<lparr>s3_EventSource = src, s3_EventName = nm, s3_BucketName = bname, s3_Key = key, s3_Size = sz, s3_ETag = etag\<rparr>))))))))))"

definition s3_body :: "s3_record \<Rightarrow> byte list" where
  "s3_body r =
     (let out = [(''key'', TStr (s3_Key r))];
          out = (case s3_Size r of None \<Rightarrow> out | Some n \<Rightarrow> gm_put ''size'' (TNum (itoa n)) out);
          out = (if s3_ETag r \<noteq> '''' then gm_put ''eTag'' (TStr (s3_ETag r)) out else out)
      in bytes_of (tree_text (TObj out)))"

definition s3Notification :: "aws_json \<Rightarrow> string \<Rightarrow> s3_record option" where
  "s3Notification aj body =
     (case unmarshal aj (\<lambda>t. case dec_object ''s3Envelope'' t of Inl e \<Rightarrow> Inl e
         | Inr kvs \<Rightarrow> dec_slice ''Records'' dec_s3_record (member ''Records'' kvs)) (bytes_of body) of
        Inl err \<Rightarrow> None
      | Inr records \<Rightarrow>
          if length (slice records) = 0 \<or> s3_EventSource (slice records ! 0) \<noteq> s3EventSource then None
          else Some (slice records ! 0))"

definition bucketEventType :: "string \<Rightarrow> string" where
  "bucketEventType eventName =
     (let name = trim_prefix eventName ''s3:''
      in if has_prefix name ''ObjectCreated:'' \<or> has_prefix name ''ObjectRestore:'' then ''created''
         else if has_prefix name ''ObjectRemoved:'' then ''deleted''
         else if has_prefix name ''ObjectTagging:'' \<or> has_prefix name ''ObjectAcl:'' then ''metadataUpdated''
         else '''')"

subsection \<open>Batches\<close>

record source_origin =
  so_sourceType :: string
  so_name :: string

record source_event =
  se_body :: "byte list"
  se_eventType :: string
  se_origin :: source_origin

definition unwrapSourceEvent :: "aws_json \<Rightarrow> string \<Rightarrow> source_event option" where
  "unwrapSourceEvent aj body =
     (if \<not> contains body s3EventSource \<and> \<not> contains body ddbEventSource then None
      else case s3Notification aj body of
        Some n \<Rightarrow> Some \<lparr>se_body = s3_body n, se_eventType = bucketEventType (s3_EventName n),
          se_origin = \<lparr>so_sourceType = ''bucket'', so_name = s3_BucketName n\<rparr>\<rparr>
      | None \<Rightarrow>
          (case dynamoDBStreamRecord aj body of
             Some r \<Rightarrow> Some \<lparr>se_body = stream_body r, se_eventType = datastoreEventType (sr_EventName r),
               se_origin = \<lparr>so_sourceType = ''datastore'', so_name = tableName r\<rparr>\<rparr>
           | None \<Rightarrow> None))"

definition sqsVendor :: "sqs_message \<Rightarrow> byte list" where
  "sqsVendor r = bytes_of (tree_text (TObj
     [(''receiptHandle'', TStr (sq_ReceiptHandle r)),
      (''attributes'', case sq_Attributes r of None \<Rightarrow> TNull | Some m \<Rightarrow> TObj (map (\<lambda>(k, v). (k, TStr v)) m)),
      (''md5OfBody'', TStr (sq_Md5OfBody r)), (''eventSource'', TStr (sq_EventSource r)), (''awsRegion'', TStr (sq_AWSRegion r))]))"

definition marshalOrNil :: "jtree option \<Rightarrow> byte list" where
  "marshalOrNil v = (case v of None \<Rightarrow> [] | Some t \<Rightarrow> bytes_of (tree_text t))"

definition consumerRecord :: "aws_json \<Rightarrow> sqs_message \<Rightarrow> consumer_record \<times> source_origin" where
  "consumerRecord aj record =
     (let out = \<lparr>cr_MessageID = sq_MessageId record, cr_Body = bytes_of (sq_Body record), cr_Source = sq_EventSourceARN record,
            cr_EventType = '''', cr_Attributes = marshalOrNil (sq_MessageAttributes record), cr_Vendor = sqsVendor record\<rparr>
      in case unwrapSourceEvent aj (sq_Body record) of
           Some u \<Rightarrow> (out\<lparr>cr_Body := se_body u, cr_EventType := se_eventType u\<rparr>, se_origin u)
         | None \<Rightarrow> (out, \<lparr>so_sourceType = ''queue'', so_name = ''''\<rparr>))"

definition sourceIDOf :: "string \<Rightarrow> source_origin \<Rightarrow> sqs_message list \<Rightarrow> string" where
  "sourceIDOf tag origin records =
     (case tag_source tag of
        Some sourceID \<Rightarrow> sourceID
      | None \<Rightarrow>
          if so_name origin \<noteq> '''' then so_name origin
          else if length records > 0 then arnResourceSegment (sq_EventSourceARN (records ! 0)) ''''
          else '''')"

definition batchVendor :: "byte list" where
  "batchVendor = bytes_of (''{'' @ [CHR 0x22] @ ''eventSource'' @ [CHR 0x22] @ '':'' @ [CHR 0x22] @ sqsEventSource @ [CHR 0x22] @ ''}'')"

definition ToConsumerBatch :: "aws_json \<Rightarrow> byte list \<Rightarrow> string \<Rightarrow> gerr + consumer_batch" where
  "ToConsumerBatch aj payload tag =
     (case decode (aj_sqs aj) payload ''SQS'' of
        Inl err \<Rightarrow> Inl err
      | Inr messages \<Rightarrow>
          (let mapped = map (consumerRecord aj) messages;
               origin = (case mapped of [] \<Rightarrow> \<lparr>so_sourceType = '''', so_name = ''''\<rparr> | (_, first) # _ \<Rightarrow> first)
           in Inr \<lparr>cb_Records = map fst mapped, cb_SourceID = sourceIDOf tag origin messages,
                cb_SourceType = so_sourceType origin, cb_Vendor = batchVendor\<rparr>))"

definition FromBatchResult :: "batch_result option \<Rightarrow> string list" where
  "FromBatchResult res = (case res of None \<Rightarrow> [] | Some r \<Rightarrow> map rf_MessageID (br_Failures r))"

subsection \<open>Items through the stream\<close>

text \<open>How DynamoDB writes a document: each value under the tag of its type, a number as its digits in a string.\<close>

fun tag_tree :: "jtree \<Rightarrow> jtree" where
  "tag_tree (TStr s) = TObj [(''S'', TStr s)]"
| "tag_tree (TNum t) = TObj [(''N'', TStr t)]"
| "tag_tree (TBool b) = TObj [(''BOOL'', TBool b)]"
| "tag_tree TNull = TObj [(''NULL'', TBool True)]"
| "tag_tree (TArr xs) = TObj [(''L'', TArr (map tag_tree xs))]"
| "tag_tree (TObj kvs) = TObj [(''M'', TObj (map (\<lambda>(k, v). (k, tag_tree v)) kvs))]"

fun document :: "jtree \<Rightarrow> bool" where
  "document (TNum t) = isValidNumber t"
| "document (TArr xs) = list_all document xs"
| "document (TObj kvs) = (gm_wf kvs \<and> list_all (\<lambda>(k, v). document v) kvs)"
| "document _ = True"

lemma gm_put_fresh: "k \<notin> set (gm_keys m) \<Longrightarrow> gm_put k x m = m @ [(k, x)]"
  by (induction m) auto

lemma fold_gm_put: "distinct (gm_keys (m @ pairs)) \<Longrightarrow> fold (\<lambda>(k, x) m. gm_put k x m) pairs m = m @ pairs"
proof (induction pairs arbitrary: m)
  case (Cons p pairs)
  obtain k x where p: "p = (k, x)" by (cases p)
  have "gm_put k x m = m @ [(k, x)]" using Cons.prems p by (intro gm_put_fresh) auto
  with Cons.IH [of "m @ [(k, x)]"] Cons.prems p show ?case by simp
qed simp

lemma sequence_sum_Inr: "(\<And>x. x \<in> set xs \<Longrightarrow> f x = Inr (g x)) \<Longrightarrow> sequence_sum (map f xs) = Inr (map g xs)"
  by (induction xs) auto

abbreviation attribute_tags :: "string list" where
  "attribute_tags \<equiv> [''S'', ''N'', ''B'', ''BOOL'', ''NULL'', ''M'', ''L'', ''SS'', ''NS'', ''BS'']"

lemma tags_apart: "list_all (\<lambda>k. list_all (\<lambda>n. equal_fold k n = (k = n)) attribute_tags) attribute_tags"
  by code_simp

lemma member_tag:
  assumes "k \<in> set attribute_tags" and "n \<in> set attribute_tags"
  shows "member n [(k, v)] = (if k = n then v else TNull)"
proof -
  have "equal_fold k n \<longleftrightarrow> k = n" using tags_apart assms unfolding list_all_iff by blast
  then show ?thesis by (simp add: member_def)
qed

lemma dec_absent [simp]: "dec_ptr dec TNull = Inr None" "dec_map n d TNull = Inr None" "dec_slice n d' TNull = Inr None"
  by (simp_all add: dec_ptr_def dec_map_def dec_slice_def)

lemma plain_tagged: "document v \<Longrightarrow> \<exists>a. dec_attribute (tag_tree v) = Inr a \<and> plainValue a = v"
proof (induction v)
  case (TArr xs)
  then have "\<forall>x. \<exists>a. x \<in> set xs \<longrightarrow> dec_attribute (tag_tree x) = Inr a \<and> plainValue a = x" by (auto simp: list_all_iff)
  then obtain g where g: "\<And>x. x \<in> set xs \<Longrightarrow> dec_attribute (tag_tree x) = Inr (g x) \<and> plainValue (g x) = x" by metis
  then have "sequence_sum (map dec_attribute (map tag_tree xs)) = Inr (map g xs)"
    using sequence_sum_Inr [of xs "\<lambda>x. dec_attribute (tag_tree x)" g] by (simp add: comp_def)
  moreover have "map plainValue (map g xs) = xs" using g by (simp add: map_idI)
  ultimately show ?case by (subst dec_attribute.simps) (simp add: dec_object_def member_tag dec_slice_def)
next
  case (TObj kvs)
  then have "\<forall>p. \<exists>a. p \<in> set kvs \<longrightarrow> dec_attribute (tag_tree (snd p)) = Inr a \<and> plainValue a = snd p"
    by (fastforce simp: list_all_iff)
  then obtain g where g: "\<And>p. p \<in> set kvs \<Longrightarrow> dec_attribute (tag_tree (snd p)) = Inr (g p) \<and> plainValue (g p) = snd p" by metis
  let ?pairs = "map (\<lambda>p. (fst p, g p)) kvs"
  have "sequence_sum (map (\<lambda>(k, v). case dec_attribute v of Inl e \<Rightarrow> Inl e | Inr x \<Rightarrow> Inr (k, x)) (map (\<lambda>(k, v). (k, tag_tree v)) kvs))
      = Inr ?pairs"
    using sequence_sum_Inr [of kvs "\<lambda>p. case dec_attribute (tag_tree (snd p)) of Inl e \<Rightarrow> Inl e | Inr x \<Rightarrow> Inr (fst p, x)" "\<lambda>p. (fst p, g p)"] g
    by (simp add: comp_def case_prod_beta cong del: sum.case_cong_weak)
  moreover have "fold (\<lambda>(k, x) m. gm_put k x m) ?pairs [] = ?pairs"
    using fold_gm_put [of "[]" ?pairs] TObj.prems by (simp add: gm_wf_def comp_def)
  moreover have "map (\<lambda>(name, v). (name, plainValue v)) ?pairs = kvs" using g by (simp add: map_idI comp_def)
  ultimately show ?case by (subst dec_attribute.simps) (simp add: dec_object_def member_tag dec_map_def del: map_map)
qed (subst dec_attribute.simps; simp add: dec_object_def member_tag dec_ptr_def dec_string_def dec_bool_def dec_number_def)+

lemma dec_map_tagged:
  assumes "document (TObj kvs)"
  shows "\<exists>item. dec_map name dec_attribute (TObj (map (\<lambda>(k, v). (k, tag_tree v)) kvs)) = Inr (Some item)
    \<and> plainItem (Some item) = Some (TObj kvs)"
proof -
  from plain_tagged [OF assms] obtain a where a: "dec_attribute (tag_tree (TObj kvs)) = Inr a" "plainValue a = TObj kvs" by blast
  let ?t = "TObj (map (\<lambda>(k, v). (k, tag_tree v)) kvs)"
  from a(1) obtain m where m: "dec_map ''M'' dec_attribute ?t = Inr m" and am: "a = AttributeValue None None None None None m None None None None"
    by (subst (asm) dec_attribute.simps) (auto simp: dec_object_def member_tag split: sum.splits)
  from m obtain item where "m = Some item" by (auto simp: dec_map_def split: sum.splits)
  with m am a(2) show ?thesis by (auto simp: plainItem_def dec_map_def)
qed

definition stream_tree :: "string \<Rightarrow> string \<Rightarrow> (string \<times> jtree) list \<Rightarrow> (string \<times> jtree) list \<Rightarrow> jtree" where
  "stream_tree name arn keys item =
     TObj [(''eventName'', TStr name), (''eventSource'', TStr ddbEventSource), (''eventSourceARN'', TStr arn),
       (''dynamodb'', TObj [(''Keys'', TObj (map (\<lambda>(k, v). (k, tag_tree v)) keys)),
                            (''NewImage'', TObj (map (\<lambda>(k, v). (k, tag_tree v)) item))])]"

abbreviation stream_names :: "string list" where
  "stream_names \<equiv> [''Records'', ''eventName'', ''eventSource'', ''eventSourceARN'', ''dynamodb'', ''Keys'', ''NewImage'', ''OldImage'']"

lemma stream_names_apart: "list_all (\<lambda>k. list_all (\<lambda>n. equal_fold k n = (k = n)) stream_names) stream_names"
  by code_simp

lemma equal_fold_stream: "k \<in> set stream_names \<Longrightarrow> n \<in> set stream_names \<Longrightarrow> equal_fold k n \<longleftrightarrow> k = n"
  using stream_names_apart unfolding list_all_iff by blast

lemma dec_stream_tree:
  assumes "document (TObj keys)" and "document (TObj item)"
  shows "\<exists>r. dec_stream_record (stream_tree name arn keys item) = Inr r \<and> sr_EventSource r = ddbEventSource
    \<and> sr_EventName r = name \<and> sr_EventSourceARN r = arn
    \<and> stream_body r = bytes_of (tree_text (TObj [(''keys'', TObj keys), (''newItem'', TObj item)]))"
proof -
  from dec_map_tagged [OF assms(1), of "''Keys''"] obtain ks where
    ks: "dec_map ''Keys'' dec_attribute (TObj (map (\<lambda>(k, v). (k, tag_tree v)) keys)) = Inr (Some ks)" "plainItem (Some ks) = Some (TObj keys)" by blast
  from dec_map_tagged [OF assms(2), of "''NewImage''"] obtain ni where
    ni: "dec_map ''NewImage'' dec_attribute (TObj (map (\<lambda>(k, v). (k, tag_tree v)) item)) = Inr (Some ni)" "plainItem (Some ni) = Some (TObj item)" by blast
  have none: "plainItem None = None" by (simp add: plainItem_def)
  show ?thesis
    by (simp add: dec_stream_record_def stream_tree_def dec_images_def dec_object_def member_def equal_fold_stream dec_string_def dec_ptr_def
        ks ni none stream_body_def put_item_def)
qed

subsection \<open>Properties\<close>


definition queue_message :: "string \<Rightarrow> string \<Rightarrow> sqs_message" where
  "queue_message i body = \<lparr>sq_MessageId = i, sq_ReceiptHandle = '''', sq_Body = body, sq_Md5OfBody = '''', sq_Attributes = None,
     sq_MessageAttributes = None, sq_EventSourceARN = '''', sq_EventSource = sqsEventSource, sq_AWSRegion = ''''\<rparr>"


text \<open>Of a notification with several records only the first reaches the handler: the others are lost with the message,
  which is deleted when the handler is done with the first.\<close>

theorem s3Notification_first_only:
  assumes "aj_parse aj (bytes_of body) = Inr (TObj [(''Records'', TArr (t # ts))])"
    and "sequence_sum (map dec_s3_record (t # ts)) = Inr (r # rs)" and "s3_EventSource r = s3EventSource"
    and "contains body s3EventSource"
  shows "unwrapSourceEvent aj body = Some \<lparr>se_body = s3_body r, se_eventType = bucketEventType (s3_EventName r),
    se_origin = \<lparr>so_sourceType = ''bucket'', so_name = s3_BucketName r\<rparr>\<rparr>"
proof -
  have "member ''Records'' [(''Records'', TArr (t # ts))] = TArr (t # ts)"
    by (simp add: member_def equal_fold_stream)
  then have "s3Notification aj body = Some r"
    using assms(2,3) by (simp add: s3Notification_def unmarshal_def assms(1) dec_object_def dec_slice_def slice_def split: sum.splits)
  then show ?thesis using assms(4) by (simp add: unwrapSourceEvent_def)
qed

end
