(* ===== verification/Ipc_Frames.thy ===== *)
theory Ipc_Frames
  imports Dispatch Binary_Frame
begin

text \<open>
  The frames of the runtime's IPC protocol (\<^verbatim>\<open>src/internal/ipc/frames.go\<close>), their conversion from and
  to the wire contract (\<^verbatim>\<open>convert.go\<close>, over the message types of \<^verbatim>\<open>src/proto\<close>), where the runtime is
  reached (\<^verbatim>\<open>dial.go\<close>), and the messages a handler sends to WebSocket clients
  (\<^verbatim>\<open>src/handler/websocket_sender.go\<close>).

  Unsigned and signed integers of the contract keep their width; a time is its milliseconds. A wire
  message holds no nil submessage: a decoder allocates them.
\<close>

unbundle bit_operations_syntax

subsection \<open>Messages to WebSocket clients\<close>

record outbound_message =
  om_ConnectionID :: string
  om_Message :: "byte list"
  om_InformClientsOnLoss :: "string list"
  om_MessageID :: string
  om_Caller :: string
  om_WaitForAck :: bool

record outbound_binary_message =
  ob_ConnectionID :: string
  ob_Route :: string
  ob_FrameMessageID :: string
  ob_RequireAck :: bool
  ob_Message :: "byte list"
  ob_InformClientsOnLoss :: "string list"
  ob_MessageID :: string
  ob_Caller :: string
  ob_WaitForAck :: bool

record send_failure =
  sf_Index :: int
  sf_ConnectionID :: string
  sf_Error :: string

record send_error =
  se_Failures :: "send_failure list"

definition send_error_text :: "send_error \<Rightarrow> string" where
  "send_error_text e =
     (case se_Failures e of
        [f] \<Rightarrow> ''celerity: websocket send failed for 1 message: '' @ sf_Error f
      | fs \<Rightarrow> ''celerity: websocket send failed for '' @ itoa (int (length fs)) @ '' messages'')"

definition se_Failed :: "send_error \<Rightarrow> int \<Rightarrow> bool" where
  "se_Failed e index \<longleftrightarrow> list_ex (\<lambda>f. sf_Index f = index) (se_Failures e)"

subsection \<open>Frames\<close>

record protocol_version =
  pv_Major :: "32 word"
  pv_Minor :: "32 word"

definition ProtocolMajor :: "32 word" where
  "ProtocolMajor = 1"

definition ProtocolMinor :: "32 word" where
  "ProtocolMinor = 0"

definition version_text :: "protocol_version \<Rightarrow> string" where
  "version_text v = itoa (uint (pv_Major v)) @ ''.'' @ itoa (uint (pv_Minor v))"

record handler_limit =
  hl_HandlerTag :: string
  hl_MaxConcurrent :: "32 word"

record ready =
  rd_HandlerTags :: "string list"
  rd_InitialCredit :: "32 word"
  rd_SDKVersion :: string
  rd_Limits :: "handler_limit list"
  rd_Protocol :: protocol_version

datatype refused_reason = RefusedUnspecified | RefusedTagMismatch | RefusedProtocolVersion | RefusedOther int

record ready_ack =
  ra_Accepted :: bool
  ra_UnknownTags :: "string list"
  ra_UnhandledTags :: "string list"
  ra_Reason :: refused_reason

record frame_result =
  fr_Outcome :: "result option"
  fr_CreditGrant :: "32 word"

record outbound =
  out_Message :: outbound_message
  out_IsBinary :: bool

record ws_send =
  ws_CorrelationID :: string
  ws_Messages :: "outbound list"

record ws_send_ack =
  wa_CorrelationID :: string
  wa_Success :: bool
  wa_Failures :: "send_failure list"

record handler_config =
  hc_HandlerName :: string
  hc_HandlerTag :: string
  hc_Timeout :: "64 word"
  hc_TracingEnabled :: bool
  hc_PublishedName :: string

record runtime_config =
  rc_TracingEnabled :: bool
  rc_MetricsEnabled :: bool
  rc_Handlers :: "handler_config list"
  rc_Protocol :: protocol_version

definition config_tags :: "runtime_config \<Rightarrow> string list" where
  "config_tags c = map hc_HandlerTag (rc_Handlers c)"

record to_runtime =
  tr_Ready :: "ready option"
  tr_Result :: "frame_result option"
  tr_Credit :: "32 word option"
  tr_WsSend :: "ws_send option"
  tr_Draining :: "gotime option"

record cancel_frame =
  cf_ID :: string
  cf_Reason :: int

record from_runtime =
  fm_Config :: "runtime_config option"
  fm_ReadyAck :: "ready_ack option"
  fm_Dispatch :: "event option"
  fm_Cancel :: "cancel_frame option"
  fm_Drain :: "gotime option"
  fm_WsAck :: "ws_send_ack option"

definition no_to_runtime :: to_runtime where
  "no_to_runtime = \<lparr>tr_Ready = None, tr_Result = None, tr_Credit = None, tr_WsSend = None, tr_Draining = None\<rparr>"

definition no_from_runtime :: from_runtime where
  "no_from_runtime = \<lparr>fm_Config = None, fm_ReadyAck = None, fm_Dispatch = None, fm_Cancel = None, fm_Drain = None,
     fm_WsAck = None\<rparr>"

definition result_frame :: "result option \<Rightarrow> to_runtime" where
  "result_frame outcome = no_to_runtime\<lparr>tr_Result := Some \<lparr>fr_Outcome = outcome, fr_CreditGrant = 1\<rparr>\<rparr>"

subsection \<open>The wire contract\<close>

type_synonym pb_params = "(string, string list) gomap"

record pb_http_request =
  ph_Method :: string
  ph_Path :: string
  ph_Route :: string
  ph_PathParams :: pb_params
  ph_QueryParams :: pb_params
  ph_Headers :: pb_params
  ph_SourceIp :: string
  ph_RequestId :: string
  ph_Body :: "byte list"

record pb_websocket_message =
  pw_Route :: string
  pw_ConnectionId :: string
  pw_SourceIp :: string
  pw_RequestId :: string
  pw_Message :: "byte list"
  pw_IsBinary :: bool
  pw_MessageId :: string

record pb_consumer_record =
  pr_MessageId :: string
  pr_Body :: "byte list"
  pr_Source :: string
  pr_EventType :: string
  pr_Attributes :: "byte list"
  pr_Vendor :: "byte list"

record pb_consumer_batch =
  pc_Records :: "pb_consumer_record list"
  pc_SourceId :: string
  pc_SourceType :: string
  pc_Vendor :: "byte list"

record pb_schedule =
  ps_ScheduleId :: string
  ps_MessageId :: string
  ps_Schedule :: string
  ps_Input :: "byte list"
  ps_Vendor :: "byte list"

record pb_custom =
  px_HandlerName :: string
  px_Input :: "byte list"

datatype pb_source = Dispatch_Http pb_http_request | Dispatch_Websocket pb_websocket_message
  | Dispatch_Consumer pb_consumer_batch | Dispatch_Schedule pb_schedule | Dispatch_Custom pb_custom

record pb_dispatch =
  pd_Id :: string
  pd_HandlerTag :: string
  pd_TimestampMs :: "64 word"
  pd_DeadlineUnixMs :: "64 word"
  pd_TraceContext :: "(string, string) gomap"
  pd_Source :: "pb_source option"

record pb_handler_config =
  pg_HandlerName :: string
  pg_HandlerTag :: string
  pg_TimeoutMs :: "64 word"
  pg_TracingEnabled :: bool
  pg_PublishedName :: string

record pb_runtime_config =
  pf_TracingEnabled :: bool
  pf_MetricsEnabled :: bool
  pf_Handlers :: "pb_handler_config list"
  pf_ProtocolVersion :: "protocol_version option"

record pb_ready_ack =
  pa_Accepted :: bool
  pa_UnknownTags :: "string list"
  pa_UnhandledTags :: "string list"
  pa_RefusedReason :: int

record pb_ws_failure =
  pq_Index :: "32 word"
  pq_ConnectionId :: string
  pq_ErrorMessage :: string

record pb_ws_ack =
  pk_CorrelationId :: string
  pk_Success :: bool
  pk_Failures :: "pb_ws_failure list"

datatype pb_runtime_message = RuntimeMessage_Config pb_runtime_config | RuntimeMessage_ReadyAck pb_ready_ack
  | RuntimeMessage_Dispatch pb_dispatch | RuntimeMessage_Cancel string int | RuntimeMessage_Drain "64 word"
  | RuntimeMessage_WsAck pb_ws_ack | RuntimeMessage_Unknown

record pb_http_response =
  pp_Status :: "32 word"
  pp_Headers :: pb_params
  pp_Body :: "byte list"

record pb_batch_result =
  pt_Success :: bool
  pt_Failures :: "(string \<times> string) list"

datatype pb_outcome = Result_Error string string string | Result_Http pb_http_response | Result_Websocket bool string
  | Result_Consumer pb_batch_result | Result_Schedule bool string | Result_Custom "byte list"

record pb_result =
  pz_Id :: string
  pz_CreditGrant :: "32 word"
  pz_Outcome :: "pb_outcome option"

record pb_ws_outbound =
  po_ConnectionId :: string
  po_Message :: "byte list"
  po_IsBinary :: bool
  po_InformClientsOnLoss :: "string list"
  po_MessageId :: string
  po_Caller :: string
  po_WaitForAck :: bool

datatype pb_handler_message = HandlerMessage_Ready ready | HandlerMessage_Result pb_result
  | HandlerMessage_Credit "32 word" | HandlerMessage_WsSend string "pb_ws_outbound list" | HandlerMessage_Draining gotime

subsection \<open>Conversion\<close>

definition unixMillis :: "int \<Rightarrow> gotime" where
  "unixMillis ms = (if ms = 0 then zero_time else ms)"

definition paramsFrom :: "pb_params \<Rightarrow> params" where
  "paramsFrom values = (if length values = 0 then [] else map (\<lambda>(name, v). (name, v)) values)"

definition paramsTo :: "params \<Rightarrow> pb_params" where
  "paramsTo ps = (if length ps = 0 then [] else map (\<lambda>(name, v). (name, v)) ps)"

definition requestFrom :: "pb_http_request \<Rightarrow> request" where
  "requestFrom r = \<lparr>req_Method = ph_Method r, req_Path = ph_Path r, req_Route = ph_Route r,
     req_PathParams = paramsFrom (ph_PathParams r), req_QueryParams = paramsFrom (ph_QueryParams r),
     req_Headers = paramsFrom (ph_Headers r), req_SourceIP = ph_SourceIp r, req_RequestID = ph_RequestId r,
     req_Body = ph_Body r\<rparr>"

definition webSocketMessageFrom :: "pb_websocket_message \<Rightarrow> websocket_message" where
  "webSocketMessageFrom m = \<lparr>wm_Route = pw_Route m, wm_ConnectionID = pw_ConnectionId m, wm_SourceIP = pw_SourceIp m,
     wm_RequestID = pw_RequestId m, wm_Message = pw_Message m, wm_IsBinary = pw_IsBinary m, wm_MessageID = pw_MessageId m\<rparr>"

definition consumerBatchFrom :: "pb_consumer_batch \<Rightarrow> consumer_batch" where
  "consumerBatchFrom b = \<lparr>cb_Records = map (\<lambda>r. \<lparr>cr_MessageID = pr_MessageId r, cr_Body = pr_Body r, cr_Source = pr_Source r,
       cr_EventType = pr_EventType r, cr_Attributes = pr_Attributes r, cr_Vendor = pr_Vendor r\<rparr>) (pc_Records b),
     cb_SourceID = pc_SourceId b, cb_SourceType = pc_SourceType b, cb_Vendor = pc_Vendor b\<rparr>"

definition eventFrom :: "pb_dispatch \<Rightarrow> event" where
  "eventFrom d =
     (let ev = \<lparr>ev_ID = pd_Id d, ev_Tag = pd_HandlerTag d, ev_Kind = KindNone,
            ev_Timestamp = unixMillis (sint (pd_TimestampMs d)), ev_Deadline = unixMillis (sint (pd_DeadlineUnixMs d)),
            ev_TraceContext = pd_TraceContext d, ev_HTTP = None, ev_WebSocket = None, ev_Consumer = None,
            ev_Schedule = None, ev_Custom = None\<rparr>
      in case pd_Source d of
           None \<Rightarrow> ev
         | Some (Dispatch_Http h) \<Rightarrow> ev\<lparr>ev_Kind := KindHTTP, ev_HTTP := Some (requestFrom h)\<rparr>
         | Some (Dispatch_Websocket w) \<Rightarrow> ev\<lparr>ev_Kind := KindWebSocket, ev_WebSocket := Some (webSocketMessageFrom w)\<rparr>
         | Some (Dispatch_Consumer b) \<Rightarrow> ev\<lparr>ev_Kind := KindConsumer, ev_Consumer := Some (consumerBatchFrom b)\<rparr>
         | Some (Dispatch_Schedule t) \<Rightarrow> ev\<lparr>ev_Kind := KindSchedule, ev_Schedule := Some
             \<lparr>st_ScheduleID = ps_ScheduleId t, st_MessageID = ps_MessageId t, st_Schedule = ps_Schedule t,
              st_Input = ps_Input t, st_Vendor = ps_Vendor t\<rparr>\<rparr>
         | Some (Dispatch_Custom c) \<Rightarrow> ev\<lparr>ev_Kind := KindCustom, ev_Custom := Some
             \<lparr>ci_HandlerName = px_HandlerName c, ci_Input = px_Input c\<rparr>\<rparr>)"

definition runtimeConfigFrom :: "pb_runtime_config \<Rightarrow> runtime_config" where
  "runtimeConfigFrom c = \<lparr>rc_TracingEnabled = pf_TracingEnabled c, rc_MetricsEnabled = pf_MetricsEnabled c,
     rc_Handlers = map (\<lambda>h. \<lparr>hc_HandlerName = pg_HandlerName h, hc_HandlerTag = pg_HandlerTag h,
       hc_Timeout = pg_TimeoutMs h * 1000000, hc_TracingEnabled = pg_TracingEnabled h,
       hc_PublishedName = pg_PublishedName h\<rparr>) (pf_Handlers c),
     rc_Protocol = (case pf_ProtocolVersion c of None \<Rightarrow> \<lparr>pv_Major = 0, pv_Minor = 0\<rparr> | Some v \<Rightarrow> v)\<rparr>"

definition refusedReason :: "int \<Rightarrow> refused_reason" where
  "refusedReason n = (if n = 0 then RefusedUnspecified else if n = 1 then RefusedTagMismatch
     else if n = 2 then RefusedProtocolVersion else RefusedOther n)"

definition wsAckFrom :: "pb_ws_ack \<Rightarrow> ws_send_ack" where
  "wsAckFrom a = \<lparr>wa_CorrelationID = pk_CorrelationId a, wa_Success = pk_Success a,
     wa_Failures = map (\<lambda>f. \<lparr>sf_Index = uint (pq_Index f), sf_ConnectionID = pq_ConnectionId f,
       sf_Error = pq_ErrorMessage f\<rparr>) (pk_Failures a)\<rparr>"

definition fromRuntimeMessage :: "pb_runtime_message \<Rightarrow> from_runtime" where
  "fromRuntimeMessage msg =
     (case msg of
        RuntimeMessage_Config c \<Rightarrow> no_from_runtime\<lparr>fm_Config := Some (runtimeConfigFrom c)\<rparr>
      | RuntimeMessage_ReadyAck a \<Rightarrow> no_from_runtime\<lparr>fm_ReadyAck := Some \<lparr>ra_Accepted = pa_Accepted a,
          ra_UnknownTags = pa_UnknownTags a, ra_UnhandledTags = pa_UnhandledTags a,
          ra_Reason = refusedReason (pa_RefusedReason a)\<rparr>\<rparr>
      | RuntimeMessage_Dispatch d \<Rightarrow> no_from_runtime\<lparr>fm_Dispatch := Some (eventFrom d)\<rparr>
      | RuntimeMessage_Cancel i reason \<Rightarrow> no_from_runtime\<lparr>fm_Cancel := Some \<lparr>cf_ID = i, cf_Reason = reason\<rparr>\<rparr>
      | RuntimeMessage_Drain ms \<Rightarrow> no_from_runtime\<lparr>fm_Drain := Some (unixMillis (sint ms))\<rparr>
      | RuntimeMessage_WsAck a \<Rightarrow> no_from_runtime\<lparr>fm_WsAck := Some (wsAckFrom a)\<rparr>
      | RuntimeMessage_Unknown \<Rightarrow> no_from_runtime)"

definition ackTo :: "ack \<Rightarrow> bool \<times> string" where
  "ackTo a = (ack_Success a, ack_Error a)"

definition batchResultTo :: "batch_result \<Rightarrow> pb_batch_result" where
  "batchResultTo b = \<lparr>pt_Success = (\<not> br_Failed b),
     pt_Failures = map (\<lambda>f. (rf_MessageID f, rf_Error f)) (br_Failures b)\<rparr>"

definition resultTo :: "frame_result \<Rightarrow> (pval, pb_result) outcome" where
  "resultTo r =
     (case fr_Outcome r of
        None \<Rightarrow> Panic nil_dereference
      | Some oc \<Rightarrow> Done \<lparr>pz_Id = r_ID oc, pz_CreditGrant = fr_CreditGrant r,
          pz_Outcome =
            (case r_Error oc of Some e \<Rightarrow> Some (Result_Error (he_Message e) (he_Type e) (he_Stack e)) | None \<Rightarrow>
            (case r_HTTP oc of Some h \<Rightarrow> Some (Result_Http \<lparr>pp_Status = word_of_int (res_Status h),
                pp_Headers = paramsTo (res_Headers h), pp_Body = res_Body h\<rparr>) | None \<Rightarrow>
            (case r_WebSocket oc of Some a \<Rightarrow> Some (Result_Websocket (fst (ackTo a)) (snd (ackTo a))) | None \<Rightarrow>
            (case r_Consumer oc of Some b \<Rightarrow> Some (Result_Consumer (batchResultTo b)) | None \<Rightarrow>
            (case r_Schedule oc of Some a \<Rightarrow> Some (Result_Schedule (fst (ackTo a)) (snd (ackTo a))) | None \<Rightarrow>
            (case r_Custom oc of Some c \<Rightarrow> Some (Result_Custom (cu_Output c)) | None \<Rightarrow> None)))))) \<rparr>)"

definition wsSendTo :: "ws_send \<Rightarrow> pb_handler_message" where
  "wsSendTo s = HandlerMessage_WsSend (ws_CorrelationID s) (map (\<lambda>m.
     \<lparr>po_ConnectionId = om_ConnectionID (out_Message m), po_Message = om_Message (out_Message m), po_IsBinary = out_IsBinary m,
      po_InformClientsOnLoss = om_InformClientsOnLoss (out_Message m), po_MessageId = om_MessageID (out_Message m),
      po_Caller = om_Caller (out_Message m), po_WaitForAck = om_WaitForAck (out_Message m)\<rparr>) (ws_Messages s))"

text \<open>\<^verbatim>\<open>readyTo\<close> copies \<^verbatim>\<open>Ready\<close> field by field into a message with the same fields, so it is the
  identity here. \<open>None\<close> is the nil message of a frame with no field set.\<close>

definition toHandlerMessage :: "to_runtime \<Rightarrow> (pval, pb_handler_message option) outcome" where
  "toHandlerMessage frame =
     (case tr_Ready frame of Some r \<Rightarrow> Done (Some (HandlerMessage_Ready r)) | None \<Rightarrow>
     (case tr_Result frame of Some r \<Rightarrow> bind_outcome (resultTo r) (\<lambda>m. Done (Some (HandlerMessage_Result m))) | None \<Rightarrow>
     (case tr_Credit frame of Some n \<Rightarrow> Done (Some (HandlerMessage_Credit n)) | None \<Rightarrow>
     (case tr_WsSend frame of Some s \<Rightarrow> Done (Some (wsSendTo s)) | None \<Rightarrow>
     (case tr_Draining frame of Some t \<Rightarrow> Done (Some (HandlerMessage_Draining t)) | None \<Rightarrow> Done None)))))"

subsection \<open>Where the runtime is\<close>

record dial_config =
  dc_Socket :: string
  dc_FallbackEnabled :: bool
  dc_FallbackPort :: int
  dc_RetryFor :: int

text \<open>The value \<^verbatim>\<open>strconv.Atoi\<close> returns when its error is ignored: the nearest number where the text is
  out of range, and zero where it is no number.\<close>

definition Atoi_value :: "string \<Rightarrow> int" where
  "Atoi_value s =
     (case ParseInt s 64 of
        Inr n \<Rightarrow> n
      | Inl e \<Rightarrow> if e = num_error ''ParseInt'' s ErrRange
          then (if hd s = CHR ''-'' then - (2 ^ 63) else 2 ^ 63 - 1) else 0)"

definition DialConfigFromEnv :: "(string \<Rightarrow> string) \<Rightarrow> dial_config" where
  "DialConfigFromEnv getenv =
     (let port = Atoi_value (getenv ''CELERITY_RUNTIME_SOCKET_FALLBACK_PORT'');
          enabled = (case ParseBool (getenv ''CELERITY_RUNTIME_SOCKET_FALLBACK_ENABLED'') of Inr b \<Rightarrow> b | Inl _ \<Rightarrow> False)
      in \<lparr>dc_Socket = getenv ''CELERITY_RUNTIME_SOCKET'', dc_FallbackEnabled = enabled, dc_FallbackPort = port,
          dc_RetryFor = 30\<rparr>)"

definition Target :: "dial_config \<Rightarrow> gerr + string" where
  "Target c =
     (if dc_Socket c \<noteq> '''' then Inr (''unix://'' @ dc_Socket c)
      else if dc_FallbackEnabled c \<and> dc_FallbackPort c > 0 then Inr (''127.0.0.1:'' @ itoa (dc_FallbackPort c))
      else Inl (Errorf (''the runtime published no handler stream address: expected CELERITY_RUNTIME_SOCKET''
        @ '' to name a unix socket, or CELERITY_RUNTIME_SOCKET_FALLBACK_ENABLED with CELERITY_RUNTIME_SOCKET_FALLBACK_PORT'') None))"

subsection \<open>Lemmas\<close>

definition source_kind :: "pb_source \<Rightarrow> kind" where
  "source_kind src = (case src of Dispatch_Http _ \<Rightarrow> KindHTTP | Dispatch_Websocket _ \<Rightarrow> KindWebSocket
     | Dispatch_Consumer _ \<Rightarrow> KindConsumer | Dispatch_Schedule _ \<Rightarrow> KindSchedule | Dispatch_Custom _ \<Rightarrow> KindCustom)"

fun outcome_kind :: "pb_outcome \<Rightarrow> kind" where
  "outcome_kind (Result_Error _ _ _) = KindNone"
| "outcome_kind (Result_Http _) = KindHTTP"
| "outcome_kind (Result_Websocket _ _) = KindWebSocket"
| "outcome_kind (Result_Consumer _) = KindConsumer"
| "outcome_kind (Result_Schedule _ _) = KindSchedule"
| "outcome_kind (Result_Custom _) = KindCustom"

lemma eventFrom_kind:
  "pd_Source d = Some src \<Longrightarrow> ev_Kind (eventFrom d) = source_kind src \<and> (source_absent k (eventFrom d) \<longleftrightarrow> k \<noteq> source_kind src)"
  by (cases k; cases src) (simp_all add: eventFrom_def Let_def source_kind_def)

lemma eventFrom_fields [simp]: "ev_ID (eventFrom d) = pd_Id d" "ev_Tag (eventFrom d) = pd_HandlerTag d"
  "ev_Deadline (eventFrom d) = unixMillis (sint (pd_DeadlineUnixMs d))"
  by (simp_all add: eventFrom_def Let_def split: option.splits pb_source.splits)

lemma resultTo_only_outcome:
  assumes "only_outcome k r" and "resultTo \<lparr>fr_Outcome = Some r, fr_CreditGrant = n\<rparr> = Done m"
  shows "pz_Id m = r_ID r \<and> pz_CreditGrant m = n \<and> (\<forall>oc. pz_Outcome m = Some oc \<longrightarrow> outcome_kind oc = k)"
  using assms by (cases k) (auto simp: resultTo_def only_outcome_def split: option.splits)

subsection \<open>Properties\<close>

text \<open>An event off the wire carries one source and says which: its kind is the source's, that
  payload and no other is set, so the handler registered for that source never refuses it as
  another's; and a dispatch without a deadline does not arrive expired.\<close>

theorem eventFrom_one_source:
  assumes "pd_Source d = Some src"
  shows "ev_Kind (eventFrom d) = source_kind src
    \<and> (\<forall>k. source_absent k (eventFrom d) \<longleftrightarrow> k \<noteq> source_kind src)
    \<and> ev_ID (eventFrom d) = pd_Id d \<and> ev_Tag (eventFrom d) = pd_HandlerTag d
    \<and> (time_IsZero (ev_Deadline (eventFrom d))
        \<longleftrightarrow> pd_DeadlineUnixMs d = 0 \<or> sint (pd_DeadlineUnixMs d) = zero_time)"
  using eventFrom_kind [OF assms] by (auto simp: unixMillis_def time_IsZero_def signed_eq_0_iff zero_time_def)

theorem eventFrom_one_source_witness:
  "ev_Kind (eventFrom \<lparr>pd_Id = ''1'', pd_HandlerTag = ''custom::x'', pd_TimestampMs = 5, pd_DeadlineUnixMs = 0,
     pd_TraceContext = [], pd_Source = Some (Dispatch_Custom \<lparr>px_HandlerName = ''x'', px_Input = []\<rparr>)\<rparr>) = KindCustom"
  using eventFrom_one_source [of "\<lparr>pd_Id = ''1'', pd_HandlerTag = ''custom::x'', pd_TimestampMs = 5, pd_DeadlineUnixMs = 0,
     pd_TraceContext = [], pd_Source = Some (Dispatch_Custom \<lparr>px_HandlerName = ''x'', px_Input = []\<rparr>)\<rparr>"]
  by (simp add: source_kind_def)

end
