(* ===== verification/Aws_Adapter.thy ===== *)
theory Aws_Adapter
  imports Aws_Consumer Ipc_Frames
begin

text \<open>
  The AWS adapter: the sender that pushes through the API Gateway Management API (\<^verbatim>\<open>src/serverless/aws/sender.go\<close>) and
  the adapter that puts mapper and senders together (\<^verbatim>\<open>adapter.go\<close>).

  The adapter keeps one sender per endpoint, with the client it built on its first send: the part \<open>aws_world\<close> of the
  world, which the application's own state extends. The AWS configuration, the call to the platform and the
  clock are arguments.
\<close>

record aws_world =
  aw_senders :: "(string, gerr option option) gomap"
    \<comment> \<open>per endpoint: \<open>None\<close> before the first send, then the error of building the client, if there was one\<close>

record 'w platform =
  pf_LoadDefaultConfig :: "'w \<Rightarrow> gerr option"
  pf_PostToConnection :: "string \<Rightarrow> string \<Rightarrow> byte list \<Rightarrow> 'w \<Rightarrow> gerr option \<times> 'w"
  pf_Now :: "'w \<Rightarrow> int"

subsection \<open>Sending\<close>

definition resolveClient :: "('z aws_world_scheme) platform \<Rightarrow> string \<Rightarrow> 'z aws_world_scheme \<Rightarrow> gerr option \<times> 'z aws_world_scheme" where
  "resolveClient pf endpoint w =
     (case gm_get (aw_senders w) endpoint of
        Some (Some built) \<Rightarrow> (built, w)
      | _ \<Rightarrow>
          (let built = map_option (\<lambda>err. Errorf (''loading AWS configuration to push to a websocket connection: '' @ error_text err)
                 (Some err)) (pf_LoadDefaultConfig pf w)
           in (built, w\<lparr>aw_senders := gm_put endpoint (Some built) (aw_senders w)\<rparr>)))"

definition post :: "'w platform \<Rightarrow> string \<Rightarrow> outbound_message \<Rightarrow> 'w \<Rightarrow> gerr option \<times> 'w" where
  "post pf endpoint message w = pf_PostToConnection pf endpoint (om_ConnectionID message) (om_Message message) w"

text \<open>The messages go out on a goroutine each: \<open>order\<close> lists the indexes in the order their calls reached the
  platform. Each goroutine writes its own element of \<open>failures\<close>.\<close>

fun send_each ::
    "'w platform \<Rightarrow> string \<Rightarrow> outbound_message list \<Rightarrow> nat list \<Rightarrow> send_failure option list \<Rightarrow> 'w
       \<Rightarrow> send_failure option list \<times> 'w" where
  "send_each pf endpoint messages [] failures w = (failures, w)"
| "send_each pf endpoint messages (i # order) failures w =
     (case post pf endpoint (messages ! i) w of
        (None, w') \<Rightarrow> send_each pf endpoint messages order failures w'
      | (Some err, w') \<Rightarrow> send_each pf endpoint messages order
          (failures[i := Some \<lparr>sf_Index = int i, sf_ConnectionID = om_ConnectionID (messages ! i), sf_Error = error_text err\<rparr>]) w')"

definition sendError :: "send_failure option list \<Rightarrow> send_error option" where
  "sendError failures =
     (let collected = List.map_filter (\<lambda>f. f) failures
      in if length collected = 0 then None else Some \<lparr>se_Failures = collected\<rparr>)"

definition send_gerr :: "send_error \<Rightarrow> gerr" where
  "send_gerr e = AppErr (send_error_text e) ''*handler.SendError'' None None None None []"

definition sender_Send ::
    "('z aws_world_scheme) platform \<Rightarrow> nat list \<Rightarrow> string \<Rightarrow> outbound_message list \<Rightarrow> 'z aws_world_scheme
       \<Rightarrow> (gerr option + send_error) \<times> 'z aws_world_scheme" where
  "sender_Send pf order endpoint messages w =
     (if length messages = 0 then (Inl None, w)
      else case resolveClient pf endpoint w of
        (Some err, w') \<Rightarrow> (Inl (Some err), w')
      | (None, w') \<Rightarrow>
          (case send_each pf endpoint messages order (replicate (length messages) None) w' of
             (failures, w'') \<Rightarrow> (case sendError failures of None \<Rightarrow> (Inl None, w'') | Some e \<Rightarrow> (Inr e, w''))))"

subsection \<open>The adapter\<close>

definition WebSocketSender ::
    "aws_json \<Rightarrow> ctx \<Rightarrow> byte list \<Rightarrow> 'z aws_world_scheme \<Rightarrow> (gerr + string) \<times> 'z aws_world_scheme" where
  "WebSocketSender aj ctx payload w =
     (case ManagementEndpoint aj payload of
        Inl err \<Rightarrow> (Inl err, w)
      | Inr endpoint \<Rightarrow>
          if endpoint = ''https:///'' then (Inl (Errorf ''the websocket event carries no domain or stage to push back to'' None), w)
          else case gm_get (aw_senders w) endpoint of
            Some _ \<Rightarrow> (Inr endpoint, w)
          | None \<Rightarrow> (Inr endpoint, w\<lparr>aw_senders := gm_put endpoint None (aw_senders w)\<rparr>))"

definition AcknowledgeReceipt ::
    "aws_json \<Rightarrow> ('z aws_world_scheme) platform \<Rightarrow> ctx \<Rightarrow> websocket_message \<Rightarrow> 'z aws_world_scheme
       \<Rightarrow> gerr option \<times> 'z aws_world_scheme" where
  "AcknowledgeReceipt aj pf ctx msg w =
     (case clientAckRequest aj (string_of_bytes (wm_Message msg)) of
        None \<Rightarrow> (None, w)
      | Some messageID \<Rightarrow>
          (case WebSocketSenderFrom ctx of
             None \<Rightarrow> (Some (Errorf (''no websocket sender to acknowledge message '' @ messageID @ '' on'') None), w)
           | Some endpoint \<Rightarrow>
               (case sender_Send pf [0] endpoint
                   [\<lparr>om_ConnectionID = wm_ConnectionID msg, om_Message = composeClientAck messageID (pf_Now pf w),
                     om_InformClientsOnLoss = [], om_MessageID = '''', om_Caller = '''', om_WaitForAck = False\<rparr>] w of
                  (Inl err, w') \<Rightarrow> (err, w')
                | (Inr e, w') \<Rightarrow> (Some (send_gerr e), w'))))"

definition as_pair :: "gerr + 'a \<Rightarrow> 'a option \<times> gerr option" where
  "as_pair x = (case x of Inl e \<Rightarrow> (None, Some e) | Inr y \<Rightarrow> (Some y, None))"

definition Mapper_of :: "aws_json \<Rightarrow> mapper \<Rightarrow> aws_out event_mapper" where
  "Mapper_of aj m =
     \<lparr>em_Detect = (\<lambda>b. Inr (Detect aj m b)),
      em_ToRequest = (\<lambda>b. as_pair (ToRequest aj m b)),
      em_FromResponse = (\<lambda>r. (AnyOf (OutHTTP (FromResponse r)), None)),
      em_ToWebSocketMessage = (\<lambda>b. as_pair (ToWebSocketMessage aj b)),
      em_ToConsumerBatch = (\<lambda>b tag. as_pair (ToConsumerBatch aj b tag)),
      em_FromBatchResult = (\<lambda>r. (AnyOf (OutSQS (FromBatchResult r)), None)),
      em_ToScheduleTrigger = (\<lambda>b tag. as_pair (ToScheduleTrigger aj b tag)),
      em_ToCustomInvoke = (\<lambda>b. (Some (ToCustomInvoke aj m b), None)),
      em_FromCustomResult = (\<lambda>r. (FromCustomResult aj r, None))\<rparr>"

definition New_aws :: "environ \<Rightarrow> aws_json \<Rightarrow> ('z aws_world_scheme) platform \<Rightarrow> ('z aws_world_scheme, aws_out) sl_adapter" where
  "New_aws getenv aj pf = \<lparr>sa_Mapper = Mapper_of aj (NewMapper getenv), sa_WebSocketSender = Some (WebSocketSender aj),
     sa_AcknowledgeReceipt = Some (AcknowledgeReceipt aj pf)\<rparr>"

definition aws_Detect :: "environ \<Rightarrow> bool" where
  "aws_Detect getenv \<longleftrightarrow> getenv ''AWS_LAMBDA_FUNCTION_NAME'' \<noteq> ''''"

subsection \<open>Sending, whatever the order\<close>

definition failure_at :: "(outbound_message \<Rightarrow> gerr option) \<Rightarrow> outbound_message list \<Rightarrow> nat \<Rightarrow> send_failure option" where
  "failure_at fails messages i = map_option (\<lambda>err. \<lparr>sf_Index = int i, sf_ConnectionID = om_ConnectionID (messages ! i),
     sf_Error = error_text err\<rparr>) (fails (messages ! i))"

lemma send_each_failures:
  assumes "\<And>message w. fst (post pf endpoint message w) = fails message"
  shows "distinct order \<Longrightarrow> \<forall>i \<in> set order. i < length fs \<and> fs ! i = None \<Longrightarrow>
    fst (send_each pf endpoint messages order fs w)
      = map (\<lambda>i. if i \<in> set order then failure_at fails messages i else fs ! i) [0..<length fs]"
proof (induction order arbitrary: fs w)
  case (Cons i order)
  obtain out w' where o': "post pf endpoint (messages ! i) w = (out, w')" by (cases "post pf endpoint (messages ! i) w")
  then have out: "out = fails (messages ! i)" using assms [of "messages ! i" w] by simp
  let ?fs = "fs[i := failure_at fails messages i]"
  have step: "send_each pf endpoint messages (i # order) fs w = send_each pf endpoint messages order ?fs w'"
    using Cons.prems o' out by (auto simp: failure_at_def list_update_id split: option.splits) (metis list_update_id)
  have "\<forall>j \<in> set order. j < length ?fs \<and> ?fs ! j = None" using Cons.prems by (auto simp: nth_list_update)
  from Cons.IH [OF _ this, of w'] Cons.prems show ?case
    unfolding step by (auto simp: nth_list_update intro!: map_cong)
qed (simp add: map_nth)

subsection \<open>Properties\<close>


definition outbound_to :: "string \<Rightarrow> outbound_message" where
  "outbound_to conn = \<lparr>om_ConnectionID = conn, om_Message = [], om_InformClientsOnLoss = [], om_MessageID = '''', om_Caller = '''',
     om_WaitForAck = False\<rparr>"


text \<open>What SQS does with an answer, where the function reports partial failures: it deletes the messages that were
  not named, and none of them where the invocation failed or a name is not one of the batch's.\<close>

definition sqs_deletes :: "(pval, aws_out any \<times> gerr option) outcome \<Rightarrow> string list \<Rightarrow> string list" where
  "sqs_deletes out ids =
     (case out of
        Done (AnyOf (OutSQS failed), None) \<Rightarrow> if set failed \<subseteq> set ids then filter (\<lambda>i. i \<notin> set failed) ids else []
      | _ \<Rightarrow> [])"

text \<open>C24. A message leaves its queue only once its handler is done with it. The consumer handler a function serves is
  given one record per message, in order and under the message's identifier; a message is deleted exactly when
  the handler returned without an error and did not report that message, and where the handler failed or
  panicked the whole batch stays.\<close>

theorem batch_deletes_unreported:
  assumes "aj_sqs aj payload = Inr messages" and "sh_Invoke hd1 = wrapConsumer h"
  shows "\<exists>batch. map cr_MessageID (cb_Records batch) = map sq_MessageId messages
    \<and> (case invoke_handler (Mapper_of aj m) hd1 ctx KindConsumer payload s of (out, s') \<Rightarrow>
         s' = snd (h ctx batch s)
         \<and> sqs_deletes out (map sq_MessageId messages) =
             (case fst (h ctx batch s) of
                Done (res, None) \<Rightarrow>
                  (let failed = (case res of None \<Rightarrow> [] | Some r \<Rightarrow> map rf_MessageID (br_Failures r))
                   in if set failed \<subseteq> set (map sq_MessageId messages)
                      then filter (\<lambda>i. i \<notin> set failed) (map sq_MessageId messages) else [])
              | _ \<Rightarrow> []))"
proof -
  obtain batch where b: "ToConsumerBatch aj payload (sh_Tag hd1) = Inr batch"
    and recs: "cb_Records batch = map (fst \<circ> consumerRecord aj) messages"
    by (simp add: ToConsumerBatch_def decode_def assms(1) Let_def)
  have "map cr_MessageID (cb_Records batch) = map sq_MessageId messages"
    by (simp add: recs consumerRecord_def Let_def split: option.splits)
  moreover obtain r s' where r: "h ctx batch s = (r, s')" by fastforce
  moreover have "toEvent (Mapper_of aj m) (sh_Tag hd1) KindConsumer payload
      = Inr ((new_event KindConsumer (sh_Tag hd1))\<lparr>ev_Consumer := Some batch\<rparr>)"
    by (simp add: toEvent_def Mapper_of_def as_pair_def b)
  ultimately show ?thesis
    by (intro exI [of _ batch])
      (auto simp: invoke_handler_def assms(2) wrapConsumer_def and_then_def fromResult_def Mapper_of_def FromBatchResult_def
        sqs_deletes_def Let_def split: outcome.splits option.splits)
qed

theorem batch_deletes_unreported_witness:
  "let aj = \<lparr>aj_parse = (\<lambda>b. Inl ErrNoHandler), aj_http = (\<lambda>b. Inl ErrNoHandler), aj_websocket = (\<lambda>b. Inl ErrNoHandler),
             aj_sqs = (\<lambda>b. Inr [queue_message ''m1'' ''x'', queue_message ''m2'' ''y'']),
             aj_cloudwatch = (\<lambda>b. Inl ErrNoHandler), aj_custom = (\<lambda>b. Inl ErrNoHandler)\<rparr>;
       h = (\<lambda>ctx batch n. (Done (Some \<lparr>br_Failures = [\<lparr>rf_MessageID = ''m1'', rf_Error = ''bad''\<rparr>]\<rparr>, None), n + 1 :: nat));
       hd1 = \<lparr>sh_Tag = ''source::orders::handle'', sh_Name = ''handle'', sh_Kind = KindConsumer, sh_Invoke = wrapConsumer h\<rparr>
   in sqs_deletes (fst (invoke_handler (Mapper_of aj (NewMapper (\<lambda>v. ''''))) hd1 background KindConsumer [] 0)) [''m1'', ''m2''] = [''m2'']"
proof -
  let ?aj = "\<lparr>aj_parse = (\<lambda>b. Inl ErrNoHandler), aj_http = (\<lambda>b. Inl ErrNoHandler), aj_websocket = (\<lambda>b. Inl ErrNoHandler),
             aj_sqs = (\<lambda>b. Inr [queue_message ''m1'' ''x'', queue_message ''m2'' ''y'']),
             aj_cloudwatch = (\<lambda>b. Inl ErrNoHandler), aj_custom = (\<lambda>b. Inl ErrNoHandler)\<rparr>"
  let ?h = "\<lambda>ctx batch n. (Done (Some \<lparr>br_Failures = [\<lparr>rf_MessageID = ''m1'', rf_Error = ''bad''\<rparr>]\<rparr>, None), n + 1 :: nat)"
  let ?hd = "\<lparr>sh_Tag = ''source::orders::handle'', sh_Name = ''handle'', sh_Kind = KindConsumer, sh_Invoke = wrapConsumer ?h\<rparr>"
  have "aj_sqs ?aj [] = Inr [queue_message ''m1'' ''x'', queue_message ''m2'' ''y'']" by simp
  moreover have "sh_Invoke ?hd = wrapConsumer ?h" by simp
  ultimately have "\<exists>batch :: consumer_batch. sqs_deletes (fst (invoke_handler (Mapper_of ?aj (NewMapper (\<lambda>v. ''''))) ?hd background KindConsumer [] 0)) [''m1'', ''m2''] = [''m2'']"
    using batch_deletes_unreported [of ?aj "[]" "[queue_message ''m1'' ''x'', queue_message ''m2'' ''y'']" ?hd ?h background 0 "NewMapper (\<lambda>v. '''')"]
    by (simp add: queue_message_def split: prod.splits)
  then show ?thesis by (simp add: Let_def)
qed

subsection \<open>Receipts\<close>

text \<open>A platform that accepts every message and keeps what it was given.\<close>

record posts_world = aws_world +
  pw_posts :: "(string \<times> string \<times> byte list) list"

definition recording :: "int \<Rightarrow> ('z posts_world_scheme) platform" where
  "recording now = \<lparr>pf_LoadDefaultConfig = (\<lambda>w. None),
     pf_PostToConnection = (\<lambda>endpoint conn message w. (None, w\<lparr>pw_posts := pw_posts w @ [(endpoint, conn, message)]\<rparr>)),
     pf_Now = (\<lambda>w. now)\<rparr>"

definition ws_endpoint :: "apigw_ws_request \<Rightarrow> string" where
  "ws_endpoint e = ''https://'' @ gs_DomainName e @ ''/'' @ gs_Stage e"

definition usable :: "string \<Rightarrow> 'z aws_world_scheme \<Rightarrow> bool" where
  "usable endpoint w \<longleftrightarrow> (case gm_get (aw_senders w) endpoint of Some (Some (Some err)) \<Rightarrow> False | _ \<Rightarrow> True)"

lemma recording_send:
  assumes "usable endpoint w"
  shows "\<exists>w'. sender_Send (recording now) [0] endpoint [message] w = (Inl None, w')
    \<and> pw_posts w' = pw_posts w @ [(endpoint, om_ConnectionID message, om_Message message)]"
  using assms
  by (auto simp: sender_Send_def resolveClient_def recording_def post_def sendError_def List.map_filter_simps usable_def
      split: option.splits)

lemma aws_receive:
  assumes "aj_websocket aj payload = Inr e" and "ws_endpoint e \<noteq> ''https:///''" and "usable (ws_endpoint e) w"
  shows "\<exists>w'. receive p (New_aws getenv aj (recording now)) ctx KindWebSocket payload w
      = (WithWebSocketSender ctx (ws_endpoint e), w')
    \<and> pw_posts w' = pw_posts w @ (case clientAckRequest aj (gs_Body e) of
        None \<Rightarrow> [] | Some i \<Rightarrow> [(ws_endpoint e, gs_ConnectionID e, composeClientAck i now)])"
proof -
  let ?pf = "recording now :: ('z posts_world_scheme) platform"
  obtain w1 where w1: "WebSocketSender aj ctx payload w = (Inr (ws_endpoint e), w1)" "usable (ws_endpoint e) w1" "pw_posts w1 = pw_posts w"
    using assms by (auto simp: WebSocketSender_def ManagementEndpoint_def decode_def ws_endpoint_def usable_def split: option.splits)
  obtain msg where msg: "ToWebSocketMessage aj payload = Inr msg" "wm_ConnectionID msg = gs_ConnectionID e"
      "string_of_bytes (wm_Message msg) = gs_Body e"
    by (simp add: ToWebSocketMessage_def decode_def assms(1))
  show ?thesis
  proof (cases "clientAckRequest aj (gs_Body e)")
    case None
    then show ?thesis
      using w1 msg by (simp add: receive_def webSocketSender_def New_aws_def acknowledgeReceipt_def Mapper_of_def as_pair_def
          AcknowledgeReceipt_def Let_def)
  next
    case (Some i)
    from recording_send [OF w1(2), of now "\<lparr>om_ConnectionID = gs_ConnectionID e, om_Message = composeClientAck i now,
        om_InformClientsOnLoss = [], om_MessageID = '''', om_Caller = '''', om_WaitForAck = False\<rparr>"]
    obtain w' where "sender_Send ?pf [0] (ws_endpoint e) [\<lparr>om_ConnectionID = gs_ConnectionID e, om_Message = composeClientAck i now,
        om_InformClientsOnLoss = [], om_MessageID = '''', om_Caller = '''', om_WaitForAck = False\<rparr>] w1 = (Inl None, w')"
      and "pw_posts w' = pw_posts w1 @ [(ws_endpoint e, gs_ConnectionID e, composeClientAck i now)]" by auto
    moreover have "pf_Now ?pf w1 = now" by (simp add: recording_def)
    ultimately show ?thesis
      using Some w1 msg by (simp add: receive_def webSocketSender_def New_aws_def acknowledgeReceipt_def Mapper_of_def as_pair_def
          AcknowledgeReceipt_def WithWebSocketSender_def WebSocketSenderFrom_def Let_def)
  qed
qed

text \<open>C25. A client that asks whether its message arrived is told so once, before anything else is sent for that
  message and whether or not a handler serves it. Receiving a WebSocket event pushes, on the connection it came
  from, the acknowledgement of the message it names where the body asks for one and nothing otherwise; only then is
  the handler run, with the sender attached, or the event answered with the status 404.\<close>

theorem receipt_acknowledged_first:
  assumes "aj_websocket aj payload = Inr e" and "ws_endpoint e \<noteq> ''https:///''" and "usable (ws_endpoint e) w"
    and "Detect aj (NewMapper getenv) payload = KindWebSocket"
    and "ds_adapter d = New_aws getenv aj (recording now)" and "settled found d"
  shows "\<exists>w'. pw_posts w' = pw_posts w @ (case clientAckRequest aj (gs_Body e) of
        None \<Rightarrow> [] | Some i \<Rightarrow> [(ws_endpoint e, gs_ConnectionID e, composeClientAck i now)])
    \<and> invoke p ctx payload d w =
        (let (out, w'') = (case found of
             Inl err \<Rightarrow> (Done (AnyStatus [(''statusCode'', 404)], None), w')
           | Inr h \<Rightarrow> invoke_handler (Mapper_of aj (NewMapper getenv)) h (WithWebSocketSender ctx (ws_endpoint e)) KindWebSocket payload w')
         in (out, d, flushTelemetry p w''))"
proof -
  from aws_receive [OF assms(1-3), of p getenv now ctx] obtain w' where
    w': "receive p (New_aws getenv aj (recording now)) ctx KindWebSocket payload w = (WithWebSocketSender ctx (ws_endpoint e), w')"
      "pw_posts w' = pw_posts w @ (case clientAckRequest aj (gs_Body e) of
        None \<Rightarrow> [] | Some i \<Rightarrow> [(ws_endpoint e, gs_ConnectionID e, composeClientAck i now)])" by blast
  have mp: "sa_Mapper (New_aws getenv aj (recording now :: ('a posts_world_scheme) platform)) = Mapper_of aj (NewMapper getenv)"
    and det: "em_Detect (Mapper_of aj (NewMapper getenv)) payload = Inr KindWebSocket"
    by (simp_all add: New_aws_def Mapper_of_def assms(4))
  have "invoke p ctx payload d w = (let (out, s') = answer_with p (New_aws getenv aj (recording now)) found ctx payload w in (out, d, s'))"
    using invoke_settled [OF assms(6), of p ctx payload w] by (simp add: assms(5))
  with w' show ?thesis
    by (intro exI [of _ w'])
      (cases found; simp add: answer_with_def det mp noHandler_def Let_def split: prod.splits)
qed

definition ack_json :: aws_json where
  "ack_json = \<lparr>aj_parse = (\<lambda>b. Inr (TObj [(''ack'', TBool True), (''messageId'', TStr ''m-1'')])), aj_http = (\<lambda>b. Inl ErrNoHandler),
     aj_websocket = (\<lambda>b. Inr \<lparr>gs_RouteKey = ''send'', gs_ConnectionID = ''c1'', gs_DomainName = ''x'', gs_Stage = ''prod'', gs_SourceIP = '''',
       gs_RequestID = ''r1'', gs_Body = ''{}''\<rparr>),
     aj_sqs = (\<lambda>b. Inl ErrNoHandler), aj_cloudwatch = (\<lambda>b. Inl ErrNoHandler), aj_custom = (\<lambda>b. Inl ErrNoHandler)\<rparr>"

theorem receipt_acknowledged_first_witness:
  "let env = (\<lambda>v. if v = ''CELERITY_HANDLER_TYPE'' then ''websocket'' else '''');
       d = (NewInvoker env (New_aws env ack_json (recording 5)) (Resolver_of None (New [] (Inr ()) () [])))\<lparr>ds_once := True, ds_resolveErr := Some ErrNoHandler\<rparr>
   in \<exists>w'. pw_posts w' = [(''https://x/prod'', ''c1'', composeClientAck ''m-1'' 5)]
        \<and> invoke \<lparr>pr_flusher = None, pr_Stderr = (\<lambda>t s. s), pr_Warn = (\<lambda>c t xs s. s)\<rparr> background [] d \<lparr>aw_senders = [], pw_posts = []\<rparr>
           = (Done (AnyStatus [(''statusCode'', 404)], None), d, w')"
proof -
  let ?env = "\<lambda>v. if v = ''CELERITY_HANDLER_TYPE'' then ''websocket'' else ''''"
  let ?d = "(NewInvoker ?env (New_aws ?env ack_json (recording 5)) (Resolver_of None (New [] (Inr ()) () [])))\<lparr>ds_once := True, ds_resolveErr := Some ErrNoHandler\<rparr>"
  let ?e = "\<lparr>gs_RouteKey = ''send'', gs_ConnectionID = ''c1'', gs_DomainName = ''x'', gs_Stage = ''prod'', gs_SourceIP = '''',
       gs_RequestID = ''r1'', gs_Body = ''{}''\<rparr>"
  let ?p = "\<lparr>pr_flusher = None, pr_Stderr = (\<lambda>t s. s), pr_Warn = (\<lambda>c t xs s. s)\<rparr>"
  have e: "aj_websocket ack_json [] = Inr ?e" by (simp add: ack_json_def)
  have "ws_endpoint ?e = ''https://x/prod''" by (simp add: ws_endpoint_def)
  moreover have "usable (ws_endpoint ?e) \<lparr>aw_senders = [], pw_posts = []\<rparr>" by (simp add: usable_def)
  moreover have "Detect ack_json (NewMapper ?env) [] = KindWebSocket"
    by (simp add: Detect_def NewMapper_def kindFromEnv_def)
  moreover have "ds_adapter ?d = New_aws ?env ack_json (recording 5)" and "settled (Inl ErrNoHandler) ?d"
    by (simp_all add: NewInvoker_def settled_def)
  moreover have "equal_fold ''messageId'' ''ack'' = False" "equal_fold ''ack'' ''ack''" "equal_fold ''messageId'' ''messageId''" by code_simp+
  then have "clientAckRequest ack_json (gs_Body ?e) = Some ''m-1''"
    by (simp add: clientAckRequest_def parseClientRequest_def unmarshal_def ack_json_def dec_object_def dec_bool_def dec_string_def member_def)
  ultimately show ?thesis
    using receipt_acknowledged_first [OF e, of "\<lparr>aw_senders = [], pw_posts = []\<rparr>" ?env ?d 5 "Inl ErrNoHandler" ?p background]
    by (simp add: flushTelemetry_def Flush_def Let_def)
qed

end
