(* ===== verification/Datastore.thy ===== *)
theory Datastore
  imports Paging Encodings
begin

text \<open>
  Document stores: the vocabulary of \<^verbatim>\<open>src/resources/datastore\<close> (keys, revisions, conditions, updates, atomic
  operations, listings) and the store in memory of \<^verbatim>\<open>src/celeritytest/datastore.go\<close> and \<^verbatim>\<open>condition.go\<close>.

  The store keeps an item as the JSON it marshalled to and, for conditions and filters, as Go values decoded from
  it. Those values hold maps by reference, and an update copies only the outermost one, so maps live in a heap
  (\<open>dt_heap\<close>): \<open>GMap a\<close> is the map at address \<open>a\<close>, never nil. The maps a caller passes to an update live there
  too. An item is given as what \<^verbatim>\<open>json.Marshal\<close> makes of it; reading one into the caller's type, and the arithmetic,
  comparison, parsing and printing of \<^verbatim>\<open>float64\<close>, are arguments.
\<close>

subsection \<open>Values and the heap\<close>

datatype 'f gval = GNil | GBool bool | GFloat 'f | GInt int | GStr string | GList "'f gval list" | GMap nat
  | GOther "jtree option" string
    \<comment> \<open>any other Go value a caller may pass: its JSON, where it has one, and what \<^verbatim>\<open>fmt.Sprint\<close> prints\<close>

type_synonym 'f gobj = "(string, 'f gval) gomap"
type_synonym 'f heap = "'f gobj list"

record 'f floats =
  fl_parse :: "string \<Rightarrow> 'f option"
  fl_of_int :: "int \<Rightarrow> 'f"
  fl_add :: "'f \<Rightarrow> 'f \<Rightarrow> 'f"
  fl_less :: "'f \<Rightarrow> 'f \<Rightarrow> bool"
  fl_equal :: "'f \<Rightarrow> 'f \<Rightarrow> bool"
  fl_zero :: 'f
  fl_json :: "'f \<Rightarrow> string option"
  fl_text :: "'f \<Rightarrow> string"

definition obj_at :: "'f heap \<Rightarrow> nat \<Rightarrow> 'f gobj" where
  "obj_at h a = (if a < length h then h ! a else [])"

text \<open>A map variable may be nil, and reading a nil map finds nothing.\<close>

definition map_at :: "'f heap \<Rightarrow> nat option \<Rightarrow> 'f gobj" where
  "map_at h m = (case m of None \<Rightarrow> [] | Some a \<Rightarrow> obj_at h a)"

definition put_at :: "nat \<Rightarrow> string \<Rightarrow> 'f gval \<Rightarrow> 'f heap \<Rightarrow> 'f heap" where
  "put_at a k v h = h[a := gm_put k v (obj_at h a)]"

definition del_at :: "nat \<Rightarrow> string \<Rightarrow> 'f heap \<Rightarrow> 'f heap" where
  "del_at a k h = h[a := gm_del k (obj_at h a)]"

text \<open>\<^verbatim>\<open>json.Unmarshal\<close> into \<^verbatim>\<open>any\<close>: every object becomes a new map.\<close>

fun alloc_json :: "'f floats \<Rightarrow> jtree \<Rightarrow> 'f heap \<Rightarrow> (gerr + 'f gval) \<times> 'f heap"
  and alloc_all :: "'f floats \<Rightarrow> jtree list \<Rightarrow> 'f heap \<Rightarrow> (gerr + 'f gval list) \<times> 'f heap"
  and alloc_members :: "'f floats \<Rightarrow> (string \<times> jtree) list \<Rightarrow> 'f gobj \<Rightarrow> 'f heap \<Rightarrow> (gerr + 'f gobj) \<times> 'f heap" where
  "alloc_json fl TNull h = (Inr GNil, h)"
| "alloc_json fl (TBool b) h = (Inr (GBool b), h)"
| "alloc_json fl (TNum t) h = (case fl_parse fl t of None \<Rightarrow> (Inl (mismatch '''' ''float64''), h) | Some f \<Rightarrow> (Inr (GFloat f), h))"
| "alloc_json fl (TStr s) h = (Inr (GStr s), h)"
| "alloc_json fl (TArr xs) h = (case alloc_all fl xs h of (Inl e, h') \<Rightarrow> (Inl e, h') | (Inr vs, h') \<Rightarrow> (Inr (GList vs), h'))"
| "alloc_json fl (TObj kvs) h =
     (case alloc_members fl kvs [] h of (Inl e, h') \<Rightarrow> (Inl e, h') | (Inr ob, h') \<Rightarrow> (Inr (GMap (length h')), h' @ [ob]))"
| "alloc_all fl [] h = (Inr [], h)"
| "alloc_all fl (x # xs) h =
     (case alloc_json fl x h of
        (Inl e, h') \<Rightarrow> (Inl e, h')
      | (Inr v, h') \<Rightarrow> (case alloc_all fl xs h' of (Inl e, h'') \<Rightarrow> (Inl e, h'') | (Inr vs, h'') \<Rightarrow> (Inr (v # vs), h'')))"
| "alloc_members fl [] ob h = (Inr ob, h)"
| "alloc_members fl ((k, x) # kvs) ob h =
     (case alloc_json fl x h of
        (Inl e, h') \<Rightarrow> (Inl e, h')
      | (Inr v, h') \<Rightarrow> alloc_members fl kvs (gm_put k v ob) h')"

text \<open>\<^verbatim>\<open>json.Unmarshal\<close> into \<^verbatim>\<open>map[string]any\<close>: \<^verbatim>\<open>null\<close> leaves it nil.\<close>

definition alloc_fields :: "'f floats \<Rightarrow> jtree \<Rightarrow> 'f heap \<Rightarrow> (gerr + nat option) \<times> 'f heap" where
  "alloc_fields fl t h =
     (case t of
        TNull \<Rightarrow> (Inr None, h)
      | TObj kvs \<Rightarrow>
          (case alloc_members fl kvs [] h of (Inl e, h') \<Rightarrow> (Inl e, h') | (Inr ob, h') \<Rightarrow> (Inr (Some (length h')), h' @ [ob]))
      | _ \<Rightarrow> (Inl (mismatch '''' ''map[string]interface {}''), h))"

text \<open>\<^verbatim>\<open>json.Marshal\<close> of a value. A chain of distinct maps is no longer than the heap, so running out of \<open>n\<close>, which
  starts at its length, is the cycle the encoder reports.\<close>

definition json_cycle :: gerr where
  "json_cycle = Errorf ''json: unsupported value: encountered a cycle'' None"

definition json_unsupported :: gerr where
  "json_unsupported = Errorf ''json: unsupported value'' None"

function (sequential) marshal :: "'f floats \<Rightarrow> 'f heap \<Rightarrow> nat \<Rightarrow> 'f gval \<Rightarrow> gerr + jtree" where
  "marshal fl h n GNil = Inr TNull"
| "marshal fl h n (GBool b) = Inr (TBool b)"
| "marshal fl h n (GFloat f) = (case fl_json fl f of None \<Rightarrow> Inl json_unsupported | Some t \<Rightarrow> Inr (TNum t))"
| "marshal fl h n (GInt i) = Inr (TNum (itoa i))"
| "marshal fl h n (GStr s) = Inr (TStr s)"
| "marshal fl h n (GList vs) = (case sequence_sum (map (marshal fl h n) vs) of Inl e \<Rightarrow> Inl e | Inr ts \<Rightarrow> Inr (TArr ts))"
| "marshal fl h 0 (GMap a) = Inl json_cycle"
| "marshal fl h (Suc n) (GMap a) =
     (case sequence_sum (map (\<lambda>kv. case marshal fl h n (snd kv) of Inl e \<Rightarrow> Inl e | Inr t \<Rightarrow> Inr (fst kv, t)) (obj_at h a)) of
        Inl e \<Rightarrow> Inl e | Inr kts \<Rightarrow> Inr (TObj kts))"
| "marshal fl h n (GOther t s) = (case t of None \<Rightarrow> Inl json_unsupported | Some t \<Rightarrow> Inr t)"
  by pat_completeness auto
termination
  by (relation "measures [\<lambda>(fl, h, n, v). n, \<lambda>(fl, h, n, v). size v]") (auto simp: less_Suc_eq_le size_list_estimation')

text \<open>\<^verbatim>\<open>fmt.Sprint\<close>, over the same bound; a map prints with its keys sorted. (A cyclic value would not end.)\<close>

function (sequential) Sprint :: "'f floats \<Rightarrow> 'f heap \<Rightarrow> nat \<Rightarrow> 'f gval \<Rightarrow> string" where
  "Sprint fl h n GNil = ''<nil>''"
| "Sprint fl h n (GBool b) = (if b then ''true'' else ''false'')"
| "Sprint fl h n (GFloat f) = fl_text fl f"
| "Sprint fl h n (GInt i) = itoa i"
| "Sprint fl h n (GStr s) = s"
| "Sprint fl h n (GList vs) = ''['' @ join '' '' (map (Sprint fl h n) vs) @ '']''"
| "Sprint fl h 0 (GMap a) = ''''"
| "Sprint fl h (Suc n) (GMap a) = ''map['' @ join '' ''
     (map snd (sort_key fst (map (\<lambda>kv. (fst kv, fst kv @ '':'' @ Sprint fl h n (snd kv))) (obj_at h a)))) @ '']''"
| "Sprint fl h n (GOther t s) = s"
  by pat_completeness auto
termination
  by (relation "measures [\<lambda>(fl, h, n, v). n, \<lambda>(fl, h, n, v). size v]") (auto simp: less_Suc_eq_le size_list_estimation')

subsection \<open>Revisions, keys and cursors\<close>

record revision =
  rev_value :: string
  rev_known :: bool

definition NewRevision :: "string \<Rightarrow> revision" where
  "NewRevision value = \<lparr>rev_value = value, rev_known = True\<rparr>"

definition Unrevisioned :: revision where
  "Unrevisioned = \<lparr>rev_value = '''', rev_known = True\<rparr>"

definition rev_Value :: "revision \<Rightarrow> string \<times> bool" where
  "rev_Value r = (rev_value r, rev_value r \<noteq> '''')"

definition rev_Known :: "revision \<Rightarrow> bool" where
  "rev_Known r = rev_known r"

record key =
  k_Partition :: string
  k_Sort :: string

definition cursor_More :: "string \<Rightarrow> bool" where
  "cursor_More c \<longleftrightarrow> c \<noteq> ''''"

subsection \<open>Conditions\<close>

datatype operator = OpEqual | OpNotEqual | OpLess | OpLessOrEqual | OpGreater | OpGreaterOrEqual | OpBetween | OpStartsWith
  | OpContains | OpExists | OpNotExists | OpAnd | OpOr | OpOther string

primrec op_string :: "operator \<Rightarrow> string" where
  "op_string OpEqual = ''eq''"
| "op_string OpNotEqual = ''ne''"
| "op_string OpLess = ''lt''"
| "op_string OpLessOrEqual = ''le''"
| "op_string OpGreater = ''gt''"
| "op_string OpGreaterOrEqual = ''ge''"
| "op_string OpBetween = ''between''"
| "op_string OpStartsWith = ''startsWith''"
| "op_string OpContains = ''contains''"
| "op_string OpExists = ''exists''"
| "op_string OpNotExists = ''notExists''"
| "op_string OpAnd = ''and''"
| "op_string OpOr = ''or''"
| "op_string (OpOther s) = s"

datatype 'f condition = Condition (cd_Op: operator) (cd_Name: string) (cd_Value: "'f gval") (cd_High: "'f gval") (cd_Of: "'f condition list")

definition Eq :: "string \<Rightarrow> 'f gval \<Rightarrow> 'f condition" where "Eq name value = Condition OpEqual name value GNil []"
definition Ne :: "string \<Rightarrow> 'f gval \<Rightarrow> 'f condition" where "Ne name value = Condition OpNotEqual name value GNil []"
definition Lt :: "string \<Rightarrow> 'f gval \<Rightarrow> 'f condition" where "Lt name value = Condition OpLess name value GNil []"
definition Le :: "string \<Rightarrow> 'f gval \<Rightarrow> 'f condition" where "Le name value = Condition OpLessOrEqual name value GNil []"
definition Gt :: "string \<Rightarrow> 'f gval \<Rightarrow> 'f condition" where "Gt name value = Condition OpGreater name value GNil []"
definition Ge :: "string \<Rightarrow> 'f gval \<Rightarrow> 'f condition" where "Ge name value = Condition OpGreaterOrEqual name value GNil []"
definition Between :: "string \<Rightarrow> 'f gval \<Rightarrow> 'f gval \<Rightarrow> 'f condition" where "Between name low high = Condition OpBetween name low high []"
definition StartsWith :: "string \<Rightarrow> string \<Rightarrow> 'f condition" where "StartsWith name prefix = Condition OpStartsWith name (GStr prefix) GNil []"
definition Contains :: "string \<Rightarrow> 'f gval \<Rightarrow> 'f condition" where "Contains name value = Condition OpContains name value GNil []"
definition Exists :: "string \<Rightarrow> 'f condition" where "Exists name = Condition OpExists name GNil GNil []"
definition NotExists :: "string \<Rightarrow> 'f condition" where "NotExists name = Condition OpNotExists name GNil GNil []"
definition All_of :: "'f condition list \<Rightarrow> 'f condition" where "All_of conditions = Condition OpAnd '''' GNil GNil conditions"
definition Any_of :: "'f condition list \<Rightarrow> 'f condition" where "Any_of conditions = Condition OpOr '''' GNil GNil conditions"

record sort_condition =
  sc_Op :: operator
  sc_Value :: string
  sc_High :: string

definition SortEqual :: "string \<Rightarrow> sort_condition" where "SortEqual v = \<lparr>sc_Op = OpEqual, sc_Value = v, sc_High = ''''\<rparr>"
definition SortLess :: "string \<Rightarrow> sort_condition" where "SortLess v = \<lparr>sc_Op = OpLess, sc_Value = v, sc_High = ''''\<rparr>"
definition SortLessOrEqual :: "string \<Rightarrow> sort_condition" where "SortLessOrEqual v = \<lparr>sc_Op = OpLessOrEqual, sc_Value = v, sc_High = ''''\<rparr>"
definition SortGreater :: "string \<Rightarrow> sort_condition" where "SortGreater v = \<lparr>sc_Op = OpGreater, sc_Value = v, sc_High = ''''\<rparr>"
definition SortGreaterOrEqual :: "string \<Rightarrow> sort_condition" where "SortGreaterOrEqual v = \<lparr>sc_Op = OpGreaterOrEqual, sc_Value = v, sc_High = ''''\<rparr>"
definition SortBetween :: "string \<Rightarrow> string \<Rightarrow> sort_condition" where "SortBetween lo hi = \<lparr>sc_Op = OpBetween, sc_Value = lo, sc_High = hi\<rparr>"
definition SortStartsWith :: "string \<Rightarrow> sort_condition" where "SortStartsWith v = \<lparr>sc_Op = OpStartsWith, sc_Value = v, sc_High = ''''\<rparr>"

record 'f write_options =
  wo_Condition :: "'f condition option"
  wo_Revision :: "revision option"

definition If_w :: "'f condition \<Rightarrow> 'f write_options \<Rightarrow> 'f write_options" where
  "If_w c options = options\<lparr>wo_Condition := Some c\<rparr>"

definition IfUnchanged :: "revision \<Rightarrow> 'f write_options \<Rightarrow> 'f write_options" where
  "IfUnchanged r options = options\<lparr>wo_Revision := Some r\<rparr>"

definition no_options :: "'f write_options" where
  "no_options = \<lparr>wo_Condition = None, wo_Revision = None\<rparr>"

definition ResolveWriteOptions :: "('f write_options \<Rightarrow> 'f write_options) list \<Rightarrow> 'f write_options" where
  "ResolveWriteOptions opts = fold (\<lambda>opt options. opt options) opts no_options"

subsection \<open>Evaluating conditions\<close>

definition ErrInvalidCondition :: gerr where
  "ErrInvalidCondition = Errorf ''celerity: invalid condition'' None"

definition asNumber :: "'f floats \<Rightarrow> 'f gval \<Rightarrow> 'f option" where
  "asNumber fl v = (case v of GFloat f \<Rightarrow> Some f | GInt i \<Rightarrow> Some (fl_of_int fl i) | _ \<Rightarrow> None)"

definition numbers :: "'f floats \<Rightarrow> 'f gval \<Rightarrow> 'f gval \<Rightarrow> ('f \<times> 'f) option" where
  "numbers fl stored want =
     (case (asNumber fl stored, asNumber fl want) of (Some l, Some r) \<Rightarrow> Some (l, r) | _ \<Rightarrow> None)"

definition equal_values :: "'f floats \<Rightarrow> 'f heap \<Rightarrow> 'f gval \<Rightarrow> 'f gval \<Rightarrow> bool" where
  "equal_values fl h stored want =
     (case numbers fl stored want of
        Some (l, r) \<Rightarrow> fl_equal fl l r
      | None \<Rightarrow> Sprint fl h (length h) stored = Sprint fl h (length h) want)"

definition strings_Compare :: "string \<Rightarrow> string \<Rightarrow> int" where
  "strings_Compare a b = (if a < b then -1 else if b < a then 1 else 0)"

definition order_values :: "'f floats \<Rightarrow> 'f gval \<Rightarrow> 'f gval \<Rightarrow> int option" where
  "order_values fl stored want =
     (case numbers fl stored want of
        Some (l, r) \<Rightarrow> Some (if fl_less fl l r then -1 else if fl_less fl r l then 1 else 0)
      | None \<Rightarrow> (case (stored, want) of (GStr l, GStr r) \<Rightarrow> Some (strings_Compare l r) | _ \<Rightarrow> None))"

definition contains_value :: "'f floats \<Rightarrow> 'f heap \<Rightarrow> 'f gval \<Rightarrow> 'f gval \<Rightarrow> bool" where
  "contains_value fl h stored want =
     (case stored of
        GStr held \<Rightarrow> (case want of GStr text \<Rightarrow> contains held text | _ \<Rightarrow> False)
      | GList held \<Rightarrow> list_ex (\<lambda>m. equal_values fl h m want) held
      | _ \<Rightarrow> False)"

definition compare :: "'f floats \<Rightarrow> 'f heap \<Rightarrow> 'f condition \<Rightarrow> 'f gval \<Rightarrow> gerr + bool" where
  "compare fl h c value =
     (case cd_Op c of
        OpEqual \<Rightarrow> Inr (equal_values fl h value (cd_Value c))
      | OpNotEqual \<Rightarrow> Inr (\<not> equal_values fl h value (cd_Value c))
      | OpStartsWith \<Rightarrow> Inr (case value of GStr text \<Rightarrow> has_prefix text (Sprint fl h (length h) (cd_Value c)) | _ \<Rightarrow> False)
      | OpContains \<Rightarrow> Inr (contains_value fl h value (cd_Value c))
      | OpBetween \<Rightarrow> Inr (case (order_values fl value (cd_Value c), order_values fl value (cd_High c)) of
            (Some low, Some high) \<Rightarrow> low \<ge> 0 \<and> high \<le> 0 | _ \<Rightarrow> False)
      | op \<Rightarrow>
          (case order_values fl value (cd_Value c) of
             None \<Rightarrow> Inr False
           | Some direction \<Rightarrow>
               (case op of
                  OpLess \<Rightarrow> Inr (direction < 0)
                | OpLessOrEqual \<Rightarrow> Inr (direction \<le> 0)
                | OpGreater \<Rightarrow> Inr (direction > 0)
                | OpGreaterOrEqual \<Rightarrow> Inr (direction \<ge> 0)
                | _ \<Rightarrow> Inl (Errorf (''celerity: '' @ error_text ErrInvalidCondition @ '': '' @ go_quote (op_string op)) (Some ErrInvalidCondition)))))"

fun matches :: "'f floats \<Rightarrow> 'f heap \<Rightarrow> 'f condition \<Rightarrow> 'f gobj \<Rightarrow> gerr + bool"
  and all_match :: "'f floats \<Rightarrow> 'f heap \<Rightarrow> 'f condition list \<Rightarrow> 'f gobj \<Rightarrow> gerr + bool"
  and any_match :: "'f floats \<Rightarrow> 'f heap \<Rightarrow> 'f condition list \<Rightarrow> 'f gobj \<Rightarrow> gerr + bool" where
  "matches fl h (Condition op name value high of') flds =
     (if op = OpAnd then all_match fl h of' flds
      else if op = OpOr then any_match fl h of' flds
      else if op = OpExists then Inr (gm_get flds name \<noteq> None)
      else if op = OpNotExists then Inr (gm_get flds name = None)
      else case gm_get flds name of
        None \<Rightarrow> Inr False
      | Some v \<Rightarrow> compare fl h (Condition op name value high of') v)"
| "all_match fl h [] flds = Inr True"
| "all_match fl h (c # cs) flds =
     (case matches fl h c flds of Inl e \<Rightarrow> Inl e | Inr met \<Rightarrow> if \<not> met then Inr False else all_match fl h cs flds)"
| "any_match fl h [] flds = Inr False"
| "any_match fl h (c # cs) flds =
     (case matches fl h c flds of Inl e \<Rightarrow> Inl e | Inr met \<Rightarrow> if met then Inr True else any_match fl h cs flds)"

definition filtered :: "'f floats \<Rightarrow> 'f heap \<Rightarrow> 'f condition option \<Rightarrow> 'f gobj \<Rightarrow> gerr + bool" where
  "filtered fl h c flds = (case c of None \<Rightarrow> Inr True | Some c \<Rightarrow> matches fl h c flds)"

definition sortMatches :: "sort_condition \<Rightarrow> string \<Rightarrow> bool" where
  "sortMatches c sortKey =
     (case sc_Op c of
        OpEqual \<Rightarrow> sortKey = sc_Value c
      | OpLess \<Rightarrow> sortKey < sc_Value c
      | OpLessOrEqual \<Rightarrow> sortKey \<le> sc_Value c
      | OpGreater \<Rightarrow> sortKey > sc_Value c
      | OpGreaterOrEqual \<Rightarrow> sortKey \<ge> sc_Value c
      | OpBetween \<Rightarrow> sortKey \<ge> sc_Value c \<and> sortKey \<le> sc_High c
      | OpStartsWith \<Rightarrow> has_prefix sortKey (sc_Value c)
      | _ \<Rightarrow> False)"

subsection \<open>Updates, batches and atomic operations\<close>

datatype update_kind = UpdateSet | UpdateRemove | UpdateIncrement | UpdateOther string

record 'f update_spec =
  up_Kind :: update_kind
  up_Path :: string
  up_Value :: "'f gval"
  up_By :: 'f

definition Set_u :: "'f floats \<Rightarrow> string \<Rightarrow> 'f gval \<Rightarrow> 'f update_spec" where
  "Set_u fl path value = \<lparr>up_Kind = UpdateSet, up_Path = path, up_Value = value, up_By = fl_zero fl\<rparr>"

definition Remove_u :: "'f floats \<Rightarrow> string \<Rightarrow> 'f update_spec" where
  "Remove_u fl path = \<lparr>up_Kind = UpdateRemove, up_Path = path, up_Value = GNil, up_By = fl_zero fl\<rparr>"

definition Increment_u :: "string \<Rightarrow> 'f \<Rightarrow> 'f update_spec" where
  "Increment_u path by' = \<lparr>up_Kind = UpdateIncrement, up_Path = path, up_Value = GNil, up_By = by'\<rparr>"

text \<open>An item to be written, as what \<^verbatim>\<open>json.Marshal\<close> returns for it.\<close>

type_synonym item = "gerr + jtree"

record batch_op =
  bo_Key :: key
  bo_Item :: item
  bo_remove :: bool

definition PutOp :: "key \<Rightarrow> item \<Rightarrow> batch_op" where
  "PutOp k i = \<lparr>bo_Key = k, bo_Item = i, bo_remove = False\<rparr>"

definition DeleteOp :: "key \<Rightarrow> batch_op" where
  "DeleteOp k = \<lparr>bo_Key = k, bo_Item = Inr TNull, bo_remove = True\<rparr>"

definition IsDelete :: "batch_op \<Rightarrow> bool" where
  "IsDelete op = bo_remove op"

datatype atomic_kind = atomicPut | atomicUpdate | atomicDelete

record 'f atomic_op =
  ao_Key :: key
  ao_Item :: item
  ao_Updates :: "'f update_spec list"
  ao_Options :: "'f write_options"
  ao_kind :: atomic_kind

definition AtomicPut :: "key \<Rightarrow> item \<Rightarrow> ('f write_options \<Rightarrow> 'f write_options) list \<Rightarrow> 'f atomic_op" where
  "AtomicPut k i opts = \<lparr>ao_Key = k, ao_Item = i, ao_Updates = [], ao_Options = ResolveWriteOptions opts, ao_kind = atomicPut\<rparr>"

definition AtomicUpdate :: "key \<Rightarrow> 'f update_spec list \<Rightarrow> ('f write_options \<Rightarrow> 'f write_options) list \<Rightarrow> 'f atomic_op" where
  "AtomicUpdate k us opts = \<lparr>ao_Key = k, ao_Item = Inr TNull, ao_Updates = us, ao_Options = ResolveWriteOptions opts, ao_kind = atomicUpdate\<rparr>"

definition AtomicDelete :: "key \<Rightarrow> ('f write_options \<Rightarrow> 'f write_options) list \<Rightarrow> 'f atomic_op" where
  "AtomicDelete k opts = \<lparr>ao_Key = k, ao_Item = Inr TNull, ao_Updates = [], ao_Options = ResolveWriteOptions opts, ao_kind = atomicDelete\<rparr>"

definition MaxUpdates :: nat where "MaxUpdates = 10"
definition MaxAtomicOps :: nat where "MaxAtomicOps = 100"

definition ErrNotFound :: gerr where "ErrNotFound = Errorf ''celerity: not found'' None"
definition ErrConditionFailed :: gerr where "ErrConditionFailed = Errorf ''celerity: condition not met'' None"
definition ErrInvalidRevision :: gerr where "ErrInvalidRevision = Errorf ''celerity: revision did not come from a read'' None"
definition ErrInvalidCursor :: gerr where "ErrInvalidCursor = Errorf ''celerity: cursor did not come from this store'' None"
definition ErrWrongPartition :: gerr where "ErrWrongPartition = Errorf ''celerity: operation outside the write's partition'' None"
definition ErrTooManyOperations :: gerr where "ErrTooManyOperations = Errorf ''celerity: too many operations in one request'' None"
definition ErrInvalidUpdate :: gerr where "ErrInvalidUpdate = Errorf ''celerity: invalid update'' None"

subsection \<open>The store\<close>

record stored_item =
  it_encoded :: jtree
  it_fields :: "nat option"
  it_revision :: string

type_synonym item_table = "(string, (string, stored_item) gomap) gomap"

record 'f datastore =
  dt_name :: string
  dt_items :: item_table
  dt_revisions :: int
  dt_heap :: "'f heap"

definition NewDatastore :: "string \<Rightarrow> 'f heap \<Rightarrow> 'f datastore" where
  "NewDatastore name h = \<lparr>dt_name = name, dt_items = [], dt_revisions = 0, dt_heap = h\<rparr>"

definition partition_at :: "item_table \<Rightarrow> string \<Rightarrow> (string, stored_item) gomap" where
  "partition_at items p = (case gm_get items p of None \<Rightarrow> [] | Some m \<Rightarrow> m)"

definition item_at :: "'f datastore \<Rightarrow> key \<Rightarrow> stored_item option" where
  "item_at d k = gm_get (partition_at (dt_items d) (k_Partition k)) (k_Sort k)"

definition dt_Len :: "'f datastore \<Rightarrow> nat" where
  "dt_Len d = sum_list (map (length \<circ> snd) (dt_items d))"

definition ref_text :: "'f datastore \<Rightarrow> string" where
  "ref_text d = ''datastore '' @ go_quote (dt_name d)"

definition key_text :: "key \<Rightarrow> string" where
  "key_text k = ''{'' @ k_Partition k @ '' '' @ k_Sort k @ ''}''"

definition absent :: "'f datastore \<Rightarrow> key \<Rightarrow> gerr" where
  "absent d k = Errorf (''celerity: '' @ ref_text d @ '' holds no item '' @ key_text k @ '': '' @ error_text ErrNotFound) (Some ErrNotFound)"

definition refused_write :: "'f datastore \<Rightarrow> key \<Rightarrow> gerr" where
  "refused_write d k = Errorf (''celerity: '' @ ref_text d @ '' refused a write to '' @ key_text k @ '': '' @ error_text ErrConditionFailed)
     (Some ErrConditionFailed)"

text \<open>\<open>read\<close> is \<^verbatim>\<open>json.Unmarshal\<close> into the caller's type, named \<open>typ\<close>.\<close>

definition Get_item :: "(jtree \<Rightarrow> gerr + 'o) \<Rightarrow> string \<Rightarrow> 'f datastore \<Rightarrow> key \<Rightarrow> gerr + revision \<times> 'o" where
  "Get_item read typ d k =
     (case item_at d k of
        None \<Rightarrow> Inl (absent d k)
      | Some item \<Rightarrow>
          (case read (it_encoded item) of
             Inl err \<Rightarrow> Inl (Errorf (''celerity: reading '' @ ref_text d @ '' '' @ key_text k @ '' as '' @ typ @ '': '' @ error_text err) (Some err))
           | Inr out \<Rightarrow> Inr (NewRevision (it_revision item), out)))"

definition check :: "'f floats \<Rightarrow> 'f datastore \<Rightarrow> key \<Rightarrow> stored_item option \<Rightarrow> 'f write_options \<Rightarrow> gerr option" where
  "check fl d k existing options =
     (case (case wo_Revision options of
              None \<Rightarrow> None
            | Some r \<Rightarrow>
                if \<not> rev_Known r then Some ErrInvalidRevision
                else (case existing of
                        None \<Rightarrow> Some (refused_write d k)
                      | Some item \<Rightarrow> if it_revision item \<noteq> fst (rev_Value r) then Some (refused_write d k) else None)) of
        Some err \<Rightarrow> Some err
      | None \<Rightarrow>
          (case wo_Condition options of
             None \<Rightarrow> None
           | Some c \<Rightarrow>
               (case matches fl (dt_heap d) c (case existing of None \<Rightarrow> [] | Some item \<Rightarrow> map_at (dt_heap d) (it_fields item)) of
                  Inl err \<Rightarrow> Some err
                | Inr met \<Rightarrow> if \<not> met then Some (refused_write d k) else None)))"

definition store :: "key \<Rightarrow> stored_item \<Rightarrow> 'f datastore \<Rightarrow> 'f datastore" where
  "store k item d = d\<lparr>dt_items := gm_put (k_Partition k)
     (gm_put (k_Sort k) item (partition_at (dt_items d) (k_Partition k))) (dt_items d)\<rparr>"

definition revision_name :: "int \<Rightarrow> string" where
  "revision_name n = ''r'' @ itoa n"

definition put :: "'f floats \<Rightarrow> key \<Rightarrow> item \<Rightarrow> 'f write_options \<Rightarrow> 'f datastore \<Rightarrow> (gerr + revision) \<times> 'f datastore" where
  "put fl k item options d =
     (case check fl d k (item_at d k) options of
        Some err \<Rightarrow> (Inl err, d)
      | None \<Rightarrow>
          (case item of
             Inl err \<Rightarrow> (Inl (Errorf (''celerity: writing '' @ ref_text d @ '' '' @ key_text k @ '': '' @ error_text err) (Some err)), d)
           | Inr encoded \<Rightarrow>
               (case alloc_fields fl encoded (dt_heap d) of
                  (Inl err, h) \<Rightarrow> (Inl (Errorf (''celerity: '' @ ref_text d @ '' holds objects, and '' @ key_text k @ '' was written as ''
                     @ tree_text encoded) None), d\<lparr>dt_heap := h\<rparr>)
                | (Inr flds, h) \<Rightarrow>
                    (let n = dt_revisions d + 1; rev' = revision_name n
                     in (Inr (NewRevision rev'), store k \<lparr>it_encoded = encoded, it_fields = flds, it_revision = rev'\<rparr>
                           (d\<lparr>dt_revisions := n, dt_heap := h\<rparr>))))))"

definition remove :: "'f floats \<Rightarrow> key \<Rightarrow> 'f write_options \<Rightarrow> 'f datastore \<Rightarrow> gerr option \<times> 'f datastore" where
  "remove fl k options d =
     (case check fl d k (item_at d k) options of
        Some err \<Rightarrow> (Some err, d)
      | None \<Rightarrow>
          (None, case gm_get (dt_items d) (k_Partition k) of
             None \<Rightarrow> d
           | Some m \<Rightarrow> d\<lparr>dt_items := gm_put (k_Partition k) (gm_del (k_Sort k) m) (dt_items d)\<rparr>))"

definition Put :: "'f floats \<Rightarrow> key \<Rightarrow> item \<Rightarrow> ('f write_options \<Rightarrow> 'f write_options) list \<Rightarrow> 'f datastore \<Rightarrow> (gerr + revision) \<times> 'f datastore" where
  "Put fl k item opts d = put fl k item (ResolveWriteOptions opts) d"

definition Delete :: "'f floats \<Rightarrow> key \<Rightarrow> ('f write_options \<Rightarrow> 'f write_options) list \<Rightarrow> 'f datastore \<Rightarrow> gerr option \<times> 'f datastore" where
  "Delete fl k opts d = remove fl k (ResolveWriteOptions opts) d"

definition Seed :: "'f floats \<Rightarrow> key \<Rightarrow> item \<Rightarrow> 'f datastore \<Rightarrow> gerr option \<times> 'f datastore" where
  "Seed fl k item d = (case Put fl k item [] d of (Inl err, d') \<Rightarrow> (Some err, d') | (Inr r, d') \<Rightarrow> (None, d'))"

subsection \<open>Updates in place\<close>

text \<open>\<^verbatim>\<open>walk\<close>: the map that holds the last segment, with maps made along the way where a segment holds none.\<close>

fun walk :: "nat \<Rightarrow> string list \<Rightarrow> 'f heap \<Rightarrow> (nat \<times> string) \<times> 'f heap" where
  "walk parent [] h = ((parent, ''''), h)"
| "walk parent [leaf] h = ((parent, leaf), h)"
| "walk parent (segment # rest) h =
     (case gm_get (obj_at h parent) segment of
        Some (GMap a) \<Rightarrow> walk a rest h
      | _ \<Rightarrow> walk (length h) rest (put_at parent segment (GMap (length h)) (h @ [[]])))"

definition apply_update :: "'f floats \<Rightarrow> 'f update_spec \<Rightarrow> nat \<Rightarrow> 'f heap \<Rightarrow> gerr option \<times> 'f heap" where
  "apply_update fl change flds h =
     (if up_Path change = '''' then (Some ErrInvalidUpdate, h)
      else case walk flds (split_on (CHR ''.'') (up_Path change)) h of
        ((parent, leaf), h') \<Rightarrow>
          (case up_Kind change of
             UpdateSet \<Rightarrow> (None, put_at parent leaf (up_Value change) h')
           | UpdateRemove \<Rightarrow> (None, del_at parent leaf h')
           | UpdateIncrement \<Rightarrow>
               (let current = (case gm_get (obj_at h' parent) leaf of Some (GFloat f) \<Rightarrow> f | _ \<Rightarrow> fl_zero fl)
                in (None, put_at parent leaf (GFloat (fl_add fl current (up_By change))) h'))
           | UpdateOther s \<Rightarrow> (Some ErrInvalidUpdate, h')))"

fun apply_all :: "'f floats \<Rightarrow> 'f update_spec list \<Rightarrow> nat \<Rightarrow> 'f heap \<Rightarrow> gerr option \<times> 'f heap" where
  "apply_all fl [] flds h = (None, h)"
| "apply_all fl (u # us) flds h =
     (case apply_update fl u flds h of (Some err, h') \<Rightarrow> (Some err, h') | (None, h') \<Rightarrow> apply_all fl us flds h')"

definition ds_update ::
    "'f floats \<Rightarrow> key \<Rightarrow> 'f update_spec list \<Rightarrow> 'f write_options \<Rightarrow> 'f datastore \<Rightarrow> (gerr + revision) \<times> 'f datastore" where
  "ds_update fl k updates options d =
     (if length updates > MaxUpdates then (Inl ErrTooManyOperations, d)
      else case item_at d k of
        None \<Rightarrow> (Inl (absent d k), d)
      | Some existing \<Rightarrow>
          (case check fl d k (Some existing) options of
             Some err \<Rightarrow> (Inl err, d)
           | None \<Rightarrow>
               (let flds = length (dt_heap d); h = dt_heap d @ [map_at (dt_heap d) (it_fields existing)]
                in case apply_all fl updates flds h of
                     (Some err, h') \<Rightarrow> (Inl err, d\<lparr>dt_heap := h'\<rparr>)
                   | (None, h') \<Rightarrow>
                       (case marshal fl h' (length h') (GMap flds) of
                          Inl err \<Rightarrow> (Inl err, d\<lparr>dt_heap := h'\<rparr>)
                        | Inr encoded \<Rightarrow>
                            (let n = dt_revisions d + 1; rev' = revision_name n
                             in (Inr (NewRevision rev'), store k \<lparr>it_encoded = encoded, it_fields = Some flds, it_revision = rev'\<rparr>
                                   (d\<lparr>dt_revisions := n, dt_heap := h'\<rparr>)))))))"

definition Update ::
    "'f floats \<Rightarrow> key \<Rightarrow> 'f update_spec list \<Rightarrow> ('f write_options \<Rightarrow> 'f write_options) list \<Rightarrow> 'f datastore \<Rightarrow> (gerr + revision) \<times> 'f datastore" where
  "Update fl k updates opts d = ds_update fl k updates (ResolveWriteOptions opts) d"

subsection \<open>Many operations\<close>

fun BatchWrite :: "'f floats \<Rightarrow> batch_op list \<Rightarrow> 'f datastore \<Rightarrow> batch_op list \<times> 'f datastore" where
  "BatchWrite fl [] d = ([], d)"
| "BatchWrite fl (op # ops) d =
     (let (failed, d1) = (if IsDelete op
            then (case remove fl (bo_Key op) no_options d of (err, d') \<Rightarrow> (err \<noteq> None, d'))
            else (case put fl (bo_Key op) (bo_Item op) no_options d of (Inl err, d') \<Rightarrow> (True, d') | (Inr r, d') \<Rightarrow> (False, d')));
          (unapplied, d2) = BatchWrite fl ops d1
      in (if failed then op # unapplied else unapplied, d2))"

definition applyAtomic :: "'f floats \<Rightarrow> 'f atomic_op \<Rightarrow> 'f datastore \<Rightarrow> gerr option \<times> 'f datastore" where
  "applyAtomic fl op d =
     (case ao_kind op of
        atomicPut \<Rightarrow> (case put fl (ao_Key op) (ao_Item op) (ao_Options op) d of (Inl e, d') \<Rightarrow> (Some e, d') | (Inr r, d') \<Rightarrow> (None, d'))
      | atomicUpdate \<Rightarrow> (case ds_update fl (ao_Key op) (ao_Updates op) (ao_Options op) d of (Inl e, d') \<Rightarrow> (Some e, d') | (Inr r, d') \<Rightarrow> (None, d'))
      | atomicDelete \<Rightarrow> remove fl (ao_Key op) (ao_Options op) d)"

fun apply_atomics :: "'f floats \<Rightarrow> 'f atomic_op list \<Rightarrow> 'f datastore \<Rightarrow> gerr option \<times> 'f datastore" where
  "apply_atomics fl [] d = (None, d)"
| "apply_atomics fl (op # ops) d =
     (case applyAtomic fl op d of (Some err, d') \<Rightarrow> (Some err, d') | (None, d') \<Rightarrow> apply_atomics fl ops d')"

text \<open>\<^verbatim>\<open>snapshot\<close> copies the two levels of the table; the items in it still hold their maps by reference.\<close>

definition snapshot :: "'f datastore \<Rightarrow> item_table" where
  "snapshot d = dt_items d"

definition Atomically :: "'f floats \<Rightarrow> string \<Rightarrow> 'f atomic_op list \<Rightarrow> 'f datastore \<Rightarrow> gerr option \<times> 'f datastore" where
  "Atomically fl part ops d =
     (if length ops > MaxAtomicOps then (Some ErrTooManyOperations, d)
      else if list_ex (\<lambda>op. k_Partition (ao_Key op) \<noteq> part) ops then (Some ErrWrongPartition, d)
      else let restore = snapshot d
           in case apply_atomics fl ops d of
                (Some err, d') \<Rightarrow> (Some err, d'\<lparr>dt_items := restore\<rparr>)
              | (None, d') \<Rightarrow> (None, d'))"

subsection \<open>Reading many\<close>

record 'f query =
  q_Partition :: string
  q_Sort :: "sort_condition option"
  q_Filter :: "'f condition option"
  q_Index :: string
  q_Project :: "string list"
  q_Descending :: bool
  q_Limit :: int
  q_Cursor :: string

record 'f scan =
  s_Filter :: "'f condition option"
  s_Project :: "string list"
  s_Limit :: int
  s_Cursor :: string

definition projected :: "'f floats \<Rightarrow> 'f heap \<Rightarrow> stored_item \<Rightarrow> string list \<Rightarrow> gerr + jtree" where
  "projected fl h item project =
     (if length project = 0 then Inr (it_encoded item)
      else let flds = map_at h (it_fields item);
               narrowed = fold (\<lambda>name m. case gm_get flds name of Some v \<Rightarrow> gm_put name v m | None \<Rightarrow> m) project []
           in case sequence_sum (map (\<lambda>kv. case marshal fl h (length h) (snd kv) of Inl e \<Rightarrow> Inl e | Inr t \<Rightarrow> Inr (fst kv, t)) narrowed) of
                Inl e \<Rightarrow> Inl e | Inr kts \<Rightarrow> Inr (TObj kts))"

text \<open>A caller's slice: how one element is read, the name of the type, and what handing an element its revision
  does to it (nothing, where its type does not receive one).\<close>

record 'o destination_type =
  de_read :: "jtree \<Rightarrow> gerr + 'o"
  de_type :: string
  de_SetRevision :: "revision \<Rightarrow> 'o \<Rightarrow> 'o"

definition fill :: "'o destination_type \<Rightarrow> jtree list \<Rightarrow> gerr + 'o list" where
  "fill de page =
     (case sequence_sum (map (de_read de) page) of
        Inl err \<Rightarrow> Inl (Errorf (''celerity: reading a page as '' @ de_type de @ '': '' @ error_text err) (Some err))
      | Inr xs \<Rightarrow> Inr xs)"

definition DeliverRevisions :: "'o destination_type \<Rightarrow> 'o list \<Rightarrow> revision list \<Rightarrow> 'o list" where
  "DeliverRevisions de xs revisions =
     map (\<lambda>i. if i < length revisions then de_SetRevision de (revisions ! i) (xs ! i) else xs ! i) [0..<length xs]"

definition makeslice_error :: pval where
  "makeslice_error = PanicErr (AppErr ''runtime error: makeslice: cap out of range'' ''runtime.errorString'' None None None None [])"

definition read_page :: "'f floats \<Rightarrow> 'o destination_type \<Rightarrow> 'f heap \<Rightarrow> stored_item list \<Rightarrow> string list \<Rightarrow> gerr + 'o list" where
  "read_page fl de h items project =
     (case sequence_sum (map (\<lambda>item. projected fl h item project) items) of
        Inl err \<Rightarrow> Inl err
      | Inr encoded \<Rightarrow>
          (case fill de encoded of
             Inl err \<Rightarrow> Inl err
           | Inr xs \<Rightarrow> Inr (DeliverRevisions de xs (map (\<lambda>item. NewRevision (it_revision item)) items))))"

definition page ::
    "'f floats \<Rightarrow> 'o destination_type \<Rightarrow> 'f heap \<Rightarrow> stored_item list \<Rightarrow> int \<Rightarrow> string \<Rightarrow> string list
       \<Rightarrow> (pval, gerr + 'o list \<times> string) outcome" where
  "page fl de h matched limit cursor project =
     (case (if cursor \<noteq> '''' then scan_int cursor else Some 0) of
        None \<Rightarrow> Done (Inl ErrInvalidCursor)
      | Some start \<Rightarrow>
          if start > int (length matched) then Done (Inl ErrInvalidCursor)
          else let end' = page_end start limit (int (length matched))
               in if end' - start < 0 then Panic makeslice_error
                  else bind_outcome (go_slice matched start end') (\<lambda>items.
                    Done (case read_page fl de h items project of
                            Inl err \<Rightarrow> Inl err
                          | Inr xs \<Rightarrow> Inr (xs, if end' < int (length matched) then itoa end' else ''''))))"

fun keep_matching :: "'f floats \<Rightarrow> 'f heap \<Rightarrow> 'f condition option \<Rightarrow> stored_item list \<Rightarrow> gerr + stored_item list" where
  "keep_matching fl h c [] = Inr []"
| "keep_matching fl h c (item # items) =
     (case filtered fl h c (map_at h (it_fields item)) of
        Inl err \<Rightarrow> Inl err
      | Inr keep \<Rightarrow> (case keep_matching fl h c items of Inl err \<Rightarrow> Inl err | Inr rest \<Rightarrow> Inr (if keep then item # rest else rest)))"

definition reverse :: "string list \<Rightarrow> string list" where
  "reverse xs = rev xs"

definition partition_items :: "(string, stored_item) gomap \<Rightarrow> string list \<Rightarrow> stored_item list" where
  "partition_items m sorts = map (\<lambda>s. the (gm_get m s)) sorts"

definition query_sorts :: "'f datastore \<Rightarrow> 'f query \<Rightarrow> string list" where
  "query_sorts d q =
     (let sorts = sorted_keys (partition_at (dt_items d) (q_Partition q));
          sorts = (if q_Descending q then reverse sorts else sorts)
      in filter (\<lambda>s. case q_Sort q of None \<Rightarrow> True | Some c \<Rightarrow> sortMatches c s) sorts)"

definition Query :: "'f floats \<Rightarrow> 'o destination_type \<Rightarrow> 'f datastore \<Rightarrow> 'f query \<Rightarrow> (pval, gerr + 'o list \<times> string) outcome" where
  "Query fl de d q =
     (case keep_matching fl (dt_heap d) (q_Filter q)
         (partition_items (partition_at (dt_items d) (q_Partition q)) (query_sorts d q)) of
        Inl err \<Rightarrow> Done (Inl err)
      | Inr matched \<Rightarrow> page fl de (dt_heap d) matched (q_Limit q) (q_Cursor q) (q_Project q))"

definition scan_items :: "'f datastore \<Rightarrow> stored_item list" where
  "scan_items d = concat (map (\<lambda>p. partition_items (partition_at (dt_items d) p) (sorted_keys (partition_at (dt_items d) p)))
     (sorted_keys (dt_items d)))"

definition Scan :: "'f floats \<Rightarrow> 'o destination_type \<Rightarrow> 'f datastore \<Rightarrow> 'f scan \<Rightarrow> (pval, gerr + 'o list \<times> string) outcome" where
  "Scan fl de d s =
     (case keep_matching fl (dt_heap d) (s_Filter s) (scan_items d) of
        Inl err \<Rightarrow> Done (Inl err)
      | Inr matched \<Rightarrow> page fl de (dt_heap d) matched (s_Limit s) (s_Cursor s) (s_Project s))"

definition BatchGet :: "'o destination_type \<Rightarrow> 'f datastore \<Rightarrow> key list \<Rightarrow> gerr + key list \<times> 'o list" where
  "BatchGet de d ks =
     (let found = List.map_filter (item_at d) ks
      in case fill de (map it_encoded found) of
           Inl err \<Rightarrow> Inl err
         | Inr xs \<Rightarrow> Inr (filter (\<lambda>k. item_at d k = None) ks,
             DeliverRevisions de xs (map (\<lambda>item. NewRevision (it_revision item)) found)))"

definition Items ::
    "('f query \<Rightarrow> (pval, gerr + 'a list \<times> string) outcome) \<Rightarrow> 'a \<Rightarrow> ('a, 'c) consumer \<Rightarrow> 'f query \<Rightarrow> 'c
       \<Rightarrow> (pval, 'c \<times> 'f query) outcome option" where
  "Items run zero yield q c = read_pages run (\<lambda>cursor q. q\<lparr>q_Cursor := cursor\<rparr>) zero yield q c"

definition Scanned ::
    "('f scan \<Rightarrow> (pval, gerr + 'a list \<times> string) outcome) \<Rightarrow> 'a \<Rightarrow> ('a, 'c) consumer \<Rightarrow> 'f scan \<Rightarrow> 'c
       \<Rightarrow> (pval, 'c \<times> 'f scan) outcome option" where
  "Scanned run zero yield s c = read_pages run (\<lambda>cursor s. s\<lparr>s_Cursor := cursor\<rparr>) zero yield s c"

end
