(* ===== verification/Datastore_Props.thy ===== *)
theory Datastore_Props
  imports Datastore
begin

text \<open>
  What holds of the document store over any sequence of operations: a revision identifies a version of an item, an
  atomic write is all or none of what reads see, and a query read page by page is the whole of it.
\<close>

subsection \<open>Lookups\<close>

lemma partition_at_put [simp]:
  "partition_at (gm_put p m items) p' = (if p' = p then m else partition_at items p')"
  by (simp add: partition_at_def)

lemma item_at_store [simp]: "item_at (store k item d) k' = (if k' = k then Some item else item_at d k')"
  by (cases k; cases k') (auto simp: item_at_def store_def)

lemma dt_store [simp]:
  "dt_revisions (store k item d) = dt_revisions d" "dt_heap (store k item d) = dt_heap d" "dt_name (store k item d) = dt_name d"
  by (simp_all add: store_def)

lemma item_at_cong: "dt_items d = dt_items d' \<Longrightarrow> item_at d k = item_at d' k"
  by (simp add: item_at_def)

lemma item_at_simps [simp]:
  "item_at (d\<lparr>dt_heap := h\<rparr>) k = item_at d k" "item_at (d\<lparr>dt_revisions := n\<rparr>) k = item_at d k"
  by (simp_all add: item_at_def)

lemma item_at_New [simp]: "item_at (NewDatastore name h) k = None"
  by (simp add: item_at_def NewDatastore_def partition_at_def)

lemma revision_name_inject [simp]: "0 \<le> n \<Longrightarrow> 0 \<le> m \<Longrightarrow> revision_name n = revision_name m \<longleftrightarrow> n = m"
  by (auto simp: revision_name_def itoa_def)

subsection \<open>How an operation changes the items\<close>

text \<open>Every item an operation leaves is one that was there, under its key, or has a revision issued by the operation.\<close>

definition later :: "'f datastore \<Rightarrow> 'f datastore \<Rightarrow> bool" where
  "later d d' \<longleftrightarrow> dt_revisions d \<le> dt_revisions d' \<and> dt_name d' = dt_name d
     \<and> (\<forall>k item. item_at d' k = Some item \<longrightarrow>
          item_at d k = Some item \<or> (\<exists>n. dt_revisions d < n \<and> n \<le> dt_revisions d' \<and> it_revision item = revision_name n))"

lemma later_refl [simp, intro]: "later d d"
  by (simp add: later_def)

lemma later_trans: "later d d' \<Longrightarrow> later d' d'' \<Longrightarrow> later d d''"
  unfolding later_def by (metis order_trans order_le_less_trans order_less_le_trans)

lemma later_heap [simp]: "later d (d\<lparr>dt_heap := h\<rparr>)"
  by (simp add: later_def)

lemma later_store:
  "later d (store k \<lparr>it_encoded = e, it_fields = f, it_revision = revision_name (dt_revisions d + 1)\<rparr>
     (d\<lparr>dt_revisions := dt_revisions d + 1, dt_heap := h\<rparr>))"
  unfolding later_def by (auto intro!: exI [of _ "dt_revisions d + 1"])

lemma later_put [inv_intros]: "later d (snd (put fl k item options d))"
  by (auto simp: put_def Let_def later_store split: option.splits sum.splits prod.splits)

lemma later_update [inv_intros]: "later d (snd (ds_update fl k us options d))"
  by (auto simp: ds_update_def Let_def later_store split: option.splits sum.splits prod.splits)

lemma item_at_remove:
  "item_at (snd (remove fl k options d)) k' = (if fst (remove fl k options d) = None \<and> k' = k then None else item_at d k')"
  by (cases k; cases k') (auto simp: remove_def item_at_def partition_at_def split: option.splits)

lemma later_remove [inv_intros]: "later d (snd (remove fl k options d))"
proof -
  have "dt_revisions (snd (remove fl k options d)) = dt_revisions d" "dt_name (snd (remove fl k options d)) = dt_name d"
    by (simp_all add: remove_def split: option.splits)
  then show ?thesis by (auto simp: later_def item_at_remove split: if_splits)
qed

lemma snd_BatchWrite_Cons:
  "snd (BatchWrite fl (op # ops) d) = snd (BatchWrite fl ops
     (if IsDelete op then snd (remove fl (bo_Key op) no_options d) else snd (put fl (bo_Key op) (bo_Item op) no_options d)))"
  by (auto simp: Let_def split: prod.splits sum.splits)

lemma later_BatchWrite [inv_intros]: "later d (snd (BatchWrite fl ops d))"
proof (induction ops arbitrary: d)
  case (Cons op ops)
  show ?case unfolding snd_BatchWrite_Cons by (rule later_trans [OF _ Cons.IH]) (simp add: inv_intros)
qed simp

lemma later_applyAtomic: "later d (snd (applyAtomic fl op d))"
  using later_put [of d fl "ao_Key op" "ao_Item op" "ao_Options op"] later_update [of d fl "ao_Key op" "ao_Updates op" "ao_Options op"]
    later_remove [of d fl "ao_Key op" "ao_Options op"]
  by (auto simp: applyAtomic_def split: atomic_kind.splits prod.splits sum.splits)

lemma later_apply_atomics: "later d (snd (apply_atomics fl ops d))"
proof (induction ops arbitrary: d)
  case (Cons op ops)
  then show ?case
    using later_applyAtomic [of d fl op] later_trans by (auto split: prod.splits option.splits) blast
qed simp

lemma later_restore: "later d d' \<Longrightarrow> later d (d'\<lparr>dt_items := dt_items d\<rparr>)"
  by (auto simp: later_def item_at_def)

lemma later_Atomically [inv_intros]: "later d (snd (Atomically fl part ops d))"
  using later_apply_atomics [of d fl ops] later_restore [of d "snd (apply_atomics fl ops d)"]
  by (auto simp: Atomically_def snapshot_def Let_def split: prod.splits option.splits)

subsection \<open>Runs\<close>

datatype 'f ds_op = Ds_Put key item "('f write_options \<Rightarrow> 'f write_options) list"
  | Ds_Delete key "('f write_options \<Rightarrow> 'f write_options) list"
  | Ds_Update key "'f update_spec list" "('f write_options \<Rightarrow> 'f write_options) list"
  | Ds_BatchWrite "batch_op list"
  | Ds_Atomically string "'f atomic_op list"

primrec ds_do :: "'f floats \<Rightarrow> 'f ds_op \<Rightarrow> 'f datastore \<Rightarrow> 'f datastore" where
  "ds_do fl (Ds_Put k item opts) d = snd (Put fl k item opts d)"
| "ds_do fl (Ds_Delete k opts) d = snd (Delete fl k opts d)"
| "ds_do fl (Ds_Update k us opts) d = snd (Update fl k us opts d)"
| "ds_do fl (Ds_BatchWrite ops) d = snd (BatchWrite fl ops d)"
| "ds_do fl (Ds_Atomically part ops) d = snd (Atomically fl part ops d)"

definition ds_run :: "'f floats \<Rightarrow> 'f ds_op list \<Rightarrow> 'f datastore \<Rightarrow> 'f datastore" where
  "ds_run fl ops d = fold (ds_do fl) ops d"

lemma later_do: "later d (ds_do fl op d)"
  by (cases op) (simp_all add: Put_def Delete_def Update_def inv_intros)

lemma later_run: "later d (ds_run fl ops d)"
  unfolding ds_run_def by (induction ops arbitrary: d) (auto intro: later_trans later_do)

text \<open>Every revision in the store has been issued.\<close>

definition issued_only :: "'f datastore \<Rightarrow> bool" where
  "issued_only d \<longleftrightarrow> 0 \<le> dt_revisions d
     \<and> (\<forall>k item. item_at d k = Some item \<longrightarrow> (\<exists>n. 0 < n \<and> n \<le> dt_revisions d \<and> it_revision item = revision_name n))"

lemma issued_only_later:
  assumes "issued_only d" and "later d d'"
  shows "issued_only d'"
  unfolding issued_only_def
proof (intro conjI allI impI)
  show "0 \<le> dt_revisions d'" using assms by (auto simp: issued_only_def later_def)
  fix k item assume "item_at d' k = Some item"
  with assms(2) consider "item_at d k = Some item"
    | n where "dt_revisions d < n" "n \<le> dt_revisions d'" "it_revision item = revision_name n"
    unfolding later_def by blast
  then show "\<exists>n. 0 < n \<and> n \<le> dt_revisions d' \<and> it_revision item = revision_name n"
    using assms unfolding issued_only_def later_def by cases (meson order_trans, meson le_less_trans)
qed

lemma issued_only_run: "issued_only (ds_run fl ops (NewDatastore name h))"
proof -
  have "issued_only (NewDatastore name h)" by (simp add: issued_only_def) (simp add: NewDatastore_def)
  then show ?thesis using issued_only_later later_run by blast
qed

text \<open>A revision identifies a version: an item found later under the same key with the same revision is the same
  item.\<close>

lemma same_revision_same_item:
  assumes "issued_only d" and "later d d'" and "item_at d k = Some item" and "item_at d' k = Some item'"
    and "it_revision item' = it_revision item"
  shows "item' = item"
proof -
  from assms(1,3) obtain n where n: "0 < n" "n \<le> dt_revisions d" "it_revision item = revision_name n"
    unfolding issued_only_def by blast
  from assms(2,4) consider "item_at d k = Some item'"
    | m where "dt_revisions d < m" "it_revision item' = revision_name m"
    unfolding later_def by blast
  then show ?thesis
  proof cases
    case 2
    with n assms(5) have "n = m" using revision_name_inject [of n m] by simp
    with 2(1) n(2) show ?thesis by simp
  qed (use assms(3) in simp)
qed

lemma check_IfUnchanged:
  assumes "issued_only d" and "later d d'" and "Get_item read typ d k = Inr (rev', out)"
  shows "check fl d' k (item_at d' k) (ResolveWriteOptions [IfUnchanged rev'])
    = (if item_at d' k = item_at d k then None else Some (refused_write d' k))"
proof -
  from assms(3) obtain item where item: "item_at d k = Some item" "rev' = NewRevision (it_revision item)"
    by (auto simp: Get_item_def split: option.splits sum.splits)
  then show ?thesis
    using same_revision_same_item [OF assms(1,2) item(1)]
    by (auto simp: check_def ResolveWriteOptions_def IfUnchanged_def no_options_def NewRevision_def rev_Known_def rev_Value_def
        split: option.splits)
qed

subsection \<open>Atomic writes\<close>

abbreviation atomic_do :: "'f floats \<Rightarrow> 'f atomic_op \<Rightarrow> 'f datastore \<Rightarrow> 'f datastore" where
  "atomic_do fl op d \<equiv> snd (applyAtomic fl op d)"

lemma put_elsewhere: "k' \<noteq> k \<Longrightarrow> item_at (snd (put fl k item options d)) k' = item_at d k'"
  by (auto simp: put_def Let_def split: option.splits sum.splits prod.splits)

lemma update_elsewhere: "k' \<noteq> k \<Longrightarrow> item_at (snd (ds_update fl k us options d)) k' = item_at d k'"
  by (auto simp: ds_update_def Let_def split: option.splits sum.splits prod.splits)

lemma atomic_elsewhere: "k' \<noteq> ao_Key op \<Longrightarrow> item_at (atomic_do fl op d) k' = item_at d k'"
  using put_elsewhere [of k' "ao_Key op" fl "ao_Item op" "ao_Options op" d]
    update_elsewhere [of k' "ao_Key op" fl "ao_Updates op" "ao_Options op" d]
    item_at_remove [of fl "ao_Key op" "ao_Options op" d k']
  by (auto simp: applyAtomic_def split: atomic_kind.splits prod.splits sum.splits)

lemma atomics_elsewhere:
  "k \<notin> ao_Key ` set ops \<Longrightarrow> item_at (snd (apply_atomics fl ops d)) k = item_at d k"
proof (induction ops arbitrary: d)
  case (Cons op ops)
  then show ?case using atomic_elsewhere [of k op fl d] by (auto split: prod.splits option.splits)
qed simp

lemma apply_atomics_success:
  "apply_atomics fl ops d = (None, d') \<longleftrightarrow>
     d' = fold (atomic_do fl) ops d \<and> (\<forall>i<length ops. fst (applyAtomic fl (ops ! i) (fold (atomic_do fl) (take i ops) d)) = None)"
proof (induction ops arbitrary: d)
  case (Cons op ops)
  obtain r d1 where r: "applyAtomic fl op d = (r, d1)" by fastforce
  then show ?case
  proof (cases r)
    case None
    have "(\<forall>i<length (op # ops). fst (applyAtomic fl ((op # ops) ! i) (fold (atomic_do fl) (take i (op # ops)) d)) = None)
      \<longleftrightarrow> (\<forall>i<length ops. fst (applyAtomic fl (ops ! i) (fold (atomic_do fl) (take i ops) d1)) = None)"
      using r None by (simp add: All_less_Suc2)
    then show ?thesis using r None Cons.IH [of d1] by simp
  next
    case (Some err)
    with r show ?thesis by (auto intro: exI [of _ 0])
  qed
qed auto


subsection \<open>Optimistic locking\<close>

text \<open>C26. A write conditional on a revision is never a lost update. Whatever was done to the store since a read gave
  the revision, the write does what it would do without the condition when the item is still the one that was read;
  otherwise (the item was written again, deleted, or deleted and made anew) it is refused and changes nothing.\<close>

theorem no_lost_update:
  assumes "d = ds_run fl before (NewDatastore name h)" and "Get_item read typ d k = Inr (rev', out)" and "d' = ds_run fl ops d"
  shows "if item_at d' k = item_at d k
    then Put fl k item [IfUnchanged rev'] d' = Put fl k item [] d' \<and> Update fl k us [IfUnchanged rev'] d' = Update fl k us [] d'
      \<and> Delete fl k [IfUnchanged rev'] d' = Delete fl k [] d'
    else Put fl k item [IfUnchanged rev'] d' = (Inl (refused_write d' k), d')
      \<and> (\<exists>err. Update fl k us [IfUnchanged rev'] d' = (Inl err, d'))
      \<and> Delete fl k [IfUnchanged rev'] d' = (Some (refused_write d' k), d')"
proof -
  note chk = check_IfUnchanged [OF issued_only_run later_run assms(2) [unfolded assms(1)], of fl fl ops, folded assms(1) assms(3)]
  have no: "check fl d' k e (ResolveWriteOptions []) = None" for e
    by (simp add: check_def ResolveWriteOptions_def no_options_def)
  have "item_at d k \<noteq> None" using assms(2) by (auto simp: Get_item_def split: option.splits)
  with chk no show ?thesis
    by (auto simp: Put_def Update_def Delete_def put_def ds_update_def remove_def split: option.splits)
qed

subsection \<open>The table\<close>

definition tables_ok :: "'f datastore \<Rightarrow> bool" where
  "tables_ok d \<longleftrightarrow> gm_wf (dt_items d) \<and> (\<forall>p. gm_wf (partition_at (dt_items d) p))"

lemma tables_ok_simps [simp]:
  "tables_ok (d\<lparr>dt_heap := h\<rparr>) = tables_ok d" "tables_ok (d\<lparr>dt_revisions := n\<rparr>) = tables_ok d" "tables_ok (NewDatastore name h)"
  "tables_ok d \<Longrightarrow> tables_ok (store k item d)"
  by (simp_all add: tables_ok_def NewDatastore_def partition_at_def store_def split: option.split)

lemma tables_ok_put [inv_intros]: "tables_ok d \<Longrightarrow> tables_ok (snd (put fl k item options d))"
  by (auto simp: put_def Let_def split: option.splits sum.splits prod.splits)

lemma tables_ok_update [inv_intros]: "tables_ok d \<Longrightarrow> tables_ok (snd (ds_update fl k us options d))"
  by (auto simp: ds_update_def Let_def split: option.splits sum.splits prod.splits)

lemma tables_ok_remove [inv_intros]: "tables_ok d \<Longrightarrow> tables_ok (snd (remove fl k options d))"
  by (auto simp: remove_def tables_ok_def partition_at_def split: option.splits if_splits)

lemma tables_ok_BatchWrite [inv_intros]: "tables_ok d \<Longrightarrow> tables_ok (snd (BatchWrite fl ops d))"
proof (induction ops arbitrary: d)
  case (Cons op ops)
  show ?case unfolding snd_BatchWrite_Cons by (rule Cons.IH) (simp add: inv_intros Cons.prems)
qed simp

lemma tables_ok_atomic: "tables_ok d \<Longrightarrow> tables_ok (atomic_do fl op d)"
  using tables_ok_put [of d fl "ao_Key op" "ao_Item op" "ao_Options op"]
    tables_ok_update [of d fl "ao_Key op" "ao_Updates op" "ao_Options op"] tables_ok_remove [of d fl "ao_Key op" "ao_Options op"]
  by (auto simp: applyAtomic_def split: atomic_kind.splits prod.splits sum.splits)

lemma tables_ok_atomics: "tables_ok d \<Longrightarrow> tables_ok (snd (apply_atomics fl ops d))"
proof (induction ops arbitrary: d)
  case (Cons op ops)
  then show ?case using tables_ok_atomic [OF Cons.prems, of fl op] by (auto split: prod.splits option.splits)
qed simp

lemma tables_ok_Atomically [inv_intros]: "tables_ok d \<Longrightarrow> tables_ok (snd (Atomically fl part ops d))"
  using tables_ok_atomics [of d fl ops]
  by (auto simp: Atomically_def snapshot_def Let_def tables_ok_def split: prod.splits option.splits)

lemma tables_ok_run: "tables_ok d \<Longrightarrow> tables_ok (ds_run fl ops d)"
  unfolding ds_run_def
proof (induction ops arbitrary: d)
  case (Cons op ops)
  then show ?case by (cases op) (simp_all add: Put_def Delete_def Update_def inv_intros)
qed simp

subsection \<open>Queries\<close>

text \<open>One result: the item narrowed, decoded and handed its revision.\<close>

definition read_item :: "'f floats \<Rightarrow> 'o destination_type \<Rightarrow> 'f heap \<Rightarrow> string list \<Rightarrow> stored_item \<Rightarrow> gerr + 'o" where
  "read_item fl de h project item =
     (case projected fl h item project of
        Inl err \<Rightarrow> Inl err
      | Inr t \<Rightarrow> (case de_read de t of Inl err \<Rightarrow> Inl err | Inr x \<Rightarrow> Inr (de_SetRevision de (NewRevision (it_revision item)) x)))"

lemma sequence_sum_map_Inr:
  "list_all (\<lambda>x. \<exists>y. f x = Inr y) xs \<Longrightarrow> sequence_sum (map f xs) = Inr (map (projr \<circ> f) xs)"
  by (induction xs) auto

lemma DeliverRevisions_zip:
  "length xs = length rs \<Longrightarrow> DeliverRevisions de xs rs = map2 (de_SetRevision de) rs xs"
  by (rule nth_equalityI) (auto simp: DeliverRevisions_def)

lemma read_page_items:
  assumes "list_all (\<lambda>item. \<exists>x. read_item fl de h project item = Inr x) items"
  shows "read_page fl de h items project = Inr (map (projr \<circ> read_item fl de h project) items)"
proof -
  have ok: "\<exists>t x. projected fl h item project = Inr t \<and> de_read de t = Inr x" if "item \<in> set items" for item
  proof -
    from assms that obtain x where "read_item fl de h project item = Inr x" by (auto simp: list_all_iff)
    then show ?thesis by (auto simp: read_item_def split: sum.splits)
  qed
  let ?ts = "map (projr \<circ> (\<lambda>item. projected fl h item project)) items"
  have ts: "sequence_sum (map (\<lambda>item. projected fl h item project) items) = Inr ?ts"
    by (rule sequence_sum_map_Inr) (use ok in \<open>force simp: list_all_iff\<close>)
  have "list_all (\<lambda>t. \<exists>x. de_read de t = Inr x) ?ts"
    using ok by (force simp: list_all_iff)
  then have fill: "fill de ?ts = Inr (map (projr \<circ> de_read de) ?ts)"
    by (simp only: fill_def sequence_sum_map_Inr sum.case)
  have "map2 (de_SetRevision de) (map (\<lambda>item. NewRevision (it_revision item)) items) (map (projr \<circ> de_read de) ?ts)
      = map (projr \<circ> read_item fl de h project) items"
    by (rule nth_equalityI) (use ok nth_mem in \<open>fastforce simp: read_item_def\<close>)+
  then show ?thesis
    unfolding read_page_def ts by (simp only: sum.case fill) (simp add: DeliverRevisions_zip)
qed

text \<open>A condition whose operators are all known evaluates without an error.\<close>

fun cond_known :: "'f condition \<Rightarrow> bool" where
  "cond_known (Condition op name value high of') =
     ((case op of OpOther s \<Rightarrow> False | _ \<Rightarrow> True) \<and> list_all cond_known of')"

lemma matches_known:
  "cond_known c \<Longrightarrow> \<exists>b. matches fl h c flds = Inr b"
  "list_all cond_known cs \<Longrightarrow> \<exists>b. all_match fl h cs flds = Inr b"
  "list_all cond_known cs \<Longrightarrow> \<exists>b. any_match fl h cs flds = Inr b"
  by (induction fl h c flds and fl h cs flds and fl h cs flds rule: matches_all_match_any_match.induct)
    (auto simp: compare_def split: option.split operator.splits sum.split)

lemma keep_matching_filter:
  "list_all (\<lambda>item. \<exists>b. filtered fl h c (map_at h (it_fields item)) = Inr b) items \<Longrightarrow>
     keep_matching fl h c items = Inr (filter (\<lambda>item. filtered fl h c (map_at h (it_fields item)) = Inr True) items)"
  by (induction items) auto

text \<open>A page of what matched, from the offset its cursor names.\<close>

definition page_positioned :: "nat \<Rightarrow> int \<Rightarrow> string \<Rightarrow> nat \<Rightarrow> bool" where
  "page_positioned len limit cursor n \<longleftrightarrow>
     n \<le> len \<and> limit + int len < 2 ^ 63 \<and> int len < 2 ^ 63 \<and> (if cursor = '''' then n = 0 else cursor = itoa (int n))"

abbreviation readable :: "'f floats \<Rightarrow> 'o destination_type \<Rightarrow> 'f heap \<Rightarrow> string list \<Rightarrow> stored_item list \<Rightarrow> bool" where
  "readable fl de h project items \<equiv> list_all (\<lambda>item. \<exists>x. read_item fl de h project item = Inr x) items"

lemma page_step:
  assumes "page_positioned (length matched) limit cursor n" and "readable fl de h project matched"
  shows "\<exists>m cursor'. page fl de h matched limit cursor project
      = Done (Inr (take (m - n) (drop n (map (projr \<circ> read_item fl de h project) matched)), cursor'))
    \<and> n \<le> m \<and> m \<le> length matched
    \<and> (if cursor' = '''' then m = length matched else n < m \<and> page_positioned (length matched) limit cursor' m)"
proof -
  let ?len = "int (length matched)"
  let ?e = "page_end (int n) limit ?len"
  have n: "n \<le> length matched" and lim: "limit + ?len < 2 ^ 63" and len: "?len < 2 ^ 63"
    using assms(1) by (simp_all add: page_positioned_def)
  have bounds: "int n \<le> ?e" "?e \<le> ?len" "?e < ?len \<Longrightarrow> int n < ?e"
    using page_end_bounds [OF _ _ lim, of "int n"] n by simp_all
  have start: "(if cursor \<noteq> '''' then scan_int cursor else Some 0) = Some (int n)"
    using assms(1) n len scan_int_itoa [of "int n"] by (auto simp: page_positioned_def split: if_splits)
  let ?items = "take (nat ?e - n) (drop n matched)"
  have "readable fl de h project ?items"
    using assms(2) by (auto simp: list_all_iff dest: in_set_takeD in_set_dropD)
  from read_page_items [OF this] have
    "page fl de h matched limit cursor project
      = Done (Inr (map (projr \<circ> read_item fl de h project) ?items, if ?e < ?len then itoa ?e else ''''))"
    unfolding page_def start using n bounds by (simp add: Let_def)
  moreover have "page_positioned (length matched) limit (itoa ?e) (nat ?e)" if "?e < ?len"
    using that bounds lim len by (simp add: page_positioned_def nat_le_iff)
  ultimately show ?thesis
    using bounds by (intro exI [of _ "nat ?e"] exI [of _ "if ?e < ?len then itoa ?e else ''''"]) (auto simp: take_map drop_map)
qed

text \<open>The store as a paged source: the request may differ from the one the results are of in its cursor only.\<close>

definition query_matched :: "'f floats \<Rightarrow> 'f datastore \<Rightarrow> 'f query \<Rightarrow> stored_item list" where
  "query_matched fl d q = filter (\<lambda>item. filtered fl (dt_heap d) (q_Filter q) (map_at (dt_heap d) (it_fields item)) = Inr True)
     (partition_items (partition_at (dt_items d) (q_Partition q)) (query_sorts d q))"

definition query_positioned :: "'f floats \<Rightarrow> 'o destination_type \<Rightarrow> 'f datastore \<Rightarrow> 'f query \<Rightarrow> 'f query \<Rightarrow> nat \<Rightarrow> bool" where
  "query_positioned fl de d q0 q n \<longleftrightarrow> q\<lparr>q_Cursor := ''''\<rparr> = q0\<lparr>q_Cursor := ''''\<rparr>
     \<and> (case q_Filter q0 of None \<Rightarrow> True | Some c \<Rightarrow> cond_known c)
     \<and> readable fl de (dt_heap d) (q_Project q0) (query_matched fl d q0)
     \<and> page_positioned (length (query_matched fl d q0)) (q_Limit q) (q_Cursor q) n"

lemma keep_known:
  assumes "case c of None \<Rightarrow> True | Some c \<Rightarrow> cond_known c"
  shows "keep_matching fl h c items = Inr (filter (\<lambda>item. filtered fl h c (map_at h (it_fields item)) = Inr True) items)"
  by (rule keep_matching_filter)
    (use assms matches_known(1) in \<open>auto simp: list_all_iff filtered_def split: option.splits\<close>)

lemma query_same:
  assumes "q\<lparr>q_Cursor := ''''\<rparr> = q0\<lparr>q_Cursor := ''''\<rparr>"
  shows "q_Filter q = q_Filter q0" and "q_Project q = q_Project q0" and "q_Partition q = q_Partition q0"
    and "query_sorts d q = query_sorts d q0"
  using assms by (cases q; cases q0; simp add: query_sorts_def)+

lemma paged_of_page:
  assumes fetch: "\<And>q n. pos q n \<Longrightarrow> fetch q = page fl de h matched (lim q) (cur q) project
      \<and> page_positioned (length matched) (lim q) (cur q) n \<and> readable fl de h project matched"
    and resume: "\<And>q n m c. pos q n \<Longrightarrow> page_positioned (length matched) (lim q) c m \<Longrightarrow> pos (resume c q) m"
  shows "paged_source fetch resume pos (map (projr \<circ> read_item fl de h project) matched)" (is "paged_source _ _ _ ?results")
proof
  fix q n assume pos: "pos q n"
  then obtain m cursor where m: "fetch q = Done (Inr (take (m - n) (drop n ?results), cursor))" "n \<le> m" "m \<le> length matched"
    "if cursor = '''' then m = length matched else n < m \<and> page_positioned (length matched) (lim q) cursor m"
    using fetch [OF pos] page_step [of matched "lim q" "cur q" n fl de h project] by auto
  then show "\<exists>m cursor. fetch q = Done (Inr (take (m - n) (drop n ?results), cursor)) \<and> n \<le> m \<and> m \<le> length ?results
      \<and> (if cursor = '''' then m = length ?results else n < m \<and> pos (resume cursor q) m)"
    using resume [OF pos] by (intro exI [of _ m] exI [of _ cursor]) auto
qed

interpretation queried: paged_source "Query fl de d" "\<lambda>cursor q. q\<lparr>q_Cursor := cursor\<rparr>" "query_positioned fl de d q0"
    "map (projr \<circ> read_item fl de (dt_heap d) (q_Project q0)) (query_matched fl d q0)" for fl de d q0
proof (rule paged_of_page [where lim = q_Limit and cur = q_Cursor])
  fix q n assume pos: "query_positioned fl de d q0 q n"
  then have "q\<lparr>q_Cursor := ''''\<rparr> = q0\<lparr>q_Cursor := ''''\<rparr>" by (simp add: query_positioned_def)
  note fields = query_same [OF this]
  show "Query fl de d q = page fl de (dt_heap d) (query_matched fl d q0) (q_Limit q) (q_Cursor q) (q_Project q0)
      \<and> page_positioned (length (query_matched fl d q0)) (q_Limit q) (q_Cursor q) n
      \<and> readable fl de (dt_heap d) (q_Project q0) (query_matched fl d q0)"
    using pos by (simp add: Query_def fields keep_known query_positioned_def query_matched_def)
  fix m c assume "page_positioned (length (query_matched fl d q0)) (q_Limit q) c m"
  with pos show "query_positioned fl de d q0 (q\<lparr>q_Cursor := c\<rparr>) m" by (simp add: query_positioned_def)
qed

definition scan_matched :: "'f floats \<Rightarrow> 'f datastore \<Rightarrow> 'f scan \<Rightarrow> stored_item list" where
  "scan_matched fl d s =
     filter (\<lambda>item. filtered fl (dt_heap d) (s_Filter s) (map_at (dt_heap d) (it_fields item)) = Inr True) (scan_items d)"

definition scan_positioned :: "'f floats \<Rightarrow> 'o destination_type \<Rightarrow> 'f datastore \<Rightarrow> 'f scan \<Rightarrow> 'f scan \<Rightarrow> nat \<Rightarrow> bool" where
  "scan_positioned fl de d s0 s n \<longleftrightarrow> s\<lparr>s_Cursor := ''''\<rparr> = s0\<lparr>s_Cursor := ''''\<rparr>
     \<and> (case s_Filter s0 of None \<Rightarrow> True | Some c \<Rightarrow> cond_known c)
     \<and> readable fl de (dt_heap d) (s_Project s0) (scan_matched fl d s0)
     \<and> page_positioned (length (scan_matched fl d s0)) (s_Limit s) (s_Cursor s) n"

lemma scan_same:
  assumes "s\<lparr>s_Cursor := ''''\<rparr> = s0\<lparr>s_Cursor := ''''\<rparr>"
  shows "s_Filter s = s_Filter s0" and "s_Project s = s_Project s0"
  using assms by (cases s; cases s0; simp)+

interpretation scanned: paged_source "Scan fl de d" "\<lambda>cursor s. s\<lparr>s_Cursor := cursor\<rparr>" "scan_positioned fl de d s0"
    "map (projr \<circ> read_item fl de (dt_heap d) (s_Project s0)) (scan_matched fl d s0)" for fl de d s0
proof (rule paged_of_page [where lim = s_Limit and cur = s_Cursor])
  fix s n assume pos: "scan_positioned fl de d s0 s n"
  then have "s\<lparr>s_Cursor := ''''\<rparr> = s0\<lparr>s_Cursor := ''''\<rparr>" by (simp add: scan_positioned_def)
  note fields = scan_same [OF this]
  show "Scan fl de d s = page fl de (dt_heap d) (scan_matched fl d s0) (s_Limit s) (s_Cursor s) (s_Project s0)
      \<and> page_positioned (length (scan_matched fl d s0)) (s_Limit s) (s_Cursor s) n
      \<and> readable fl de (dt_heap d) (s_Project s0) (scan_matched fl d s0)"
    using pos by (simp add: Scan_def fields keep_known scan_positioned_def scan_matched_def)
  fix m c assume "page_positioned (length (scan_matched fl d s0)) (s_Limit s) c m"
  with pos show "scan_positioned fl de d s0 (s\<lparr>s_Cursor := c\<rparr>) m" by (simp add: scan_positioned_def)
qed

subsection \<open>What a query reads\<close>

text \<open>The sort keys a query reads, without the table they are looked up in.\<close>

definition selected :: "'f floats \<Rightarrow> 'f datastore \<Rightarrow> 'f query \<Rightarrow> string \<Rightarrow> bool" where
  "selected fl d q s \<longleftrightarrow> (case item_at d \<lparr>k_Partition = q_Partition q, k_Sort = s\<rparr> of
     None \<Rightarrow> False
   | Some item \<Rightarrow> (case q_Sort q of None \<Rightarrow> True | Some c \<Rightarrow> sortMatches c s)
       \<and> filtered fl (dt_heap d) (q_Filter q) (map_at (dt_heap d) (it_fields item)) = Inr True)"

abbreviation item_of :: "'f datastore \<Rightarrow> 'f query \<Rightarrow> string \<Rightarrow> stored_item" where
  "item_of d q s \<equiv> the (item_at d \<lparr>k_Partition = q_Partition q, k_Sort = s\<rparr>)"

lemma query_matched_sorts:
  "query_matched fl d q = map (item_of d q) (filter (selected fl d q) (query_sorts d q))"
proof -
  have "query_matched fl d q = map (item_of d q) (filter (\<lambda>s. filtered fl (dt_heap d) (q_Filter q)
      (map_at (dt_heap d) (it_fields (item_of d q s))) = Inr True) (query_sorts d q))"
    by (simp add: query_matched_def partition_items_def item_at_def filter_map comp_def)
  also have "filter (\<lambda>s. filtered fl (dt_heap d) (q_Filter q) (map_at (dt_heap d) (it_fields (item_of d q s))) = Inr True) (query_sorts d q)
      = filter (selected fl d q) (query_sorts d q)"
    by (rule filter_cong) (auto simp: selected_def query_sorts_def item_at_def reverse_def Let_def dom_def split: option.splits if_splits)
  finally show ?thesis .
qed

lemma sorted_wrt_query_sorts:
  assumes "tables_ok d"
  shows "sorted_wrt (if q_Descending q then (>) else (<)) (query_sorts d q)"
proof -
  have "sorted_wrt (<) (sorted_keys (partition_at (dt_items d) (q_Partition q)))"
    using assms by (simp add: tables_ok_def strict_sorted_iff)
  then show ?thesis
    by (simp add: query_sorts_def reverse_def Let_def sorted_wrt_filter sorted_wrt_rev)
qed

lemma sorted_wrt_unique:
  fixes xs ys :: "'a::linorder list"
  assumes "sorted_wrt (if desc then (>) else (<)) xs" and "sorted_wrt (if desc then (>) else (<)) ys" and "set xs = set ys"
  shows "xs = ys"
proof (cases desc)
  case True
  with assms have "sorted_wrt (<) (rev xs)" "sorted_wrt (<) (rev ys)" "set (rev xs) = set (rev ys)"
    by (simp_all add: sorted_wrt_rev)
  then have "rev xs = rev ys" by (intro sorted_distinct_set_unique) (simp_all add: strict_sorted_iff)
  then show ?thesis by simp
next
  case False
  with assms show ?thesis by (intro sorted_distinct_set_unique) (simp_all add: strict_sorted_iff)
qed

lemma selected_sorts:
  assumes "tables_ok d" and "sorted_wrt (if q_Descending q then (>) else (<)) sorts" and "set sorts = {s. selected fl d q s}"
  shows "query_matched fl d q = map (item_of d q) sorts"
proof -
  have "set (filter (selected fl d q) (query_sorts d q)) = {s. selected fl d q s}"
    by (auto simp: selected_def query_sorts_def item_at_def reverse_def Let_def split: option.splits)
  moreover have "sorted_wrt (if q_Descending q then (>) else (<)) (filter (selected fl d q) (query_sorts d q))"
    by (rule sorted_wrt_filter [OF sorted_wrt_query_sorts [OF assms(1)]])
  ultimately have "filter (selected fl d q) (query_sorts d q) = sorts"
    using sorted_wrt_unique assms(2,3) by blast
  then show ?thesis by (simp add: query_matched_sorts)
qed

text \<open>C28. Ranging over a query reads exactly what it asks for. Let the sort keys be those of the partition that hold an
  item, satisfy the sort condition and pass the filter, each once, ascending or (where asked for) descending. Then
  the loop ends, however small its pages, and its body has been given the item of each of those keys, in that order,
  up to where it stopped: none twice, none missed.\<close>

theorem Items_reads_the_query:
  assumes "d = ds_run fl ops (NewDatastore name h)" and "q_Cursor q = ''''" and "q_Limit q \<le> 2 ^ 62" and "int (length sorts) < 2 ^ 62"
    and "case q_Filter q of None \<Rightarrow> True | Some c \<Rightarrow> cond_known c"
    and "sorted_wrt (if q_Descending q then (>) else (<)) sorts" and "set sorts = {s. selected fl d q s}"
    and "list_all (\<lambda>s. \<exists>x. read_item fl de (dt_heap d) (q_Project q) (item_of d q s) = Inr x) sorts"
  shows "\<exists>q'. Items (Query fl de d) zero yield q c
    = Some (Done (snd (yield_page yield (map (\<lambda>s. projr (read_item fl de (dt_heap d) (q_Project q) (item_of d q s))) sorts) c), q'))"
proof -
  have "tables_ok d" unfolding assms(1) by (rule tables_ok_run) simp
  from selected_sorts [OF this assms(6,7)] have matched: "query_matched fl d q = map (item_of d q) sorts" .
  then have "query_positioned fl de d q q 0"
    using assms by (simp add: query_positioned_def page_positioned_def list_all_iff split: option.splits)
  from queried.reads_to_end [OF this, of zero yield c] show ?thesis
    by (simp add: Items_def matched comp_def)
qed

text \<open>Ranging over a scan likewise reads every item of every partition that passes the filter.\<close>

lemma Scanned_reads_everything:
  "scan_positioned fl de d s s 0 \<Longrightarrow> \<exists>s'. Scanned (Scan fl de d) zero yield s c = Some (Done (snd (yield_page yield
     (map (projr \<circ> read_item fl de (dt_heap d) (s_Project s)) (scan_matched fl d s)) c), s'))"
  unfolding Scanned_def by (drule scanned.reads_to_end [of _ _ _ _ _ _ zero yield c]) simp

subsection \<open>Examples\<close>

text \<open>Whole numbers for \<^verbatim>\<open>float64\<close>.\<close>

definition whole :: "int floats" where
  "whole = \<lparr>fl_parse = scan_int, fl_of_int = (\<lambda>i. i), fl_add = (+), fl_less = (<), fl_equal = (=), fl_zero = 0,
     fl_json = (\<lambda>i. Some (itoa i)), fl_text = itoa\<rparr>"

definition raw :: "jtree destination_type" where
  "raw = \<lparr>de_read = Inr, de_type = ''json.RawMessage'', de_SetRevision = (\<lambda>r t. t)\<rparr>"

abbreviation at :: "string \<Rightarrow> string \<Rightarrow> key" where
  "at p s \<equiv> \<lparr>k_Partition = p, k_Sort = s\<rparr>"

abbreviation nested :: jtree where
  "nested \<equiv> TObj [(''a'', TObj [(''n'', TStr ''one'')])]"

definition in_partition :: "string \<Rightarrow> string list \<Rightarrow> int \<Rightarrow> 'f query" where
  "in_partition p project limit = \<lparr>q_Partition = p, q_Sort = None, q_Filter = None, q_Index = '''', q_Project = project,
     q_Descending = False, q_Limit = limit, q_Cursor = ''''\<rparr>"

text \<open>An update that fails part-way has already written to the objects nested in the item: the fields are copied at
  their outermost level only. Reading the item gives what was there, but a query that names the field gives what
  the failed update wrote.\<close>

theorem failed_update_visible:
  "let d = ds_run whole [Ds_Put (at ''p'' ''s'') (Inr nested) []] (NewDatastore ''t'' []);
       (r, d') = Update whole (at ''p'' ''s'') [Set_u whole ''a.n'' (GStr ''two''), Set_u whole '''' GNil] [] d
   in r = Inl ErrInvalidUpdate
     \<and> Get_item Inr '''' d' (at ''p'' ''s'') = Get_item Inr '''' d (at ''p'' ''s'')
     \<and> Query whole raw d (in_partition ''p'' [''a''] 0) = Done (Inr ([TObj [(''a'', TObj [(''n'', TStr ''one'')])]], ''''))
     \<and> Query whole raw d' (in_partition ''p'' [''a''] 0) = Done (Inr ([TObj [(''a'', TObj [(''n'', TStr ''two'')])]], ''''))"
  by code_simp

text \<open>The same for an atomic write: it is rolled back for a read, not for a condition.\<close>

theorem failed_atomic_visible:
  "let d = ds_run whole [Ds_Put (at ''p'' ''s'') (Inr nested) []] (NewDatastore ''t'' []);
       (r, d') = Atomically whole ''p''
         [AtomicUpdate (at ''p'' ''s'') [Set_u whole ''a.n'' (GStr ''two'')] [], AtomicDelete (at ''p'' ''other'') [If_w (Exists ''a'')]] d
   in r = Some (refused_write d (at ''p'' ''other''))
     \<and> Query whole raw d' (in_partition ''p'' [''a''] 0) = Done (Inr ([TObj [(''a'', TObj [(''n'', TStr ''two'')])]], ''''))
     \<and> Get_item Inr '''' d' (at ''p'' ''s'') = Get_item Inr '''' d (at ''p'' ''s'')"
  by code_simp

text \<open>An increment of a field set to a Go \<^verbatim>\<open>int\<close> by an earlier update starts from zero, since only a
  \<^verbatim>\<open>float64\<close> is taken for its current value.\<close>

theorem increment_after_set_int:
  "let d = ds_run whole [Ds_Put (at ''p'' ''s'') (Inr (TObj [])) [], Ds_Update (at ''p'' ''s'') [Set_u whole ''n'' (GInt 40)] [],
       Ds_Update (at ''p'' ''s'') [Increment_u ''n'' 2] []] (NewDatastore ''t'' [])
   in map_option it_encoded (item_at d (at ''p'' ''s'')) = Some (TObj [(''n'', TNum ''2'')])"
  by code_simp

text \<open>Removing a field of an object that is not there makes the object.\<close>

theorem remove_creates:
  "let d = ds_run whole [Ds_Put (at ''p'' ''s'') (Inr (TObj [])) [], Ds_Update (at ''p'' ''s'') [Remove_u whole ''a.b''] []]
       (NewDatastore ''t'' [])
   in map_option it_encoded (item_at d (at ''p'' ''s'')) = Some (TObj [(''a'', TObj [])])"
  by code_simp

text \<open>A cursor that is a negative number is not refused: making the page panics.\<close>

theorem negative_cursor_panics:
  "Query whole raw (NewDatastore ''t'' []) ((in_partition ''p'' [] 0)\<lparr>q_Cursor := ''-1''\<rparr>) = Panic (bounds_error ''[-1:]'')"
proof -
  have itoa: "itoa (-1) = ''-1''" by code_simp
  moreover have "scan_int ''-1'' = Some (-1)" 
    by (simp add: scan_int_def scan_spaces_def has_prefix_def Let_def is_digit_def ParseInt_def parse_uint_def digit_val_def)
  ultimately show ?thesis
    by (simp add: Query_def in_partition_def NewDatastore_def partition_at_def query_sorts_def partition_items_def sorted_keys_def
        reverse_def page_def page_end_def go_slice_def itoa)
qed

text \<open>Two keys of a partition, read one at a time in descending order.\<close>

abbreviation two_items :: "int datastore" where
  "two_items \<equiv> ds_run whole [Ds_Put (at ''p'' ''a'') (Inr (TObj [(''n'', TStr ''x'')])) [], Ds_Put (at ''p'' ''b'') (Inr (TObj [])) []]
     (NewDatastore ''t'' [])"

abbreviation one_by_one :: "int query" where
  "one_by_one \<equiv> \<lparr>q_Partition = ''p'', q_Sort = None, q_Filter = None, q_Index = '''', q_Project = [], q_Descending = True,
     q_Limit = 1, q_Cursor = ''''\<rparr>"

theorem no_lost_update_witness:
  "let d = two_items; k = at ''p'' ''a''; d' = ds_run whole [Ds_Put k (Inr (TObj [])) []] d
   in Get_item Inr '''' d k = Inr (NewRevision ''r1'', TObj [(''n'', TStr ''x'')])
     \<and> fst (Put whole k (Inr (TObj [])) [IfUnchanged (NewRevision ''r1'')] d) = Inr (NewRevision ''r3'')
     \<and> Put whole k (Inr (TObj [])) [IfUnchanged (NewRevision ''r1'')] d' = (Inl (refused_write d' k), d')"
proof -
  have get: "Get_item Inr '''' two_items (at ''p'' ''a'') = Inr (NewRevision ''r1'', TObj [(''n'', TStr ''x'')])"
    by code_simp
  have same: "ds_run whole [] two_items = two_items" by (simp add: ds_run_def)
  have diff: "item_at (ds_run whole [Ds_Put (at ''p'' ''a'') (Inr (TObj [])) []] two_items) (at ''p'' ''a'') \<noteq> item_at two_items (at ''p'' ''a'')"
    by code_simp
  have "fst (Put whole (at ''p'' ''a'') (Inr (TObj [])) [] two_items) = Inr (NewRevision ''r3'')" by code_simp
  then show ?thesis
    using no_lost_update [OF refl get refl, of "[]" "Inr (TObj [])" "[]"] no_lost_update [OF refl get refl, of
        "[Ds_Put (at ''p'' ''a'') (Inr (TObj [])) []]" "Inr (TObj [])" "[]"] get diff
    by (simp add: Let_def same)
qed


theorem Items_reads_the_query_witness:
  "\<exists>q'. Items (Query whole raw two_items) TNull gather one_by_one ([], None)
     = Some (Done (([TObj [], TObj [(''n'', TStr ''x'')]], None), q'))"
proof -
  have digits: "itoa 1 = ''1''" "itoa 2 = ''2''" by code_simp+
  have item: "item_at two_items (at ''p'' s) = (if s = ''b'' then Some \<lparr>it_encoded = TObj [], it_fields = Some 1, it_revision = ''r2''\<rparr>
      else if s = ''a'' then Some \<lparr>it_encoded = TObj [(''n'', TStr ''x'')], it_fields = Some 0, it_revision = ''r1''\<rparr> else None)" for s
    by (simp add: ds_run_def Put_def put_def check_def ResolveWriteOptions_def no_options_def alloc_fields_def whole_def NewDatastore_def
        Let_def revision_name_def) (simp add: item_at_def partition_at_def digits)
  have sel: "{s. selected whole two_items one_by_one s} = {''a'', ''b''}"
    by (auto simp: selected_def item filtered_def)
  have "\<exists>q'. Items (Query whole raw two_items) TNull gather one_by_one ([], None) = Some (Done (snd (yield_page gather
      (map (\<lambda>s. projr (read_item whole raw (dt_heap two_items) (q_Project one_by_one) (item_of two_items one_by_one s))) [''b'', ''a'']) ([], None)), q'))"
    by (rule Items_reads_the_query [OF refl])
      (simp_all add: sel item read_item_def projected_def raw_def insert_commute)
  then show ?thesis
    by (simp add: item read_item_def projected_def raw_def gather_def)
qed

end
