(* ===== verification/Dynamo.thy ===== *)
theory Dynamo
  imports Datastore
begin

text \<open>
  Document stores on DynamoDB: \<^verbatim>\<open>src/resources/aws/datastore\<close>. What the package decides is here: keys under the table's
  schema, conditions and updates as calls of the expression builder, revisions, cursors, batches and transactions. The
  calls of the AWS SDK are arguments over a world of any type (\<open>dynamo_api\<close>), and so are the marshalling of the
  application's types, the errors the SDK reports (\<open>dynamo_errors\<close>), the random bytes of a revision, the building of an
  expression into text, and what finds the table and its client.
\<close>

subsection \<open>Attributes\<close>

datatype attr = AvS string | AvN string | AvB "byte list" | AvNULL | AvBOOL bool | AvM "(string \<times> attr) list" | AvL "attr list"
  | AvSS "string list" | AvNS "string list" | AvBS "byte list list"

type_synonym attrs = "(string, attr) gomap"

datatype scalar_type = TypeS | TypeN | TypeB | TypeNone

definition RevisionField :: string where
  "RevisionField = ''_celerity_rev''"

definition key_value :: "string \<Rightarrow> scalar_type \<Rightarrow> attr" where
  "key_value raw kind = (case kind of TypeN \<Rightarrow> AvN raw | TypeB \<Rightarrow> AvB (bytes_of raw) | _ \<Rightarrow> AvS raw)"

definition keyText :: "attr option \<Rightarrow> string" where
  "keyText a = (case a of Some (AvS s) \<Rightarrow> s | Some (AvN s) \<Rightarrow> s | Some (AvB bs) \<Rightarrow> string_of_bytes bs | _ \<Rightarrow> '''')"

definition emptyAttribute :: "attr \<Rightarrow> bool" where
  "emptyAttribute a = (case a of AvS s \<Rightarrow> s = '''' | AvN s \<Rightarrow> s = '''' \<or> s = ''0'' | AvB bs \<Rightarrow> bs = [] | AvNULL \<Rightarrow> True | _ \<Rightarrow> False)"

definition sameAttribute :: "attr \<Rightarrow> attr \<Rightarrow> bool" where
  "sameAttribute carried key =
     (case (carried, key) of (AvS l, AvS r) \<Rightarrow> l = r | (AvN l, AvN r) \<Rightarrow> l = r | (AvB l, AvB r) \<Rightarrow> l = r | _ \<Rightarrow> False)"

definition describeAttribute :: "attr \<Rightarrow> string" where
  "describeAttribute a =
     (case a of
        AvS s \<Rightarrow> go_quote s
      | AvN s \<Rightarrow> s
      | AvB bs \<Rightarrow> itoa (int (length bs)) @ '' bytes''
      | AvNULL \<Rightarrow> ''*types.AttributeValueMemberNULL''
      | AvBOOL b \<Rightarrow> ''*types.AttributeValueMemberBOOL''
      | AvM m \<Rightarrow> ''*types.AttributeValueMemberM''
      | AvL xs \<Rightarrow> ''*types.AttributeValueMemberL''
      | AvSS xs \<Rightarrow> ''*types.AttributeValueMemberSS''
      | AvNS xs \<Rightarrow> ''*types.AttributeValueMemberNS''
      | AvBS xs \<Rightarrow> ''*types.AttributeValueMemberBS'')"

text \<open>The key's attributes are visited in any order; it shows only in which disagreement is named.\<close>

fun applyKey :: "attrs \<Rightarrow> attrs \<Rightarrow> gerr + attrs" where
  "applyKey item [] = Inr item"
| "applyKey item ((name, v) # keyAttrs) =
     (case gm_get item name of
        Some carried \<Rightarrow>
          if \<not> emptyAttribute carried \<and> \<not> sameAttribute carried v
          then Inl (Errorf (''the item's '' @ go_quote name @ '' is '' @ describeAttribute carried @ '' and the key says '' @ describeAttribute v
            @ '': a put replaces what is under a key rather than moving an item, so pass the key the item is under'') None)
          else applyKey (gm_put name v item) keyAttrs
      | None \<Rightarrow> applyKey (gm_put name v item) keyAttrs)"

subsection \<open>The table's schema\<close>

record attribute =
  at_name :: string
  at_kind :: scalar_type

record key_schema =
  ks_partition :: attribute
  ks_sort :: attribute

record table_schema =
  tsch_table :: key_schema
  tsch_indexes :: "(string, key_schema) gomap"

text \<open>What \<^verbatim>\<open>DescribeTable\<close> answers: the declared attributes, and the keys of the table and of its indexes, each element with
  whether it is the partition key.\<close>

record table_description =
  td_AttributeDefinitions :: "(string \<times> scalar_type) list"
  td_KeySchema :: "(string \<times> bool) list"
  td_GlobalSecondaryIndexes :: "(string \<times> (string \<times> bool) list) list"
  td_LocalSecondaryIndexes :: "(string \<times> (string \<times> bool) list) list"

definition no_attribute :: attribute where
  "no_attribute = \<lparr>at_name = '''', at_kind = TypeNone\<rparr>"

definition keySchemaOf :: "(string \<times> bool) list \<Rightarrow> (string, scalar_type) gomap \<Rightarrow> key_schema" where
  "keySchemaOf elements kinds = fold (\<lambda>(name, hash) schema.
     let a = \<lparr>at_name = name, at_kind = (case gm_get kinds name of None \<Rightarrow> TypeNone | Some k \<Rightarrow> k)\<rparr>
     in if hash then schema\<lparr>ks_partition := a\<rparr> else schema\<lparr>ks_sort := a\<rparr>) elements \<lparr>ks_partition = no_attribute, ks_sort = no_attribute\<rparr>"

definition schemaOf :: "table_description option \<Rightarrow> table_schema" where
  "schemaOf table =
     (case table of
        None \<Rightarrow> \<lparr>tsch_table = \<lparr>ks_partition = no_attribute, ks_sort = no_attribute\<rparr>, tsch_indexes = []\<rparr>
      | Some t \<Rightarrow>
          (let kinds = fold (\<lambda>(name, k) m. gm_put name k m) (td_AttributeDefinitions t) []
           in \<lparr>tsch_table = keySchemaOf (td_KeySchema t) kinds,
               tsch_indexes = fold (\<lambda>(name, elements) m. gm_put name (keySchemaOf elements kinds) m)
                 (td_GlobalSecondaryIndexes t @ td_LocalSecondaryIndexes t) []\<rparr>))"

definition schema_of_index :: "table_schema \<Rightarrow> string \<Rightarrow> gerr + key_schema" where
  "schema_of_index s index =
     (if index = '''' then Inr (tsch_table s)
      else case gm_get (tsch_indexes s) index of
        None \<Rightarrow> Inl (Errorf (''the table has no index named '' @ go_quote index) None)
      | Some schema \<Rightarrow> Inr schema)"

definition schema_key :: "table_schema \<Rightarrow> key \<Rightarrow> string \<Rightarrow> gerr + attrs" where
  "schema_key s k index =
     (case schema_of_index s index of
        Inl err \<Rightarrow> Inl err
      | Inr schema \<Rightarrow>
          (let part = ks_partition schema; srt = ks_sort schema; held = [(at_name part, key_value (k_Partition k) (at_kind part))]
           in if at_name part = '''' then Inl (Errorf ''the table declares no partition key'' None)
              else if at_name srt = '''' \<and> k_Sort k \<noteq> ''''
              then Inl (Errorf (''a sort value '' @ go_quote (k_Sort k) @ '' was given, and the key is '' @ go_quote (at_name part) @ '' alone'') None)
              else if at_name srt \<noteq> '''' \<and> k_Sort k = ''''
              then Inl (Errorf (''the key is '' @ go_quote (at_name part) @ '' and '' @ go_quote (at_name srt) @ '', and no sort value was given'') None)
              else if at_name srt \<noteq> '''' then Inr (gm_put (at_name srt) (key_value (k_Sort k) (at_kind srt)) held)
              else Inr held))"

subsection \<open>Expressions\<close>

text \<open>The builder's calls, as the tree they make. A value is an attribute, or a Go value the builder marshals.\<close>

datatype 'f operand = OpAttr attr | OpGo "'f gval"

datatype 'f cond_builder = Compare operator string "'f operand" | BetweenC string "'f operand" "'f operand" | BeginsWithC string string
  | ContainsC string string | AttributeExists string | AttributeNotExists string | AndC "'f cond_builder list" | OrC "'f cond_builder list"

datatype key_builder = KeyCompare operator string attr | KeyBetween string attr attr | KeyBeginsWith string string | KeyAnd key_builder key_builder

datatype 'f mutation = MutSet string "'f operand" | MutRemove string | MutIncrement string 'f
  \<comment> \<open>the last is a \<^verbatim>\<open>Set\<close> of the sum of the field, or zero where there is none, and the amount\<close>

definition invalid_condition :: "string \<Rightarrow> gerr" where
  "invalid_condition text = Errorf (text @ error_text ErrInvalidCondition) (Some ErrInvalidCondition)"

definition sortCondition :: "attribute \<Rightarrow> sort_condition \<Rightarrow> gerr + key_builder" where
  "sortCondition a c =
     (let low = key_value (sc_Value c) (at_kind a)
      in case sc_Op c of
           OpBetween \<Rightarrow> Inr (KeyBetween (at_name a) low (key_value (sc_High c) (at_kind a)))
         | OpStartsWith \<Rightarrow> Inr (KeyBeginsWith (at_name a) (sc_Value c))
         | op \<Rightarrow>
             (if op \<in> set [OpEqual, OpLess, OpLessOrEqual, OpGreater, OpGreaterOrEqual] then Inr (KeyCompare op (at_name a) low)
              else Inl (invalid_condition (''a sort key cannot be narrowed by '' @ go_quote (op_string op)
                @ '': it is ordered, and only equal, the four comparisons, between and starts-with use that order: ''))))"

definition keyCondition :: "key_schema \<Rightarrow> 'f query \<Rightarrow> gerr + key_builder" where
  "keyCondition schema q =
     (let part = KeyCompare OpEqual (at_name (ks_partition schema)) (key_value (q_Partition q) (at_kind (ks_partition schema)))
      in case q_Sort q of
           None \<Rightarrow> Inr part
         | Some c \<Rightarrow>
             (if at_name (ks_sort schema) = ''''
              then Inl (Errorf (''the query narrows by sort value, and the key is '' @ go_quote (at_name (ks_partition schema)) @ '' alone'') None)
              else case sortCondition (ks_sort schema) c of Inl err \<Rightarrow> Inl err | Inr srt \<Rightarrow> Inr (KeyAnd part srt)))"

definition text_value :: "('f gval \<Rightarrow> string) \<Rightarrow> 'f gval \<Rightarrow> string" where
  "text_value sprint v = (case v of GStr s \<Rightarrow> s | _ \<Rightarrow> sprint v)"

text \<open>\<^verbatim>\<open>writeCondition\<close> and \<^verbatim>\<open>group\<close>; \<open>sprint\<close> is \<^verbatim>\<open>fmt.Sprint\<close> of the caller's value.\<close>

fun writeCondition :: "('f gval \<Rightarrow> string) \<Rightarrow> 'f condition \<Rightarrow> gerr + 'f cond_builder" where
  "writeCondition sprint (Condition op name v high of') =
     (if op = OpAnd \<or> op = OpOr then
        if length of' = 0
        then Inl (Errorf (''a '' @ go_quote (op_string op)
          @ '' combines conditions and was given none, which would read as a write with no condition at all'') None)
        else case sequence_sum (map (writeCondition sprint) of') of
          Inl err \<Rightarrow> Inl err
        | Inr built \<Rightarrow> if length built = 1 then Inr (built ! 0) else if op = OpOr then Inr (OrC built) else Inr (AndC built)
      else case op of
        OpExists \<Rightarrow> Inr (AttributeExists name)
      | OpNotExists \<Rightarrow> Inr (AttributeNotExists name)
      | OpBetween \<Rightarrow> Inr (BetweenC name (OpGo v) (OpGo high))
      | OpStartsWith \<Rightarrow> Inr (BeginsWithC name (text_value sprint v))
      | OpContains \<Rightarrow> Inr (ContainsC name (text_value sprint v))
      | OpOther s \<Rightarrow> Inl (invalid_condition (go_quote s @ '' is not a condition this store can check, use the helper functions to build ''
          @ ''supported conditions: ''))
      | _ \<Rightarrow> Inr (Compare op name (OpGo v)))"

definition revisionCondition :: "revision \<Rightarrow> gerr + 'f cond_builder" where
  "revisionCondition r =
     (if \<not> rev_Known r then Inl ErrInvalidRevision
      else if \<not> snd (rev_Value r) then Inr (AttributeNotExists RevisionField)
      else Inr (Compare OpEqual RevisionField (OpGo (GStr (fst (rev_Value r))))))"

text \<open>The conditions a write carries, and their conjunction: \<^verbatim>\<open>And\<close> of what there is so far and the next.\<close>

definition write_conditions :: "('f gval \<Rightarrow> string) \<Rightarrow> 'f write_options \<Rightarrow> gerr + 'f cond_builder list" where
  "write_conditions sprint opts =
     (case (case wo_Condition opts of None \<Rightarrow> Inr [] | Some c \<Rightarrow> (case writeCondition sprint c of Inl err \<Rightarrow> Inl err | Inr b \<Rightarrow> Inr [b])) of
        Inl err \<Rightarrow> Inl err
      | Inr cs \<Rightarrow>
          (case wo_Revision opts of
             None \<Rightarrow> Inr cs
           | Some r \<Rightarrow> (case revisionCondition r of Inl err \<Rightarrow> Inl err | Inr b \<Rightarrow> Inr (cs @ [b]))))"

definition combined :: "'f cond_builder list \<Rightarrow> 'f cond_builder" where
  "combined cs = foldl (\<lambda>acc c. AndC [acc, c]) (hd cs) (tl cs)"

text \<open>\<open>build\<close> turns a tree into an expression and says what is wrong with it, if anything is.\<close>

definition writeExpression ::
    "('f cond_builder \<Rightarrow> gerr option) \<Rightarrow> ('f gval \<Rightarrow> string) \<Rightarrow> 'f write_options \<Rightarrow> gerr + 'f cond_builder option" where
  "writeExpression build sprint opts =
     (case write_conditions sprint opts of
        Inl err \<Rightarrow> Inl err
      | Inr [] \<Rightarrow> Inr None
      | Inr cs \<Rightarrow> (case build (combined cs) of Some err \<Rightarrow> Inl err | None \<Rightarrow> Inr (Some (combined cs))))"

definition update_path :: "string \<Rightarrow> gerr + string" where
  "update_path dotted =
     (if dotted = '''' then Inl (Errorf (''an update names no field: '' @ error_text ErrInvalidUpdate) (Some ErrInvalidUpdate))
      else if list_ex (\<lambda>segment. segment = '''') (split_on (CHR ''.'') dotted)
      then Inl (Errorf (''the path '' @ go_quote dotted @ '' has an empty segment: '' @ error_text ErrInvalidUpdate) (Some ErrInvalidUpdate))
      else Inr dotted)"

definition mutation_of :: "'f update_spec \<Rightarrow> gerr + 'f mutation" where
  "mutation_of u =
     (case update_path (up_Path u) of
        Inl err \<Rightarrow> Inl err
      | Inr name \<Rightarrow>
          (case up_Kind u of
             UpdateSet \<Rightarrow> Inr (MutSet name (OpGo (up_Value u)))
           | UpdateRemove \<Rightarrow> Inr (MutRemove name)
           | UpdateIncrement \<Rightarrow> Inr (MutIncrement name (up_By u))
           | UpdateOther s \<Rightarrow> Inl (Errorf (go_quote s @ '' is not a change any of these stores makes: '' @ error_text ErrInvalidUpdate) (Some ErrInvalidUpdate))))"

definition mutations :: "'f update_spec list \<Rightarrow> gerr + 'f mutation list" where
  "mutations updates = sequence_sum (map mutation_of updates)"

definition updateExpression ::
    "('f mutation list \<Rightarrow> 'f cond_builder \<Rightarrow> gerr option) \<Rightarrow> ('f gval \<Rightarrow> string) \<Rightarrow> table_schema \<Rightarrow> 'f update_spec list \<Rightarrow> string \<Rightarrow> 'f write_options
       \<Rightarrow> gerr + 'f mutation list \<times> 'f cond_builder" where
  "updateExpression build sprint schema updates written opts =
     (case mutations updates of
        Inl err \<Rightarrow> Inl err
      | Inr ms \<Rightarrow>
          (case write_conditions sprint opts of
             Inl err \<Rightarrow> Inl err
           | Inr cs \<Rightarrow>
               (let ms' = ms @ [MutSet RevisionField (OpGo (GStr written))];
                    c = combined (AttributeExists (at_name (ks_partition (tsch_table schema))) # cs)
                in case build ms' c of Some err \<Rightarrow> Inl err | None \<Rightarrow> Inr (ms', c))))"

subsection \<open>Cursors\<close>

text \<open>\<^verbatim>\<open>base64.RawURLEncoding\<close>: two other letters, and no padding.\<close>

definition url_letter :: "char \<Rightarrow> char" where
  "url_letter c = (if c = CHR ''+'' then CHR ''-'' else if c = CHR ''/'' then CHR ''_'' else c)"

definition std_letter :: "char \<Rightarrow> char" where
  "std_letter c = (if c = CHR ''-'' then CHR ''+'' else if c = CHR ''_'' then CHR ''/'' else c)"

definition RawURL_Encode :: "byte list \<Rightarrow> string" where
  "RawURL_Encode bs = map url_letter (filter (\<lambda>c. c \<noteq> CHR ''='') (base64_EncodeToString bs))"

definition RawURL_Decode :: "string \<Rightarrow> byte list option" where
  "RawURL_Decode s0 =
     (let s = filter (\<lambda>c. c \<noteq> CHR 0x0A \<and> c \<noteq> CHR 0x0D) s0
      in if list_ex (\<lambda>c. c \<in> set [CHR ''='', CHR ''+'', CHR ''/'']) s \<or> length s mod 4 = 1 then None
         else base64_DecodeString (map std_letter s @ replicate ((4 - length s mod 4) mod 4) (CHR ''='')))"

definition position_of :: "string \<times> attr \<Rightarrow> gerr + string \<times> jtree" where
  "position_of kv =
     (let at_type = (\<lambda>t v. Inr (fst kv, TObj [(''t'', TStr t), (''v'', TStr v)]))
      in case snd kv of
           AvS s \<Rightarrow> at_type ''S'' s
         | AvN s \<Rightarrow> at_type ''N'' s
         | AvB bs \<Rightarrow> at_type ''B'' (base64_EncodeToString bs)
         | _ \<Rightarrow> Inl (Errorf (''celerity: resuming is not possible: DynamoDB gave a position holding '' @ go_quote (fst kv)
             @ '', which is not a kind of key attribute'') None))"

definition encodeCursor :: "attrs \<Rightarrow> gerr + string" where
  "encodeCursor key =
     (if length key = 0 then Inr ''''
      else case sequence_sum (map position_of key) of
        Inl err \<Rightarrow> Inl err
      | Inr position \<Rightarrow> Inr (RawURL_Encode (bytes_of (tree_text (TObj position)))))"

definition wrap_both :: "gerr \<Rightarrow> gerr \<Rightarrow> gerr" where
  "wrap_both e1 e2 = AppErr (error_text e1 @ '': '' @ error_text e2) ''*fmt.wrapErrors'' None None None None [e1, e2]"

definition invalidCursor :: "gerr \<Rightarrow> gerr" where
  "invalidCursor err = wrap_both ErrInvalidCursor err"

definition dec_keyValue :: "string \<times> jtree \<Rightarrow> gerr + string \<times> string \<times> string" where
  "dec_keyValue kv =
     (case dec_object ''keyValue'' (snd kv) of
        Inl e \<Rightarrow> Inl e
      | Inr kvs \<Rightarrow>
          (case (dec_string ''keyValue.t'' (member ''t'' kvs), dec_string ''keyValue.v'' (member ''v'' kvs)) of
             (Inl e, _) \<Rightarrow> Inl e
           | (_, Inl e) \<Rightarrow> Inl e
           | (Inr t, Inr v) \<Rightarrow> Inr (fst kv, t, v)))"

definition key_of_position :: "string \<times> string \<times> string \<Rightarrow> gerr + string \<times> attr" where
  "key_of_position p =
     (case p of (name, t, v) \<Rightarrow>
        if t = ''S'' then Inr (name, AvS v)
        else if t = ''N'' then Inr (name, AvN v)
        else if t = ''B'' then
          (case base64_DecodeString v of None \<Rightarrow> Inl (Errorf ''illegal base64 data'' None) | Some raw \<Rightarrow> Inr (name, AvB raw))
        else Inl (Errorf (go_quote t @ '' is not a kind of key attribute'') None))"

definition decodeCursor :: "(byte list \<Rightarrow> gerr + jtree) \<Rightarrow> string \<Rightarrow> gerr + attrs option" where
  "decodeCursor parse cursor =
     (if cursor = '''' then Inr None
      else case RawURL_Decode cursor of
        None \<Rightarrow> Inl (invalidCursor (Errorf ''illegal base64 data'' None))
      | Some encoded \<Rightarrow>
          (case parse encoded of
             Inl err \<Rightarrow> Inl (invalidCursor err)
           | Inr t \<Rightarrow>
               (case (case t of TNull \<Rightarrow> Inr [] | TObj kvs \<Rightarrow> sequence_sum (map dec_keyValue kvs) | _ \<Rightarrow> Inl (mismatch '''' ''map[string]keyValue'')) of
                  Inl err \<Rightarrow> Inl (invalidCursor err)
                | Inr pairs \<Rightarrow>
                    (case sequence_sum (map key_of_position (fold (\<lambda>(k, p) m. gm_put k p m) pairs [])) of
                       Inl err \<Rightarrow> Inl (invalidCursor err)
                     | Inr key \<Rightarrow> Inr (Some key)))))"

text \<open>\<open>validation\<close> gives the message of an API error whose code is \<^verbatim>\<open>ValidationException\<close>.\<close>

definition refusedCursor :: "(gerr \<Rightarrow> string option) \<Rightarrow> gerr \<Rightarrow> string \<Rightarrow> gerr" where
  "refusedCursor validation err cursor =
     (if cursor = '''' then err
      else case validation err of
        None \<Rightarrow> err
      | Some message \<Rightarrow>
          if \<not> contains message ''starting key'' \<and> \<not> contains message ''ExclusiveStartKey'' then err
          else wrap_both ErrInvalidCursor err)"

subsection \<open>Requests\<close>

definition int32 :: "int \<Rightarrow> int" where
  "int32 n = (n + 2 ^ 31) mod 2 ^ 32 - 2 ^ 31"

definition projection :: "table_schema \<Rightarrow> key_schema \<Rightarrow> string list \<Rightarrow> string list" where
  "projection s schema flds = fold (\<lambda>required wanted. if required \<noteq> '''' \<and> required \<notin> set wanted then wanted @ [required] else wanted)
     [at_name (ks_partition schema), at_name (ks_sort schema), at_name (ks_partition (tsch_table s)), at_name (ks_sort (tsch_table s)),
      RevisionField] flds"

record 'f query_input =
  qi_TableName :: string
  qi_KeyCondition :: "key_builder option"
    \<comment> \<open>absent in a scan\<close>
  qi_Filter :: "'f cond_builder option"
  qi_Projection :: "string list option"
  qi_IndexName :: "string option"
  qi_ScanIndexForward :: "bool option"
  qi_ExclusiveStartKey :: "attrs option"
  qi_Limit :: "int option"

text \<open>\<open>build\<close> is asked of the whole request, and \<open>parse\<close> reads the JSON inside a cursor.\<close>

definition optional_filter :: "('f gval \<Rightarrow> string) \<Rightarrow> 'f condition option \<Rightarrow> gerr + 'f cond_builder option" where
  "optional_filter sprint c =
     (case c of None \<Rightarrow> Inr None | Some c \<Rightarrow> (case writeCondition sprint c of Inl err \<Rightarrow> Inl err | Inr b \<Rightarrow> Inr (Some b)))"

definition queryInput ::
    "('f query_input \<Rightarrow> gerr option) \<Rightarrow> ('f gval \<Rightarrow> string) \<Rightarrow> (byte list \<Rightarrow> gerr + jtree) \<Rightarrow> table_schema \<Rightarrow> string \<Rightarrow> 'f query
       \<Rightarrow> gerr + 'f query_input" where
  "queryInput build sprint parse s table q =
     (case schema_of_index s (q_Index q) of
        Inl err \<Rightarrow> Inl err
      | Inr schema \<Rightarrow>
          if at_name (ks_partition schema) = '''' then Inl (Errorf ''the table declares no partition key'' None)
          else case keyCondition schema q of
            Inl err \<Rightarrow> Inl err
          | Inr kc \<Rightarrow>
              (case optional_filter sprint (q_Filter q) of
                 Inl err \<Rightarrow> Inl err
               | Inr flt \<Rightarrow>
                   (let input = \<lparr>qi_TableName = table, qi_KeyCondition = Some kc, qi_Filter = flt,
                          qi_Projection = (if length (q_Project q) > 0 then Some (projection s schema (q_Project q)) else None),
                          qi_IndexName = (if q_Index q \<noteq> '''' then Some (q_Index q) else None),
                          qi_ScanIndexForward = (if q_Descending q then Some False else None),
                          qi_ExclusiveStartKey = None, qi_Limit = None\<rparr>
                    in case build input of
                         Some err \<Rightarrow> Inl err
                       | None \<Rightarrow>
                           (case decodeCursor parse (q_Cursor q) of
                              Inl err \<Rightarrow> Inl err
                            | Inr start \<Rightarrow>
                                Inr (input\<lparr>qi_ExclusiveStartKey := start, qi_Limit := (if q_Limit q > 0 then Some (int32 (q_Limit q)) else None)\<rparr>)))))"

definition scanInput ::
    "('f query_input \<Rightarrow> gerr option) \<Rightarrow> ('f gval \<Rightarrow> string) \<Rightarrow> (byte list \<Rightarrow> gerr + jtree) \<Rightarrow> table_schema \<Rightarrow> string \<Rightarrow> 'f scan
       \<Rightarrow> gerr + 'f query_input" where
  "scanInput build sprint parse s table sc =
     (case optional_filter sprint (s_Filter sc) of
        Inl err \<Rightarrow> Inl err
      | Inr flt \<Rightarrow>
          (let input = \<lparr>qi_TableName = table, qi_KeyCondition = None, qi_Filter = flt,
                 qi_Projection = (if length (s_Project sc) > 0 then Some (projection s (tsch_table s) (s_Project sc)) else None),
                 qi_IndexName = None, qi_ScanIndexForward = None, qi_ExclusiveStartKey = None, qi_Limit = None\<rparr>
           in case (if flt \<noteq> None \<or> length (s_Project sc) > 0 then build input else None) of
                Some err \<Rightarrow> Inl err
              | None \<Rightarrow>
                  (case decodeCursor parse (s_Cursor sc) of
                     Inl err \<Rightarrow> Inl err
                   | Inr start \<Rightarrow>
                       Inr (input\<lparr>qi_ExclusiveStartKey := start, qi_Limit := (if s_Limit sc > 0 then Some (int32 (s_Limit sc)) else None)\<rparr>))))"

datatype write_request = PutRequest attrs | DeleteRequest attrs | NoRequest
  \<comment> \<open>the last carries no attributes\<close>

datatype 'f transact_item = TransactPut string attrs "'f cond_builder option"
  | TransactUpdate string attrs "'f mutation list" "'f cond_builder"
  | TransactDelete string attrs "'f cond_builder option"

record ('f, 'w) dynamo_api =
  da_GetItem :: "string \<Rightarrow> attrs \<Rightarrow> 'w \<Rightarrow> (gerr + attrs) \<times> 'w"
  da_PutItem :: "string \<Rightarrow> attrs \<Rightarrow> 'f cond_builder option \<Rightarrow> 'w \<Rightarrow> gerr option \<times> 'w"
  da_DeleteItem :: "string \<Rightarrow> attrs \<Rightarrow> 'f cond_builder option \<Rightarrow> 'w \<Rightarrow> gerr option \<times> 'w"
  da_UpdateItem :: "string \<Rightarrow> attrs \<Rightarrow> 'f mutation list \<Rightarrow> 'f cond_builder \<Rightarrow> 'w \<Rightarrow> gerr option \<times> 'w"
  da_Query :: "'f query_input \<Rightarrow> 'w \<Rightarrow> (gerr + attrs list \<times> attrs) \<times> 'w"
  da_Scan :: "'f query_input \<Rightarrow> 'w \<Rightarrow> (gerr + attrs list \<times> attrs) \<times> 'w"
  da_BatchGetItem :: "string \<Rightarrow> attrs list \<Rightarrow> 'w \<Rightarrow> (gerr + attrs list \<times> attrs option list) \<times> 'w"
    \<comment> \<open>the items, and the keys that were left, where a map may be nil\<close>
  da_BatchWriteItem :: "string \<Rightarrow> write_request list \<Rightarrow> 'w \<Rightarrow> (gerr + write_request list) \<times> 'w"
  da_TransactWriteItems :: "'f transact_item list \<Rightarrow> 'w \<Rightarrow> gerr option \<times> 'w"
  da_DescribeTable :: "string \<Rightarrow> 'w \<Rightarrow> (gerr + table_description option) \<times> 'w"

text \<open>The errors of the SDK that are looked for in a chain: a failed condition with the item it names, the codes of a
  cancelled transaction, and the message of a validation error.\<close>

record dynamo_errors =
  de_conditional :: "gerr \<Rightarrow> attrs option"
  de_cancelled :: "gerr \<Rightarrow> string list option"
  de_validation :: "gerr \<Rightarrow> string option"

record ('f, 'w) dynamo_env =
  dv_api :: "('f, 'w) dynamo_api"
  dv_errors :: dynamo_errors
  dv_random :: "'w \<Rightarrow> byte list \<times> 'w"
  dv_locate :: "'w \<Rightarrow> (gerr + string) \<times> 'w"
    \<comment> \<open>the table's name, once its reference, its client key and its client have been resolved\<close>
  dv_build_condition :: "'f cond_builder \<Rightarrow> gerr option"
  dv_build_update :: "'f mutation list \<Rightarrow> 'f cond_builder \<Rightarrow> gerr option"
  dv_build_read :: "'f query_input \<Rightarrow> gerr option"
  dv_sprint :: "'f gval \<Rightarrow> string"
  dv_parse :: "byte list \<Rightarrow> gerr + jtree"

record dynamo_store =
  dy_ref :: string
  dy_schema :: "(gerr + table_schema) option"
    \<comment> \<open>what the once gave, after the first use\<close>

definition hex_of :: "byte list \<Rightarrow> string" where
  "hex_of bs = concat (map (\<lambda>b. [hex_digit (unat b div 16), hex_digit (unat b mod 16)]) bs)"

definition nextRevision :: "('f, 'w) dynamo_env \<Rightarrow> 'w \<Rightarrow> string \<times> 'w" where
  "nextRevision dv w = (case dv_random dv w of (bs, w') \<Rightarrow> (hex_of bs, w'))"

definition refused :: "dynamo_errors \<Rightarrow> gerr \<Rightarrow> gerr" where
  "refused de err = (case de_conditional de err of None \<Rightarrow> err | Some item \<Rightarrow> wrap_both ErrConditionFailed err)"

definition cancelled :: "dynamo_errors \<Rightarrow> gerr \<Rightarrow> gerr" where
  "cancelled de err =
     (case de_cancelled de err of
        None \<Rightarrow> err
      | Some reasons \<Rightarrow> if list_ex (\<lambda>code. code = ''ConditionalCheckFailed'') reasons then wrap_both ErrConditionFailed err else err)"

definition describeKey :: "key \<Rightarrow> string" where
  "describeKey k = (if k_Sort k = '''' then go_quote (k_Partition k) else go_quote (k_Partition k) @ ''/'' @ go_quote (k_Sort k))"

definition revisionOf :: "attrs \<Rightarrow> revision" where
  "revisionOf item = (case gm_get item RevisionField of Some (AvS s) \<Rightarrow> NewRevision s | _ \<Rightarrow> Unrevisioned)"

definition takeRevisions :: "attrs list \<Rightarrow> revision list \<times> attrs list" where
  "takeRevisions items = (map revisionOf items, map (gm_del RevisionField) items)"

definition celerity_error :: "string \<Rightarrow> string \<Rightarrow> gerr \<Rightarrow> gerr" where
  "celerity_error what ref err = Errorf (''celerity: '' @ what @ '' '' @ ref @ '': '' @ error_text err) (Some err)"

subsection \<open>The store\<close>

definition tableSchema :: "('f, 'w) dynamo_env \<Rightarrow> string \<Rightarrow> dynamo_store \<Rightarrow> 'w \<Rightarrow> (gerr + table_schema) \<times> dynamo_store \<times> 'w" where
  "tableSchema dv table d w =
     (case dy_schema d of
        Some r \<Rightarrow> (r, d, w)
      | None \<Rightarrow>
          (case da_DescribeTable (dv_api dv) table w of
             (res, w') \<Rightarrow>
               (let r = (case res of Inl err \<Rightarrow> Inl (celerity_error ''reading the key schema of'' (dy_ref d) err) | Inr t \<Rightarrow> Inr (schemaOf t))
                in (r, d\<lparr>dy_schema := Some r\<rparr>, w'))))"

definition dy_resolve :: "('f, 'w) dynamo_env \<Rightarrow> dynamo_store \<Rightarrow> 'w \<Rightarrow> (gerr + string \<times> table_schema) \<times> dynamo_store \<times> 'w" where
  "dy_resolve dv d w =
     (case dv_locate dv w of
        (Inl err, w) \<Rightarrow> (Inl err, d, w)
      | (Inr table, w) \<Rightarrow> (case tableSchema dv table d w of (Inl err, d, w) \<Rightarrow> (Inl err, d, w) | (Inr s, d, w) \<Rightarrow> (Inr (table, s), d, w)))"

text \<open>An operation that has resolved its table.\<close>

definition resolved ::
    "('f, 'w) dynamo_env \<Rightarrow> (string \<Rightarrow> table_schema \<Rightarrow> 'w \<Rightarrow> (gerr + 'r) \<times> 'w) \<Rightarrow> dynamo_store \<Rightarrow> 'w \<Rightarrow> (gerr + 'r) \<times> dynamo_store \<times> 'w" where
  "resolved dv f d w =
     (case dy_resolve dv d w of
        (Inl err, d, w) \<Rightarrow> (Inl err, d, w)
      | (Inr (table, s), d, w) \<Rightarrow> (case f table s w of (r, w) \<Rightarrow> (r, d, w)))"

text \<open>\<open>read\<close> unmarshals an item into the caller's type, named \<open>typ\<close>.\<close>

definition dy_Get ::
    "('f, 'w) dynamo_env \<Rightarrow> (attrs \<Rightarrow> gerr + 'o) \<Rightarrow> string \<Rightarrow> key \<Rightarrow> dynamo_store \<Rightarrow> 'w \<Rightarrow> (gerr + revision \<times> 'o) \<times> dynamo_store \<times> 'w" where
  "dy_Get dv read typ k d = resolved dv (\<lambda>table s w.
     (case schema_key s k '''' of
        Inl err \<Rightarrow> (Inl (celerity_error ''reading from'' (dy_ref d) err), w)
      | Inr ka \<Rightarrow>
          (case da_GetItem (dv_api dv) table ka w of
             (Inl err, w) \<Rightarrow> (Inl (celerity_error ''reading from'' (dy_ref d) err), w)
           | (Inr item, w) \<Rightarrow>
               (if length item = 0
                then Inl (Errorf (''celerity: '' @ dy_ref d @ '' holds no item for '' @ describeKey k @ '': '' @ error_text ErrNotFound) (Some ErrNotFound))
                else case read (gm_del RevisionField item) of
                  Inl err \<Rightarrow> Inl (Errorf (''celerity: reading an item of '' @ dy_ref d @ '' into '' @ typ @ '': '' @ error_text err) (Some err))
                | Inr out \<Rightarrow> Inr (revisionOf item, out), w)))) d"

text \<open>An item to write, as what marshalling gives for it, and the name of its type.\<close>

type_synonym dynamo_item = "string \<times> (gerr + attrs)"

text \<open>The attributes a put sends: the item with its key over it, stamped with the revision.\<close>

definition stamped :: "string \<Rightarrow> attrs \<Rightarrow> attrs" where
  "stamped written item = gm_put RevisionField (AvS written) item"

definition dy_Put ::
    "('f, 'w) dynamo_env \<Rightarrow> key \<Rightarrow> dynamo_item \<Rightarrow> ('f write_options \<Rightarrow> 'f write_options) list \<Rightarrow> dynamo_store \<Rightarrow> 'w
       \<Rightarrow> (gerr + revision) \<times> dynamo_store \<times> 'w" where
  "dy_Put dv k item opts d = resolved dv (\<lambda>table s w.
     (case snd item of
        Inl err \<Rightarrow> (Inl (Errorf (''celerity: writing a '' @ fst item @ '' to '' @ dy_ref d @ '': '' @ error_text err) (Some err)), w)
      | Inr marshalled \<Rightarrow>
          (case (case schema_key s k '''' of Inl err \<Rightarrow> Inl err | Inr ka \<Rightarrow> applyKey marshalled ka) of
             Inl err \<Rightarrow> (Inl (celerity_error ''writing to'' (dy_ref d) err), w)
           | Inr attrs \<Rightarrow>
               (case nextRevision dv w of
                  (written, w) \<Rightarrow>
                    (case writeExpression (dv_build_condition dv) (dv_sprint dv) (ResolveWriteOptions opts) of
                       Inl err \<Rightarrow> (Inl (celerity_error ''writing to'' (dy_ref d) err), w)
                     | Inr expr \<Rightarrow>
                         (case da_PutItem (dv_api dv) table (stamped written attrs) expr w of
                            (Some err, w) \<Rightarrow> (Inl (celerity_error ''writing to'' (dy_ref d) (refused (dv_errors dv) err)), w)
                          | (None, w) \<Rightarrow> (Inr (NewRevision written), w))))))) d"

definition dy_Delete ::
    "('f, 'w) dynamo_env \<Rightarrow> key \<Rightarrow> ('f write_options \<Rightarrow> 'f write_options) list \<Rightarrow> dynamo_store \<Rightarrow> 'w \<Rightarrow> (gerr + unit) \<times> dynamo_store \<times> 'w" where
  "dy_Delete dv k opts d = resolved dv (\<lambda>table s w.
     (case schema_key s k '''' of
        Inl err \<Rightarrow> (Inl (celerity_error ''deleting from'' (dy_ref d) err), w)
      | Inr ka \<Rightarrow>
          (case writeExpression (dv_build_condition dv) (dv_sprint dv) (ResolveWriteOptions opts) of
             Inl err \<Rightarrow> (Inl (celerity_error ''deleting from'' (dy_ref d) err), w)
           | Inr expr \<Rightarrow>
               (case da_DeleteItem (dv_api dv) table ka expr w of
                  (Some err, w) \<Rightarrow> (Inl (celerity_error ''deleting from'' (dy_ref d) (refused (dv_errors dv) err)), w)
                | (None, w) \<Rightarrow> (Inr (), w))))) d"

text \<open>Reading a page: \<open>um\<close> unmarshals the items, \<open>de\<close> hands each its revision.\<close>

definition read_items ::
    "(attrs list \<Rightarrow> gerr + 'o list) \<Rightarrow> 'o destination_type \<Rightarrow> string \<Rightarrow> attrs list \<Rightarrow> gerr + 'o list" where
  "read_items um de ref items =
     (case takeRevisions items of (revisions, items) \<Rightarrow>
        (case um items of
           Inl err \<Rightarrow> Inl (Errorf (''celerity: reading the items of '' @ ref @ '' into '' @ de_type de @ '': '' @ error_text err) (Some err))
         | Inr xs \<Rightarrow> Inr (DeliverRevisions de xs revisions)))"

definition answer_page ::
    "(attrs list \<Rightarrow> gerr + 'o list) \<Rightarrow> 'o destination_type \<Rightarrow> string \<Rightarrow> string \<Rightarrow> attrs list \<times> attrs \<Rightarrow> gerr + 'o list \<times> string" where
  "answer_page um de what ref res =
     (case read_items um de ref (fst res) of
        Inl err \<Rightarrow> Inl err
      | Inr xs \<Rightarrow> (case encodeCursor (snd res) of Inl err \<Rightarrow> Inl (celerity_error what ref err) | Inr cursor \<Rightarrow> Inr (xs, cursor)))"

definition dy_Query ::
    "('f, 'w) dynamo_env \<Rightarrow> (attrs list \<Rightarrow> gerr + 'o list) \<Rightarrow> 'o destination_type \<Rightarrow> 'f query \<Rightarrow> dynamo_store \<Rightarrow> 'w
       \<Rightarrow> (gerr + 'o list \<times> string) \<times> dynamo_store \<times> 'w" where
  "dy_Query dv um de q d = resolved dv (\<lambda>table s w.
     (case queryInput (dv_build_read dv) (dv_sprint dv) (dv_parse dv) s table q of
        Inl err \<Rightarrow> (Inl (celerity_error ''querying'' (dy_ref d) err), w)
      | Inr input \<Rightarrow>
          (case da_Query (dv_api dv) input w of
             (Inl err, w) \<Rightarrow> (Inl (celerity_error ''querying'' (dy_ref d) (refusedCursor (de_validation (dv_errors dv)) err (q_Cursor q))), w)
           | (Inr res, w) \<Rightarrow> (answer_page um de ''querying'' (dy_ref d) res, w)))) d"

definition dy_Scan ::
    "('f, 'w) dynamo_env \<Rightarrow> (attrs list \<Rightarrow> gerr + 'o list) \<Rightarrow> 'o destination_type \<Rightarrow> 'f scan \<Rightarrow> dynamo_store \<Rightarrow> 'w
       \<Rightarrow> (gerr + 'o list \<times> string) \<times> dynamo_store \<times> 'w" where
  "dy_Scan dv um de sc d = resolved dv (\<lambda>table s w.
     (case scanInput (dv_build_read dv) (dv_sprint dv) (dv_parse dv) s table sc of
        Inl err \<Rightarrow> (Inl (celerity_error ''scanning'' (dy_ref d) err), w)
      | Inr input \<Rightarrow>
          (case da_Scan (dv_api dv) input w of
             (Inl err, w) \<Rightarrow> (Inl (celerity_error ''scanning'' (dy_ref d) (refusedCursor (de_validation (dv_errors dv)) err (s_Cursor sc))), w)
           | (Inr res, w) \<Rightarrow> (answer_page um de ''scanning'' (dy_ref d) res, w)))) d"

definition refusedUpdate :: "dynamo_errors \<Rightarrow> string \<Rightarrow> gerr \<Rightarrow> key \<Rightarrow> gerr" where
  "refusedUpdate de ref err k =
     (case de_conditional de err of
        None \<Rightarrow> err
      | Some item \<Rightarrow>
          if length item = 0
          then Errorf (ref @ '' holds no item for '' @ describeKey k @ '': '' @ error_text ErrNotFound) (Some ErrNotFound)
          else wrap_both ErrConditionFailed err)"

definition dy_Update ::
    "('f, 'w) dynamo_env \<Rightarrow> key \<Rightarrow> 'f update_spec list \<Rightarrow> ('f write_options \<Rightarrow> 'f write_options) list \<Rightarrow> dynamo_store \<Rightarrow> 'w
       \<Rightarrow> (gerr + revision) \<times> dynamo_store \<times> 'w" where
  "dy_Update dv k updates opts d w =
     (if length updates = 0
      then (Inl (Errorf (''celerity: updating '' @ dy_ref d @ '': an update changes nothing: '' @ error_text ErrInvalidUpdate) (Some ErrInvalidUpdate)), d, w)
      else if length updates > MaxUpdates
      then (Inl (Errorf (''celerity: updating '' @ dy_ref d @ '' with '' @ itoa (int (length updates)) @ '' changes, and '' @ itoa (int MaxUpdates)
        @ '' is the most any of these stores takes: '' @ error_text ErrTooManyOperations) (Some ErrTooManyOperations)), d, w)
      else resolved dv (\<lambda>table s w.
        (case schema_key s k '''' of
           Inl err \<Rightarrow> (Inl (celerity_error ''updating'' (dy_ref d) err), w)
         | Inr ka \<Rightarrow>
             (case nextRevision dv w of
                (written, w) \<Rightarrow>
                  (case updateExpression (dv_build_update dv) (dv_sprint dv) s updates written (ResolveWriteOptions opts) of
                     Inl err \<Rightarrow> (Inl (celerity_error ''updating'' (dy_ref d) err), w)
                   | Inr (ms, c) \<Rightarrow>
                       (case da_UpdateItem (dv_api dv) table ka ms c w of
                          (Some err, w) \<Rightarrow> (Inl (celerity_error ''updating'' (dy_ref d) (refusedUpdate (dv_errors dv) (dy_ref d) err k)), w)
                        | (None, w) \<Rightarrow> (Inr (NewRevision written), w)))))) d w)"

subsection \<open>Batches\<close>

definition getsPerRequest :: nat where "getsPerRequest = 100"
definition writesPerRequest :: nat where "writesPerRequest = 25"

text \<open>\<^verbatim>\<open>slices.Chunk\<close>: consecutive slices of at most \<open>n\<close> elements.\<close>

function (sequential) chunk :: "nat \<Rightarrow> 'a list \<Rightarrow> 'a list list" where
  "chunk n [] = []"
| "chunk 0 xs = [xs]"
| "chunk n xs = take n xs # chunk n (drop n xs)"
  by pat_completeness auto
termination by (relation "measure (\<lambda>(n, xs). length xs)") auto

definition key_in :: "table_schema \<Rightarrow> attrs \<Rightarrow> key" where
  "key_in s a = \<lparr>k_Partition = keyText (gm_get a (at_name (ks_partition (tsch_table s)))), k_Sort = keyText (gm_get a (at_name (ks_sort (tsch_table s))))\<rparr>"

definition keyOf :: "string \<Rightarrow> table_schema \<Rightarrow> attrs option \<Rightarrow> gerr + key" where
  "keyOf ref s a =
     (case a of
        None \<Rightarrow> Inl (Errorf (''celerity: '' @ ref @ '' answered with a request carrying no key'') None)
      | Some attrs \<Rightarrow> Inr (key_in s attrs))"

definition keysOf :: "string \<Rightarrow> table_schema \<Rightarrow> attrs option list \<Rightarrow> gerr + key list" where
  "keysOf ref s attrs = sequence_sum (map (keyOf ref s) attrs)"

definition getChunk ::
    "('f, 'w) dynamo_env \<Rightarrow> string \<Rightarrow> string \<Rightarrow> table_schema \<Rightarrow> key list \<Rightarrow> 'w \<Rightarrow> (gerr + attrs list \<times> key list) \<times> 'w" where
  "getChunk dv ref table s ks w =
     (case sequence_sum (map (\<lambda>k. schema_key s k '''') ks) of
        Inl err \<Rightarrow> (Inl (celerity_error ''reading from'' ref err), w)
      | Inr kas \<Rightarrow>
          (case da_BatchGetItem (dv_api dv) table kas w of
             (Inl err, w) \<Rightarrow> (Inl (celerity_error ''reading from'' ref err), w)
           | (Inr (items, left), w) \<Rightarrow> (case keysOf ref s left of Inl err \<Rightarrow> (Inl err, w) | Inr missed \<Rightarrow> (Inr (items, missed), w))))"

fun get_chunks ::
    "('f, 'w) dynamo_env \<Rightarrow> string \<Rightarrow> string \<Rightarrow> table_schema \<Rightarrow> key list list \<Rightarrow> 'w \<Rightarrow> (gerr + attrs list \<times> key list) \<times> 'w" where
  "get_chunks dv ref table s [] w = (Inr ([], []), w)"
| "get_chunks dv ref table s (c # cs) w =
     (case getChunk dv ref table s c w of
        (Inl err, w) \<Rightarrow> (Inl err, w)
      | (Inr (items, missed), w) \<Rightarrow>
          (case get_chunks dv ref table s cs w of
             (Inl err, w) \<Rightarrow> (Inl err, w)
           | (Inr (items', missed'), w) \<Rightarrow> (Inr (items @ items', missed @ missed'), w)))"

definition dy_BatchGet ::
    "('f, 'w) dynamo_env \<Rightarrow> (attrs list \<Rightarrow> gerr + 'o list) \<Rightarrow> 'o destination_type \<Rightarrow> key list \<Rightarrow> dynamo_store \<Rightarrow> 'w
       \<Rightarrow> (gerr + key list \<times> 'o list option) \<times> dynamo_store \<times> 'w" where
  "dy_BatchGet dv um de ks d w =
     (if length ks = 0 then (Inr ([], None), d, w)
      else resolved dv (\<lambda>table s w.
        (case get_chunks dv (dy_ref d) table s (chunk getsPerRequest ks) w of
           (Inl err, w) \<Rightarrow> (Inl err, w)
         | (Inr (items, unprocessed), w) \<Rightarrow>
             (case read_items um de (dy_ref d) items of Inl err \<Rightarrow> (Inl err, w) | Inr xs \<Rightarrow> (Inr (unprocessed, Some xs), w)))) d w)"

text \<open>An operation of a batch, with what marshalling gives for its item; revisions are drawn one per put.\<close>

record dynamo_op =
  dop_Key :: key
  dop_Item :: dynamo_item
  dop_remove :: bool

definition writeRequest ::
    "('f, 'w) dynamo_env \<Rightarrow> string \<Rightarrow> table_schema \<Rightarrow> dynamo_op \<Rightarrow> 'w \<Rightarrow> (gerr + write_request) \<times> 'w" where
  "writeRequest dv ref s op w =
     (case schema_key s (dop_Key op) '''' of
        Inl err \<Rightarrow> (Inl (celerity_error ''writing to'' ref err), w)
      | Inr ka \<Rightarrow>
          if dop_remove op then (Inr (DeleteRequest ka), w)
          else case snd (dop_Item op) of
            Inl err \<Rightarrow> (Inl (Errorf (''celerity: writing a '' @ fst (dop_Item op) @ '' to '' @ ref @ '': '' @ error_text err) (Some err)), w)
          | Inr marshalled \<Rightarrow>
              (case applyKey marshalled ka of
                 Inl err \<Rightarrow> (Inl (celerity_error ''writing to'' ref err), w)
               | Inr attrs \<Rightarrow> (case nextRevision dv w of (written, w) \<Rightarrow> (Inr (PutRequest (stamped written attrs)), w))))"

fun write_requests ::
    "('f, 'w) dynamo_env \<Rightarrow> string \<Rightarrow> table_schema \<Rightarrow> dynamo_op list \<Rightarrow> 'w \<Rightarrow> (gerr + write_request list) \<times> 'w" where
  "write_requests dv ref s [] w = (Inr [], w)"
| "write_requests dv ref s (op # ops) w =
     (case writeRequest dv ref s op w of
        (Inl err, w) \<Rightarrow> (Inl err, w)
      | (Inr r, w) \<Rightarrow> (case write_requests dv ref s ops w of (Inl err, w) \<Rightarrow> (Inl err, w) | (Inr rs, w) \<Rightarrow> (Inr (r # rs), w)))"

primrec requestKey :: "write_request \<Rightarrow> attrs option" where
  "requestKey (DeleteRequest ka) = Some ka"
| "requestKey (PutRequest item) = Some item"
| "requestKey NoRequest = None"

definition opsFor :: "string \<Rightarrow> table_schema \<Rightarrow> dynamo_op list \<Rightarrow> write_request list \<Rightarrow> gerr + dynamo_op list" where
  "opsFor ref s ops unprocessed =
     (let byKey = fold (\<lambda>op m. gm_put (dop_Key op) op m) ops []
      in case sequence_sum (map (\<lambda>r. keyOf ref s (requestKey r)) unprocessed) of
           Inl err \<Rightarrow> Inl err
         | Inr ks \<Rightarrow> Inr (List.map_filter (gm_get byKey) ks))"

definition writeChunk ::
    "('f, 'w) dynamo_env \<Rightarrow> string \<Rightarrow> string \<Rightarrow> table_schema \<Rightarrow> dynamo_op list \<Rightarrow> 'w \<Rightarrow> (gerr + dynamo_op list) \<times> 'w" where
  "writeChunk dv ref table s ops w =
     (case write_requests dv ref s ops w of
        (Inl err, w) \<Rightarrow> (Inl err, w)
      | (Inr requests, w) \<Rightarrow>
          (case da_BatchWriteItem (dv_api dv) table requests w of
             (Inl err, w) \<Rightarrow> (Inl (celerity_error ''writing to'' ref err), w)
           | (Inr unprocessed, w) \<Rightarrow> (opsFor ref s ops unprocessed, w)))"

fun write_chunks ::
    "('f, 'w) dynamo_env \<Rightarrow> string \<Rightarrow> string \<Rightarrow> table_schema \<Rightarrow> dynamo_op list list \<Rightarrow> 'w \<Rightarrow> (gerr + dynamo_op list) \<times> 'w" where
  "write_chunks dv ref table s [] w = (Inr [], w)"
| "write_chunks dv ref table s (c # cs) w =
     (case writeChunk dv ref table s c w of
        (Inl err, w) \<Rightarrow> (Inl err, w)
      | (Inr missed, w) \<Rightarrow>
          (case write_chunks dv ref table s cs w of (Inl err, w) \<Rightarrow> (Inl err, w) | (Inr missed', w) \<Rightarrow> (Inr (missed @ missed'), w)))"

definition dy_BatchWrite ::
    "('f, 'w) dynamo_env \<Rightarrow> dynamo_op list \<Rightarrow> dynamo_store \<Rightarrow> 'w \<Rightarrow> (gerr + dynamo_op list) \<times> dynamo_store \<times> 'w" where
  "dy_BatchWrite dv ops d w =
     (if length ops = 0 then (Inr [], d, w)
      else resolved dv (\<lambda>table s w. write_chunks dv (dy_ref d) table s (chunk writesPerRequest ops) w) d w)"

subsection \<open>Transactions\<close>

record 'f dynamo_atomic =
  dao_Key :: key
  dao_Item :: dynamo_item
  dao_Updates :: "'f update_spec list"
  dao_Options :: "'f write_options"
  dao_kind :: atomic_kind

definition transact_put ::
    "('f, 'w) dynamo_env \<Rightarrow> string \<Rightarrow> attrs \<Rightarrow> 'f dynamo_atomic \<Rightarrow> 'w \<Rightarrow> (gerr + 'f transact_item) \<times> 'w" where
  "transact_put dv table ka op w =
     (case snd (dao_Item op) of
        Inl err \<Rightarrow> (Inl (Errorf (''writing a '' @ fst (dao_Item op) @ '': '' @ error_text err) (Some err)), w)
      | Inr marshalled \<Rightarrow>
          (case applyKey marshalled ka of
             Inl err \<Rightarrow> (Inl err, w)
           | Inr attrs \<Rightarrow>
               (case nextRevision dv w of
                  (written, w) \<Rightarrow>
                    (case writeExpression (dv_build_condition dv) (dv_sprint dv) (dao_Options op) of
                       Inl err \<Rightarrow> (Inl err, w)
                     | Inr expr \<Rightarrow> (Inr (TransactPut table (stamped written attrs) expr), w)))))"

definition transact_update ::
    "('f, 'w) dynamo_env \<Rightarrow> string \<Rightarrow> attrs \<Rightarrow> table_schema \<Rightarrow> 'f dynamo_atomic \<Rightarrow> 'w \<Rightarrow> (gerr + 'f transact_item) \<times> 'w" where
  "transact_update dv table ka s op w =
     (if length (dao_Updates op) = 0
      then (Inl (Errorf (''an update changes nothing: '' @ error_text ErrInvalidUpdate) (Some ErrInvalidUpdate)), w)
      else if length (dao_Updates op) > MaxUpdates
      then (Inl (Errorf (''an update carries '' @ itoa (int (length (dao_Updates op))) @ '' changes, and '' @ itoa (int MaxUpdates)
        @ '' is the most any of the backing stores takes: '' @ error_text ErrTooManyOperations) (Some ErrTooManyOperations)), w)
      else case nextRevision dv w of
        (written, w) \<Rightarrow>
          (case updateExpression (dv_build_update dv) (dv_sprint dv) s (dao_Updates op) written (dao_Options op) of
             Inl err \<Rightarrow> (Inl err, w)
           | Inr (ms, c) \<Rightarrow> (Inr (TransactUpdate table ka ms c), w)))"

definition transact_delete ::
    "('f, 'w) dynamo_env \<Rightarrow> string \<Rightarrow> attrs \<Rightarrow> 'f dynamo_atomic \<Rightarrow> gerr + 'f transact_item" where
  "transact_delete dv table ka op =
     (case writeExpression (dv_build_condition dv) (dv_sprint dv) (dao_Options op) of
        Inl err \<Rightarrow> Inl err
      | Inr expr \<Rightarrow> Inr (TransactDelete table ka expr))"

definition transactItem ::
    "('f, 'w) dynamo_env \<Rightarrow> string \<Rightarrow> table_schema \<Rightarrow> 'f dynamo_atomic \<Rightarrow> 'w \<Rightarrow> (gerr + 'f transact_item) \<times> 'w" where
  "transactItem dv table s op w =
     (case schema_key s (dao_Key op) '''' of
        Inl err \<Rightarrow> (Inl err, w)
      | Inr ka \<Rightarrow>
          (case dao_kind op of
             atomicDelete \<Rightarrow> (transact_delete dv table ka op, w)
           | atomicUpdate \<Rightarrow> transact_update dv table ka s op w
           | atomicPut \<Rightarrow> transact_put dv table ka op w))"

fun transact_items ::
    "('f, 'w) dynamo_env \<Rightarrow> string \<Rightarrow> table_schema \<Rightarrow> 'f dynamo_atomic list \<Rightarrow> 'w \<Rightarrow> (gerr + 'f transact_item list) \<times> 'w" where
  "transact_items dv table s [] w = (Inr [], w)"
| "transact_items dv table s (op # ops) w =
     (case transactItem dv table s op w of
        (Inl err, w) \<Rightarrow> (Inl err, w)
      | (Inr t, w) \<Rightarrow> (case transact_items dv table s ops w of (Inl err, w) \<Rightarrow> (Inl err, w) | (Inr ts, w) \<Rightarrow> (Inr (t # ts), w)))"

definition dy_Atomically ::
    "('f, 'w) dynamo_env \<Rightarrow> string \<Rightarrow> 'f dynamo_atomic list \<Rightarrow> dynamo_store \<Rightarrow> 'w \<Rightarrow> (gerr + unit) \<times> dynamo_store \<times> 'w" where
  "dy_Atomically dv part ops d w =
     (if length ops = 0 then (Inr (), d, w)
      else if length ops > MaxAtomicOps
      then (Inl (Errorf (''celerity: writing '' @ itoa (int (length ops)) @ '' operations to '' @ dy_ref d @ '' atomically, and '' @ itoa (int MaxAtomicOps)
        @ '' is the most any of these stores takes: '' @ error_text ErrTooManyOperations) (Some ErrTooManyOperations)), d, w)
      else case List.find (\<lambda>op. k_Partition (dao_Key op) \<noteq> part) ops of
        Some op \<Rightarrow>
          (Inl (Errorf (''celerity: writing to '' @ dy_ref d @ '' atomically in partition '' @ go_quote part @ '', and an operation addresses ''
            @ go_quote (k_Partition (dao_Key op)) @ '': '' @ error_text ErrWrongPartition) (Some ErrWrongPartition)), d, w)
      | None \<Rightarrow>
          resolved dv (\<lambda>table s w.
            (case transact_items dv table s ops w of
               (Inl err, w) \<Rightarrow> (Inl (Errorf (''celerity: writing to '' @ dy_ref d @ '' atomically: '' @ error_text err) (Some err)), w)
             | (Inr items, w) \<Rightarrow>
                 (case da_TransactWriteItems (dv_api dv) items w of
                    (Some err, w) \<Rightarrow>
                      (let err = cancelled (dv_errors dv) err
                       in (Inl (Errorf (''celerity: writing to '' @ dy_ref d @ '' atomically: '' @ error_text err) (Some err)), w))
                  | (None, w) \<Rightarrow> (Inr (), w)))) d w)"

end
