(* ===== verification/Dynamo_Props.thy ===== *)
theory Dynamo_Props
  imports Dynamo
begin

text \<open>
  What holds of the store on DynamoDB: a cursor resumes where the service stopped, a batch is sent whole and what comes back
  is the caller's, and a write conditional on a revision carries a condition that holds of the unchanged item alone.
\<close>

subsection \<open>Cursors\<close>

lemma b64_letters:
  "n < 64 \<Longrightarrow> b64_char n \<noteq> CHR ''='' \<and> b64_char n \<noteq> CHR ''-'' \<and> b64_char n \<noteq> CHR ''_'' \<and> b64_char n \<noteq> CHR 0x0A \<and> b64_char n \<noteq> CHR 0x0D"
proof -
  assume "n < 64"
  then have "b64_char n \<in> set b64_alphabet" unfolding b64_char_def by (intro nth_mem) (simp add: b64_alphabet_def)
  moreover have "list_all (\<lambda>c. c \<noteq> CHR ''='' \<and> c \<noteq> CHR ''-'' \<and> c \<noteq> CHR ''_'' \<and> c \<noteq> CHR 0x0A \<and> c \<noteq> CHR 0x0D) b64_alphabet"
    by (simp add: b64_alphabet_def)
  ultimately show ?thesis by (simp add: list_all_iff)
qed

definition plain_letter :: "char \<Rightarrow> bool" where
  "plain_letter c \<longleftrightarrow> c \<noteq> CHR ''='' \<and> c \<noteq> CHR ''-'' \<and> c \<noteq> CHR ''_'' \<and> c \<noteq> CHR 0x0A \<and> c \<noteq> CHR 0x0D"

lemma letter_inverse: "plain_letter c \<Longrightarrow> std_letter (url_letter c) = c"
  by (simp add: plain_letter_def url_letter_def std_letter_def)

lemma b64_shape:
  "list_all (\<lambda>n. n < 256) ns \<Longrightarrow> \<exists>body. b64_encode_nats ns = body @ replicate ((4 - length body mod 4) mod 4) (CHR ''='')
     \<and> length body mod 4 \<noteq> 1 \<and> list_all plain_letter body"
proof (induction ns rule: b64_encode_nats.induct)
  case (1 a b c rest)
  then obtain body where body: "b64_encode_nats rest = body @ replicate ((4 - length body mod 4) mod 4) (CHR ''='')"
    "length body mod 4 \<noteq> 1" "list_all plain_letter body" by auto
  let ?q = "[b64_char (a div 4), b64_char (a mod 4 * 16 + b div 16), b64_char (b mod 16 * 4 + c div 64), b64_char (c mod 64)]"
  have "a div 4 < 64" "a mod 4 * 16 + b div 16 < 64" "b mod 16 * 4 + c div 64 < 64" "c mod 64 < 64" using 1(2) by auto
  then have "list_all plain_letter ?q" using b64_letters by (simp add: plain_letter_def)
  with body show ?case by (intro exI [of _ "?q @ body"]) simp
next
  case (2 a b)
  then have "a div 4 < 64" "a mod 4 * 16 + b div 16 < 64" "b mod 16 * 4 < 64" by auto
  then show ?case
    using b64_letters by (intro exI [of _ "[b64_char (a div 4), b64_char (a mod 4 * 16 + b div 16), b64_char (b mod 16 * 4)]"]) (simp add: plain_letter_def)
next
  case (3 a)
  then have "a div 4 < 64" "a mod 4 * 16 < 64" by auto
  then show ?case
    using b64_letters by (intro exI [of _ "[b64_char (a div 4), b64_char (a mod 4 * 16)]"]) (simp add: plain_letter_def numeral_2_eq_2)
qed (auto intro: exI [of _ "[]"])

lemma RawURL_roundtrip [simp]: "RawURL_Decode (RawURL_Encode bs) = Some bs"
proof -
  obtain body where body: "base64_EncodeToString bs = body @ replicate ((4 - length body mod 4) mod 4) (CHR ''='')"
    "length body mod 4 \<noteq> 1" "list_all plain_letter body"
    using b64_shape [of "map unat bs"] by (auto simp: base64_EncodeToString_def list_all_iff)
  have enc: "RawURL_Encode bs = map url_letter body"
    using body(3) by (simp add: RawURL_Encode_def body(1) list_all_iff plain_letter_def filter_id_conv)
  have keep: "filter (\<lambda>c. c \<noteq> CHR 0x0A \<and> c \<noteq> CHR 0x0D) (map url_letter body) = map url_letter body"
    using body(3) by (auto simp: filter_id_conv list_all_iff plain_letter_def url_letter_def)
  have unswap: "map (std_letter \<circ> url_letter) body = body"
    using body(3) by (induction body) (simp_all add: letter_inverse)
  have "\<not> list_ex (\<lambda>c. c \<in> set [CHR ''='', CHR ''+'', CHR ''/'']) (map url_letter body)"
    using body(3) by (auto simp: list_ex_iff list_all_iff plain_letter_def url_letter_def)
  then show ?thesis
    using body(2) by (simp add: RawURL_Decode_def enc keep unswap body(1) [symmetric])
qed

lemma RawURL_Encode_Nil [simp]: "RawURL_Encode bs = '''' \<longleftrightarrow> bs = []"
proof -
  have "RawURL_Encode [] = ''''" by (simp add: RawURL_Encode_def base64_EncodeToString_def)
  then show ?thesis using RawURL_roundtrip [of bs] RawURL_roundtrip [of "[]"] by (metis option.inject)
qed

definition key_attr :: "attr \<Rightarrow> bool" where
  "key_attr a = (case a of AvS s \<Rightarrow> True | AvN s \<Rightarrow> True | AvB bs \<Rightarrow> True | _ \<Rightarrow> False)"

definition position_tree :: "string \<times> attr \<Rightarrow> string \<times> jtree" where
  "position_tree kv = (fst kv, snd (projr (position_of kv)))"

lemma member_tv [simp]:
  "member ''t'' [(''t'', x), (''v'', y)] = x" "member ''v'' [(''t'', x), (''v'', y)] = y"
  by (simp_all add: member_def equal_fold_def to_lower_def lower_char_def)

lemma position_back:
  assumes "key_attr (snd kv)"
  shows "\<exists>t v. position_of kv = Inr (fst kv, TObj [(''t'', TStr t), (''v'', TStr v)])
    \<and> dec_keyValue (position_tree kv) = Inr (fst kv, t, v) \<and> key_of_position (fst kv, t, v) = Inr kv"
  using assms
  by (cases kv; cases "snd kv") (simp_all add: key_attr_def position_tree_def position_of_def Let_def dec_keyValue_def key_of_position_def
      dec_object_def dec_string_def)

lemma sequence_position:
  assumes "list_all (\<lambda>kv. key_attr (snd kv)) key"
  shows "sequence_sum (map position_of key) = Inr (map position_tree key)"
  using assms
proof (induction key)
  case (Cons kv key)
  then show ?case using position_back [of kv] by (auto simp: position_tree_def)
qed simp

lemma sequence_back:
  assumes "list_all (\<lambda>kv. key_attr (snd kv)) key" and "distinct (map fst key)"
  shows "\<exists>ps. sequence_sum (map dec_keyValue (map position_tree key)) = Inr ps \<and> map fst ps = map fst key
    \<and> sequence_sum (map key_of_position ps) = Inr key"
  using assms
proof (induction key)
  case (Cons kv key)
  then obtain ps where "sequence_sum (map dec_keyValue (map position_tree key)) = Inr ps" "map fst ps = map fst key"
    "sequence_sum (map key_of_position ps) = Inr key" by auto
  moreover obtain t v where "dec_keyValue (position_tree kv) = Inr (fst kv, t, v)" "key_of_position (fst kv, t, v) = Inr kv"
    using position_back [of kv] Cons.prems by auto
  ultimately show ?case by (intro exI [of _ "(fst kv, t, v) # ps"]) simp
qed simp

lemma put_fresh: "k \<notin> set (gm_keys m) \<Longrightarrow> gm_put k x m = m @ [(k, x)]"
  by (induction m) auto

lemma put_all: "distinct (gm_keys (m @ pairs)) \<Longrightarrow> fold (\<lambda>(k, x) m. gm_put k x m) pairs m = m @ pairs"
  by (induction pairs arbitrary: m) (auto simp: put_fresh)

lemma sort_key_map: "sort_key f (map g xs) = map g (sort_key (f \<circ> g) xs)"
proof -
  have "insort_key f (g x) (map g ys) = map g (insort_key (f \<circ> g) x ys)" for x ys by (induction ys) auto
  then show ?thesis by (induction xs) (simp_all add: sort_key_def)
qed

text \<open>C32. A cursor resumes where the service stopped. A position of key attributes, encoded as a cursor and decoded again on a later
  request, is the same position: the same attributes with the same types and values. The cursor is not the empty one that ends
  a listing. (JSON that was written reads back, its members sorted.)\<close>

theorem cursor_resumes:
  assumes "gm_wf key" and "list_all (\<lambda>kv. key_attr (snd kv)) key" and "key \<noteq> []" and "encodeCursor key = Inr cursor"
    and "parse (bytes_of (tree_text (TObj (map position_tree key)))) = Inr (TObj (sort_key fst (map position_tree key)))"
  shows "cursor \<noteq> '''' \<and> (\<exists>key'. decodeCursor parse cursor = Inr (Some key') \<and> gm_get key' = gm_get key)"
proof
  let ?text = "tree_text (TObj (map position_tree key))" and ?sorted = "sort_key fst key"
  have cursor: "cursor = RawURL_Encode (bytes_of ?text)"
    using assms(2-4) by (simp add: encodeCursor_def sequence_position)
  have "?text \<noteq> ''''" by simp
  then show ne: "cursor \<noteq> ''''"
    unfolding cursor RawURL_Encode_Nil by (simp only: bytes_of_def map_is_Nil_conv not_False_eq_True)
  have "fst \<circ> position_tree = fst" by (simp add: position_tree_def fun_eq_iff)
  then have sorted: "sort_key fst (map position_tree key) = map position_tree ?sorted" by (simp only: sort_key_map)
  have wf: "distinct (map fst ?sorted)" "list_all (\<lambda>kv. key_attr (snd kv)) ?sorted"
    using assms(1,2) by (simp_all add: gm_wf_def list_all_iff distinct_map)
  from sequence_back [OF wf(2,1)] obtain ps where ps: "sequence_sum (map dec_keyValue (map position_tree ?sorted)) = Inr ps"
    "map fst ps = map fst ?sorted" "sequence_sum (map key_of_position ps) = Inr ?sorted" by blast
  have "fold (\<lambda>(k, p) m. gm_put k p m) ps [] = ps" using put_all [of "[]" ps] wf(1) ps(2) by simp
  then have "decodeCursor parse cursor = Inr (Some ?sorted)"
    using ne ps assms(5) by (simp add: decodeCursor_def cursor sorted)
  moreover have "gm_get ?sorted = gm_get key"
    using assms(1) wf(1) by (intro map_of_inject_set [THEN iffD2]) (simp_all add: gm_wf_def)
  ultimately show "\<exists>key'. decodeCursor parse cursor = Inr (Some key') \<and> gm_get key' = gm_get key" by blast
qed

subsection \<open>Keys\<close>

text \<open>A table whose key attributes have names of their own.\<close>

definition schema_ok :: "table_schema \<Rightarrow> bool" where
  "schema_ok s \<longleftrightarrow> at_name (ks_partition (tsch_table s)) \<noteq> at_name (ks_sort (tsch_table s))
     \<and> RevisionField \<noteq> at_name (ks_partition (tsch_table s)) \<and> RevisionField \<noteq> at_name (ks_sort (tsch_table s))"

lemma keyText_value [simp]: "keyText (Some (key_value raw kind)) = raw"
  by (cases kind) (simp_all add: keyText_def key_value_def)

lemma schema_key_cases:
  assumes "schema_key s k '''' = Inr ka"
  obtains "at_name (ks_sort (tsch_table s)) = ''''" "k_Sort k = ''''" "at_name (ks_partition (tsch_table s)) \<noteq> ''''"
      "ka = [(at_name (ks_partition (tsch_table s)), key_value (k_Partition k) (at_kind (ks_partition (tsch_table s))))]"
    | "at_name (ks_sort (tsch_table s)) \<noteq> ''''" "at_name (ks_partition (tsch_table s)) \<noteq> ''''"
      "ka = gm_put (at_name (ks_sort (tsch_table s))) (key_value (k_Sort k) (at_kind (ks_sort (tsch_table s))))
         [(at_name (ks_partition (tsch_table s)), key_value (k_Partition k) (at_kind (ks_partition (tsch_table s))))]"
  using assms by (auto simp: schema_key_def schema_of_index_def Let_def split: if_splits)

lemma keyOf_key:
  assumes "schema_ok s" and "schema_key s k '''' = Inr ka"
    and "\<And>name. name \<in> set [at_name (ks_partition (tsch_table s)), at_name (ks_sort (tsch_table s))] \<Longrightarrow> name \<noteq> '''' \<Longrightarrow> gm_get a name = gm_get ka name"
    and "gm_get a '''' = None"
  shows "key_in s a = k"
proof -
  have none: "keyText None = ''''" by (simp add: keyText_def)
  from assms(2) show ?thesis
    by (rule schema_key_cases) (use assms(1,3,4) none in \<open>auto simp: key_in_def schema_ok_def\<close>)
qed

lemma applyKey_get:
  "applyKey item ka = Inr a \<Longrightarrow> distinct (map fst ka) \<Longrightarrow> gm_get a name = (case gm_get ka name of Some v \<Rightarrow> Some v | None \<Rightarrow> gm_get item name)"
proof (induction item ka rule: applyKey.induct)
  case (2 item n v ka)
  have next_item: "applyKey (gm_put n v item) ka = Inr a" using 2(3) by (auto split: option.splits if_splits)
  have "gm_get ka n = None" using 2(4) by (simp add: map_of_eq_None_iff)
  moreover have "gm_get a name = (case gm_get ka name of Some v \<Rightarrow> Some v | None \<Rightarrow> gm_get (gm_put n v item) name)"
    using 2 next_item by (cases "gm_get item n") (auto split: if_splits)
  ultimately show ?case by (auto split: option.split)
qed simp

lemma schema_key_distinct: "schema_key s k '''' = Inr ka \<Longrightarrow> distinct (map fst ka)"
  by (erule schema_key_cases) (simp_all add: distinct_update)

subsection \<open>Batches\<close>

lemma concat_chunk: "0 < n \<Longrightarrow> concat (chunk n xs) = xs"
  by (induction n xs rule: chunk.induct) auto

lemma chunk_length: "0 < n \<Longrightarrow> list_all (\<lambda>c. length c \<le> n) (chunk n xs)"
  by (induction n xs rule: chunk.induct) auto

text \<open>DynamoDB takes no attribute without a name.\<close>

definition op_ok :: "dynamo_op \<Rightarrow> bool" where
  "op_ok op \<longleftrightarrow> (case snd (dop_Item op) of Inl err \<Rightarrow> True | Inr item \<Rightarrow> gm_get item '''' = None)"

lemma schema_key_unnamed: "schema_key s k '''' = Inr ka \<Longrightarrow> gm_get ka '''' = None"
  by (erule schema_key_cases) auto

lemma keyOf_stamped:
  assumes "schema_ok s" and ka: "schema_key s k '''' = Inr ka" and a: "applyKey item ka = Inr a" and "gm_get item '''' = None"
  shows "key_in s (stamped written a) = k"
proof (intro keyOf_key [OF assms(1) ka])
  note get = applyKey_get [OF a schema_key_distinct [OF ka]]
  show "gm_get (stamped written a) '''' = None"
    using assms(4) schema_key_unnamed [OF ka] by (simp add: stamped_def RevisionField_def get)
  fix name
  assume name: "name \<in> set [at_name (ks_partition (tsch_table s)), at_name (ks_sort (tsch_table s))]" "name \<noteq> ''''"
  have "gm_get ka name \<noteq> None" using ka name by (cases rule: schema_key_cases) auto
  moreover have "name \<noteq> RevisionField" using assms(1) name by (auto simp: schema_ok_def)
  ultimately show "gm_get (stamped written a) name = gm_get ka name" by (auto simp: stamped_def get)
qed

lemma writeRequest_key:
  assumes "schema_ok s" and "op_ok op" and "writeRequest dv ref s op w = (Inr r, w')"
  shows "keyOf ref' s (requestKey r) = Inr (dop_Key op)"
proof -
  from assms(3) obtain ka where ka: "schema_key s (dop_Key op) '''' = Inr ka" by (auto simp: writeRequest_def split: sum.splits)
  from assms(3) ka consider "r = DeleteRequest ka"
    | item a written where "snd (dop_Item op) = Inr item" "applyKey item ka = Inr a" "r = PutRequest (stamped written a)"
    by (auto simp: writeRequest_def split: sum.splits if_splits prod.splits)
  then show ?thesis
  proof cases
    case 1
    then show ?thesis using schema_key_unnamed [OF ka] by (simp add: keyOf_def) (intro keyOf_key [OF assms(1) ka]; simp)
  next
    case 2
    then show ?thesis using assms(2) keyOf_stamped [OF assms(1) ka 2(2)] by (simp add: op_ok_def keyOf_def)
  qed
qed

lemma write_requests_keys:
  "schema_ok s \<Longrightarrow> list_all op_ok ops \<Longrightarrow> write_requests dv ref s ops w = (Inr rs, w') \<Longrightarrow>
     map (keyOf ref' s \<circ> requestKey) rs = map (Inr \<circ> dop_Key) ops"
proof (induction ops arbitrary: w rs)
  case (Cons op ops)
  then obtain r w1 rs' where "writeRequest dv ref s op w = (Inr r, w1)" "write_requests dv ref s ops w1 = (Inr rs', w')" "rs = r # rs'"
    by (auto split: prod.splits sum.splits)
  with Cons writeRequest_key [of s op dv ref w r w1] show ?case by simp
qed simp

lemma byKey_get:
  "distinct (map dop_Key ops) \<Longrightarrow> gm_get (fold (\<lambda>op m. gm_put (dop_Key op) op m) ops m) k
     = (case List.find (\<lambda>op. dop_Key op = k) ops of Some op \<Rightarrow> Some op | None \<Rightarrow> gm_get m k)"
proof (induction ops arbitrary: m)
  case (Cons op ops)
  then have "List.find (\<lambda>o'. dop_Key o' = dop_Key op) ops = None" by (auto simp: find_None_iff) (metis imageI)
  with Cons show ?case by (auto split: option.split)
qed simp

lemma opsFor_members:
  assumes "distinct (map dop_Key ops)" and "opsFor ref s ops us = Inr missed"
  shows "op \<in> set missed \<longleftrightarrow> op \<in> set ops \<and> Inr (dop_Key op) \<in> (keyOf ref s \<circ> requestKey) ` set us"
proof -
  have found: "List.find (\<lambda>op. dop_Key op = k) ops = Some op \<longleftrightarrow> op \<in> set ops \<and> dop_Key op = k" for k
    using assms(1) by (auto simp: find_Some_iff in_set_conv_nth distinct_conv_nth intro: nth_equalityI)
  have get: "gm_get (fold (\<lambda>op m. gm_put (dop_Key op) op m) ops []) k = List.find (\<lambda>op. dop_Key op = k) ops" for k
    by (simp add: byKey_get [OF assms(1)] split: option.split)
  from assms(2) obtain ks where ks: "map (\<lambda>r. keyOf ref s (requestKey r)) us = map Inr ks"
    "missed = List.map_filter (gm_get (fold (\<lambda>op m. gm_put (dop_Key op) op m) ops [])) ks"
    by (auto simp: opsFor_def Let_def dest: sequence_sum_InrD split: sum.splits)
  have "op \<in> set missed \<longleftrightarrow> (\<exists>k \<in> set ks. List.find (\<lambda>op. dop_Key op = k) ops = Some op)"
    by (force simp: ks(2) List.map_filter_def get)
  also have "\<dots> \<longleftrightarrow> op \<in> set ops \<and> Inr (dop_Key op) \<in> set (map Inr ks)" unfolding found by auto
  finally show ?thesis using ks(1) [THEN arg_cong [where f = set]] by (simp add: comp_def)
qed

text \<open>A call that was made for the operations \<open>c\<close>, with its requests and those left unprocessed, and the keys a list of calls
  left.\<close>

definition made :: "('f, 'w) dynamo_env \<Rightarrow> string \<Rightarrow> dynamo_op list \<Rightarrow> write_request list \<times> write_request list \<Rightarrow> bool" where
  "made dv table c call \<longleftrightarrow> length (fst call) = length c \<and> (\<exists>w1 w2. da_BatchWriteItem (dv_api dv) table (fst call) w1 = (Inr (snd call), w2))"

definition keys_of :: "string \<Rightarrow> table_schema \<Rightarrow> write_request list \<Rightarrow> (gerr + key) set" where
  "keys_of ref s rs = set (map (keyOf ref s \<circ> requestKey) rs)"

lemma keys_of_append: "keys_of ref s (rs @ rs') = keys_of ref s rs \<union> keys_of ref s rs'"
  by (simp add: keys_of_def image_Un)

lemma split_keys:
  "K \<subseteq> f ` A \<Longrightarrow> L \<subseteq> f ` B \<Longrightarrow> f ` A \<inter> f ` B = {} \<Longrightarrow> {x \<in> A. f x \<in> K} \<union> {x \<in> B. f x \<in> L} = {x \<in> A \<union> B. f x \<in> K \<union> L}"
  by blast

lemma write_chunks_calls:
  assumes "schema_ok s"
    and "\<forall>rs w us w'. da_BatchWriteItem (dv_api dv) table rs w = (Inr us, w') \<longrightarrow> set us \<subseteq> set rs"
  shows "write_chunks dv ref table s cs w = (Inr missed, w') \<Longrightarrow> distinct (map dop_Key (concat cs)) \<Longrightarrow> list_all op_ok (concat cs) \<Longrightarrow>
    \<exists>calls. list_all2 (made dv table) cs calls
      \<and> map (keyOf ref s \<circ> requestKey) (concat (map fst calls)) = map (Inr \<circ> dop_Key) (concat cs)
      \<and> set missed = {op \<in> set (concat cs). Inr (dop_Key op) \<in> keys_of ref s (concat (map snd calls))}
      \<and> keys_of ref s (concat (map snd calls)) \<subseteq> (Inr \<circ> dop_Key) ` set (concat cs)"
proof (induction cs arbitrary: w missed)
  case (Cons c cs)
  from Cons.prems(1) obtain rs w1 us w2 missed1 missed' where step: "write_requests dv ref s c w = (Inr rs, w1)"
    "da_BatchWriteItem (dv_api dv) table rs w1 = (Inr us, w2)" "write_chunks dv ref table s cs w2 = (Inr missed', w')"
    "opsFor ref s c us = Inr missed1" "missed = missed1 @ missed'"
    by (auto simp: writeChunk_def split: prod.splits sum.splits)
  have "distinct (map dop_Key (concat cs))" "list_all op_ok (concat cs)" using Cons.prems(2,3) by simp_all
  from Cons.IH [OF step(3) this] obtain calls where calls: "list_all2 (made dv table) cs calls"
    "map (keyOf ref s \<circ> requestKey) (concat (map fst calls)) = map (Inr \<circ> dop_Key) (concat cs)"
    "set missed' = {op \<in> set (concat cs). Inr (dop_Key op) \<in> keys_of ref s (concat (map snd calls))}"
    "keys_of ref s (concat (map snd calls)) \<subseteq> (Inr \<circ> dop_Key) ` set (concat cs)"
    by blast
  have keys: "map (keyOf ref s \<circ> requestKey) rs = map (Inr \<circ> dop_Key) c"
    using write_requests_keys [OF assms(1) _ step(1)] Cons.prems(3) by simp
  have here: "set missed1 = {op \<in> set c. Inr (dop_Key op) \<in> keys_of ref s us}"
    using opsFor_members [OF _ step(4)] Cons.prems(2) unfolding keys_of_def set_map by auto
  have "set us \<subseteq> set rs" using assms(2) step(2) by blast
  then have sent: "keys_of ref s us \<subseteq> (Inr \<circ> dop_Key) ` set c" unfolding keys_of_def by (metis image_mono keys set_map)
  have apart: "(Inr \<circ> dop_Key) ` set c \<inter> (Inr \<circ> dop_Key) ` set (concat cs) = {}" using Cons.prems(2) by auto
  have "set missed = {op \<in> set (c @ concat cs). Inr (dop_Key op) \<in> keys_of ref s (us @ concat (map snd calls))}"
    unfolding step(5) set_append here calls(3) keys_of_append by (rule split_keys [OF sent calls(4) apart, unfolded comp_apply])
  moreover have "keys_of ref s (us @ concat (map snd calls)) \<subseteq> (Inr \<circ> dop_Key) ` set (c @ concat cs)"
    unfolding keys_of_append set_append image_Un using sent calls(4) by (rule Un_mono)
  moreover have "made dv table c (rs, us)" using step(2) keys unfolding made_def by (metis fst_conv length_map snd_conv)
  ultimately show ?case
    using calls(1,2) keys by (intro exI [of _ "(rs, us) # calls"]) (simp add: comp_def)
qed (simp add: keys_of_def)

text \<open>C33. A batch of writes is sent whole, and what was not written is handed back. When a batch of operations with keys of their own
  answers, the calls it made to DynamoDB have at most 25 requests each (what the service takes) and hold, in the order given, one
  request for the key of every operation; and the operations handed back are those, and only those, whose requests the service
  left unprocessed. (The service returns as unprocessed only requests of the call.)\<close>

theorem BatchWrite_accounts:
  assumes "dy_BatchWrite dv ops d w = (Inr missed, d', w')" and "dy_schema d = Some (Inr s)" and "schema_ok s"
    and "distinct (map dop_Key ops)" and "list_all op_ok ops"
    and "\<And>table rs w us w'. da_BatchWriteItem (dv_api dv) table rs w = (Inr us, w') \<Longrightarrow> set us \<subseteq> set rs"
  shows "\<exists>calls. list_all (\<lambda>(rs, us). length rs \<le> 25 \<and> (\<exists>table w1 w2. da_BatchWriteItem (dv_api dv) table rs w1 = (Inr us, w2))) calls
    \<and> map (keyOf (dy_ref d) s \<circ> requestKey) (concat (map fst calls)) = map (Inr \<circ> dop_Key) ops
    \<and> set missed = {op \<in> set ops. Inr (dop_Key op) \<in> set (map (keyOf (dy_ref d) s \<circ> requestKey) (concat (map snd calls)))}"
proof (cases "ops = []")
  case True
  then show ?thesis using assms(1) by (intro exI [of _ "[]"]) (simp add: dy_BatchWrite_def)
next
  case False
  with assms(1,2) obtain table w1 where run: "write_chunks dv (dy_ref d) table s (chunk 25 ops) w1 = (Inr missed, w')"
    by (auto simp: dy_BatchWrite_def resolved_def dy_resolve_def tableSchema_def writesPerRequest_def split: prod.splits sum.splits)
  have whole: "concat (chunk 25 ops) = ops" by (simp add: concat_chunk)
  have api: "\<forall>rs w us w'. da_BatchWriteItem (dv_api dv) table rs w = (Inr us, w') \<longrightarrow> set us \<subseteq> set rs" using assms(6) by blast
  from write_chunks_calls [OF assms(3) api run] assms(4,5) obtain calls where calls: "list_all2 (made dv table) (chunk 25 ops) calls"
    "map (keyOf (dy_ref d) s \<circ> requestKey) (concat (map fst calls)) = map (Inr \<circ> dop_Key) ops"
    "set missed = {op \<in> set ops. Inr (dop_Key op) \<in> keys_of (dy_ref d) s (concat (map snd calls))}"
    unfolding whole by blast
  have "length rs \<le> 25 \<and> (\<exists>table w1 w2. da_BatchWriteItem (dv_api dv) table rs w1 = (Inr us, w2))" if "(rs, us) \<in> set calls" for rs us
  proof -
    from calls(1) that obtain c where "c \<in> set (chunk 25 ops)" "made dv table c (rs, us)"
      by (metis in_set_conv_nth list_all2_conv_all_nth)
    moreover from this(1) have "length c \<le> 25" using chunk_length [of 25 ops] by (simp add: list_all_iff)
    ultimately show ?thesis unfolding made_def by auto
  qed
  then show ?thesis using calls(2,3) unfolding keys_of_def by (intro exI [of _ calls]) (auto simp only: list_all_iff split: prod.split)
qed

subsection \<open>Revisions\<close>

lemma holds_combined:
  assumes "\<And>a b. holds (AndC [a, b]) = (\<lambda>x. holds a x \<and> holds b x)" and "holds (combined (cs @ [b])) x"
  shows "holds b x"
  using assms by (cases cs) (simp_all add: combined_def)

lemma revisionCondition_holds:
  assumes "\<And>f. holds (AttributeNotExists f) = (\<lambda>x. gm_get x f = None)"
    and "\<And>f t. holds (Compare OpEqual f (OpGo (GStr t))) = (\<lambda>x. gm_get x f = Some (AvS t))"
    and "revisionCondition (revisionOf read) = Inr c" and "holds c stored"
  shows "revisionOf stored = revisionOf read"
  using assms
  by (auto simp: revisionCondition_def revisionOf_def rev_Value_def rev_Known_def NewRevision_def Unrevisioned_def
      split: option.splits attr.splits if_splits)


subsection \<open>The laws can hold\<close>

text \<open>A service that holds one item, evaluates conditions as DynamoDB documents them, and leaves all but the first request of a batch.\<close>

fun condition_holds :: "'f cond_builder \<Rightarrow> attrs \<Rightarrow> bool" where
  "condition_holds (Compare op f v) x = (op = OpEqual \<and> (case v of OpGo (GStr t) \<Rightarrow> gm_get x f = Some (AvS t) | _ \<Rightarrow> False))"
| "condition_holds (AttributeExists f) x = (gm_get x f \<noteq> None)"
| "condition_holds (AttributeNotExists f) x = (gm_get x f = None)"
| "condition_holds (AndC cs) x = (\<forall>c \<in> set cs. condition_holds c x)"
| "condition_holds (OrC cs) x = (\<exists>c \<in> set cs. condition_holds c x)"
| "condition_holds _ x = False"

definition one_item_api :: "(int, attrs) dynamo_api" where
  "one_item_api = \<lparr>da_GetItem = (\<lambda>table ka w. (Inr w, w)),
     da_PutItem = (\<lambda>table a c w. if c = None \<or> condition_holds (the c) w then (None, a) else (Some ErrConditionFailed, w)),
     da_DeleteItem = (\<lambda>table ka c w. (None, [])), da_UpdateItem = (\<lambda>table ka ms c w. (Some ErrNotFound, w)),
     da_Query = (\<lambda>input w. (Inr ([w], []), w)), da_Scan = (\<lambda>input w. (Inr ([w], []), w)),
     da_BatchGetItem = (\<lambda>table kas w. (Inr ([w], map Some (tl kas)), w)), da_BatchWriteItem = (\<lambda>table rs w. (Inr (tl rs), w)),
     da_TransactWriteItems = (\<lambda>items w. (None, w)), da_DescribeTable = (\<lambda>table w. (Inr None, w))\<rparr>"

definition one_item_env :: "(int, attrs) dynamo_env" where
  "one_item_env = \<lparr>dv_api = one_item_api, dv_errors = \<lparr>de_conditional = (\<lambda>e. None), de_cancelled = (\<lambda>e. None), de_validation = (\<lambda>e. None)\<rparr>,
     dv_random = (\<lambda>w. ([1], w)), dv_locate = (\<lambda>w. (Inr ''table'', w)), dv_build_condition = (\<lambda>c. None), dv_build_update = (\<lambda>ms c. None),
     dv_build_read = (\<lambda>i. None), dv_sprint = (\<lambda>v. ''''), dv_parse = (\<lambda>bs. Inr TNull)\<rparr>"

definition by_id :: table_schema where
  "by_id = \<lparr>tsch_table = \<lparr>ks_partition = \<lparr>at_name = ''id'', at_kind = TypeS\<rparr>, ks_sort = no_attribute\<rparr>, tsch_indexes = []\<rparr>"

definition id_store :: dynamo_store where
  "id_store = \<lparr>dy_ref = ''orders'', dy_schema = Some (Inr by_id)\<rparr>"

abbreviation id_key :: "string \<Rightarrow> key" where
  "id_key name \<equiv> \<lparr>k_Partition = name, k_Sort = ''''\<rparr>"

lemma by_id_ok: "schema_ok by_id"
  by (simp add: schema_ok_def by_id_def no_attribute_def RevisionField_def)

theorem cursor_resumes_witness:
  "\<exists>cursor key'. encodeCursor [(''id'', AvS ''a'')] = Inr cursor \<and> cursor \<noteq> ''''
     \<and> decodeCursor (\<lambda>bs. Inr (TObj [position_tree (''id'', AvS ''a'')])) cursor = Inr (Some key') \<and> gm_get key' ''id'' = Some (AvS ''a'')"
proof -
  obtain cursor where cursor: "encodeCursor [(''id'', AvS ''a'')] = Inr cursor" by (simp add: encodeCursor_def position_of_def Let_def)
  have "cursor \<noteq> '''' \<and> (\<exists>key'. decodeCursor (\<lambda>bs. Inr (TObj [position_tree (''id'', AvS ''a'')])) cursor = Inr (Some key')
      \<and> gm_get key' = gm_get [(''id'', AvS ''a'')])"
    by (rule cursor_resumes [OF _ _ _ cursor]) (simp_all add: gm_wf_def key_attr_def)
  with cursor show ?thesis by auto
qed

abbreviation two_deletes :: "dynamo_op list" where
  "two_deletes \<equiv> map (\<lambda>name. \<lparr>dop_Key = id_key name, dop_Item = ('''', Inr []), dop_remove = True\<rparr>) [''a'', ''b'']"

theorem BatchWrite_accounts_witness:
  "dy_BatchWrite one_item_env two_deletes id_store [] = (Inr [two_deletes ! 1], id_store, []) \<and>
   (\<exists>calls. map (keyOf ''orders'' by_id \<circ> requestKey) (concat (map fst calls)) = map (Inr \<circ> dop_Key) two_deletes
      \<and> set [two_deletes ! 1] = {op \<in> set two_deletes. Inr (dop_Key op) \<in> set (map (keyOf ''orders'' by_id \<circ> requestKey) (concat (map snd calls)))})"
proof -
  have run: "dy_BatchWrite one_item_env two_deletes id_store [] = (Inr [two_deletes ! 1], id_store, [])" by code_simp
  have sent: "set us \<subseteq> set rs" if "da_BatchWriteItem (dv_api one_item_env) table rs w = (Inr us, w')" for table rs w us w'
    using that by (cases rs) (auto simp: one_item_env_def one_item_api_def)
  have schema: "dy_schema id_store = Some (Inr by_id)" by (simp add: id_store_def)
  have "distinct (map dop_Key two_deletes)" "list_all op_ok two_deletes" by (simp_all add: op_ok_def)
  note accounts = BatchWrite_accounts [OF run schema by_id_ok this, unfolded id_store_def dynamo_store.select_convs]
  have "\<exists>calls. map (keyOf ''orders'' by_id \<circ> requestKey) (concat (map fst calls)) = map (Inr \<circ> dop_Key) two_deletes
      \<and> set [two_deletes ! 1] = {op \<in> set two_deletes. Inr (dop_Key op) \<in> set (map (keyOf ''orders'' by_id \<circ> requestKey) (concat (map snd calls)))}"
    by (rule exE [OF accounts], erule sent) (intro exI, elim conjE, intro conjI)
  with run show ?thesis by (rule conjI)
qed


subsection \<open>Two shortcomings\<close>

text \<open>The store asks for the table's schema once and keeps the answer, an error too: after one failed \<^verbatim>\<open>DescribeTable\<close> every later
  operation is refused with the same error, whatever the service would say by then.\<close>

theorem schema_error_kept:
  assumes "dy_schema d = None" and "da_DescribeTable (dv_api dv) table w = (Inl err, w')"
  shows "\<exists>e d'. tableSchema dv table d w = (Inl e, d', w')
    \<and> (\<forall>later w2 w3 f. dv_locate later w2 = (Inr table, w3) \<longrightarrow> resolved later f d' w2 = (Inl e, d', w3))"
  using assms by (simp add: tableSchema_def Let_def resolved_def dy_resolve_def)

text \<open>A key that holds nothing is among the keys the in-memory store answers as not fetched. \<^verbatim>\<open>BatchGet\<close> on DynamoDB answers
  only the keys the service left unprocessed there, so a caller that reads again until nothing is left never ends
  against the in-memory store.\<close>

theorem BatchGet_absent_returned:
  assumes "BatchGet de d ks = Inr (missing, out)" and "item_at d k = None" and "k \<in> set ks"
  shows "k \<in> set missing"
  using assms by (auto simp: BatchGet_def Let_def split: sum.splits)

theorem dy_BatchGet_absent_not_returned:
  assumes "dy_BatchGet dv um de ks d w = (Inr (missing, out), d', w')"
    and "\<And>table kas w items left w'. da_BatchGetItem (dv_api dv) table kas w = (Inr (items, left), w') \<Longrightarrow> left = []"
  shows "missing = []"
proof -
  have "missed = []" if "get_chunks dv ref table s cs w1 = (Inr (items, missed), w2)" for ref table s cs w1 w2 items missed
    using that
  proof (induction cs arbitrary: w1 items missed)
    case (Cons c cs)
    then show ?case using assms(2) by (fastforce simp: getChunk_def keysOf_def split: prod.splits sum.splits)
  qed simp
  with assms(1) show ?thesis
    by (auto simp: dy_BatchGet_def resolved_def split: if_splits prod.splits sum.splits)
qed

end
