(* ===== verification/Messaging.thy ===== *)
theory Messaging
  imports Encodings Strconv
begin

text \<open>
  Queues and topics: the vocabulary of \<^verbatim>\<open>src/resources/queue\<close> and \<^verbatim>\<open>src/resources/topic\<close>, and their implementations on
  SQS and SNS (\<^verbatim>\<open>src/resources/aws/queue\<close>, \<^verbatim>\<open>topic\<close>), on a development session's Redis (\<^verbatim>\<open>src/resources/local/redis\<close>) and
  in memory (\<^verbatim>\<open>src/celeritytest/queue.go\<close>, \<^verbatim>\<open>topic.go\<close>). The services are arguments over a world of any type, and so is
  what resolves a handle: its identifier, the key of its client and the client. The two packages of the vocabulary are the same but for
  the options of a send, which is the type argument here.
\<close>

subsection \<open>Vocabulary\<close>

record batch_success =
  bsu_ID :: string
  bsu_MessageID :: string

record batch_failure =
  bfa_ID :: string
  bfa_Code :: string
  bfa_Message :: string
  bfa_SenderFault :: bool

record batch_unsent =
  bun_ID :: string
  bun_Err :: gerr

record send_result =
  sr_Successful :: "batch_success list"
  sr_Failed :: "batch_failure list"
  sr_Unsent :: "batch_unsent list"

record 'o batch_entry =
  be_ID :: string
  be_Body :: "byte list"
  be_Options :: "('o \<Rightarrow> 'o) list"

record send_options =
  so_Delay :: int
    \<comment> \<open>nanoseconds\<close>
  so_Attributes :: "(string, string) gomap"
  so_GroupID :: string
  so_DeduplicationID :: string

record publish_options =
  po_Attributes :: "(string, string) gomap"
  po_GroupID :: string
  po_DeduplicationID :: string
  po_Subject :: string

definition no_result :: send_result where
  "no_result = \<lparr>sr_Successful = [], sr_Failed = [], sr_Unsent = []\<rparr>"

definition sendOptions :: "(send_options \<Rightarrow> send_options) list \<Rightarrow> send_options" where
  "sendOptions opts = fold (\<lambda>opt options. opt options) opts \<lparr>so_Delay = 0, so_Attributes = [], so_GroupID = '''', so_DeduplicationID = ''''\<rparr>"

definition publishOptions :: "(publish_options \<Rightarrow> publish_options) list \<Rightarrow> publish_options" where
  "publishOptions opts = fold (\<lambda>opt options. opt options) opts \<lparr>po_Attributes = [], po_GroupID = '''', po_DeduplicationID = '''', po_Subject = ''''\<rparr>"

text \<open>\<^verbatim>\<open>aws.ToString\<close>, and what a pointer to a string is set to only when there is something to say.\<close>

definition ToString :: "string option \<Rightarrow> string" where
  "ToString p = (case p of None \<Rightarrow> '''' | Some s \<Rightarrow> s)"

definition when_set :: "string \<Rightarrow> string option" where
  "when_set s = (if s \<noteq> '''' then Some s else None)"

text \<open>What a service answers for a batch: the entries taken, and those refused.\<close>

record answer_failure =
  af_Id :: "string option"
  af_Code :: "string option"
  af_Message :: "string option"
  af_SenderFault :: bool

type_synonym batch_answer = "(string option \<times> string option) list \<times> answer_failure list"

text \<open>What resolves a handle on AWS: \<^verbatim>\<open>Ref.ID\<close>, \<^verbatim>\<open>service.KeyFor\<close> and the package's own clients.\<close>

record ('api, 'w) aws_resolver =
  ar_ID :: "'w \<Rightarrow> (gerr + string) \<times> 'w"
  ar_KeyFor :: "'w \<Rightarrow> (gerr + string) \<times> 'w"
  ar_client :: "string \<Rightarrow> 'w \<Rightarrow> (gerr + 'api) \<times> 'w"

definition aws_resolve :: "('api, 'w) aws_resolver \<Rightarrow> 'w \<Rightarrow> (gerr + 'api \<times> string) \<times> 'w" where
  "aws_resolve ar w =
     (case ar_ID ar w of
        (Inl err, w) \<Rightarrow> (Inl err, w)
      | (Inr url, w) \<Rightarrow>
          (case ar_KeyFor ar w of
             (Inl err, w) \<Rightarrow> (Inl err, w)
           | (Inr key, w) \<Rightarrow>
               (case ar_client ar key w of (Inl err, w) \<Rightarrow> (Inl err, w) | (Inr client, w) \<Rightarrow> (Inr (client, url), w))))"

definition maxBatchEntries :: nat where "maxBatchEntries = 10"

text \<open>The loop both services share: one request for each run of entries, until one fails. \<open>rest\<close> is what is left of the entries.\<close>

function in_chunks ::
    "('e list \<Rightarrow> 'w \<Rightarrow> (gerr + send_result) \<times> 'w) \<Rightarrow> ('e list \<Rightarrow> gerr \<Rightarrow> batch_unsent list) \<Rightarrow> 'e list \<Rightarrow> send_result \<Rightarrow> 'w
       \<Rightarrow> (send_result \<times> gerr option) \<times> 'w" where
  "in_chunks send unsent rest result w =
     (if length rest = 0 then ((result, None), w)
      else case send (take maxBatchEntries rest) w of
        (Inl err, w) \<Rightarrow> ((result\<lparr>sr_Unsent := unsent rest err\<rparr>, Some err), w)
      | (Inr chunk, w) \<Rightarrow>
          in_chunks send unsent (drop maxBatchEntries rest)
            (result\<lparr>sr_Successful := sr_Successful result @ sr_Successful chunk, sr_Failed := sr_Failed result @ sr_Failed chunk\<rparr>) w)"
  by pat_completeness auto
termination by (relation "measure (\<lambda>(send, unsent, rest, result, w). length rest)") (auto simp: maxBatchEntries_def)

declare in_chunks.simps [simp del]

definition unsent :: "'o batch_entry list \<Rightarrow> gerr \<Rightarrow> batch_unsent list" where
  "unsent entries err = map (\<lambda>entry. \<lparr>bun_ID = be_ID entry, bun_Err = err\<rparr>) entries"

definition indexOf :: "string option \<Rightarrow> 'o batch_entry list \<Rightarrow> nat option" where
  "indexOf mid entries =
     (case ParseInt (ToString mid) 64 of
        Inl err \<Rightarrow> None
      | Inr index \<Rightarrow> if index < 0 \<or> index \<ge> int (length entries) then None else Some (nat index))"

text \<open>An answer matched to the entries of its request; \<open>unknown\<close> is the error for one that was not sent.\<close>

definition matched :: "(string option \<Rightarrow> gerr) \<Rightarrow> 'o batch_entry list \<Rightarrow> batch_answer \<Rightarrow> gerr + send_result" where
  "matched unknown entries out =
     (case sequence_sum (map (\<lambda>(mid, message).
        case indexOf mid entries of
          None \<Rightarrow> Inl (unknown mid)
        | Some index \<Rightarrow> Inr \<lparr>bsu_ID = be_ID (entries ! index), bsu_MessageID = ToString message\<rparr>) (fst out)) of
        Inl err \<Rightarrow> Inl err
      | Inr successful \<Rightarrow>
          (case sequence_sum (map (\<lambda>entry.
             case indexOf (af_Id entry) entries of
               None \<Rightarrow> Inl (unknown (af_Id entry))
             | Some index \<Rightarrow> Inr \<lparr>bfa_ID = be_ID (entries ! index), bfa_Code = ToString (af_Code entry), bfa_Message = ToString (af_Message entry),
                 bfa_SenderFault = af_SenderFault entry\<rparr>) (snd out)) of
             Inl err \<Rightarrow> Inl err
           | Inr failed \<Rightarrow> Inr \<lparr>sr_Successful = successful, sr_Failed = failed, sr_Unsent = []\<rparr>))"

subsection \<open>A queue on SQS\<close>

text \<open>A message attribute is its data type and its value.\<close>

definition string_attributes :: "(string, string) gomap \<Rightarrow> (string, string \<times> string) gomap option" where
  "string_attributes attrs = (if length attrs = 0 then None else Some (map (\<lambda>(name, v). (name, ''String'', v)) attrs))"

definition messageAttributes :: "send_options \<Rightarrow> (string, string \<times> string) gomap option" where
  "messageAttributes options = string_attributes (so_Attributes options)"

record sqs_message =
  sq_MessageBody :: string
  sq_DelaySeconds :: int
  sq_MessageGroupId :: "string option"
  sq_MessageDeduplicationId :: "string option"
  sq_MessageAttributes :: "(string, string \<times> string) gomap option"

record 'w sqs_api =
  sq_SendMessage :: "string \<Rightarrow> sqs_message \<Rightarrow> 'w \<Rightarrow> (gerr + string option) \<times> 'w"
  sq_SendMessageBatch :: "string \<Rightarrow> (string \<times> sqs_message) list \<Rightarrow> 'w \<Rightarrow> (gerr + batch_answer) \<times> 'w"

text \<open>\<open>seconds\<close> is the \<^verbatim>\<open>int32\<close> a positive duration becomes through \<^verbatim>\<open>Duration.Seconds\<close>, which is a float.\<close>

definition delaySeconds :: "(int \<Rightarrow> int) \<Rightarrow> send_options \<Rightarrow> int" where
  "delaySeconds seconds options = (if so_Delay options \<le> 0 then 0 else seconds (so_Delay options))"

definition applyFIFO :: "send_options \<Rightarrow> string option \<times> string option" where
  "applyFIFO options = (when_set (so_GroupID options), when_set (so_DeduplicationID options))"

definition sqs_input :: "(int \<Rightarrow> int) \<Rightarrow> byte list \<Rightarrow> (send_options \<Rightarrow> send_options) list \<Rightarrow> sqs_message" where
  "sqs_input seconds body opts =
     (let options = sendOptions opts
      in \<lparr>sq_MessageBody = string_of_bytes body, sq_DelaySeconds = delaySeconds seconds options,
          sq_MessageGroupId = fst (applyFIFO options), sq_MessageDeduplicationId = snd (applyFIFO options),
          sq_MessageAttributes = messageAttributes options\<rparr>)"

definition sqs_Send ::
    "('w sqs_api, 'w) aws_resolver \<Rightarrow> (int \<Rightarrow> int) \<Rightarrow> string \<Rightarrow> byte list \<Rightarrow> (send_options \<Rightarrow> send_options) list \<Rightarrow> 'w \<Rightarrow> (gerr + string) \<times> 'w" where
  "sqs_Send ar seconds ref body opts w =
     (case aws_resolve ar w of
        (Inl err, w) \<Rightarrow> (Inl err, w)
      | (Inr (client, url), w) \<Rightarrow>
          (case sq_SendMessage client url (sqs_input seconds body opts) w of
             (Inl err, w) \<Rightarrow> (Inl (Errorf (''celerity: sending to '' @ ref @ '': '' @ error_text err) (Some err)), w)
           | (Inr mid, w) \<Rightarrow> (Inr (ToString mid), w)))"

definition batchEntries :: "(int \<Rightarrow> int) \<Rightarrow> send_options batch_entry list \<Rightarrow> (string \<times> sqs_message) list" where
  "batchEntries seconds entries =
     map (\<lambda>(i, entry). (itoa (int i), sqs_input seconds (be_Body entry) (be_Options entry))) (List.enumerate 0 entries)"

definition unknownEntry :: "string \<Rightarrow> string option \<Rightarrow> gerr" where
  "unknownEntry ref mid =
     Errorf (''celerity: sending a batch to '' @ ref @ '': SQS answered for an entry '' @ go_quote (ToString mid) @ '' that was not sent'') None"

text \<open>With an error, what \<^verbatim>\<open>sendChunk\<close> had put in its result is dropped by its caller, so it is not given here.\<close>

definition sendChunk ::
    "(int \<Rightarrow> int) \<Rightarrow> string \<Rightarrow> 'w sqs_api \<Rightarrow> string \<Rightarrow> send_options batch_entry list \<Rightarrow> 'w \<Rightarrow> (gerr + send_result) \<times> 'w" where
  "sendChunk seconds ref client url entries w =
     (case sq_SendMessageBatch client url (batchEntries seconds entries) w of
        (Inl err, w) \<Rightarrow> (Inl (Errorf (''celerity: sending a batch to '' @ ref @ '': '' @ error_text err) (Some err)), w)
      | (Inr out, w) \<Rightarrow> (matched (unknownEntry ref) entries out, w))"

definition sqs_SendBatch ::
    "('w sqs_api, 'w) aws_resolver \<Rightarrow> (int \<Rightarrow> int) \<Rightarrow> string \<Rightarrow> send_options batch_entry list \<Rightarrow> 'w \<Rightarrow> (send_result \<times> gerr option) \<times> 'w" where
  "sqs_SendBatch ar seconds ref entries w =
     (if length entries = 0 then ((no_result, None), w)
      else case aws_resolve ar w of
        (Inl err, w) \<Rightarrow> ((no_result\<lparr>sr_Unsent := unsent entries err\<rparr>, Some err), w)
      | (Inr (client, url), w) \<Rightarrow> in_chunks (sendChunk seconds ref client url) unsent entries no_result w)"

subsection \<open>A topic on SNS\<close>

record sns_message =
  sn_Message :: string
  sn_Subject :: "string option"
  sn_MessageGroupId :: "string option"
  sn_MessageDeduplicationId :: "string option"
  sn_MessageAttributes :: "(string, string \<times> string) gomap option"

record 'w sns_api =
  sn_Publish :: "string \<Rightarrow> sns_message \<Rightarrow> 'w \<Rightarrow> (gerr + string option) \<times> 'w"
  sn_PublishBatch :: "string \<Rightarrow> (string \<times> sns_message) list \<Rightarrow> 'w \<Rightarrow> (gerr + batch_answer) \<times> 'w"

definition sns_applyFIFO :: "publish_options \<Rightarrow> string option \<times> string option" where
  "sns_applyFIFO options = (when_set (po_GroupID options), when_set (po_DeduplicationID options))"

definition subject :: "publish_options \<Rightarrow> string option" where
  "subject options = (if po_Subject options = '''' then None else Some (po_Subject options))"

definition publishAttributes :: "publish_options \<Rightarrow> (string, string \<times> string) gomap option" where
  "publishAttributes options = string_attributes (po_Attributes options)"

definition sns_input :: "byte list \<Rightarrow> (publish_options \<Rightarrow> publish_options) list \<Rightarrow> sns_message" where
  "sns_input body opts =
     (let options = publishOptions opts
      in \<lparr>sn_Message = string_of_bytes body, sn_Subject = subject options,
          sn_MessageGroupId = fst (sns_applyFIFO options), sn_MessageDeduplicationId = snd (sns_applyFIFO options),
          sn_MessageAttributes = publishAttributes options\<rparr>)"

definition sns_Publish ::
    "('w sns_api, 'w) aws_resolver \<Rightarrow> string \<Rightarrow> byte list \<Rightarrow> (publish_options \<Rightarrow> publish_options) list \<Rightarrow> 'w \<Rightarrow> (gerr + string) \<times> 'w" where
  "sns_Publish ar ref body opts w =
     (case aws_resolve ar w of
        (Inl err, w) \<Rightarrow> (Inl err, w)
      | (Inr (client, arn), w) \<Rightarrow>
          (case sn_Publish client arn (sns_input body opts) w of
             (Inl err, w) \<Rightarrow> (Inl (Errorf (''celerity: publishing to '' @ ref @ '': '' @ error_text err) (Some err)), w)
           | (Inr mid, w) \<Rightarrow> (Inr (ToString mid), w)))"

definition sns_batchEntries :: "publish_options batch_entry list \<Rightarrow> (string \<times> sns_message) list" where
  "sns_batchEntries entries = map (\<lambda>(i, entry). (itoa (int i), sns_input (be_Body entry) (be_Options entry))) (List.enumerate 0 entries)"

definition sns_unknownEntry :: "string \<Rightarrow> string option \<Rightarrow> gerr" where
  "sns_unknownEntry ref mid =
     Errorf (''celerity: publishing a batch to '' @ ref @ '': SNS answered for an entry '' @ go_quote (ToString mid) @ '' that was not sent'') None"

definition publishChunk ::
    "string \<Rightarrow> 'w sns_api \<Rightarrow> string \<Rightarrow> publish_options batch_entry list \<Rightarrow> 'w \<Rightarrow> (gerr + send_result) \<times> 'w" where
  "publishChunk ref client arn entries w =
     (case sn_PublishBatch client arn (sns_batchEntries entries) w of
        (Inl err, w) \<Rightarrow> (Inl (Errorf (''celerity: publishing a batch to '' @ ref @ '': '' @ error_text err) (Some err)), w)
      | (Inr out, w) \<Rightarrow> (matched (sns_unknownEntry ref) entries out, w))"

definition sns_PublishBatch ::
    "('w sns_api, 'w) aws_resolver \<Rightarrow> string \<Rightarrow> publish_options batch_entry list \<Rightarrow> 'w \<Rightarrow> (send_result \<times> gerr option) \<times> 'w" where
  "sns_PublishBatch ar ref entries w =
     (if length entries = 0 then ((no_result, None), w)
      else case aws_resolve ar w of
        (Inl err, w) \<Rightarrow> ((no_result\<lparr>sr_Unsent := unsent entries err\<rparr>, Some err), w)
      | (Inr (client, arn), w) \<Rightarrow> in_chunks (publishChunk ref client arn) unsent entries no_result w)"

subsection \<open>A development session\<close>

text \<open>The session's Redis: one command, or a pipeline with what \<^verbatim>\<open>Exec\<close> reports and the answer of each command. The client itself
  (\<^verbatim>\<open>connection.get\<close>) and the identifiers are arguments as before; \<open>rc_error\<close> tells an answer of Redis from a failure to ask it.\<close>

record 'w redis_session =
  rc_ID :: "'w \<Rightarrow> (gerr + string) \<times> 'w"
  rc_get :: "'w \<Rightarrow> gerr option \<times> 'w"
  rc_now :: "nat \<Rightarrow> 'w \<Rightarrow> int"
    \<comment> \<open>the clock, read once for each message\<close>
  rc_XAdd :: "string \<Rightarrow> (string, string) gomap \<Rightarrow> 'w \<Rightarrow> (gerr + string) \<times> 'w"
  rc_XAdds :: "(string \<times> (string, string) gomap) list \<Rightarrow> 'w \<Rightarrow> (gerr option \<times> (gerr + string) list) \<times> 'w"
  rc_Publish :: "string \<Rightarrow> byte list \<Rightarrow> 'w \<Rightarrow> gerr option \<times> 'w"
  rc_Publishes :: "(string \<times> byte list) list \<Rightarrow> 'w \<Rightarrow> (gerr option \<times> gerr option list) \<times> 'w"
  rc_uuid :: "'w \<Rightarrow> (gerr + string) \<times> 'w"
  rc_error :: "gerr \<Rightarrow> bool"

definition streamKey :: "string \<Rightarrow> string" where
  "streamKey name = ''celerity:queue:'' @ name"

definition channelKey :: "string \<Rightarrow> string" where
  "channelKey name = ''celerity:topic:channel:'' @ name"

definition redis_resolve :: "'w redis_session \<Rightarrow> (string \<Rightarrow> string) \<Rightarrow> 'w \<Rightarrow> (gerr + string) \<times> 'w" where
  "redis_resolve rc named w =
     (case rc_ID rc w of
        (Inl err, w) \<Rightarrow> (Inl err, w)
      | (Inr name, w) \<Rightarrow> (case rc_get rc w of (Some err, w) \<Rightarrow> (Inl err, w) | (None, w) \<Rightarrow> (Inr (named name), w)))"

definition attributes_text :: "(string, string) gomap \<Rightarrow> string" where
  "attributes_text attrs = tree_text (TObj (map (\<lambda>(k, v). (k, TStr v)) attrs))"

definition streamFields :: "int \<Rightarrow> byte list \<Rightarrow> send_options \<Rightarrow> (string, string) gomap" where
  "streamFields now body options =
     [(''timestamp'', itoa now)]
     @ (if utf8_Valid body then [(''message_type'', ''0''), (''body'', string_of_bytes body)]
        else [(''message_type'', ''1''), (''body'', base64_EncodeToString body)])
     @ (if so_GroupID options \<noteq> '''' then [(''group_id'', so_GroupID options)] else [])
     @ (if so_DeduplicationID options \<noteq> '''' then [(''dedup_id'', so_DeduplicationID options)] else [])
     @ (if length (so_Attributes options) > 0 then [(''attributes'', attributes_text (so_Attributes options))] else [])"

definition redis_Send ::
    "'w redis_session \<Rightarrow> string \<Rightarrow> byte list \<Rightarrow> (send_options \<Rightarrow> send_options) list \<Rightarrow> 'w \<Rightarrow> (gerr + string) \<times> 'w" where
  "redis_Send rc ref body opts w =
     (case redis_resolve rc streamKey w of
        (Inl err, w) \<Rightarrow> (Inl err, w)
      | (Inr key, w) \<Rightarrow>
          (case rc_XAdd rc key (streamFields (rc_now rc 0 w) body (sendOptions opts)) w of
             (Inl err, w) \<Rightarrow> (Inl (Errorf (''celerity: sending to '' @ ref @ '': '' @ error_text err) (Some err)), w)
           | (Inr mid, w) \<Rightarrow> (Inr mid, w)))"

definition isCommandFailure :: "'w redis_session \<Rightarrow> gerr \<Rightarrow> bool" where
  "isCommandFailure rc err = list_ex (rc_error rc) (err_chain err)"

text \<open>What became of each command, once the pipeline has run.\<close>

definition redis_failure :: "'o batch_entry \<Rightarrow> gerr \<Rightarrow> batch_failure" where
  "redis_failure entry err = \<lparr>bfa_ID = be_ID entry, bfa_Code = ''RedisError'', bfa_Message = error_text err, bfa_SenderFault = False\<rparr>"

fun read_answers :: "'o batch_entry list \<Rightarrow> (gerr + string) list \<Rightarrow> send_result \<Rightarrow> send_result" where
  "read_answers (entry # entries) (a # answers) result =
     read_answers entries answers
       (case a of
          Inl err \<Rightarrow> result\<lparr>sr_Failed := sr_Failed result @ [redis_failure entry err]\<rparr>
        | Inr mid \<Rightarrow> result\<lparr>sr_Successful := sr_Successful result @ [\<lparr>bsu_ID = be_ID entry, bsu_MessageID = mid\<rparr>]\<rparr>)"
| "read_answers _ _ result = result"

definition redis_SendBatch ::
    "'w redis_session \<Rightarrow> string \<Rightarrow> send_options batch_entry list \<Rightarrow> 'w \<Rightarrow> (send_result \<times> gerr option) \<times> 'w" where
  "redis_SendBatch rc ref entries w =
     (if length entries = 0 then ((no_result, None), w)
      else case redis_resolve rc streamKey w of
        (Inl err, w) \<Rightarrow> ((no_result\<lparr>sr_Unsent := unsent entries err\<rparr>, Some err), w)
      | (Inr key, w) \<Rightarrow>
          (case rc_XAdds rc (map (\<lambda>(i, entry). (key, streamFields (rc_now rc i w) (be_Body entry) (sendOptions (be_Options entry)))) (List.enumerate 0 entries)) w of
             ((execd, added), w) \<Rightarrow>
               (case execd of
                  Some err \<Rightarrow>
                    if \<not> isCommandFailure rc err
                    then (let wrapped = Errorf (''celerity: sending a batch to '' @ ref @ '': '' @ error_text err) (Some err)
                          in ((no_result\<lparr>sr_Unsent := unsent entries wrapped\<rparr>, Some wrapped), w))
                    else ((read_answers entries added no_result, None), w)
                | None \<Rightarrow> ((read_answers entries added no_result, None), w))))"

definition messageID :: "'w redis_session \<Rightarrow> 'w \<Rightarrow> (gerr + string) \<times> 'w" where
  "messageID rc w =
     (case rc_uuid rc w of
        (Inl err, w) \<Rightarrow> (Inl (Errorf (''naming a message: '' @ error_text err) (Some err)), w)
      | (Inr u, w) \<Rightarrow> (Inr u, w))"

definition envelope :: "'w redis_session \<Rightarrow> byte list \<Rightarrow> publish_options \<Rightarrow> 'w \<Rightarrow> (gerr + string \<times> byte list) \<times> 'w" where
  "envelope rc body options w =
     (if \<not> utf8_Valid body
      then (Inl (Errorf (''a topic in a development session carries text: the session relays a publish ''
        @ ''through a channel that has no way to mark a body as binary, so bytes that ''
        @ ''are not valid UTF-8 cannot be published until the session can say so'') None), w)
      else case messageID rc w of
        (Inl err, w) \<Rightarrow> (Inl err, w)
      | (Inr mid, w) \<Rightarrow>
          (Inr (mid, bytes_of (tree_text (TObj ([(''messageId'', TStr mid), (''body'', TStr (string_of_bytes body))]
             @ (if po_Subject options \<noteq> '''' then [(''subject'', TStr (po_Subject options))] else [])
             @ (if length (po_Attributes options) > 0
                then [(''attributes'', TObj (map (\<lambda>(k, v). (k, TStr v)) (po_Attributes options)))] else []))))), w))"

definition redis_Publish ::
    "'w redis_session \<Rightarrow> string \<Rightarrow> byte list \<Rightarrow> (publish_options \<Rightarrow> publish_options) list \<Rightarrow> 'w \<Rightarrow> (gerr + string) \<times> 'w" where
  "redis_Publish rc ref body opts w =
     (case redis_resolve rc channelKey w of
        (Inl err, w) \<Rightarrow> (Inl err, w)
      | (Inr channel, w) \<Rightarrow>
          (case envelope rc body (publishOptions opts) w of
             (Inl err, w) \<Rightarrow> (Inl (Errorf (''celerity: publishing to '' @ ref @ '': '' @ error_text err) (Some err)), w)
           | (Inr (mid, payload), w) \<Rightarrow>
               (case rc_Publish rc channel payload w of
                  (Some err, w) \<Rightarrow> (Inl (Errorf (''celerity: publishing to '' @ ref @ '': '' @ error_text err) (Some err)), w)
                | (None, w) \<Rightarrow> (Inr mid, w))))"

fun envelopes :: "'w redis_session \<Rightarrow> publish_options batch_entry list \<Rightarrow> 'w \<Rightarrow> (gerr + (string \<times> byte list) list) \<times> 'w" where
  "envelopes rc [] w = (Inr [], w)"
| "envelopes rc (entry # entries) w =
     (case envelope rc (be_Body entry) (publishOptions (be_Options entry)) w of
        (Inl err, w) \<Rightarrow> (Inl err, w)
      | (Inr e, w) \<Rightarrow> (case envelopes rc entries w of (Inl err, w) \<Rightarrow> (Inl err, w) | (Inr es, w) \<Rightarrow> (Inr (e # es), w)))"

definition redis_PublishBatch ::
    "'w redis_session \<Rightarrow> string \<Rightarrow> publish_options batch_entry list \<Rightarrow> 'w \<Rightarrow> (send_result \<times> gerr option) \<times> 'w" where
  "redis_PublishBatch rc ref entries w =
     (let wrap = (\<lambda>err. Errorf (''celerity: publishing a batch to '' @ ref @ '': '' @ error_text err) (Some err));
          none_sent = (\<lambda>err w. ((no_result\<lparr>sr_Unsent := unsent entries err\<rparr>, Some err), w))
      in if length entries = 0 then ((no_result, None), w)
         else case redis_resolve rc channelKey w of
           (Inl err, w) \<Rightarrow> none_sent err w
         | (Inr channel, w) \<Rightarrow>
             (case envelopes rc entries w of
                (Inl err, w) \<Rightarrow> none_sent (wrap err) w
              | (Inr es, w) \<Rightarrow>
                  (case rc_Publishes rc (map (\<lambda>(mid, payload). (channel, payload)) es) w of
                     ((Some err, published), w) \<Rightarrow>
                       if \<not> isCommandFailure rc err then none_sent (wrap err) w
                       else ((read_answers entries (map2 (\<lambda>p (mid, payload). case p of Some err \<Rightarrow> Inl err | None \<Rightarrow> Inr mid) published es) no_result, None), w)
                   | ((None, published), w) \<Rightarrow>
                       ((read_answers entries (map2 (\<lambda>p (mid, payload). case p of Some err \<Rightarrow> Inl err | None \<Rightarrow> Inr mid) published es) no_result, None), w))))"

subsection \<open>In memory\<close>

record 'o sent_message =
  sm_ID :: string
  sm_Body :: "byte list"
  sm_Options :: 'o

record 'o mem_queue =
  mq_name :: string
  mq_sent :: "'o sent_message list"
  mq_ids :: int
  mq_Refuse :: "gerr option"

definition NewQueue :: "string \<Rightarrow> send_options mem_queue" where
  "NewQueue name = \<lparr>mq_name = name, mq_sent = [], mq_ids = 0, mq_Refuse = None\<rparr>"

definition mq_Reset :: "send_options mem_queue \<Rightarrow> send_options mem_queue" where
  "mq_Reset q = q\<lparr>mq_sent := []\<rparr>"

definition takeRefusal :: "'o mem_queue \<Rightarrow> gerr option \<times> 'o mem_queue" where
  "takeRefusal q = (mq_Refuse q, q\<lparr>mq_Refuse := None\<rparr>)"

definition mq_record :: "'o \<Rightarrow> byte list \<Rightarrow> 'o mem_queue \<Rightarrow> string \<times> 'o mem_queue" where
  "mq_record options body q =
     (let ids = mq_ids q + 1; mid = mq_name q @ ''-'' @ itoa ids
      in (mid, q\<lparr>mq_ids := ids, mq_sent := mq_sent q @ [\<lparr>sm_ID = mid, sm_Body = body, sm_Options = options\<rparr>]\<rparr>))"

definition mem_Send :: "byte list \<Rightarrow> (send_options \<Rightarrow> send_options) list \<Rightarrow> send_options mem_queue \<Rightarrow> (gerr + string) \<times> send_options mem_queue" where
  "mem_Send body opts q =
     (case takeRefusal q of
        (Some err, q) \<Rightarrow> (Inl err, q)
      | (None, q) \<Rightarrow> (case mq_record (sendOptions opts) body q of (mid, q) \<Rightarrow> (Inr mid, q)))"

text \<open>The loop of a batch, with \<open>resolve\<close> making the options of an entry.\<close>

fun record_all :: "(('o \<Rightarrow> 'o) list \<Rightarrow> 'o) \<Rightarrow> 'o batch_entry list \<Rightarrow> send_result \<Rightarrow> 'o mem_queue \<Rightarrow> send_result \<times> 'o mem_queue" where
  "record_all resolve [] result q = (result, q)"
| "record_all resolve (entry # entries) result q =
     (case mq_record (resolve (be_Options entry)) (be_Body entry) q of
        (mid, q) \<Rightarrow> record_all resolve entries (result\<lparr>sr_Successful := sr_Successful result @ [\<lparr>bsu_ID = be_ID entry, bsu_MessageID = mid\<rparr>]\<rparr>) q)"

definition mem_SendBatch ::
    "send_options batch_entry list \<Rightarrow> send_options mem_queue \<Rightarrow> (send_result \<times> gerr option) \<times> send_options mem_queue" where
  "mem_SendBatch entries q =
     (case takeRefusal q of
        (Some err, q) \<Rightarrow> ((no_result\<lparr>sr_Unsent := unsent entries err\<rparr>, Some err), q)
      | (None, q) \<Rightarrow> (case record_all sendOptions entries no_result q of (result, q) \<Rightarrow> ((result, None), q)))"

text \<open>A topic is the same with the options of a publish.\<close>

definition NewTopic :: "string \<Rightarrow> publish_options mem_queue" where
  "NewTopic name = \<lparr>mq_name = name, mq_sent = [], mq_ids = 0, mq_Refuse = None\<rparr>"

definition mt_Reset :: "publish_options mem_queue \<Rightarrow> publish_options mem_queue" where
  "mt_Reset t = t\<lparr>mq_sent := []\<rparr>"

definition mem_Publish ::
    "byte list \<Rightarrow> (publish_options \<Rightarrow> publish_options) list \<Rightarrow> publish_options mem_queue \<Rightarrow> (gerr + string) \<times> publish_options mem_queue" where
  "mem_Publish body opts t =
     (case takeRefusal t of
        (Some err, t) \<Rightarrow> (Inl err, t)
      | (None, t) \<Rightarrow> (case mq_record (publishOptions opts) body t of (mid, t) \<Rightarrow> (Inr mid, t)))"

definition mem_PublishBatch ::
    "publish_options batch_entry list \<Rightarrow> publish_options mem_queue \<Rightarrow> (send_result \<times> gerr option) \<times> publish_options mem_queue" where
  "mem_PublishBatch entries t =
     (case takeRefusal t of
        (Some err, t) \<Rightarrow> ((no_result\<lparr>sr_Unsent := unsent entries err\<rparr>, Some err), t)
      | (None, t) \<Rightarrow> (case record_all publishOptions entries no_result t of (result, t) \<Rightarrow> ((result, None), t)))"

end
