(* ===== verification/Messaging_Props.thy ===== *)
theory Messaging_Props
  imports Messaging "HOL-Library.Multiset"
begin

text \<open>
  The contract of a batch, stated once and shown of all six implementations: every entry comes back in exactly one of the three lists
  of the result. On a service it rests on what the service answers, which is a condition of the interface \<open>batch_sender\<close>.
\<close>

subsection \<open>The contract\<close>

definition settled :: "send_result \<Rightarrow> string list" where
  "settled r = map bsu_ID (sr_Successful r) @ map bfa_ID (sr_Failed r)"

definition accounted :: "'o batch_entry list \<Rightarrow> send_result \<Rightarrow> gerr option \<Rightarrow> bool" where
  "accounted entries r e \<longleftrightarrow> mset (settled r @ map bun_ID (sr_Unsent r)) = mset (map be_ID entries)
     \<and> (\<forall>u \<in> set (sr_Unsent r). e = Some (bun_Err u))"

text \<open>\<open>service s\<close> says that the service behind \<open>s\<close> answers as documented.\<close>

locale batch_sender =
  fixes service :: "'s \<Rightarrow> bool" and send :: "'s \<Rightarrow> 'o batch_entry list \<Rightarrow> 'w \<Rightarrow> (send_result \<times> gerr option) \<times> 'w"
  assumes accounts: "service s \<Longrightarrow> send s entries w = ((r, e), w') \<Longrightarrow> accounted entries r e"
begin

lemma exactly_one:
  assumes "service s" and "send s entries w = ((r, e), w')" and "distinct (map be_ID entries)" and "entry \<in> set entries"
  shows "count_list (map bsu_ID (sr_Successful r)) (be_ID entry) + count_list (map bfa_ID (sr_Failed r)) (be_ID entry)
    + count_list (map bun_ID (sr_Unsent r)) (be_ID entry) = 1"
proof -
  have "count (mset (map be_ID entries)) (be_ID entry) = 1" using assms(3,4) by (subst distinct_count_atmost_1 [THEN iffD1]) auto
  moreover have "mset (map be_ID entries) = mset (settled r @ map bun_ID (sr_Unsent r))"
    using accounts [OF assms(1,2)] by (simp add: accounted_def)
  ultimately show ?thesis by (simp add: settled_def flip: count_mset)
qed

lemma answered_without_error:
  assumes "service s" and "send s entries w = ((r, None), w')"
  shows "mset (settled r) = mset (map be_ID entries)"
proof -
  have "sr_Unsent r = []" using accounts [OF assms] by (cases "sr_Unsent r") (auto simp: accounted_def)
  then show ?thesis using accounts [OF assms] by (simp add: accounted_def)
qed

end

lemma unsent_ids [simp]: "map bun_ID (unsent entries err) = map be_ID entries" "u \<in> set (unsent entries err) \<Longrightarrow> bun_Err u = err"
  by (auto simp: unsent_def comp_def)

lemma unsent_mset [simp]: "image_mset bun_ID (mset (unsent entries err)) = image_mset be_ID (mset entries)"
  by (simp flip: mset_map)

lemma accounted_unsent: "accounted entries (no_result\<lparr>sr_Unsent := unsent entries err\<rparr>) (Some err)"
  by (simp add: accounted_def settled_def no_result_def)

lemma accounted_nothing: "accounted [] no_result e"
  by (simp add: accounted_def settled_def no_result_def)

subsection \<open>Requests in runs\<close>

definition answered :: "batch_answer \<Rightarrow> string option list" where
  "answered out = map fst (fst out) @ map af_Id (snd out)"

definition request_ids :: "'o batch_entry list \<Rightarrow> string option list" where
  "request_ids entries = map (Some \<circ> itoa \<circ> int) [0..<length entries]"

lemma indexOf_request:
  assumes "i < length entries" and "length entries \<le> 10"
  shows "indexOf (Some (itoa (int i))) entries = Some i"
  using assms by (simp add: indexOf_def ToString_def ParseInt_itoa)

text \<open>The name an answer is reported under.\<close>

definition name_of :: "'o batch_entry list \<Rightarrow> string option \<Rightarrow> string" where
  "name_of entries mid = be_ID (entries ! the (indexOf mid entries))"

lemma names_of_requests: "length entries \<le> 10 \<Longrightarrow> map (name_of entries) (request_ids entries) = map be_ID entries"
  by (rule nth_equalityI) (simp_all add: request_ids_def name_of_def indexOf_request)

lemma matched_names:
  assumes "matched unknown entries out = Inr r"
  shows "settled r = map (name_of entries) (answered out) \<and> sr_Unsent r = []"
proof -
  let ?took = "\<lambda>(mid, message). case indexOf mid entries of None \<Rightarrow> Inl (unknown mid)
    | Some index \<Rightarrow> Inr \<lparr>bsu_ID = be_ID (entries ! index), bsu_MessageID = ToString message\<rparr>"
  let ?refused = "\<lambda>entry. case indexOf (af_Id entry) entries of None \<Rightarrow> Inl (unknown (af_Id entry))
    | Some index \<Rightarrow> Inr \<lparr>bfa_ID = be_ID (entries ! index), bfa_Code = ToString (af_Code entry), bfa_Message = ToString (af_Message entry),
        bfa_SenderFault = af_SenderFault entry\<rparr>"
  from assms obtain su fa where ok: "map ?took (fst out) = map Inr su" "map ?refused (snd out) = map Inr fa"
    "r = \<lparr>sr_Successful = su, sr_Failed = fa, sr_Unsent = []\<rparr>"
    by (auto simp: matched_def dest: sequence_sum_InrD split: sum.splits)
  have "map bsu_ID su = map (name_of entries) (map fst xs)" if "map ?took xs = map Inr su" for xs su
    using that by (induction xs arbitrary: su) (auto simp: name_of_def Cons_eq_map_conv split: option.splits prod.splits)
  moreover have "map bfa_ID fa = map (name_of entries) (map af_Id xs)" if "map ?refused xs = map Inr fa" for xs fa
    using that by (induction xs arbitrary: fa) (auto simp: name_of_def Cons_eq_map_conv split: option.splits)
  ultimately show ?thesis using ok by (simp add: settled_def answered_def)
qed

lemma matched_accounts:
  assumes "matched unknown entries out = Inr r" and "mset (answered out) = mset (request_ids entries)" and "length entries \<le> 10"
  shows "mset (settled r) = mset (map be_ID entries)"
  using matched_names [OF assms(1)] assms(2) names_of_requests [OF assms(3)] by (metis mset_map)

lemma in_chunks_accounts:
  assumes "\<And>c w r w'. length c \<le> 10 \<Longrightarrow> send c w = (Inr r, w') \<Longrightarrow> mset (settled r) = mset (map be_ID c)"
  shows "in_chunks send unsent rest result w = ((r, e), w') \<Longrightarrow> mset (settled result) = mset (map be_ID done) \<Longrightarrow> sr_Unsent result = [] \<Longrightarrow>
    accounted (done @ rest) r e"
proof (induction "length rest" arbitrary: rest result w "done" rule: less_induct)
  case less
  show ?case
  proof (cases "rest = []")
    case True
    then show ?thesis using less.prems by (simp add: in_chunks.simps accounted_def)
  next
    case False
    note step = less.prems(1) [unfolded in_chunks.simps [of send unsent rest]]
    show ?thesis
    proof (cases "send (take maxBatchEntries rest) w")
      case (Pair a w1)
      show ?thesis
      proof (cases a)
        case (Inl err)
        then show ?thesis using step False less.prems(2,3) Pair by (auto simp: accounted_def settled_def simp flip: add.assoc)
      next
        case (Inr c)
        let ?result = "result\<lparr>sr_Successful := sr_Successful result @ sr_Successful c, sr_Failed := sr_Failed result @ sr_Failed c\<rparr>"
        have "mset (settled c) = mset (map be_ID (take maxBatchEntries rest))"
          using assms Pair Inr by (simp add: maxBatchEntries_def)
        moreover have "mset (settled ?result) = mset (settled result) + mset (settled c)" by (simp add: settled_def)
        ultimately have more: "mset (settled ?result) = mset (map be_ID (done @ take maxBatchEntries rest))" using less.prems(2) by simp
        have on: "in_chunks send unsent (drop maxBatchEntries rest) ?result w1 = ((r, e), w')" using step False Pair Inr by simp
        have "length (drop maxBatchEntries rest) < length rest" using False by (simp add: maxBatchEntries_def)
        from less.hyps [OF this on more] have "accounted ((done @ take maxBatchEntries rest) @ drop maxBatchEntries rest) r e"
          using less.prems(3) by simp
        then show ?thesis by simp
      qed
    qed
  qed
qed

subsection \<open>The implementations\<close>

text \<open>A service answers for every entry of a request, and once.\<close>

definition sqs_answers :: "(('w sqs_api, 'w) aws_resolver \<times> (int \<Rightarrow> int) \<times> string) \<Rightarrow> bool" where
  "sqs_answers env \<longleftrightarrow> (\<forall>key w client w' url request w1 out w2. ar_client (fst env) key w = (Inr client, w') \<longrightarrow>
     sq_SendMessageBatch client url request w1 = (Inr out, w2) \<longrightarrow> mset (answered out) = mset (map (Some \<circ> fst) request))"

definition sns_answers :: "(('w sns_api, 'w) aws_resolver \<times> string) \<Rightarrow> bool" where
  "sns_answers env \<longleftrightarrow> (\<forall>key w client w' arn request w1 out w2. ar_client (fst env) key w = (Inr client, w') \<longrightarrow>
     sn_PublishBatch client arn request w1 = (Inr out, w2) \<longrightarrow> mset (answered out) = mset (map (Some \<circ> fst) request))"

text \<open>A pipeline answers for each of its commands.\<close>

definition redis_answers :: "('w redis_session \<times> string) \<Rightarrow> bool" where
  "redis_answers env \<longleftrightarrow> (\<forall>commands w e answers w'. rc_XAdds (fst env) commands w = ((e, answers), w') \<longrightarrow> length answers = length commands)
     \<and> (\<forall>commands w e answers w'. rc_Publishes (fst env) commands w = ((e, answers), w') \<longrightarrow> length answers = length commands)"

lemma batchEntries_ids: "map (Some \<circ> fst) (batchEntries seconds entries) = request_ids entries"
  by (rule nth_equalityI) (simp_all add: batchEntries_def request_ids_def nth_enumerate_eq)

lemma sns_batchEntries_ids: "map (Some \<circ> fst) (sns_batchEntries entries) = request_ids entries"
  by (rule nth_equalityI) (simp_all add: sns_batchEntries_def request_ids_def nth_enumerate_eq)

lemma aws_resolve_client: "aws_resolve ar w = (Inr (client, url), w') \<Longrightarrow> \<exists>key w1. ar_client ar key w1 = (Inr client, w')"
  by (auto simp: aws_resolve_def split: prod.splits sum.splits)

lemma resolved_chunks:
  assumes "\<And>client url key w0 w1 c w r w'. ar_client ar key w0 = (Inr client, w1) \<Longrightarrow> length c \<le> 10 \<Longrightarrow> f client url c w = (Inr r, w') \<Longrightarrow>
      mset (settled r) = mset (map be_ID c)"
    and "(if length entries = 0 then ((no_result, None), w)
      else case aws_resolve ar w of
        (Inl err, w) \<Rightarrow> ((no_result\<lparr>sr_Unsent := unsent entries err\<rparr>, Some err), w)
      | (Inr (client, url), w) \<Rightarrow> in_chunks (f client url) unsent entries no_result w) = ((r, e), w')"
  shows "accounted entries r e"
proof -
  from assms(2) consider "entries = []" "r = no_result" | err where "r = no_result\<lparr>sr_Unsent := unsent entries err\<rparr>" "e = Some err"
    | client url w1 where "aws_resolve ar w = (Inr (client, url), w1)" "in_chunks (f client url) unsent entries no_result w1 = ((r, e), w')"
    by (auto split: if_splits prod.splits sum.splits)
  then show ?thesis
  proof cases
    case 3
    from aws_resolve_client [OF 3(1)] obtain key w0 where "ar_client ar key w0 = (Inr client, w1)" by blast
    then have chunk: "mset (settled r) = mset (map be_ID c)" if "length c \<le> 10" "f client url c w = (Inr r, w')" for c w r w'
      using assms(1) that by blast
    have "accounted ([] @ entries) r e"
      by (rule in_chunks_accounts [OF _ 3(2)], erule (1) chunk) (simp_all add: settled_def no_result_def)
    then show ?thesis by simp
  qed (simp_all add: accounted_nothing accounted_unsent)
qed

lemma sqs_accounts:
  assumes "sqs_answers (ar, seconds, ref)" and "sqs_SendBatch ar seconds ref entries w = ((r, e), w')"
  shows "accounted entries r e"
proof (rule resolved_chunks [OF _ assms(2) [unfolded sqs_SendBatch_def]])
  fix client url key w0 w1 c w r w'
  assume "ar_client ar key w0 = (Inr client, w1)" and "length c \<le> 10" and chunk: "sendChunk seconds ref client url c w = (Inr r, w')"
  moreover from chunk obtain out where "sq_SendMessageBatch client url (batchEntries seconds c) w = (Inr out, w')" "matched (unknownEntry ref) c out = Inr r"
    by (auto simp: sendChunk_def split: prod.splits sum.splits)
  ultimately show "mset (settled r) = mset (map be_ID c)"
    using assms(1) matched_accounts unfolding sqs_answers_def fst_conv by (metis batchEntries_ids)
qed

lemma sns_accounts:
  assumes "sns_answers (ar, ref)" and "sns_PublishBatch ar ref entries w = ((r, e), w')"
  shows "accounted entries r e"
proof (rule resolved_chunks [OF _ assms(2) [unfolded sns_PublishBatch_def]])
  fix client arn key w0 w1 c w r w'
  assume "ar_client ar key w0 = (Inr client, w1)" and "length c \<le> 10" and chunk: "publishChunk ref client arn c w = (Inr r, w')"
  moreover from chunk obtain out where "sn_PublishBatch client arn (sns_batchEntries c) w = (Inr out, w')" "matched (sns_unknownEntry ref) c out = Inr r"
    by (auto simp: publishChunk_def split: prod.splits sum.splits)
  ultimately show "mset (settled r) = mset (map be_ID c)"
    using assms(1) matched_accounts unfolding sns_answers_def fst_conv by (metis sns_batchEntries_ids)
qed

lemma read_answers_accounts:
  assumes "length answers = length entries" and "sr_Unsent result = []"
  shows "mset (settled (read_answers entries answers result)) = mset (settled result) + mset (map be_ID entries)
    \<and> sr_Unsent (read_answers entries answers result) = []"
  using assms
proof (induction entries answers arbitrary: result rule: list_induct2')
  case (4 entry entries a answers)
  then show ?case by (cases a) (simp_all add: settled_def redis_failure_def)
qed simp_all

lemma accounted_answers: "length answers = length entries \<Longrightarrow> accounted entries (read_answers entries answers no_result) None"
  using read_answers_accounts [of answers entries no_result] by (simp add: accounted_def no_result_def settled_def)

lemma redis_answersD:
  assumes "redis_answers (rc, ref)"
  shows "rc_XAdds rc commands w = ((e, answers), w') \<Longrightarrow> length answers = length commands"
    and "rc_Publishes rc published w = ((e, fates), w') \<Longrightarrow> length fates = length published"
  using assms unfolding redis_answers_def fst_conv by blast+

lemma redis_queue_accounts:
  assumes "redis_answers (rc, ref)" and "redis_SendBatch rc ref entries w = ((r, e), w')"
  shows "accounted entries r e"
  using assms(2)
  by (auto simp: redis_SendBatch_def Let_def accounted_nothing dest: redis_answersD(1) [OF assms(1)]
      intro!: accounted_unsent accounted_answers split: if_splits prod.splits sum.splits option.splits)

lemma envelopes_length: "envelopes rc entries w = (Inr es, w') \<Longrightarrow> length es = length entries"
  by (induction entries arbitrary: w es) (auto split: prod.splits sum.splits)

lemma redis_topic_accounts:
  assumes "redis_answers (rc, ref)" and "redis_PublishBatch rc ref entries w = ((r, e), w')"
  shows "accounted entries r e"
  using assms(2)
  by (auto simp: redis_PublishBatch_def Let_def accounted_nothing
      intro!: accounted_unsent accounted_answers split: if_splits prod.splits sum.splits option.splits)
    (drule envelopes_length, drule redis_answersD(2) [OF assms(1)], simp)+

lemma record_all_accounts:
  "record_all resolve entries result q = (r, q') \<Longrightarrow> mset (settled r) = mset (settled result) + mset (map be_ID entries) \<and> sr_Unsent r = sr_Unsent result"
  by (induction entries arbitrary: result q) (auto simp: settled_def mq_record_def Let_def)

interpretation sqs: batch_sender sqs_answers "\<lambda>(ar, seconds, ref). sqs_SendBatch ar seconds ref"
  by unfold_locales (auto intro: sqs_accounts)

interpretation sns: batch_sender sns_answers "\<lambda>(ar, ref). sns_PublishBatch ar ref"
  by unfold_locales (auto intro: sns_accounts)

interpretation redis_q: batch_sender redis_answers "\<lambda>(rc, ref). redis_SendBatch rc ref"
  by unfold_locales (auto intro: redis_queue_accounts)

interpretation redis_t: batch_sender redis_answers "\<lambda>(rc, ref). redis_PublishBatch rc ref"
  by unfold_locales (auto intro: redis_topic_accounts)

interpretation mem_q: batch_sender "\<lambda>u :: unit. True" "\<lambda>u. mem_SendBatch"
  by unfold_locales (auto simp: mem_SendBatch_def takeRefusal_def accounted_def settled_def no_result_def
      split: option.splits prod.splits dest: record_all_accounts)

interpretation mem_t: batch_sender "\<lambda>u :: unit. True" "\<lambda>u. mem_PublishBatch"
  by unfold_locales (auto simp: mem_PublishBatch_def takeRefusal_def accounted_def settled_def no_result_def
      split: option.splits prod.splits dest: record_all_accounts)

text \<open>C35. No entry of a batch is lost or answered twice. Whatever SQS does (takes entries, refuses some, fails a request of several,
  or the queue cannot be resolved) and however many requests the batch takes, every entry is in exactly one of the
  three lists of the result, under the name the caller gave it; names may be shared. An entry is unsent only with the error
  that is returned, so a batch answered without one has none. (SQS answers for every entry of a request once.)\<close>

theorem batch_accounted:
  assumes "sqs_answers (ar, seconds, ref)" and "sqs_SendBatch ar seconds ref entries w = ((r, e), w')"
  shows "mset (map bsu_ID (sr_Successful r)) + mset (map bfa_ID (sr_Failed r)) + mset (map bun_ID (sr_Unsent r)) = mset (map be_ID entries)
    \<and> (\<forall>u \<in> set (sr_Unsent r). e = Some (bun_Err u))
    \<and> (distinct (map be_ID entries) \<longrightarrow> (\<forall>entry \<in> set entries.
        count_list (map bsu_ID (sr_Successful r)) (be_ID entry) + count_list (map bfa_ID (sr_Failed r)) (be_ID entry)
        + count_list (map bun_ID (sr_Unsent r)) (be_ID entry) = 1))"
proof -
  let ?send = "\<lambda>(ar, seconds, ref). sqs_SendBatch ar seconds ref"
  have run: "?send (ar, seconds, ref) entries w = ((r, e), w')" using assms(2) by simp
  show ?thesis
    using sqs.accounts [OF assms(1) run] sqs.exactly_one [OF assms(1) run] by (simp add: accounted_def settled_def add.assoc)
qed

subsection \<open>Messages in memory\<close>

text \<open>A batch is the sends of its entries, one after the other.\<close>

fun sends :: "send_options batch_entry list \<Rightarrow> send_options mem_queue \<Rightarrow> batch_success list \<times> send_options mem_queue" where
  "sends [] q = ([], q)"
| "sends (entry # entries) q =
     (case mem_Send (be_Body entry) (be_Options entry) q of
        (Inl err, q) \<Rightarrow> ([], q)
      | (Inr mid, q) \<Rightarrow> (case sends entries q of (rest, q) \<Rightarrow> (\<lparr>bsu_ID = be_ID entry, bsu_MessageID = mid\<rparr> # rest, q)))"

lemma record_all_sends:
  "mq_Refuse q = None \<Longrightarrow> sends entries q = (su, q') \<Longrightarrow>
     record_all sendOptions entries result q = (result\<lparr>sr_Successful := sr_Successful result @ su\<rparr>, q')"
proof (induction entries arbitrary: result q su)
  case (Cons entry entries)
  obtain mid q1 where rec: "mq_record (sendOptions (be_Options entry)) (be_Body entry) q = (mid, q1)" by fastforce
  have same: "q\<lparr>mq_Refuse := None\<rparr> = q" using Cons.prems(1) by simp
  have "mq_Refuse q1 = None" using rec Cons.prems(1) by (auto simp: mq_record_def Let_def)
  moreover obtain rest q2 where "sends entries q1 = (rest, q2)" by fastforce
  ultimately show ?case
    using Cons rec same by (simp add: mem_Send_def takeRefusal_def)
qed simp

theorem mem_batch_is_sends:
  assumes "mq_Refuse q = None"
  shows "mem_SendBatch entries q = (let (su, q') = sends entries q in ((no_result\<lparr>sr_Successful := su\<rparr>, None), q'))"
proof -
  obtain su q' where run: "sends entries q = (su, q')" by fastforce
  have same: "q\<lparr>mq_Refuse := None\<rparr> = q" using assms by simp
  show ?thesis
    using record_all_sends [OF assms run, of no_result] run assms by (simp add: mem_SendBatch_def takeRefusal_def no_result_def same)
qed

subsection \<open>Streams\<close>

text \<open>The runtime's consumer: the type of a message says how its body was encoded.\<close>

definition read_stream :: "(string, string) gomap \<Rightarrow> byte list option" where
  "read_stream held =
     (case (gm_get held ''message_type'', gm_get held ''body'') of
        (Some kind, Some body) \<Rightarrow> if kind = ''0'' then Some (bytes_of body) else base64_DecodeString body
      | _ \<Rightarrow> None)"


subsection \<open>Delays\<close>

text \<open>A delay is described as the earliest a message should become visible. Cut to whole seconds it is up to a second less
  than was asked for, and one below a second is none.\<close>

theorem delay_cut_short:
  assumes "seconds = (\<lambda>d. d div 10 ^ 9)" and "0 < so_Delay options" and "so_Delay options mod 10 ^ 9 \<noteq> 0"
  shows "delaySeconds seconds options * 10 ^ 9 < so_Delay options \<and> (so_Delay options < 10 ^ 9 \<longrightarrow> delaySeconds seconds options = 0)"
proof -
  have "so_Delay options div 10 ^ 9 * 10 ^ 9 + so_Delay options mod 10 ^ 9 = so_Delay options" by simp
  moreover have "0 \<le> so_Delay options mod 10 ^ 9" by simp
  ultimately have "so_Delay options div 10 ^ 9 * 10 ^ 9 < so_Delay options" using assms(3) by linarith
  then show ?thesis using assms(1,2) by (simp add: delaySeconds_def)
qed

subsection \<open>The conditions can hold\<close>

text \<open>A queue that takes every message of a request but the first, which it refuses, and answers two requests at most.\<close>

definition example_sqs :: "nat sqs_api" where
  "example_sqs = \<lparr>sq_SendMessage = (\<lambda>url m w. (Inr (Some ''m''), w)),
     sq_SendMessageBatch = (\<lambda>url request w.
       if w \<ge> 2 then (Inl (Errorf ''timed out'' None), w)
       else (Inr (map (\<lambda>(mid, m). (Some mid, Some (''sqs-'' @ mid))) (tl request),
          map (\<lambda>(mid, m). \<lparr>af_Id = Some mid, af_Code = Some ''TooLong'', af_Message = None, af_SenderFault = True\<rparr>) (take 1 request)), w + 1))\<rparr>"

definition example_queue :: "(nat sqs_api, nat) aws_resolver" where
  "example_queue = \<lparr>ar_ID = (\<lambda>w. (Inr ''url'', w)), ar_KeyFor = (\<lambda>w. (Inr '''', w)), ar_client = (\<lambda>key w. (Inr example_sqs, w))\<rparr>"

definition example_batch :: "send_options batch_entry list" where
  "example_batch = map (\<lambda>n. \<lparr>be_ID = itoa (int n), be_Body = [], be_Options = []\<rparr>) [0, 1]"

theorem batch_accounted_witness:
  "let (r, e) = fst (sqs_SendBatch example_queue (\<lambda>d. 0) ''queue'' example_batch 1)
   in e = None \<and> map bsu_ID (sr_Successful r) = [itoa 1] \<and> map bfa_ID (sr_Failed r) = [itoa 0]
     \<and> mset (map bsu_ID (sr_Successful r)) + mset (map bfa_ID (sr_Failed r)) + mset (map bun_ID (sr_Unsent r)) = mset (map be_ID example_batch)"
proof -
  obtain r e w' where run: "sqs_SendBatch example_queue (\<lambda>d. 0) ''queue'' example_batch 1 = ((r, e), w')" by (metis prod.exhaust)
  have answers: "sqs_answers (example_queue, \<lambda>d. 0, ''queue'')"
  proof -
    have "mset (answered (map (\<lambda>(mid, m). (Some mid, x mid)) (tl request), map (\<lambda>(mid, m). \<lparr>af_Id = Some mid, af_Code = c, af_Message = None, af_SenderFault = True\<rparr>) (take 1 request)))
      = mset (map (Some \<circ> fst) request)" for request :: "(string \<times> sqs_message) list" and x c
      by (cases request) (auto simp: answered_def comp_def case_prod_unfold)
    then show ?thesis by (auto simp: sqs_answers_def example_queue_def example_sqs_def split: if_splits)
  qed
  have position: "indexOf (Some (itoa 0)) example_batch = Some 0" "indexOf (Some (itoa 1)) example_batch = Some 1"
    using indexOf_request [of 0 example_batch] indexOf_request [of 1 example_batch] by (simp_all add: example_batch_def)
  have "(let (r, e) = fst (sqs_SendBatch example_queue (\<lambda>d. 0) ''queue'' example_batch 1)
    in e = None \<and> map bsu_ID (sr_Successful r) = [itoa 1] \<and> map bfa_ID (sr_Failed r) = [itoa 0])"
    using position
    by (simp add: sqs_SendBatch_def aws_resolve_def example_queue_def in_chunks.simps sendChunk_def batchEntries_def example_sqs_def
        matched_def example_batch_def maxBatchEntries_def no_result_def)
  then show ?thesis
    using batch_accounted [OF answers run, THEN conjunct1] unfolding run fst_conv Let_def prod.case by blast
qed

end
