(* ===== verification/S3.thy ===== *)
theory S3
  imports Bucket Dynamo Messaging
begin

text \<open>
  Buckets on S3: \<^verbatim>\<open>src/resources/aws/bucket\<close>. The calls of the SDK are an argument over a world of any type, each with the
  fields the package sets, and so are the transfer manager, the codes of the SDK's errors, what resolves a handle, and the clock. A
  body is the bytes its reader gives, or the error it ends with.
\<close>

subsection \<open>Calls\<close>

record s3_head =
  sh_ContentLength :: "int option"
  sh_LastModified :: "nanotime option"
  sh_ETag :: "string option"
  sh_ContentType :: "string option"
  sh_Metadata :: "(string, string) gomap"
  sh_VersionId :: "string option"

record s3_output = s3_head +
  sh_Body :: "byte list"
  sh_ContentRange :: "string option"

record s3_listed =
  sl_Key :: "string option"
  sl_Size :: "int option"
  sl_LastModified :: "nanotime option"
  sl_ETag :: "string option"

record s3_version = s3_listed +
  sl_VersionId :: "string option"
  sl_IsLatest :: "bool option"

text \<open>A marker has neither a size nor an entity tag.\<close>

record s3_marker =
  mk_Key :: "string option"
  mk_VersionId :: "string option"
  mk_LastModified :: "nanotime option"
  mk_IsLatest :: "bool option"

text \<open>\<open>li_After\<close> is \<^verbatim>\<open>StartAfter\<close> in a listing of objects and \<^verbatim>\<open>KeyMarker\<close> in one of versions.\<close>

record s3_list_input =
  li_Bucket :: string
  li_Prefix :: "string option"
  li_After :: "string option"
  li_MaxKeys :: "int option"

record s3_refused =
  rf_Key :: "string option"
  rf_VersionId :: "string option"
  rf_Code :: "string option"
  rf_Message :: "string option"

record s3_copy_input =
  ci_Bucket :: string
  ci_Key :: string
  ci_CopySource :: string
  ci_Replace :: "((string, string) gomap \<times> string option) option"
    \<comment> \<open>the \<^verbatim>\<open>REPLACE\<close> directive, with the metadata and the content type\<close>

record 'w s3_api =
  s3_GetObject :: "string \<Rightarrow> string \<Rightarrow> string option \<Rightarrow> string option \<Rightarrow> 'w \<Rightarrow> (gerr + s3_output) \<times> 'w"
    \<comment> \<open>bucket, key, range and version\<close>
  s3_HeadObject :: "string \<Rightarrow> string \<Rightarrow> string option \<Rightarrow> 'w \<Rightarrow> (gerr + s3_head) \<times> 'w"
  s3_UploadObject :: "string \<Rightarrow> string \<Rightarrow> gerr + byte list \<Rightarrow> string option \<Rightarrow> (string, string) gomap option \<Rightarrow> 'w
     \<Rightarrow> (gerr + string option \<times> string option) \<times> 'w"
    \<comment> \<open>the transfer manager: bucket, key, body, content type and metadata\<close>
  s3_DeleteObject :: "string \<Rightarrow> string \<Rightarrow> string option \<Rightarrow> 'w \<Rightarrow> gerr option \<times> 'w"
  s3_CopyObject :: "s3_copy_input \<Rightarrow> 'w \<Rightarrow> (gerr + string option option \<times> string option) \<times> 'w"
    \<comment> \<open>the entity tag of the result, where there is a result, and the version\<close>
  s3_ListObjectsV2 :: "s3_list_input \<Rightarrow> 'w \<Rightarrow> (gerr + s3_listed list \<times> bool option) \<times> 'w"
  s3_ListObjectVersions :: "s3_list_input \<Rightarrow> 'w \<Rightarrow> (gerr + s3_version list \<times> s3_marker list \<times> bool option) \<times> 'w"
  s3_DeleteObjects :: "string \<Rightarrow> (string \<times> string option) list \<Rightarrow> 'w \<Rightarrow> (gerr + (string option \<times> string option) list \<times> s3_refused list) \<times> 'w"

record 'w s3_presign =
  ps_GetObject :: "string \<Rightarrow> string \<Rightarrow> int \<Rightarrow> 'w \<Rightarrow> (gerr + string) \<times> 'w"
  ps_PutObject :: "string \<Rightarrow> string \<Rightarrow> string option \<Rightarrow> int \<Rightarrow> 'w \<Rightarrow> (gerr + string) \<times> 'w"

definition To :: "'a \<Rightarrow> 'a option \<Rightarrow> 'a" where
  "To zero p = (case p of None \<Rightarrow> zero | Some x \<Rightarrow> x)"

text \<open>A handle: what resolves it, what its errors call it, and the code of an error of the SDK in a chain.\<close>

record 'w s3_bucket =
  sb_resolver :: "('w s3_api, 'w) aws_resolver"
  sb_presigns :: "string \<Rightarrow> 'w \<Rightarrow> (gerr + 'w s3_presign) \<times> 'w"
  sb_ref :: string
  sb_code :: "gerr \<Rightarrow> string option"

subsection \<open>Errors\<close>

definition misrouted :: "string list" where
  "misrouted = [''PermanentRedirect'', ''AuthorizationHeaderMalformed'']"

definition absent_codes :: "string list" where
  "absent_codes = [''NoSuchKey'', ''NoSuchVersion'', ''NotFound'']"

definition s3_absent :: "'w s3_bucket \<Rightarrow> string \<Rightarrow> gerr" where
  "s3_absent b key = Errorf (''celerity: '' @ sb_ref b @ '' holds no object '' @ go_quote key @ '': '' @ error_text ErrNotFound) (Some ErrNotFound)"

definition wrapMisrouted :: "'w s3_bucket \<Rightarrow> string \<Rightarrow> string \<Rightarrow> gerr \<Rightarrow> gerr" where
  "wrapMisrouted b action key err =
     Errorf (''celerity: '' @ sb_ref b @ '' is not in the region it is being reached from, so S3 refused to '' @ action @ '' '' @ go_quote key
       @ '' rather than routing the request. A bucket outside this application's own region ''
       @ ''has to record the region it is in, which its ARN cannot supply: '' @ error_text err) (Some err)"

definition wrap :: "'w s3_bucket \<Rightarrow> string \<Rightarrow> string \<Rightarrow> gerr \<Rightarrow> gerr" where
  "wrap b action key err =
     (let other = Errorf (''celerity: '' @ action @ '' '' @ sb_ref b @ '' '' @ go_quote key @ '': '' @ error_text err) (Some err)
      in case sb_code b err of
           None \<Rightarrow> other
         | Some code \<Rightarrow>
             if code \<in> set absent_codes then s3_absent b key
             else if code \<in> set misrouted then wrapMisrouted b action key err else other)"

definition wrapRead :: "'w s3_bucket \<Rightarrow> string \<Rightarrow> string \<Rightarrow> gerr \<Rightarrow> gerr" where
  "wrapRead b action key err = (if sb_code b err = Some ''MethodNotAllowed'' then s3_absent b key else wrap b action key err)"

subsection \<open>Reading and writing\<close>

definition totalFromContentRange :: "string \<Rightarrow> int option" where
  "totalFromContentRange header =
     (case str_cut ''/'' header of
        None \<Rightarrow> None
      | Some (unit_range, size_text) \<Rightarrow> (case ParseInt size_text 64 of Inl err \<Rightarrow> None | Inr n \<Rightarrow> Some n))"

definition objectSize :: "s3_output \<Rightarrow> int" where
  "objectSize out =
     (case totalFromContentRange (ToString (sh_ContentRange out)) of Some n \<Rightarrow> n | None \<Rightarrow> To 0 (sh_ContentLength out))"

definition rangeHeader :: "range \<Rightarrow> string" where
  "rangeHeader r =
     (if range_Whole r then ''''
      else if rn_Length r \<le> 0 then ''bytes='' @ itoa (rn_Start r) @ ''-''
      else ''bytes='' @ itoa (rn_Start r) @ ''-'' @ itoa (wrap64 (rn_Start r + rn_Length r - 1)))"

definition info_of :: "string \<Rightarrow> int \<Rightarrow> ('a) s3_head_scheme \<Rightarrow> object_info" where
  "info_of key bytes out =
     \<lparr>oi_Key = key, oi_Size = bytes, oi_LastModified = To zero_nanotime (sh_LastModified out), oi_ETag = ToString (sh_ETag out),
      oi_ContentType = ToString (sh_ContentType out), oi_Metadata = sh_Metadata out, oi_VersionID = ToString (sh_VersionId out)\<rparr>"

definition s3_Get ::
    "'w s3_bucket \<Rightarrow> string \<Rightarrow> (get_options \<Rightarrow> get_options) list \<Rightarrow> 'w \<Rightarrow> (gerr + object) \<times> 'w" where
  "s3_Get b key opts w =
     (case aws_resolve (sb_resolver b) w of
        (Inl err, w) \<Rightarrow> (Inl err, w)
      | (Inr (client, name), w) \<Rightarrow>
          (let options = resolve \<lparr>go_Range = zero_range, go_VersionID = ''''\<rparr> opts
           in case s3_GetObject client name key (when_set (rangeHeader (go_Range options))) (when_set (go_VersionID options)) w of
                (Inl err, w) \<Rightarrow> (Inl (wrapRead b ''reading'' key err), w)
              | (Inr out, w) \<Rightarrow>
                  (Inr \<lparr>ob_Body = sh_Body out, ob_Info = info_of key (objectSize out) out, ob_ContentLength = To 0 (sh_ContentLength out)\<rparr>, w)))"

definition s3_Put ::
    "'w s3_bucket \<Rightarrow> string \<Rightarrow> gerr + byte list \<Rightarrow> (put_options \<Rightarrow> put_options) list \<Rightarrow> 'w \<Rightarrow> (gerr + put_result) \<times> 'w" where
  "s3_Put b key body opts w =
     (case aws_resolve (sb_resolver b) w of
        (Inl err, w) \<Rightarrow> (Inl err, w)
      | (Inr (client, name), w) \<Rightarrow>
          (let options = resolve \<lparr>po_ContentType = '''', po_Metadata = []\<rparr> opts
           in case s3_UploadObject client name key body (when_set (po_ContentType options))
                  (if length (po_Metadata options) > 0 then Some (po_Metadata options) else None) w of
                (Inl err, w) \<Rightarrow> (Inl (wrap b ''writing'' key err), w)
              | (Inr (etag, version), w) \<Rightarrow> (Inr \<lparr>pr_ETag = ToString etag, pr_VersionID = ToString version\<rparr>, w)))"

definition s3_Delete ::
    "'w s3_bucket \<Rightarrow> string \<Rightarrow> (delete_options \<Rightarrow> delete_options) list \<Rightarrow> 'w \<Rightarrow> gerr option \<times> 'w" where
  "s3_Delete b key opts w =
     (case aws_resolve (sb_resolver b) w of
        (Inl err, w) \<Rightarrow> (Some err, w)
      | (Inr (client, name), w) \<Rightarrow>
          (case s3_DeleteObject client name key (when_set (do_VersionID (resolve \<lparr>do_VersionID = ''''\<rparr> opts))) w of
             (Some err, w) \<Rightarrow> (Some (wrap b ''deleting'' key err), w)
           | (None, w) \<Rightarrow> (None, w)))"

definition s3_Info ::
    "'w s3_bucket \<Rightarrow> string \<Rightarrow> (info_options \<Rightarrow> info_options) list \<Rightarrow> 'w \<Rightarrow> (gerr + object_info) \<times> 'w" where
  "s3_Info b key opts w =
     (case aws_resolve (sb_resolver b) w of
        (Inl err, w) \<Rightarrow> (Inl err, w)
      | (Inr (client, name), w) \<Rightarrow>
          (case s3_HeadObject client name key (when_set (io_VersionID (resolve \<lparr>io_VersionID = ''''\<rparr> opts))) w of
             (Inl err, w) \<Rightarrow> (Inl (wrapRead b ''reading the metadata of'' key err), w)
           | (Inr out, w) \<Rightarrow> (Inr (info_of key (To 0 (sh_ContentLength out)) out), w)))"

definition s3_Exists ::
    "'w s3_bucket \<Rightarrow> string \<Rightarrow> (exists_options \<Rightarrow> exists_options) list \<Rightarrow> 'w \<Rightarrow> (gerr + bool) \<times> 'w" where
  "s3_Exists b key opts w =
     (let options = resolve \<lparr>eo_VersionID = ''''\<rparr> opts;
          info = (if eo_VersionID options \<noteq> '''' then [\<lambda>io. io\<lparr>io_VersionID := eo_VersionID options\<rparr>] else [])
      in case s3_Info b key info w of
           (Inl err, w) \<Rightarrow> (if ErrNotFound \<in> set (err_chain err) then (Inr False, w) else (Inl err, w))
         | (Inr i, w) \<Rightarrow> (Inr True, w))"

subsection \<open>Copies\<close>

text \<open>\<^verbatim>\<open>url.PathEscape\<close>.\<close>

definition path_unescaped :: "char \<Rightarrow> bool" where
  "path_unescaped c \<longleftrightarrow> c \<in> set ''ABCDEFGHIJKLMNOPQRSTUVWXYZabcdefghijklmnopqrstuvwxyz0123456789-_.~$&+:=@''"

definition PathEscape :: "string \<Rightarrow> string" where
  "PathEscape s = concat (map (\<lambda>c. if path_unescaped c then [c]
     else [CHR ''%'', hex_upper (of_char c div 16), hex_upper (of_char c mod 16)]) s)"

text \<open>The store of a destination: none, another bucket of this provider, or something else, of the type named.\<close>

datatype 'w s3_dest = HereStore | BucketStore "('w s3_api, 'w) aws_resolver" | ForeignStore string

definition not_on_aws :: "string \<Rightarrow> gerr" where
  "not_on_aws name = Errorf (''the destination is not a bucket on AWS: S3 copies within itself, so both ''
     @ ''buckets have to be S3's, and this one is a '' @ name) None"

definition destinationOf :: "'w s3_dest \<Rightarrow> 'w \<Rightarrow> (gerr + string \<times> string) \<times> 'w" where
  "destinationOf dest w =
     (case dest of
        BucketStore other \<Rightarrow>
          (case ar_ID other w of
             (Inl err, w) \<Rightarrow> (Inl err, w)
           | (Inr name, w) \<Rightarrow> (case ar_KeyFor other w of (Inl err, w) \<Rightarrow> (Inl err, w) | (Inr region, w) \<Rightarrow> (Inr (name, region), w)))
      | HereStore \<Rightarrow> (Inl (not_on_aws ''<nil>''), w)
      | ForeignStore name \<Rightarrow> (Inl (not_on_aws name), w))"

definition copy_input :: "string \<Rightarrow> string \<Rightarrow> string \<Rightarrow> string \<Rightarrow> copy_options \<Rightarrow> s3_copy_input" where
  "copy_input name sourceKey destName destKey options =
     \<lparr>ci_Bucket = destName, ci_Key = destKey, ci_CopySource = PathEscape (name @ ''/'' @ sourceKey),
      ci_Replace = (if copy_Replaces options then Some (co_Metadata options, when_set (co_ContentType options)) else None)\<rparr>"

definition s3_Copy ::
    "'w s3_bucket \<Rightarrow> string \<Rightarrow> string \<Rightarrow> 'w s3_dest \<Rightarrow> (copy_options \<Rightarrow> copy_options) list \<Rightarrow> 'w \<Rightarrow> (gerr + copy_result) \<times> 'w" where
  "s3_Copy b sourceKey destKey dest opts w =
     (case ar_ID (sb_resolver b) w of
        (Inl err, w) \<Rightarrow> (Inl err, w)
      | (Inr name, w) \<Rightarrow>
          (case (case dest of
                   HereStore \<Rightarrow> (case ar_KeyFor (sb_resolver b) w of (Inl err, w) \<Rightarrow> (Inl err, w) | (Inr region, w) \<Rightarrow> (Inr (name, region), w))
                 | _ \<Rightarrow>
                     (case destinationOf dest w of
                        (Inl err, w) \<Rightarrow>
                          (Inl (Errorf (''celerity: copying '' @ sb_ref b @ '' '' @ go_quote sourceKey @ '': '' @ error_text err) (Some err)), w)
                      | (Inr d, w) \<Rightarrow> (Inr d, w))) of
             (Inl err, w) \<Rightarrow> (Inl err, w)
           | (Inr (destName, destRegion), w) \<Rightarrow>
               (case ar_client (sb_resolver b) destRegion w of
                  (Inl err, w) \<Rightarrow> (Inl err, w)
                | (Inr client, w) \<Rightarrow>
                    (case s3_CopyObject client (copy_input name sourceKey destName destKey (resolve \<lparr>co_ContentType = '''', co_Metadata = []\<rparr> opts)) w of
                       (Inl err, w) \<Rightarrow> (Inl (wrap b ''copying'' sourceKey err), w)
                     | (Inr (etag, version), w) \<Rightarrow>
                         (Inr \<lparr>cp_ETag = (case etag of None \<Rightarrow> '''' | Some e \<Rightarrow> ToString e), cp_VersionID = ToString version\<rparr>, w)))))"

subsection \<open>Listings\<close>

definition s3_invalidCursor :: "gerr \<Rightarrow> gerr" where
  "s3_invalidCursor err = Errorf (''celerity: the cursor given is not one this store produced: '' @ error_text err) (Some err)"

definition encodeKeyAfter :: "string \<Rightarrow> string" where
  "encodeKeyAfter key = RawURL_Encode (bytes_of key)"

definition keyAfter :: "string \<Rightarrow> gerr + string" where
  "keyAfter cursor =
     (if cursor = '''' then Inr ''''
      else case RawURL_Decode cursor of
        None \<Rightarrow> Inl (s3_invalidCursor (Errorf ''illegal base64 data'' None))
      | Some key \<Rightarrow> Inr (string_of_bytes key))"

definition maxKeysPerPage :: int where "maxKeysPerPage = 1000"

definition list_input :: "string \<Rightarrow> string \<Rightarrow> string \<Rightarrow> list_options \<Rightarrow> s3_list_input" where
  "list_input name prefix after options =
     \<lparr>li_Bucket = name, li_Prefix = when_set prefix, li_After = when_set after,
      li_MaxKeys = (if lo_Limit options > 0 then Some (min (lo_Limit options) maxKeysPerPage) else None)\<rparr>"

definition objectsOf :: "s3_listed list \<Rightarrow> object_info list" where
  "objectsOf contents = map (\<lambda>object.
     \<lparr>oi_Key = ToString (sl_Key object), oi_Size = To 0 (sl_Size object), oi_LastModified = To zero_nanotime (sl_LastModified object),
      oi_ETag = ToString (sl_ETag object), oi_ContentType = '''', oi_Metadata = [], oi_VersionID = ''''\<rparr>) contents"

definition s3_List ::
    "'w s3_bucket \<Rightarrow> string \<Rightarrow> list_option list \<Rightarrow> 'w \<Rightarrow> (gerr + object_info list \<times> string) \<times> 'w" where
  "s3_List b prefix opts w =
     (case aws_resolve (sb_resolver b) w of
        (Inl err, w) \<Rightarrow> (Inl err, w)
      | (Inr (client, name), w) \<Rightarrow>
          (let options = listOptions opts
           in case keyAfter (lo_Cursor options) of
                Inl err \<Rightarrow> (Inl err, w)
              | Inr after \<Rightarrow>
                  (case s3_ListObjectsV2 client (list_input name prefix after options) w of
                     (Inl err, w) \<Rightarrow> (Inl (wrap b ''listing'' prefix err), w)
                   | (Inr (contents, truncated), w) \<Rightarrow>
                       (let found = objectsOf contents
                        in if \<not> To False truncated \<or> length found = 0 then (Inr (found, ''''), w)
                           else (Inr (found, encodeKeyAfter (oi_Key (last found))), w)))))"

definition objectVersion :: "s3_version \<Rightarrow> object_version" where
  "objectVersion v =
     \<lparr>ov_Key = ToString (sl_Key v), ov_VersionID = ToString (sl_VersionId v), ov_Size = To 0 (sl_Size v),
      ov_LastModified = To zero_nanotime (sl_LastModified v), ov_ETag = ToString (sl_ETag v), ov_Current = To False (sl_IsLatest v),
      ov_DeleteMarker = False\<rparr>"

definition deleteMarker :: "s3_marker \<Rightarrow> object_version" where
  "deleteMarker m =
     \<lparr>ov_Key = ToString (mk_Key m), ov_VersionID = ToString (mk_VersionId m), ov_Size = 0,
      ov_LastModified = To zero_nanotime (mk_LastModified m), ov_ETag = '''', ov_Current = To False (mk_IsLatest m), ov_DeleteMarker = True\<rparr>"

definition takeVersionNext :: "s3_version \<Rightarrow> s3_marker \<Rightarrow> bool" where
  "takeVersionNext v m =
     (if ToString (sl_Key v) \<noteq> ToString (mk_Key m) then ToString (sl_Key v) < ToString (mk_Key m)
      else To zero_nanotime (sl_LastModified v) > To zero_nanotime (mk_LastModified m))"

fun versionsOf :: "s3_version list \<Rightarrow> s3_marker list \<Rightarrow> object_version list" where
  "versionsOf [] ms = map deleteMarker ms"
| "versionsOf vs [] = map objectVersion vs"
| "versionsOf (v # vs) (m # ms) =
     (if takeVersionNext v m then objectVersion v # versionsOf vs (m # ms) else deleteMarker m # versionsOf (v # vs) ms)"

definition s3_Versions ::
    "'w s3_bucket \<Rightarrow> string \<Rightarrow> list_option list \<Rightarrow> 'w \<Rightarrow> (gerr + object_version list \<times> string) \<times> 'w" where
  "s3_Versions b prefix opts w =
     (case aws_resolve (sb_resolver b) w of
        (Inl err, w) \<Rightarrow> (Inl err, w)
      | (Inr (client, name), w) \<Rightarrow>
          (let options = listOptions opts
           in case keyAfter (lo_Cursor options) of
                Inl err \<Rightarrow> (Inl err, w)
              | Inr after \<Rightarrow>
                  (case s3_ListObjectVersions client (list_input name prefix after options) w of
                     (Inl err, w) \<Rightarrow> (Inl (wrap b ''listing the versions under'' prefix err), w)
                   | (Inr (versions, markers, truncated), w) \<Rightarrow>
                       (let found = versionsOf versions markers
                        in if \<not> To False truncated \<or> length found = 0 then (Inr (found, ''''), w)
                           else (Inr (found, encodeKeyAfter (ov_Key (last found))), w)))))"

subsection \<open>Deleting many\<close>

definition unsentRefs :: "object_ref list \<Rightarrow> gerr \<Rightarrow> delete_unsent list" where
  "unsentRefs refs err = map (\<lambda>ref. \<lparr>du_Ref = ref, du_Err = err\<rparr>) refs"

definition maxDeletesPerRequest :: nat where "maxDeletesPerRequest = 1000"

definition deleteChunk ::
    "string \<Rightarrow> 'w s3_api \<Rightarrow> string \<Rightarrow> object_ref list \<Rightarrow> 'w \<Rightarrow> (gerr + delete_many_result) \<times> 'w" where
  "deleteChunk ref client name refs w =
     (case s3_DeleteObjects client name (map (\<lambda>r. (or_Key r, when_set (or_VersionID r))) refs) w of
        (Inl err, w) \<Rightarrow> (Inl (Errorf (''celerity: deleting from '' @ ref @ '': '' @ error_text err) (Some err)), w)
      | (Inr (deleted, errs), w) \<Rightarrow>
          (Inr \<lparr>dm_Deleted = map (\<lambda>(key, version). \<lparr>or_Key = ToString key, or_VersionID = ToString version\<rparr>) deleted,
                dm_Failed = map (\<lambda>r. \<lparr>df_Ref = \<lparr>or_Key = ToString (rf_Key r), or_VersionID = ToString (rf_VersionId r)\<rparr>,
                  df_Code = ToString (rf_Code r), df_Message = ToString (rf_Message r)\<rparr>) errs, dm_Unsent = []\<rparr>, w))"

function delete_chunks ::
    "(object_ref list \<Rightarrow> 'w \<Rightarrow> (gerr + delete_many_result) \<times> 'w) \<Rightarrow> object_ref list \<Rightarrow> delete_many_result \<Rightarrow> 'w
       \<Rightarrow> (delete_many_result \<times> gerr option) \<times> 'w" where
  "delete_chunks send rest result w =
     (if length rest = 0 then ((result, None), w)
      else case send (take maxDeletesPerRequest rest) w of
        (Inl err, w) \<Rightarrow> ((result\<lparr>dm_Unsent := unsentRefs rest err\<rparr>, Some err), w)
      | (Inr part, w) \<Rightarrow>
          delete_chunks send (drop maxDeletesPerRequest rest)
            (result\<lparr>dm_Deleted := dm_Deleted result @ dm_Deleted part, dm_Failed := dm_Failed result @ dm_Failed part\<rparr>) w)"
  by pat_completeness auto
termination by (relation "measure (\<lambda>(send, rest, result, w). length rest)") (auto simp: maxDeletesPerRequest_def)

declare delete_chunks.simps [simp del]

definition s3_DeleteMany :: "'w s3_bucket \<Rightarrow> object_ref list \<Rightarrow> 'w \<Rightarrow> (delete_many_result \<times> gerr option) \<times> 'w" where
  "s3_DeleteMany b refs w =
     (let nothing = \<lparr>dm_Deleted = [], dm_Failed = [], dm_Unsent = []\<rparr>
      in if length refs = 0 then ((nothing, None), w)
         else case aws_resolve (sb_resolver b) w of
           (Inl err, w) \<Rightarrow> ((nothing\<lparr>dm_Unsent := unsentRefs refs err\<rparr>, Some err), w)
         | (Inr (client, name), w) \<Rightarrow> delete_chunks (deleteChunk (sb_ref b) client name) refs nothing w)"

subsection \<open>Signed addresses\<close>

definition sign ::
    "'w s3_presign \<Rightarrow> string \<Rightarrow> string \<Rightarrow> string \<Rightarrow> int \<Rightarrow> string \<Rightarrow> 'w \<Rightarrow> (gerr + string) \<times> 'w" where
  "sign client name key action expiry contentType w =
     (if action = SignRead then ps_GetObject client name key expiry w
      else if action = SignWrite then ps_PutObject client name key (when_set contentType) expiry w
      else (Inl (Errorf (go_quote action @ '' is not an action a URL can be signed for, which is '' @ go_quote SignRead @ '' or '' @ go_quote SignWrite) None), w))"

text \<open>Options of a signature hold a content type and nothing else; \<open>now\<close> is the time once it is made.\<close>

definition s3_SignedURL ::
    "'w s3_bucket \<Rightarrow> ('w \<Rightarrow> nanotime) \<Rightarrow> string \<Rightarrow> string \<Rightarrow> int \<Rightarrow> (string \<Rightarrow> string) list \<Rightarrow> 'w \<Rightarrow> (gerr + signed_url) \<times> 'w" where
  "s3_SignedURL b now key action expiry opts w =
     (case ar_ID (sb_resolver b) w of
        (Inl err, w) \<Rightarrow> (Inl err, w)
      | (Inr name, w) \<Rightarrow>
          (case ar_KeyFor (sb_resolver b) w of
             (Inl err, w) \<Rightarrow> (Inl err, w)
           | (Inr region, w) \<Rightarrow>
               (case sb_presigns b region w of
                  (Inl err, w) \<Rightarrow> (Inl err, w)
                | (Inr client, w) \<Rightarrow>
                    (case sign client name key action expiry (resolve '''' opts) w of
                       (Inl err, w) \<Rightarrow> (Inl (wrap b ''signing a URL for'' key err), w)
                     | (Inr url, w) \<Rightarrow> (Inr \<lparr>su_URL = url, su_ExpiresAt = now w + expiry\<rparr>, w)))))"

end
