(* ===== verification/S3_Props.thy ===== *)
theory S3_Props
  imports S3 Dynamo_Props "HOL-Library.Multiset"
begin

text \<open>
  What holds of a bucket on S3: a listing read page by page is the whole listing, however the service cuts it; the versions and
  markers of a page are merged in the order of the service; a deletion of many accounts for every object. And where reading
  versions page by page loses some.
\<close>

subsection \<open>Cursors\<close>

lemma keyAfter_encode [simp]: "keyAfter (encodeKeyAfter key) = Inr key"
proof (cases "key = ''''")
  case True
  then have "encodeKeyAfter key = ''''" by (simp add: encodeKeyAfter_def)
  with True show ?thesis by (simp add: keyAfter_def)
next
  case False
  then have "bytes_of key \<noteq> []" by (metis bytes_of_Nil bytes_of_inject)
  then show ?thesis by (simp add: keyAfter_def encodeKeyAfter_def)
qed

lemma keyAfter_Nil [simp]: "keyAfter '''' = Inr ''''"
  by (simp add: keyAfter_def)

lemma encodeKeyAfter_not_Nil: "key \<noteq> '''' \<Longrightarrow> encodeKeyAfter key \<noteq> ''''"
  using keyAfter_encode [of key] by (metis keyAfter_Nil sum.inject(2))

subsection \<open>Listing objects\<close>

text \<open>The objects a service holds, in the order of their keys, and what it answers a listing with: some of those that are
  asked for, from the first on, and whether there are more. How many is the service's to choose, as long as there is one.\<close>

definition listed_key :: "('a) s3_listed_scheme \<Rightarrow> string" where
  "listed_key x = ToString (sl_Key x)"

definition in_order :: "s3_listed list \<Rightarrow> bool" where
  "in_order contents \<longleftrightarrow> sorted_wrt (\<lambda>x y. listed_key x < listed_key y) contents \<and> (\<forall>x \<in> set contents. listed_key x \<noteq> '''')"

definition wanted :: "s3_list_input \<Rightarrow> s3_listed list \<Rightarrow> s3_listed list" where
  "wanted input contents = filter (\<lambda>x. has_prefix (listed_key x) (ToString (li_Prefix input))
     \<and> (ToString (li_After input) = '''' \<or> ToString (li_After input) < listed_key x)) contents"

definition lists :: "'w s3_api \<Rightarrow> 'w \<Rightarrow> s3_listed list \<Rightarrow> bool" where
  "lists client w contents \<longleftrightarrow> (\<forall>input. \<exists>n. fst (s3_ListObjectsV2 client input w)
     = Inr (take n (wanted input contents), Some (n < length (wanted input contents))) \<and> (wanted input contents \<noteq> [] \<longrightarrow> 0 < n))"

text \<open>The bucket a handle resolves to holds these objects.\<close>

definition holds_objects :: "'w s3_bucket \<Rightarrow> 'w \<Rightarrow> s3_listed list \<Rightarrow> bool" where
  "holds_objects b w contents \<longleftrightarrow>
     (\<exists>client name w1. aws_resolve (sb_resolver b) w = (Inr (client, name), w1) \<and> lists client w1 contents) \<and> in_order contents"

definition objects_under :: "string \<Rightarrow> s3_listed list \<Rightarrow> object_info list" where
  "objects_under prefix contents = objectsOf (filter (\<lambda>x. has_prefix (listed_key x) prefix) contents)"

definition s3_positioned :: "'w s3_bucket \<Rightarrow> 'w \<Rightarrow> string \<Rightarrow> s3_listed list \<Rightarrow> list_option list \<Rightarrow> nat \<Rightarrow> bool" where
  "s3_positioned b w prefix contents opts n \<longleftrightarrow> holds_objects b w contents \<and> n \<le> length (objects_under prefix contents)
     \<and> (\<exists>after. keyAfter (lo_Cursor (listOptions opts)) = Inr after
          \<and> drop n (objects_under prefix contents) = filter (\<lambda>i. after = '''' \<or> after < oi_Key i) (objects_under prefix contents))"

definition s3_page :: "'w s3_bucket \<Rightarrow> 'w \<Rightarrow> string \<Rightarrow> list_option list \<Rightarrow> (pval, gerr + object_info list \<times> string) outcome" where
  "s3_page b w prefix opts = Done (fst (s3_List b prefix opts w))"

lemma objectsOf_simps [simp]:
  "length (objectsOf xs) = length xs" "map oi_Key (objectsOf xs) = map listed_key xs" "objectsOf (take n xs) = take n (objectsOf xs)"
  by (simp_all add: objectsOf_def listed_key_def take_map)

lemma objectsOf_filter: "filter (\<lambda>i. P (oi_Key i)) (objectsOf xs) = objectsOf (filter (\<lambda>x. P (listed_key x)) xs)"
  by (induction xs) (simp_all add: objectsOf_def listed_key_def)

lemma after_sorted:
  assumes "sorted_wrt (\<lambda>x y. f x < f y) xs" and "0 < m" and "m \<le> length xs"
  shows "filter (\<lambda>x. f (last (take m xs)) < (f x :: 'k :: linorder)) xs = drop m xs"
proof -
  have ne: "take m xs \<noteq> []" using assms(2,3) by auto
  have app: "sorted_wrt (\<lambda>x y. f x < f y) (take m xs @ drop m xs)" using assms(1) by simp
  have "\<not> f (last (take m xs)) < f x" if "x \<in> set (take m xs)" for x
  proof -
    have "sorted_wrt (\<lambda>x y. f x < f y) (butlast (take m xs) @ [last (take m xs)])"
      using app [unfolded sorted_wrt_append, THEN conjunct1] by (simp only: append_butlast_last_id [OF ne])
    then have "\<forall>y \<in> set (butlast (take m xs)). f y < f (last (take m xs))" by (simp add: sorted_wrt_append)
    moreover have "x = last (take m xs) \<or> x \<in> set (butlast (take m xs))"
      using that ne by (metis append_butlast_last_id in_set_conv_decomp insert_iff list.simps(15) rotate1.simps(2) set_rotate1)
    ultimately show ?thesis by auto
  qed
  moreover have "f (last (take m xs)) < f x" if "x \<in> set (drop m xs)" for x
    using app ne that unfolding sorted_wrt_append by simp
  ultimately have "filter (\<lambda>x. f (last (take m xs)) < f x) (take m xs @ drop m xs) = drop m xs"
    unfolding filter_append by (simp add: filter_empty_conv filter_id_conv)
  then show ?thesis by simp
qed

lemma under_sorted: "in_order contents \<Longrightarrow> sorted_wrt (\<lambda>x y. oi_Key x < oi_Key y) (objects_under prefix contents)"
  by (simp add: objects_under_def in_order_def sorted_wrt_filter flip: sorted_wrt_map) (simp add: sorted_wrt_map sorted_wrt_filter)

lemma under_keys: "in_order contents \<Longrightarrow> i \<in> set (objects_under prefix contents) \<Longrightarrow> oi_Key i \<noteq> ''''"
  by (auto simp: objects_under_def in_order_def objectsOf_def listed_key_def)

lemma s3_page_positioned:
  assumes "s3_positioned b w prefix contents opts n"
  shows "\<exists>m cursor. s3_page b w prefix opts = Done (Inr (take (m - n) (drop n (objects_under prefix contents)), cursor)) \<and> n \<le> m
    \<and> m \<le> length (objects_under prefix contents)
    \<and> (if cursor = '''' then m = length (objects_under prefix contents) else n < m \<and> s3_positioned b w prefix contents (resume_opts cursor opts) m)"
proof -
  let ?all = "objects_under prefix contents" and ?o = "listOptions opts"
  from assms obtain after client name w1 where pos: "in_order contents" "n \<le> length ?all" "keyAfter (lo_Cursor ?o) = Inr after"
    "drop n ?all = filter (\<lambda>i. after = '''' \<or> after < oi_Key i) ?all" "aws_resolve (sb_resolver b) w = (Inr (client, name), w1)"
    "lists client w1 contents" and holds: "holds_objects b w contents"
    unfolding s3_positioned_def holds_objects_def by blast
  let ?input = "list_input name prefix after ?o"
  have rest: "objectsOf (wanted ?input contents) = drop n ?all"
  proof -
    have "drop n ?all = objectsOf (filter (\<lambda>x. after = '''' \<or> after < listed_key x) (filter (\<lambda>x. has_prefix (listed_key x) prefix) contents))"
      using pos(4) objectsOf_filter [of "\<lambda>k. after = '''' \<or> after < k"] unfolding objects_under_def by simp
    then show ?thesis
      by (simp add: wanted_def list_input_def when_set_def ToString_def conj_commute)
  qed
  from pos(6) obtain k where k: "fst (s3_ListObjectsV2 client ?input w1) = Inr (take k (wanted ?input contents), Some (k < length (wanted ?input contents)))"
    "wanted ?input contents \<noteq> [] \<longrightarrow> 0 < k" unfolding lists_def by blast
  have len: "length (wanted ?input contents) = length ?all - n" using arg_cong [OF rest, of length] by simp
  obtain w2 where call: "s3_ListObjectsV2 client ?input w1 = (Inr (take k (wanted ?input contents), Some (k < length (wanted ?input contents))), w2)"
    using k(1) by (metis prod.collapse)
  show ?thesis
  proof (cases "k < length ?all - n")
    case False
    then have "s3_page b w prefix opts = Done (Inr (drop n ?all, ''''))"
      using pos(3,5) call len rest by (simp add: s3_page_def s3_List_def Let_def To_def)
    then show ?thesis using pos(2) by (intro exI [of _ "length ?all"] exI [of _ "''''"]) simp
  next
    case True
    then have "0 < k" using k(2) len by auto
    have more: "\<not> length ?all \<le> n" using True by simp
    let ?cursor = "encodeKeyAfter (oi_Key (last (take k (drop n ?all))))" and ?m = "n + k"
    have lastis: "last (take k (drop n ?all)) = last (take ?m ?all)"
    proof -
      have "take k (drop n ?all) \<noteq> []" using True \<open>0 < k\<close> by auto
      then show ?thesis by (simp add: take_add)
    qed
    have named: "oi_Key (last (take ?m ?all)) \<noteq> ''''"
    proof (rule under_keys [OF pos(1), of _ prefix])
      have "take ?m ?all \<noteq> []" using True \<open>0 < k\<close> by auto
      then show "last (take ?m ?all) \<in> set ?all" by (meson in_set_takeD last_in_set)
    qed
    have page: "s3_page b w prefix opts = Done (Inr (take k (drop n ?all), ?cursor))"
      using True more \<open>0 < k\<close> pos(3,5) call len rest by (simp add: s3_page_def s3_List_def Let_def To_def)
    have cursor: "?cursor \<noteq> ''''" unfolding lastis using named by (rule encodeKeyAfter_not_Nil)
    have "drop ?m ?all = filter (\<lambda>i. oi_Key (last (take ?m ?all)) < oi_Key i) ?all"
      using after_sorted [OF under_sorted [OF pos(1)], of ?m prefix] True \<open>0 < k\<close> by simp
    then have "s3_positioned b w prefix contents (resume_opts ?cursor opts) ?m"
      using holds True named by (simp add: s3_positioned_def lastis)
    with page cursor show ?thesis using True \<open>0 < k\<close> by (intro exI [of _ ?m] exI [of _ ?cursor]) simp
  qed
qed

interpretation s3_objects: paged_source "s3_page b w prefix" resume_opts "s3_positioned b w prefix contents" "objects_under prefix contents"
  for b w prefix contents
  by unfold_locales (rule s3_page_positioned)

text \<open>C37. Reading a bucket on S3 page by page ends, and gives every object under the prefix once, in the order of the keys, up to where the
  body of the loop stops; however many objects the service puts on a page, whatever limit is asked for, and although the position
  is carried in a cursor that names the last key rather than in the service's own token. (The service lists what comes
  after the key it is given, from the first on, and says whether there is more.)\<close>

theorem S3_lists_everything:
  assumes "holds_objects b w contents" and "lo_Cursor (listOptions opts) = ''''"
  shows "(\<exists>opts'. Objects (s3_page b w) prefix yield opts c = Some (Done (snd (yield_page yield (objects_under prefix contents) c), opts')))
    \<and> map oi_Key (objects_under prefix contents) = filter (\<lambda>key. has_prefix key prefix) (map listed_key contents)"
proof
  have "s3_positioned b w prefix contents opts 0" using assms by (simp add: s3_positioned_def)
  from s3_objects.reads_to_end [OF this]
  show "\<exists>opts'. Objects (s3_page b w) prefix yield opts c = Some (Done (snd (yield_page yield (objects_under prefix contents) c), opts'))"
    unfolding Objects_def by simp
qed (simp add: objects_under_def filter_map comp_def)

subsection \<open>Versions and markers\<close>

text \<open>The order of a listing of versions: by key, and the newer first within one.\<close>

definition version_order :: "object_version \<Rightarrow> object_version \<Rightarrow> bool" where
  "version_order x y \<longleftrightarrow> ov_Key x < ov_Key y \<or> (ov_Key x = ov_Key y \<and> ov_LastModified x \<ge> ov_LastModified y)"

lemma version_order_trans: "version_order x y \<Longrightarrow> version_order y z \<Longrightarrow> version_order x z"
  by (auto simp: version_order_def)

lemma takeVersionNext_order:
  "takeVersionNext v m \<Longrightarrow> version_order (objectVersion v) (deleteMarker m)"
  "\<not> takeVersionNext v m \<Longrightarrow> version_order (deleteMarker m) (objectVersion v)"
  by (auto simp: takeVersionNext_def version_order_def objectVersion_def deleteMarker_def split: if_splits)

lemma version_flags [simp]: "\<not> ov_DeleteMarker (objectVersion v)" "ov_DeleteMarker (deleteMarker m)"
  by (simp_all add: objectVersion_def deleteMarker_def)

lemma versionsOf_set: "set (versionsOf vs ms) = objectVersion ` set vs \<union> deleteMarker ` set ms"
  by (induction vs ms rule: versionsOf.induct) auto

text \<open>C38. One listing is made of the two the service answers with. Every version and every marker of a page is in it
  once, each side in the order it came; and when both sides are ordered by key with the newer first, so is the
  whole.\<close>

theorem versionsOf_merges:
  "mset (versionsOf vs ms) = mset (map objectVersion vs) + mset (map deleteMarker ms)
     \<and> filter (\<lambda>x. \<not> ov_DeleteMarker x) (versionsOf vs ms) = map objectVersion vs
     \<and> filter ov_DeleteMarker (versionsOf vs ms) = map deleteMarker ms
     \<and> (sorted_wrt version_order (map objectVersion vs) \<and> sorted_wrt version_order (map deleteMarker ms)
         \<longrightarrow> sorted_wrt version_order (versionsOf vs ms))"
proof (induction vs ms rule: versionsOf.induct)
  case (3 v vs m ms)
  show ?case
  proof (cases "takeVersionNext v m")
    case True
    have "version_order (objectVersion v) x" if "x \<in> set (versionsOf vs (m # ms))"
      "sorted_wrt version_order (map objectVersion (v # vs))" "sorted_wrt version_order (map deleteMarker (m # ms))" for x
      using that takeVersionNext_order(1) [OF True] version_order_trans by (auto simp: versionsOf_set)
    with True 3(1) [OF True] show ?thesis by auto
  next
    case False
    have "version_order (deleteMarker m) x" if "x \<in> set (versionsOf (v # vs) ms)"
      "sorted_wrt version_order (map objectVersion (v # vs))" "sorted_wrt version_order (map deleteMarker (m # ms))" for x
      using that takeVersionNext_order(2) [OF False] version_order_trans by (auto simp: versionsOf_set)
    with False 3(2) [OF False] show ?thesis by auto
  qed
qed (simp_all add: filter_map comp_def)

text \<open>A cursor of a listing of versions names a key and no version. Where the service lists what comes after the key it is given,
  nothing more of the key a page ended in is ever listed; where it starts at that key, its versions are listed
  again from the newest.\<close>

theorem versions_page_inside_key:
  assumes "s3_Versions b prefix opts w = (Inr (found, cursor), w1)" and "cursor \<noteq> ''''"
    and "s3_Versions b prefix (resume_opts cursor opts) w1 = (Inr (found', cursor'), w2)"
    and "\<And>client name v v' input vs ms t. aws_resolve (sb_resolver b) v = (Inr (client, name), v') \<Longrightarrow>
      fst (s3_ListObjectVersions client input v') = Inr (vs, ms, t) \<Longrightarrow>
      (\<forall>x \<in> set vs. ToString (li_After input) < ToString (sl_Key x)) \<and> (\<forall>m \<in> set ms. ToString (li_After input) < ToString (mk_Key m))"
  shows "\<forall>x \<in> set found'. ov_Key x \<noteq> ov_Key (last found)"
proof
  fix x
  assume x: "x \<in> set found'"
  from assms(1,2) have c: "cursor = encodeKeyAfter (ov_Key (last found))"
    by (auto simp: s3_Versions_def Let_def split: prod.splits sum.splits if_splits)
  from assms(3) obtain client name v' vs ms t after where next_page: "aws_resolve (sb_resolver b) w1 = (Inr (client, name), v')"
    "keyAfter cursor = Inr after" "fst (s3_ListObjectVersions client (list_input name prefix after (listOptions (resume_opts cursor opts))) v') = Inr (vs, ms, t)"
    "found' = versionsOf vs ms"
    by (auto simp: s3_Versions_def Let_def split: prod.splits sum.splits if_splits)
  have "after = ov_Key (last found)" using next_page(2) c by simp
  moreover have "ToString (li_After (list_input name prefix after (listOptions (resume_opts cursor opts)))) = after"
    by (simp add: list_input_def when_set_def ToString_def)
  ultimately show "ov_Key x \<noteq> ov_Key (last found)"
    using assms(4) [OF next_page(1,3)] x by (auto simp: next_page(4) versionsOf_set objectVersion_def deleteMarker_def)
qed

subsection \<open>Deleting many\<close>

text \<open>Every object handed over is in exactly one of the three lists. (The service answers for every object of a request once.)\<close>

definition deletion_settled :: "delete_many_result \<Rightarrow> object_ref list" where
  "deletion_settled r = dm_Deleted r @ map df_Ref (dm_Failed r)"

lemma unsentRefs_simps [simp]:
  "image_mset du_Ref (mset (unsentRefs refs err)) = mset refs" "u \<in> set (unsentRefs refs err) \<Longrightarrow> du_Err u = err"
  by (auto simp: unsentRefs_def comp_def simp flip: mset_map)

lemma delete_chunks_account:
  assumes "\<And>c w r w'. send c w = (Inr r, w') \<Longrightarrow> mset (deletion_settled r) = mset c"
  shows "delete_chunks send rest result w = ((r, e), w') \<Longrightarrow> mset (deletion_settled result) = mset done \<Longrightarrow> dm_Unsent result = [] \<Longrightarrow>
    mset (deletion_settled r @ map du_Ref (dm_Unsent r)) = mset (done @ rest) \<and> (\<forall>u \<in> set (dm_Unsent r). e = Some (du_Err u))"
proof (induction "length rest" arbitrary: rest result w "done" rule: less_induct)
  case less
  show ?case
  proof (cases "rest = []")
    case True
    then show ?thesis using less.prems by (simp add: delete_chunks.simps)
  next
    case False
    note step = less.prems(1) [unfolded delete_chunks.simps [of send rest]]
    obtain a w1 where call: "send (take maxDeletesPerRequest rest) w = (a, w1)" by fastforce
    show ?thesis
    proof (cases a)
      case (Inl err)
      then show ?thesis using step False less.prems(2,3) call by (auto simp: deletion_settled_def simp flip: add.assoc)
    next
      case (Inr c)
      let ?result = "result\<lparr>dm_Deleted := dm_Deleted result @ dm_Deleted c, dm_Failed := dm_Failed result @ dm_Failed c\<rparr>"
      have "mset (deletion_settled c) = mset (take maxDeletesPerRequest rest)" using assms call Inr by simp
      moreover have "mset (deletion_settled ?result) = mset (deletion_settled result) + mset (deletion_settled c)"
        by (simp add: deletion_settled_def)
      ultimately have more: "mset (deletion_settled ?result) = mset (done @ take maxDeletesPerRequest rest)" using less.prems(2) by simp
      have on: "delete_chunks send (drop maxDeletesPerRequest rest) ?result w1 = ((r, e), w')" using step False call Inr by simp
      have "length (drop maxDeletesPerRequest rest) < length rest" using False by (simp add: maxDeletesPerRequest_def)
      from less.hyps [OF this on more] show ?thesis using less.prems(3) by simp
    qed
  qed
qed

theorem DeleteMany_accounted:
  assumes "s3_DeleteMany b refs w = ((r, e), w')"
    and "\<And>client name objects deleted errs v v1 v2. fst (aws_resolve (sb_resolver b) v1) = Inr (client, name) \<Longrightarrow>
      s3_DeleteObjects client name objects v = (Inr (deleted, errs), v2) \<Longrightarrow>
      mset (map (\<lambda>(key, version). (ToString key, ToString version)) deleted) + mset (map (\<lambda>x. (ToString (rf_Key x), ToString (rf_VersionId x))) errs)
        = mset (map (\<lambda>(key, version). (key, ToString version)) objects)"
  shows "mset (dm_Deleted r) + mset (map df_Ref (dm_Failed r)) + mset (map du_Ref (dm_Unsent r)) = mset refs
    \<and> (\<forall>u \<in> set (dm_Unsent r). e = Some (du_Err u))"
proof -
  let ?nothing = "\<lparr>dm_Deleted = [], dm_Failed = [], dm_Unsent = []\<rparr> :: delete_many_result"
  from assms(1) consider "refs = []" "r = ?nothing" | err where "r = ?nothing\<lparr>dm_Unsent := unsentRefs refs err\<rparr>" "e = Some err"
    | client name w1 where "aws_resolve (sb_resolver b) w = (Inr (client, name), w1)" "delete_chunks (deleteChunk (sb_ref b) client name) refs ?nothing w1 = ((r, e), w')"
    by (auto simp: s3_DeleteMany_def Let_def split: if_splits prod.splits sum.splits)
  then show ?thesis
  proof cases
    case 3
    have "mset (deletion_settled r) = mset c" if "deleteChunk (sb_ref b) client name c v = (Inr r, v')" for c v r v'
    proof -
      from that obtain deleted errs where out: "s3_DeleteObjects client name (map (\<lambda>r. (or_Key r, when_set (or_VersionID r))) c) v = (Inr (deleted, errs), v')"
        "deletion_settled r = map (\<lambda>(k, v). \<lparr>or_Key = k, or_VersionID = v\<rparr>) (map (\<lambda>(key, version). (ToString key, ToString version)) deleted
          @ map (\<lambda>x. (ToString (rf_Key x), ToString (rf_VersionId x))) errs)"
        by (auto simp: deleteChunk_def deletion_settled_def split: prod.splits sum.splits)
      have "mset (map (\<lambda>(key, version). (ToString key, ToString version)) deleted @ map (\<lambda>x. (ToString (rf_Key x), ToString (rf_VersionId x))) errs)
        = mset (map (\<lambda>(key, version). (key, ToString version)) (map (\<lambda>r. (or_Key r, when_set (or_VersionID r))) c))"
        using assms(2) [of w client name, OF _ out(1)] 3(1) by simp
      then have "mset (deletion_settled r) = mset (map (\<lambda>(k, v). \<lparr>or_Key = k, or_VersionID = v\<rparr>) (map (\<lambda>(key, version). (key, ToString version)) (map (\<lambda>r. (or_Key r, when_set (or_VersionID r))) c)))"
        unfolding out(2) mset_map by simp
      moreover have "map (\<lambda>(k, v). \<lparr>or_Key = k, or_VersionID = v\<rparr>) (map (\<lambda>(key, version). (key, ToString version)) (map (\<lambda>r. (or_Key r, when_set (or_VersionID r))) c)) = c"
        by (simp add: comp_def when_set_def ToString_def map_idI)
      ultimately show ?thesis by (simp only:)
    qed
    note chunk = this
    have "mset (deletion_settled r @ map du_Ref (dm_Unsent r)) = mset ([] @ refs) \<and> (\<forall>u \<in> set (dm_Unsent r). e = Some (du_Err u))"
      by (rule delete_chunks_account [OF _ 3(2)], erule chunk) (simp_all add: deletion_settled_def)
    then show ?thesis by (simp add: deletion_settled_def add.assoc)
  qed (simp_all add: deletion_settled_def)
qed

subsection \<open>A service\<close>

text \<open>A service of three objects that puts one on a page, and of the two versions of one object.\<close>

definition three_listed :: "s3_listed list" where
  "three_listed = map (\<lambda>k. \<lparr>sl_Key = Some k, sl_Size = Some 1, sl_LastModified = None, sl_ETag = None\<rparr>) [''a'', ''b'', ''c'']"

definition two_versions :: "s3_version list" where
  "two_versions = map (\<lambda>(ident, time, current). \<lparr>sl_Key = Some ''a'', sl_Size = Some 1, sl_LastModified = Some time, sl_ETag = None,
     sl_VersionId = Some ident, sl_IsLatest = Some current\<rparr>) [(''v2'', 2, True), (''v1'', 1, False)]"

definition example_s3 :: "unit s3_api" where
  "example_s3 = \<lparr>s3_GetObject = (\<lambda>n k r v w. (Inl ErrNotFound, w)), s3_HeadObject = (\<lambda>n k v w. (Inl ErrNotFound, w)),
     s3_UploadObject = (\<lambda>n k b c m w. (Inr (None, None), w)), s3_DeleteObject = (\<lambda>n k v w. (None, w)),
     s3_CopyObject = (\<lambda>i w. (Inr (None, None), w)),
     s3_ListObjectsV2 = (\<lambda>input w. (Inr (take 1 (wanted input three_listed), Some (1 < length (wanted input three_listed))), w)),
     s3_ListObjectVersions = (\<lambda>input w. let vs = filter (\<lambda>v. ToString (li_After input) < ToString (sl_Key v)) two_versions
        in (Inr (take 1 vs, [], Some (1 < length vs)), w)),
     s3_DeleteObjects = (\<lambda>n os w. (Inr ([], []), w))\<rparr>"

definition example_bucket :: "unit s3_bucket" where
  "example_bucket = \<lparr>sb_resolver = \<lparr>ar_ID = (\<lambda>w. (Inr ''bucket'', w)), ar_KeyFor = (\<lambda>w. (Inr '''', w)), ar_client = (\<lambda>key w. (Inr example_s3, w))\<rparr>,
     sb_presigns = (\<lambda>key w. (Inl ErrNotFound, w)), sb_ref = ''bucket'', sb_code = (\<lambda>e. None)\<rparr>"

lemma example_bucket_resolves: "aws_resolve (sb_resolver example_bucket) w = (Inr (example_s3, ''bucket''), ())"
  by (simp add: aws_resolve_def example_bucket_def)

theorem S3_lists_everything_witness:
  "\<exists>opts'. Objects (s3_page example_bucket ()) '''' gather [] ([], None) = Some (Done ((objectsOf three_listed, None), opts'))"
proof -
  have "lists example_s3 () three_listed"
    unfolding lists_def by (intro allI exI [of _ 1]) (simp add: example_s3_def)
  moreover have "in_order three_listed" by (simp add: in_order_def three_listed_def listed_key_def ToString_def)
  ultimately have "holds_objects example_bucket () three_listed"
    using example_bucket_resolves unfolding holds_objects_def by blast
  moreover have "lo_Cursor (listOptions []) = ''''" by (simp add: listOptions_def resolve_def zero_list_options_def)
  moreover have "objects_under '''' three_listed = objectsOf three_listed" by (simp add: objects_under_def has_prefix_def)
  ultimately show ?thesis using S3_lists_everything [of example_bucket "()" three_listed "[]" "''''" gather "([], None)"] by simp
qed

theorem versionsOf_merges_witness:
  "sorted_wrt version_order (versionsOf two_versions [\<lparr>mk_Key = Some ''a'', mk_VersionId = Some ''v3'', mk_LastModified = Some 3, mk_IsLatest = Some False\<rparr>])"
  using versionsOf_merges [of two_versions "[\<lparr>mk_Key = Some ''a'', mk_VersionId = Some ''v3'', mk_LastModified = Some 3, mk_IsLatest = Some False\<rparr>]"]
  by (simp add: two_versions_def version_order_def objectVersion_def ToString_def To_def)

text \<open>A page of one version of the object ends its listing: the other version is never given.\<close>

theorem versions_lost:
  "AllVersions (\<lambda>prefix opts. Done (fst (s3_Versions example_bucket prefix opts ()))) '''' gather [limited 1] ([], None)
     = Some (Done (([objectVersion (two_versions ! 0)], None), [limited 1, resumeAt (encodeKeyAfter ''a'')]))"
proof -
  let ?fetch = "\<lambda>opts. Done (fst (s3_Versions example_bucket '''' opts ()))" and ?opts = "[limited 1, resumeAt (encodeKeyAfter ''a'')]"
  have less: "\<not> ''a'' < (''a'' :: string)" "'''' < ''a''" by simp_all
  have one: "?fetch [limited 1] = Done (Inr ([objectVersion (two_versions ! 0)], encodeKeyAfter ''a''))"
    by (simp add: s3_Versions_def example_bucket_resolves listOptions_def resolve_def zero_list_options_def Let_def example_s3_def list_input_def
        when_set_def ToString_def two_versions_def To_def objectVersion_def)
  have two: "?fetch ?opts = Done (Inr ([], ''''))"
    by (simp add: s3_Versions_def example_bucket_resolves listOptions_def resolve_def zero_list_options_def resumeAt_def Let_def example_s3_def list_input_def
        when_set_def ToString_def two_versions_def To_def)
  have "resume_opts (encodeKeyAfter ''a'') [limited 1] = ?opts" by (simp add: resume_opts_def)
  then show ?thesis
    unfolding AllVersions_def using one two encodeKeyAfter_not_Nil [of "''a''"]
    by (subst read_pages.simps, simp, subst read_pages.simps, simp)
qed

end
