(* ===== verification/Config.thy ===== *)
theory Config
  imports Bind Encodings
begin

text \<open>
  Configuration: \<^verbatim>\<open>src/config\<close>. A service holds named namespaces, a namespace keeps the values of one store and
  reads them again through its backend when they have gone stale, and the stores are discovered from the
  environment. Namespaces are objects the service points at, so they live in a heap beside it. A backend acts on a
  world of any type, which also carries the clock (\<open>pi_now\<close>) and the log (\<open>pi_warn\<close>). Go visits a map in any
  order: where the order may matter it is an argument.
\<close>

subsection \<open>Errors\<close>

definition list_text :: "string list \<Rightarrow> string" where
  "list_text xs = ''['' @ join '' '' xs @ '']''"

definition config_error :: "string \<Rightarrow> string \<Rightarrow> gerr" where
  "config_error typ text = AppErr text (''*config.'' @ typ) None None None None []"

definition MissingStoreError :: "string \<Rightarrow> gerr" where
  "MissingStoreError storeID = config_error ''MissingStoreError'' (''celerity: no config store '' @ go_quote storeID)"

definition MissingKeyError :: "string \<Rightarrow> string \<Rightarrow> gerr" where
  "MissingKeyError namespace key = config_error ''MissingKeyError''
     (if namespace = '''' then ''celerity: no config value for '' @ go_quote key
      else ''celerity: no config value for '' @ go_quote key @ '' in namespace '' @ go_quote namespace)"

definition MissingNamespaceError :: "string \<Rightarrow> string list \<Rightarrow> gerr" where
  "MissingNamespaceError name registered = config_error ''MissingNamespaceError''
     (if length registered = 0 then ''celerity: no config namespace '' @ go_quote name
        @ '', and none is registered: the application declares no celerity/config resource''
      else ''celerity: no config namespace '' @ go_quote name @ '', registered: '' @ list_text registered)"

definition AmbiguousNamespaceError :: "string list \<Rightarrow> gerr" where
  "AmbiguousNamespaceError registered = config_error ''AmbiguousNamespaceError''
     (''celerity: '' @ itoa (int (length registered)) @ '' config namespaces are registered, so a value has to name one: ''
        @ ''use Namespace(name).Get, registered: '' @ list_text registered)"

definition MissingLinkError :: "string \<Rightarrow> string \<Rightarrow> string list \<Rightarrow> gerr" where
  "MissingLinkError kind name known = config_error ''MissingLinkError''
     (if length known = 0 then ''celerity: the application declares no '' @ kind @ '', and '' @ go_quote name @ '' was asked for''
      else ''celerity: no '' @ kind @ '' named '' @ go_quote name @ '', the blueprint declares: '' @ list_text known)"

subsection \<open>Backends and platforms\<close>

type_synonym store_values = "(string, string) gomap"

text \<open>A backend, and what it says of itself where it implements \<^verbatim>\<open>SelfCaching\<close>. The map it returns may be nil.\<close>

record 'w backend =
  be_Fetch :: "string \<Rightarrow> 'w \<Rightarrow> (gerr + store_values option) \<times> 'w"
  be_Caching :: "bool option"

definition MapBackend :: "(string, store_values) gomap \<Rightarrow> 'w backend" where
  "MapBackend b = \<lparr>be_Fetch = (\<lambda>storeID w. (case gm_get b storeID of
       None \<Rightarrow> (Inl (MissingStoreError storeID), w) | Some vals \<Rightarrow> (Inr (Some vals), w))), be_Caching = None\<rparr>"

definition EmptyBackend :: "'w backend" where
  "EmptyBackend = \<lparr>be_Fetch = (\<lambda>storeID w. (Inr (Some []), w)), be_Caching = None\<rparr>"

definition caches :: "'w backend \<Rightarrow> bool" where
  "caches b \<longleftrightarrow> be_Caching b = Some True"

definition CurrentPlatform :: "(string \<Rightarrow> string) \<Rightarrow> string" where
  "CurrentPlatform getenv =
     (let p = to_lower (getenv ''CELERITY_PLATFORM'') in if p \<in> set [''aws'', ''azure'', ''gcp'', ''local''] then p else ''other'')"

record 'w config_provider =
  cp_Name :: string
  cp_Platform :: string
  cp_Backend :: "string \<Rightarrow> gerr + 'w backend"

definition RegisterProvider :: "'w config_provider \<Rightarrow> 'w config_provider list \<Rightarrow> (pval, 'w config_provider list) outcome" where
  "RegisterProvider p providers =
     (case List.find (\<lambda>existing. cp_Platform existing = cp_Platform p) providers of
        Some existing \<Rightarrow> Panic (PanicText (''celerity: config providers '' @ go_quote (cp_Name existing) @ '' and '' @ go_quote (cp_Name p)
          @ '' both serve platform '' @ go_quote (cp_Platform p)))
      | None \<Rightarrow> Done (providers @ [p]))"

definition RegisteredProviders :: "'w config_provider list \<Rightarrow> string list" where
  "RegisteredProviders providers = sort (map cp_Name providers)"

definition config_providerFor :: "'w config_provider list \<Rightarrow> string \<Rightarrow> 'w config_provider option" where
  "config_providerFor providers platform = List.find (\<lambda>p. cp_Platform p = platform) providers"

definition backendFor :: "'w config_provider list \<Rightarrow> string \<Rightarrow> string \<Rightarrow> gerr + 'w backend" where
  "backendFor providers platform kind =
     (case config_providerFor providers platform of
        None \<Rightarrow> Inr EmptyBackend
      | Some p \<Rightarrow>
          (case cp_Backend p kind of
             Inl err \<Rightarrow> Inl (Errorf (''celerity: '' @ cp_Name p @ '' cannot read a '' @ go_quote kind @ '' store: '' @ error_text err) (Some err))
           | Inr b \<Rightarrow> Inr b))"

subsection \<open>Values held as JSON\<close>

text \<open>A JSON number as \<^verbatim>\<open>float64\<close>: whether it is in range, and its two printed forms, by \<^verbatim>\<open>FormatFloat\<close> with the verb
  \<^verbatim>\<open>f\<close> and by \<^verbatim>\<open>json.Marshal\<close>.\<close>

record number_forms =
  nf_valid :: "string \<Rightarrow> bool"
  nf_plain :: "string \<Rightarrow> string"
  nf_json :: "string \<Rightarrow> string"

fun numbers_valid :: "number_forms \<Rightarrow> jtree \<Rightarrow> bool" where
  "numbers_valid nf (TNum t) = nf_valid nf t"
| "numbers_valid nf (TArr xs) = list_all (numbers_valid nf) xs"
| "numbers_valid nf (TObj kvs) = list_all (\<lambda>kv. numbers_valid nf (snd kv)) kvs"
| "numbers_valid nf _ = True"

text \<open>A tree as it comes back from \<^verbatim>\<open>any\<close>: of a member given twice the last remains, and numbers are printed anew.\<close>

fun through_any :: "number_forms \<Rightarrow> jtree \<Rightarrow> jtree" where
  "through_any nf (TNum t) = TNum (nf_json nf t)"
| "through_any nf (TArr xs) = TArr (map (through_any nf) xs)"
| "through_any nf (TObj kvs) = TObj (fold (\<lambda>(k, x) m. gm_put k x m) (map (\<lambda>kv. (fst kv, through_any nf (snd kv))) kvs) [])"
| "through_any nf t = t"

definition valueAsString :: "number_forms \<Rightarrow> jtree \<Rightarrow> string" where
  "valueAsString nf v =
     (case v of
        TStr s \<Rightarrow> s
      | TBool b \<Rightarrow> if b then ''true'' else ''false''
      | TNum t \<Rightarrow> nf_plain nf t
      | TNull \<Rightarrow> ''''
      | _ \<Rightarrow> tree_text (through_any nf v))"

definition ValuesFromJSON :: "(byte list \<Rightarrow> gerr + jtree) \<Rightarrow> number_forms \<Rightarrow> byte list \<Rightarrow> string \<Rightarrow> gerr + store_values" where
  "ValuesFromJSON parse nf raw source =
     (let failed = (\<lambda>err. Inl (Errorf (''celerity: the config store '' @ go_quote source @ '' does not hold a JSON object: '' @ error_text err) (Some err)))
      in case parse raw of
           Inl err \<Rightarrow> failed err
         | Inr t \<Rightarrow>
             (case t of
                TNull \<Rightarrow> Inr []
              | TObj kvs \<Rightarrow>
                  if numbers_valid nf t then Inr (fold (\<lambda>(k, v) out. gm_put k (valueAsString nf v) out) kvs [])
                  else failed (mismatch '''' ''float64'')
              | _ \<Rightarrow> failed (mismatch '''' ''map[string]interface {}'')))"

subsection \<open>A namespace\<close>

record 'w namespace =
  ns_backend :: "'w backend"
  ns_storeID :: string
  ns_prefix :: string
  ns_refresh :: int
  ns_values :: "store_values option"
  ns_checkedAt :: int

definition WithPrefix :: "string \<Rightarrow> 'w namespace \<Rightarrow> 'w namespace" where
  "WithPrefix prefix n = n\<lparr>ns_prefix := prefix\<rparr>"

definition WithRefresh :: "int \<Rightarrow> 'w namespace \<Rightarrow> 'w namespace" where
  "WithRefresh interval n = n\<lparr>ns_refresh := interval\<rparr>"

definition NewNamespace :: "'w backend \<Rightarrow> string \<Rightarrow> ('w namespace \<Rightarrow> 'w namespace) list \<Rightarrow> 'w namespace" where
  "NewNamespace backend storeID opts = fold (\<lambda>opt n. opt n) opts
     \<lparr>ns_backend = backend, ns_storeID = storeID, ns_prefix = '''', ns_refresh = 0, ns_values = None, ns_checkedAt = 0\<rparr>"

record 'w process_io =
  pi_now :: "'w \<Rightarrow> int"
  pi_warn :: "string \<Rightarrow> gerr \<Rightarrow> 'w \<Rightarrow> 'w"

definition stale :: "'w process_io \<Rightarrow> 'w namespace \<Rightarrow> 'w \<Rightarrow> bool" where
  "stale io n w \<longleftrightarrow> ns_refresh n > 0 \<and> pi_now io w - ns_checkedAt n \<ge> ns_refresh n"

definition applyPrefix :: "string \<Rightarrow> store_values option \<Rightarrow> store_values option" where
  "applyPrefix prefix vals =
     (if prefix = '''' then vals
      else Some (fold (\<lambda>(key, v) out. case cut_prefix key (prefix @ ''/'') of Some after \<Rightarrow> gm_put after v out | None \<Rightarrow> out) (slice vals) []))"

definition load :: "'w process_io \<Rightarrow> 'w namespace \<Rightarrow> 'w \<Rightarrow> (gerr + store_values option) \<times> 'w namespace \<times> 'w" where
  "load io n w =
     (if ns_values n \<noteq> None \<and> \<not> stale io n w then (Inr (ns_values n), n, w)
      else case be_Fetch (ns_backend n) (ns_storeID n) w of
        (fetched, w1) \<Rightarrow>
          (let n1 = n\<lparr>ns_checkedAt := pi_now io w1\<rparr>
           in case fetched of
                Inl err \<Rightarrow>
                  if ns_values n1 = None then (Inl err, n1, w1)
                  else (Inr (ns_values n1), n1, pi_warn io (ns_storeID n1) err w1)
              | Inr vals \<Rightarrow>
                  (let n2 = n1\<lparr>ns_values := applyPrefix (ns_prefix n1) vals\<rparr> in (Inr (ns_values n2), n2, w1))))"

text \<open>The four reads of a namespace. Reading a nil map finds nothing.\<close>

definition ns_Lookup :: "'w process_io \<Rightarrow> string \<Rightarrow> 'w namespace \<Rightarrow> 'w \<Rightarrow> (gerr + string option) \<times> 'w namespace \<times> 'w" where
  "ns_Lookup io key n w = (case load io n w of (Inl err, r) \<Rightarrow> (Inl err, r) | (Inr vals, r) \<Rightarrow> (Inr (gm_get (slice vals) key), r))"

definition ns_Get :: "'w process_io \<Rightarrow> string \<Rightarrow> 'w namespace \<Rightarrow> 'w \<Rightarrow> (gerr + string) \<times> 'w namespace \<times> 'w" where
  "ns_Get io key n w =
     (case ns_Lookup io key n w of
        (Inl err, r) \<Rightarrow> (Inl err, r)
      | (Inr None, r) \<Rightarrow> (Inl (MissingKeyError (ns_storeID n) key), r)
      | (Inr (Some v), r) \<Rightarrow> (Inr v, r))"

definition ns_All :: "'w process_io \<Rightarrow> 'w namespace \<Rightarrow> 'w \<Rightarrow> (gerr + store_values) \<times> 'w namespace \<times> 'w" where
  "ns_All io n w = (case load io n w of (Inl err, r) \<Rightarrow> (Inl err, r) | (Inr vals, r) \<Rightarrow> (Inr (slice vals), r))"

text \<open>\<open>bind\<close> is \<^verbatim>\<open>bindValues\<close> into the struct the caller gave; it may have filled part of it when it fails.\<close>

definition ns_Bind ::
    "'w process_io \<Rightarrow> (store_values \<Rightarrow> 'o \<Rightarrow> gerr option \<times> 'o) \<Rightarrow> 'o \<Rightarrow> 'w namespace \<Rightarrow> 'w \<Rightarrow> (gerr option \<times> 'o) \<times> 'w namespace \<times> 'w" where
  "ns_Bind io bind out n w = (case load io n w of (Inl err, r) \<Rightarrow> ((Some err, out), r) | (Inr vals, r) \<Rightarrow> (bind (slice vals) out, r))"

subsection \<open>Resource links\<close>

record link =
  lk_Type :: string
  lk_ConfigKey :: string

type_synonym links = "(string, link) gomap"

definition namesOf :: "links \<Rightarrow> string \<Rightarrow> string list" where
  "namesOf l kind = sort (map fst (filter (\<lambda>(name, lk). lk_Type lk = kind) l))"

definition links_Find :: "links \<Rightarrow> string \<Rightarrow> string \<Rightarrow> gerr + link" where
  "links_Find l kind name =
     (case gm_get l name of
        None \<Rightarrow> Inl (MissingLinkError kind name (namesOf l kind))
      | Some lk \<Rightarrow>
          if lk_Type lk \<noteq> kind
          then Inl (Errorf (''celerity: resource '' @ go_quote name @ '' is a '' @ lk_Type lk @ '', and was asked for as a '' @ kind) None)
          else Inr lk)"

definition links_OfKind :: "links \<Rightarrow> string \<Rightarrow> links" where
  "links_OfKind l kind = filter (\<lambda>(name, lk). lk_Type lk = kind) l"

definition dec_link :: "jtree \<Rightarrow> gerr + link" where
  "dec_link t =
     (case dec_object ''Link'' t of
        Inl e \<Rightarrow> Inl e
      | Inr kvs \<Rightarrow>
          (case (dec_string ''Link.type'' (member ''type'' kvs), dec_string ''Link.configKey'' (member ''configKey'' kvs)) of
             (Inr ty, Inr key) \<Rightarrow> Inr \<lparr>lk_Type = ty, lk_ConfigKey = key\<rparr>
           | (Inl e, _) \<Rightarrow> Inl e
           | (_, Inl e) \<Rightarrow> Inl e))"

definition parseLinks :: "(byte list \<Rightarrow> gerr + jtree) \<Rightarrow> byte list \<Rightarrow> string \<Rightarrow> gerr + links" where
  "parseLinks parse raw source =
     (let failed = (\<lambda>err. Inl (Errorf (''celerity: the resource links in '' @ source @ '' are not valid JSON: '' @ error_text err) (Some err)))
      in case parse raw of
           Inl err \<Rightarrow> failed err
         | Inr TNull \<Rightarrow> Inr []
         | Inr (TObj kvs) \<Rightarrow>
             (case sequence_sum (map (\<lambda>kv. case dec_link (snd kv) of Inl e \<Rightarrow> Inl e | Inr lk \<Rightarrow> Inr (fst kv, lk)) kvs) of
                Inl err \<Rightarrow> failed err
              | Inr pairs \<Rightarrow> Inr (fold (\<lambda>(k, lk) m. gm_put k lk m) pairs []))
         | Inr _ \<Rightarrow> failed (mismatch '''' ''config.Links''))"

definition linksPath :: "(string \<Rightarrow> string) \<Rightarrow> string" where
  "linksPath getenv = (let path = getenv ''CELERITY_RESOURCE_LINKS_PATH'' in if path \<noteq> '''' then path else ''__celerity_resource_links__.json'')"

definition LoadLinks :: "(byte list \<Rightarrow> gerr + jtree) \<Rightarrow> (string \<Rightarrow> gerr + byte list) \<Rightarrow> (string \<Rightarrow> string) \<Rightarrow> gerr + links" where
  "LoadLinks parse readFile getenv =
     (let path = linksPath getenv
      in case readFile path of
           Inr raw \<Rightarrow> parseLinks parse raw path
         | Inl err \<Rightarrow>
             (let inline = getenv ''CELERITY_RESOURCE_LINKS''
              in if inline \<noteq> '''' then parseLinks parse (bytes_of inline) ''CELERITY_RESOURCE_LINKS''
                 else Inl (Errorf (''celerity: no resource links at '' @ path @ '' and none in CELERITY_RESOURCE_LINKS: '' @ error_text err
                        @ '' (written by celerity build, and set by celerity dev)'') (Some err))))"

text \<open>\<open>beside\<close> names the scope file in the directory of a path.\<close>

definition LoadScope ::
    "(byte list \<Rightarrow> gerr + jtree) \<Rightarrow> (string \<Rightarrow> gerr + byte list) \<Rightarrow> (string \<Rightarrow> string) \<Rightarrow> (string \<Rightarrow> string) \<Rightarrow> string
       \<Rightarrow> (string, bool) gomap option" where
  "LoadScope parse readFile getenv beside handlerID =
     (if handlerID = '''' then None
      else case readFile (beside (linksPath getenv)) of
        Inl err \<Rightarrow> None
      | Inr raw \<Rightarrow>
          (case parse raw of
             Inr (TObj kvs) \<Rightarrow>
               (case sequence_sum (map (\<lambda>kv. case dec_slice (fst kv) (dec_string (fst kv)) (snd kv) of Inl e \<Rightarrow> Inl e | Inr xs \<Rightarrow> Inr (fst kv, slice xs)) kvs) of
                  Inl err \<Rightarrow> None
                | Inr pairs \<Rightarrow>
                    (case gm_get (fold (\<lambda>(k, xs) m. gm_put k xs m) pairs []) handlerID of
                       None \<Rightarrow> None
                     | Some names \<Rightarrow> Some (fold (\<lambda>name m. gm_put name True m) names [])))
           | _ \<Rightarrow> None))"

subsection \<open>The service\<close>

record service =
  sv_namespaces :: "(string, nat) gomap"
  sv_links :: links

definition ResourcesNamespace :: string where
  "ResourcesNamespace = ''resources''"

definition NewService :: service where
  "NewService = \<lparr>sv_namespaces = [], sv_links = []\<rparr>"

definition Register :: "string \<Rightarrow> nat \<Rightarrow> service \<Rightarrow> service" where
  "Register name ns svc = svc\<lparr>sv_namespaces := gm_put name ns (sv_namespaces svc)\<rparr>"

definition WithLinks :: "links \<Rightarrow> service \<Rightarrow> service" where
  "WithLinks l svc = svc\<lparr>sv_links := l\<rparr>"

definition registered :: "service \<Rightarrow> string list" where
  "registered svc = sorted_keys (sv_namespaces svc)"

definition sv_Namespace :: "string \<Rightarrow> service \<Rightarrow> gerr + nat" where
  "sv_Namespace name svc =
     (case gm_get (sv_namespaces svc) name of Some ns \<Rightarrow> Inr ns | None \<Rightarrow> Inl (MissingNamespaceError name (registered svc)))"

text \<open>\<^verbatim>\<open>only\<close>: the last namespace visited is kept, and used where it is the only one, so the order does not show.\<close>

definition only :: "service \<Rightarrow> gerr + nat" where
  "only svc =
     (let own = filter (\<lambda>(name, ns). name \<noteq> ResourcesNamespace) (sv_namespaces svc)
      in case own of
           [] \<Rightarrow> Inl (MissingNamespaceError '''' (registered svc))
         | [(name, ns)] \<Rightarrow> Inr ns
         | _ \<Rightarrow> Inl (AmbiguousNamespaceError (sort (map fst own))))"

text \<open>A read of the namespace at an address, which may change it.\<close>

definition on_namespace ::
    "('w namespace \<Rightarrow> 'w \<Rightarrow> 'r \<times> 'w namespace \<times> 'w) \<Rightarrow> nat \<Rightarrow> 'w namespace list \<Rightarrow> 'w \<Rightarrow> 'r \<times> 'w namespace list \<times> 'w" where
  "on_namespace f ns hs w = (case f (hs ! ns) w of (r, n, w') \<Rightarrow> (r, hs[ns := n], w'))"

definition sv_Lookup :: "'w process_io \<Rightarrow> service \<Rightarrow> string \<Rightarrow> 'w namespace list \<Rightarrow> 'w \<Rightarrow> (gerr + string option) \<times> 'w namespace list \<times> 'w" where
  "sv_Lookup io svc key hs w = (case only svc of Inl err \<Rightarrow> (Inl err, hs, w) | Inr ns \<Rightarrow> on_namespace (ns_Lookup io key) ns hs w)"

definition sv_Get :: "'w process_io \<Rightarrow> service \<Rightarrow> string \<Rightarrow> 'w namespace list \<Rightarrow> 'w \<Rightarrow> (gerr + string) \<times> 'w namespace list \<times> 'w" where
  "sv_Get io svc key hs w = (case only svc of Inl err \<Rightarrow> (Inl err, hs, w) | Inr ns \<Rightarrow> on_namespace (ns_Get io key) ns hs w)"

definition sv_All :: "'w process_io \<Rightarrow> service \<Rightarrow> 'w namespace list \<Rightarrow> 'w \<Rightarrow> (gerr + store_values) \<times> 'w namespace list \<times> 'w" where
  "sv_All io svc hs w = (case only svc of Inl err \<Rightarrow> (Inl err, hs, w) | Inr ns \<Rightarrow> on_namespace (ns_All io) ns hs w)"

definition sv_Bind ::
    "'w process_io \<Rightarrow> service \<Rightarrow> (store_values \<Rightarrow> 'o \<Rightarrow> gerr option \<times> 'o) \<Rightarrow> 'o \<Rightarrow> 'w namespace list \<Rightarrow> 'w
       \<Rightarrow> (gerr option \<times> 'o) \<times> 'w namespace list \<times> 'w" where
  "sv_Bind io svc bind out hs w =
     (case only svc of Inl err \<Rightarrow> ((Some err, out), hs, w) | Inr ns \<Rightarrow> on_namespace (ns_Bind io bind out) ns hs w)"

definition ResourceKey :: "service \<Rightarrow> string \<Rightarrow> string \<Rightarrow> gerr + string" where
  "ResourceKey svc kind name = (case links_Find (sv_links svc) kind name of Inl err \<Rightarrow> Inl err | Inr lk \<Rightarrow> Inr (lk_ConfigKey lk))"

definition Resource ::
    "'w process_io \<Rightarrow> service \<Rightarrow> string \<Rightarrow> string \<Rightarrow> 'w namespace list \<Rightarrow> 'w \<Rightarrow> (gerr + string) \<times> 'w namespace list \<times> 'w" where
  "Resource io svc kind name hs w =
     (case ResourceKey svc kind name of
        Inl err \<Rightarrow> (Inl err, hs, w)
      | Inr key \<Rightarrow>
          (case sv_Namespace ResourcesNamespace svc of
             Inl err \<Rightarrow> (Inl err, hs, w)
           | Inr ns \<Rightarrow> on_namespace (ns_Get io key) ns hs w))"

subsection \<open>Discovering the stores\<close>

definition environMap :: "string list \<Rightarrow> store_values" where
  "environMap environ = fold (\<lambda>entry vars. case str_cut ''='' entry of Some (name, v) \<Rightarrow> gm_put name v vars | None \<Rightarrow> vars) environ []"

definition var_of :: "store_values \<Rightarrow> string \<Rightarrow> string" where
  "var_of vars name = (case gm_get vars name of None \<Rightarrow> '''' | Some v \<Rightarrow> v)"

definition millisecond :: int where
  "millisecond = 1000000"

definition DefaultRefresh :: int where
  "DefaultRefresh = 30000 * millisecond"

definition refreshInterval :: "string list \<Rightarrow> int" where
  "refreshInterval environ =
     (case gm_get (environMap environ) ''CELERITY_CONFIG_REFRESH_INTERVAL_MS'' of
        None \<Rightarrow> DefaultRefresh
      | Some raw \<Rightarrow>
          (case ParseInt raw 64 of
             Inl err \<Rightarrow> 0
           | Inr ms \<Rightarrow> if ms \<le> 0 then 0 else wrap64 (ms * millisecond)))"

definition config_firstNonEmpty :: "string list \<Rightarrow> string" where
  "config_firstNonEmpty vs = (case List.find (\<lambda>v. v \<noteq> '''') vs of None \<Rightarrow> '''' | Some v \<Rightarrow> v)"

definition cut_suffix :: "string \<Rightarrow> string \<Rightarrow> string option" where
  "cut_suffix s p = (if length p \<le> length s \<and> drop (length s - length p) s = p then Some (take (length s - length p) s) else None)"

definition namedStoreKey :: "string \<Rightarrow> string option" where
  "namedStoreKey name =
     (case cut_prefix name ''CELERITY_CONFIG_'' of
        None \<Rightarrow> None
      | Some rest \<Rightarrow>
          (case cut_suffix rest ''_STORE_ID'' of
             None \<Rightarrow> None
           | Some key \<Rightarrow> if key = '''' then None else if key = ''STORE'' then None else Some key))"

record store_found =
  sf_name :: string
  sf_storeID :: string
  sf_kind :: string
  sf_prefix :: string

definition named_store :: "store_values \<Rightarrow> string \<Rightarrow> store_found option" where
  "named_store vars name =
     (case namedStoreKey name of
        None \<Rightarrow> None
      | Some key \<Rightarrow>
          if var_of vars name = '''' then None
          else Some \<lparr>sf_name = config_firstNonEmpty [var_of vars (''CELERITY_CONFIG_'' @ key @ ''_NAMESPACE''),
                        var_of vars (''CELERITY_CONFIG_'' @ key @ ''_STORE_PREFIX''), to_lower key],
                 sf_storeID = var_of vars name,
                 sf_kind = var_of vars (''CELERITY_CONFIG_'' @ key @ ''_STORE_KIND''),
                 sf_prefix = var_of vars (''CELERITY_CONFIG_'' @ key @ ''_STORE_PREFIX'')\<rparr>)"

text \<open>\<open>order\<close> is the order in which the variables are visited; \<^verbatim>\<open>sort.Slice\<close> leaves stores of one name in no particular
  order, and the order stands for that too.\<close>

definition discoverStores :: "string list \<Rightarrow> string list \<Rightarrow> store_found list" where
  "discoverStores order environ =
     (let vars = environMap environ;
          unnamed = (if var_of vars ''CELERITY_CONFIG_STORE_ID'' \<noteq> ''''
             then [\<lparr>sf_name = ''default'', sf_storeID = var_of vars ''CELERITY_CONFIG_STORE_ID'',
                    sf_kind = var_of vars ''CELERITY_CONFIG_STORE_KIND'', sf_prefix = ''''\<rparr>] else [])
      in sort_key sf_name (unnamed @ List.map_filter (named_store vars) order))"

definition namespace_for :: "int \<Rightarrow> 'w backend \<Rightarrow> store_found \<Rightarrow> 'w namespace" where
  "namespace_for refresh b s = NewNamespace b (sf_storeID s)
     ((if sf_prefix s \<noteq> '''' then [WithPrefix (sf_prefix s)] else [])
      @ (if refresh > 0 \<and> \<not> caches b then [WithRefresh refresh] else []))"

fun register_stores ::
    "'w config_provider list \<Rightarrow> string \<Rightarrow> int \<Rightarrow> store_found list \<Rightarrow> service \<Rightarrow> 'w namespace list \<Rightarrow> gerr + service \<times> 'w namespace list" where
  "register_stores providers platform refresh [] svc hs = Inr (svc, hs)"
| "register_stores providers platform refresh (s # ss) svc hs =
     (case backendFor providers platform (sf_kind s) of
        Inl err \<Rightarrow> Inl err
      | Inr b \<Rightarrow> register_stores providers platform refresh ss (Register (sf_name s) (length hs) svc) (hs @ [namespace_for refresh b s]))"

definition fromEnvironment ::
    "'w config_provider list \<Rightarrow> string list \<Rightarrow> string list \<Rightarrow> string \<Rightarrow> gerr + service \<times> 'w namespace list" where
  "fromEnvironment providers order environ platform =
     register_stores providers platform (refreshInterval environ) (discoverStores order environ) NewService []"

end
