(* ===== verification/Resources.thy ===== *)
theory Resources
  imports App Config Redis_Cache S3
begin

text \<open>
  How a handle is taken and what is behind it: references and what a deployment recorded for them (\<^verbatim>\<open>src/resources/ref.go\<close>), handles
  (\<^verbatim>\<open>handles.go\<close>) and the tracing put around every client (\<^verbatim>\<open>traced.go\<close>, \<^verbatim>\<open>traced_bucket.go\<close>, \<^verbatim>\<open>traced_datastore.go\<close>), what the AWS packages share
  (\<^verbatim>\<open>src/resources/aws/internal/service\<close>, \<^verbatim>\<open>src/resources/aws/provider.go\<close>) and the provider of a development session
  (\<^verbatim>\<open>src/resources/local\<close>). A \<^verbatim>\<open>sync.Once\<close> with what it built is an option that is set on the first use.
\<close>

subsection \<open>References\<close>

definition KindBucket :: string where "KindBucket = ''bucket''"
definition KindQueue :: string where "KindQueue = ''queue''"
definition KindTopic :: string where "KindTopic = ''topic''"
definition KindDatastore :: string where "KindDatastore = ''datastore''"
definition KindCache :: string where "KindCache = ''cache''"
definition KindSQLDatabase :: string where "KindSQLDatabase = ''sqlDatabase''"
definition DefaultName :: string where "DefaultName = ''default''"

record ref =
  rr_Kind :: string
  rr_Name :: string
  rr_Config :: "service option"

definition ref_String :: "ref \<Rightarrow> string" where
  "ref_String r = rr_Kind r @ '' '' @ go_quote (rr_Name r)"

definition unresolvable :: "ref \<Rightarrow> gerr" where
  "unresolvable r = Errorf (''celerity: '' @ ref_String r @ '' cannot be resolved because the application has no configuration, ''
     @ ''so nothing holds what the deployment called it'') None"

text \<open>What is resolved from: the namespaces of the service, and the world their stores are in.\<close>

type_synonym 'w known = "'w namespace list \<times> 'w"

definition ref_ID :: "'w process_io \<Rightarrow> ref \<Rightarrow> 'w known \<Rightarrow> (gerr + string) \<times> 'w known" where
  "ref_ID io r kn =
     (case rr_Config r of
        None \<Rightarrow> (Inl (unresolvable r), kn)
      | Some svc \<Rightarrow> (case kn of (hs, w) \<Rightarrow> Resource io svc (rr_Kind r) (rr_Name r) hs w))"

definition ref_Field :: "'w process_io \<Rightarrow> ref \<Rightarrow> string \<Rightarrow> 'w known \<Rightarrow> (gerr + string option) \<times> 'w known" where
  "ref_Field io r suffix kn =
     (case rr_Config r of
        None \<Rightarrow> (Inl (unresolvable r), kn)
      | Some svc \<Rightarrow>
          (case ResourceKey svc (rr_Kind r) (rr_Name r) of
             Inl err \<Rightarrow> (Inl err, kn)
           | Inr key \<Rightarrow>
               (case sv_Namespace ResourcesNamespace svc of
                  Inl err \<Rightarrow> (Inl err, kn)
                | Inr ns \<Rightarrow> (case kn of (hs, w) \<Rightarrow> on_namespace (ns_Lookup io (key @ suffix)) ns hs w))))"

definition FieldRegion :: string where "FieldRegion = ''_region''"

text \<open>\<^verbatim>\<open>RegionOf\<close>; \<^verbatim>\<open>KeyFor\<close> is the same in a structure of one field.\<close>

definition RegionOf :: "'w process_io \<Rightarrow> ref \<Rightarrow> 'w known \<Rightarrow> (gerr + string) \<times> 'w known" where
  "RegionOf io r kn =
     (case ref_Field io r FieldRegion kn of
        (found, kn) \<Rightarrow>
          (case Fields_Optional (\<lambda>suffix. found) FieldRegion '''' of
             (v, Some err) \<Rightarrow> (Inl err, kn)
           | (v, None) \<Rightarrow> (Inr v, kn)))"

subsection \<open>What the AWS packages share\<close>

definition Lazy_Get :: "('w \<Rightarrow> (gerr + 'a) \<times> 'w) \<Rightarrow> (gerr + 'a) option \<Rightarrow> 'w \<Rightarrow> (gerr + 'a) \<times> (gerr + 'a) option \<times> 'w" where
  "Lazy_Get build l w = (case l of Some r \<Rightarrow> (r, l, w) | None \<Rightarrow> (case build w of (r, w) \<Rightarrow> (r, Some r, w)))"

type_synonym 'api clients = "(string, gerr + 'api) gomap"

definition Clients_Get :: "string \<Rightarrow> ('w \<Rightarrow> (gerr + 'api) \<times> 'w) \<Rightarrow> 'api clients \<Rightarrow> 'w \<Rightarrow> (gerr + 'api) \<times> 'api clients \<times> 'w" where
  "Clients_Get key build built w =
     (case gm_get built key of
        Some r \<Rightarrow> (r, built, w)
      | None \<Rightarrow> (case build w of (r, w) \<Rightarrow> (r, gm_put key r built, w)))"

record aws_config =
  ac_Region :: string
  ac_APIOptions :: "string list"

definition Session_Config :: "('w \<Rightarrow> (gerr + aws_config) \<times> 'w) \<Rightarrow> (gerr + aws_config) option \<Rightarrow> 'w
    \<Rightarrow> (gerr + aws_config) \<times> (gerr + aws_config) option \<times> 'w" where
  "Session_Config loaded s w =
     (case Lazy_Get (\<lambda>w. case loaded w of
              (Inl err, w) \<Rightarrow> (Inl err, w)
            | (Inr cfg, w) \<Rightarrow> (Inr (cfg\<lparr>ac_APIOptions := ac_APIOptions cfg @ [''CelerityTracing'']\<rparr>), w)) s w of
        (Inl err, s, w) \<Rightarrow> (Inl (Errorf (''celerity: loading AWS configuration to reach a resource: '' @ error_text err) (Some err)), s, w)
      | (Inr cfg, s, w) \<Rightarrow> (Inr cfg, s, w))"

definition ConfigFor :: "('w \<Rightarrow> (gerr + aws_config) \<times> 'w) \<Rightarrow> string \<Rightarrow> (gerr + aws_config) option \<Rightarrow> 'w
    \<Rightarrow> (gerr + aws_config) \<times> (gerr + aws_config) option \<times> 'w" where
  "ConfigFor loaded region s w =
     (case Session_Config loaded s w of
        (Inl err, s, w) \<Rightarrow> (Inl err, s, w)
      | (Inr cfg, s, w) \<Rightarrow> (Inr (if region = '''' \<or> region = ac_Region cfg then cfg else cfg\<lparr>ac_Region := region\<rparr>), s, w))"

text \<open>The clients of one package: one a test stood in, or one per region built from the session's configuration.\<close>

record ('api, 'w) package =
  pk_api :: "'api option"
  pk_load :: "'w \<Rightarrow> (gerr + aws_config) \<times> 'w"
  pk_NewFromConfig :: "aws_config \<Rightarrow> 'api"

record 'api package_held =
  hd_session :: "(gerr + aws_config) option"
  hd_clients :: "'api clients"

definition package_client :: "('api, 'w) package \<Rightarrow> string \<Rightarrow> 'api package_held \<times> 'w \<Rightarrow> (gerr + 'api) \<times> 'api package_held \<times> 'w" where
  "package_client pk region st =
     (case pk_api pk of
        Some api \<Rightarrow> (Inr api, st)
      | None \<Rightarrow>
          (case st of (h, w) \<Rightarrow>
             (case Clients_Get region (\<lambda>(s, w). case ConfigFor (pk_load pk) region s w of
                     (Inl err, s, w) \<Rightarrow> (Inl err, s, w)
                   | (Inr cfg, s, w) \<Rightarrow> (Inr (pk_NewFromConfig pk cfg), s, w)) (hd_clients h) (hd_session h, w) of
                (r, built, s, w) \<Rightarrow> (r, \<lparr>hd_session = s, hd_clients = built\<rparr>, w))))"

definition SecretString :: "(string \<Rightarrow> 'w \<Rightarrow> (gerr + string option) \<times> 'w) \<Rightarrow> string \<Rightarrow> 'w \<Rightarrow> (gerr + string) \<times> 'w" where
  "SecretString secret ident w =
     (case secret ident w of
        (Inl err, w) \<Rightarrow> (Inl err, w)
      | (Inr None, w) \<Rightarrow> (Inl (Errorf ''the secret holds no string value'' None), w)
      | (Inr (Some v), w) \<Rightarrow> (Inr v, w))"

text \<open>\<open>secret\<close> is \<^verbatim>\<open>GetSecretValue\<close> of a client that can be had.\<close>

definition Secret :: "(string \<Rightarrow> 'w \<Rightarrow> (gerr + string option) \<times> 'w) \<Rightarrow> field_reader \<Rightarrow> string \<Rightarrow> string \<Rightarrow> string \<Rightarrow> 'w
    \<Rightarrow> (gerr + string option) \<times> 'w" where
  "Secret secret field ref literalSuffix refSuffix w =
     (case Fields_Optional field literalSuffix '''' of
        (_, Some err) \<Rightarrow> (Inl err, w)
      | (literal, None) \<Rightarrow>
          if literal \<noteq> '''' then (Inr (Some literal), w)
          else (case Fields_Optional field refSuffix '''' of
             (_, Some err) \<Rightarrow> (Inl err, w)
           | (ident, None) \<Rightarrow>
               if ident = '''' then (Inr None, w)
               else (case SecretString secret ident w of
                  (Inl err, w) \<Rightarrow>
                    (Inl (Errorf (''celerity: reading the credential for '' @ ref @ '' from the secret '' @ go_quote ident @ '': '' @ error_text err) (Some err)), w)
                | (Inr v, w) \<Rightarrow> (Inr (Some v), w))))"

text \<open>\<open>parse\<close> reads JSON; a JSON \<^verbatim>\<open>null\<close> is a map of nothing.\<close>

definition PasswordIn :: "(string \<Rightarrow> gerr + jtree) \<Rightarrow> string \<Rightarrow> string \<Rightarrow> gerr + string" where
  "PasswordIn parse raw ref =
     (let none = Inl (Errorf (''celerity: the secret holding the password for '' @ ref @ '' is an object with no password field'') None)
      in case parse raw of
           Inr (TObj kvs) \<Rightarrow> (case gm_get (rev kvs) ''password'' of Some (TStr p) \<Rightarrow> if p = '''' then none else Inr p | _ \<Rightarrow> none)
         | Inr TNull \<Rightarrow> none
         | _ \<Rightarrow> Inr raw)"

definition builderFor :: "('s \<Rightarrow> 'b) option \<Rightarrow> 's \<Rightarrow> string \<Rightarrow> string \<Rightarrow> gerr + 'b" where
  "builderFor f s kind pkg =
     (case f of
        None \<Rightarrow> Inl (Errorf (''celerity: this build reaches a '' @ kind @ '' resource and does not link the package that ''
          @ ''serves one: import _ '' @ [CHR 0x22] @ ''github.com/newstack-cloud/celerity-go-sdk/resources/aws/'' @ pkg @ [CHR 0x22] @ '', ''
          @ ''which celerity-go generate writes from the blueprint'') None)
      | Some factory \<Rightarrow> Inr (factory s))"

definition service_Release :: "('w \<Rightarrow> gerr option \<times> 'w) list \<Rightarrow> 'w \<Rightarrow> gerr option \<times> 'w" where
  "service_Release releasers w = (let (errs, w') = release_all releasers w in (join_errors errs, w'))"

text \<open>\<^verbatim>\<open>build\<close> of the provider: the builder is found once, for each kind.\<close>

definition aws_build :: "('s \<Rightarrow> gerr + (ref \<Rightarrow> gerr + 'h)) \<Rightarrow> 's \<Rightarrow> ref \<Rightarrow> (gerr + (ref \<Rightarrow> gerr + 'h)) option
    \<Rightarrow> (gerr + 'h) \<times> (gerr + (ref \<Rightarrow> gerr + 'h)) option" where
  "aws_build find_builder s r once =
     (case Lazy_Get (\<lambda>u. (find_builder s, u)) once () of
        (Inl err, once, u) \<Rightarrow> (Inl err, once)
      | (Inr builder, once, u) \<Rightarrow> (builder r, once))"

subsection \<open>Handles\<close>

text \<open>A provider, with what it builds for each kind, and the host's own part in taking a handle. \<open>detected\<close> is the linked provider
  \<^verbatim>\<open>DetectedProvider\<close> finds.\<close>

type_synonym 'h builder = "string \<Rightarrow> ref \<Rightarrow> gerr + 'h"

definition providerFor :: "'h builder option \<Rightarrow> 'h builder option \<Rightarrow> 'h builder option" where
  "providerFor explicit detected = (case explicit of Some p \<Rightarrow> Some p | None \<Rightarrow> detected)"

definition resolve_handle ::
    "string \<Rightarrow> string list \<Rightarrow> 'h builder option \<Rightarrow> 'h builder option \<Rightarrow> string list \<Rightarrow> bool \<Rightarrow> ('h builder \<Rightarrow> ref \<Rightarrow> gerr + 'h) \<Rightarrow> service option
       \<Rightarrow> ('s, 'c) app \<Rightarrow> 'h option \<times> ('s, 'c) app" where
  "resolve_handle kind name explicit detected linked extracting build svc host =
     (let resolved = (case name of n # _ \<Rightarrow> if n \<noteq> '''' then n else DefaultName | [] \<Rightarrow> DefaultName);
          host = RecordResourceRef kind resolved host
      in case providerFor explicit detected of
           None \<Rightarrow> (None, if \<not> extracting then ResourceError (MissingProviderError kind resolved linked) host else host)
         | Some p \<Rightarrow>
             (let r = \<lparr>rr_Kind = kind, rr_Name = resolved, rr_Config = svc\<rparr>
              in case build p r of
                   Inl err \<Rightarrow> (None, ResourceError (Errorf (''building '' @ ref_String r @ '': '' @ error_text err) (Some err)) host)
                 | Inr client \<Rightarrow> (Some client, host)))"

text \<open>\<^verbatim>\<open>Bucket\<close>, \<^verbatim>\<open>Queue\<close> and the others: the client a provider builds for the kind, inside the tracing of that kind.\<close>

definition handle_of ::
    "(ref \<Rightarrow> 'h \<Rightarrow> 'h) \<Rightarrow> string \<Rightarrow> string list \<Rightarrow> 'h builder option \<Rightarrow> 'h builder option \<Rightarrow> string list \<Rightarrow> bool \<Rightarrow> service option \<Rightarrow> ('s, 'c) app
       \<Rightarrow> 'h option \<times> ('s, 'c) app" where
  "handle_of around kind name explicit detected linked extracting svc host =
     resolve_handle kind name explicit detected linked extracting
       (\<lambda>p r. case p kind r of Inl err \<Rightarrow> Inl err | Inr client \<Rightarrow> Inr (around r client)) svc host"

text \<open>A bucket store, by its dynamic type: one of the S3 package, another of some type, or one inside the tracing. What a copy
  sees of the store of its destination.\<close>

datatype 'w store_value = S3Store "'w s3_bucket" | OtherStoreOf string | TracedStore ref "'w store_value"

definition destination_of :: "'w store_value option \<Rightarrow> 'w s3_dest" where
  "destination_of s =
     (case s of
        None \<Rightarrow> HereStore
      | Some (S3Store b) \<Rightarrow> BucketStore (sb_resolver b)
      | Some (OtherStoreOf name) \<Rightarrow> ForeignStore name
      | Some (TracedStore r inner) \<Rightarrow> ForeignStore ''resources.tracedBucket'')"

definition Bucket_handle ::
    "string list \<Rightarrow> 'w store_value builder option \<Rightarrow> 'w store_value builder option \<Rightarrow> string list \<Rightarrow> bool \<Rightarrow> service option \<Rightarrow> ('s, 'c) app
       \<Rightarrow> 'w store_value option \<times> ('s, 'c) app" where
  "Bucket_handle = handle_of TracedStore KindBucket"

subsection \<open>A development session\<close>

definition backend_missing :: "string \<Rightarrow> gerr" where
  "backend_missing kind = Errorf (''celerity: a development session has no backend linked for a '' @ kind @ ''. The generated ''
     @ ''platform file should import one, for example:'' @ newline @ newline
     @ tab @ ''import _ '' @ [CHR 0x22] @ ''github.com/newstack-cloud/celerity-go-sdk/resources/local/redis'' @ [CHR 0x22]) None"

definition backend_builder :: "string \<Rightarrow> (ref \<Rightarrow> gerr + 'h) option \<Rightarrow> gerr + (ref \<Rightarrow> gerr + 'h)" where
  "backend_builder kind slot = (case slot of None \<Rightarrow> Inl (backend_missing kind) | Some b \<Rightarrow> Inr b)"

definition delegate :: "'h builder option \<Rightarrow> string \<Rightarrow> ref \<Rightarrow> gerr + 'h" where
  "delegate fallback kind r =
     (case fallback of
        None \<Rightarrow> Inl (Errorf (''celerity: a development session serves a queue and a topic itself and leaves '' @ ref_String r
          @ '' to the platform's provider, but none is linked. The generated platform ''
          @ ''file should import one alongside this package'') None)
      | Some platform \<Rightarrow> platform kind r)"

text \<open>The local provider: \<open>queues\<close> and \<open>topics\<close> are what the backends registered, \<open>fallback\<close> is the provider the other kinds go to.\<close>

definition local_provider :: "(ref \<Rightarrow> gerr + 'h) option \<Rightarrow> (ref \<Rightarrow> gerr + 'h) option \<Rightarrow> 'h builder option \<Rightarrow> 'h builder" where
  "local_provider queues topics fallback kind r =
     (if kind = KindQueue then (case backend_builder KindQueue queues of Inl err \<Rightarrow> Inl err | Inr build \<Rightarrow> build r)
      else if kind = KindTopic then (case backend_builder KindTopic topics of Inl err \<Rightarrow> Inl err | Inr build \<Rightarrow> build r)
      else delegate fallback kind r)"

end
