(* ===== verification/Tracing.thy ===== *)
theory Tracing
  imports Resources Messaging Datastore
begin

text \<open>
  The tracing every handle has around the client a provider built: \<^verbatim>\<open>src/resources/traced.go\<close>, \<^verbatim>\<open>traced_bucket.go\<close>,
  \<^verbatim>\<open>traced_datastore.go\<close> and \<^verbatim>\<open>traced_cache.go\<close>, over \<^verbatim>\<open>Traced\<close> and \<^verbatim>\<open>TracedCall\<close> of \<^verbatim>\<open>src/telemetry\<close>. An operation of the
  client inside is an argument, as it is given its own arguments; \<open>setting\<close> is \<^verbatim>\<open>SetAttributes\<close> of a span. What an operation answers
  beside its first result, which the source keeps aside in a variable of its own, is a pair here.
\<close>

type_synonym 's set_attrs = "'s span \<Rightarrow> Dispatch.attr list \<Rightarrow> 's \<Rightarrow> 's"

definition resourceAttrs :: "ref \<Rightarrow> string \<Rightarrow> Dispatch.attr list \<Rightarrow> Dispatch.attr list" where
  "resourceAttrs r kind extra = (kind @ ''.resource'', JStr (rr_Name r)) # extra"

definition TracedCall ::
    "'s tracer option \<Rightarrow> ctx \<Rightarrow> string \<Rightarrow> Dispatch.attr list \<Rightarrow> (ctx \<Rightarrow> 's span \<Rightarrow> ('s, gerr option) action) \<Rightarrow> ('s, gerr option) action" where
  "TracedCall installed ctx name attrs fn =
     and_then (Traced installed ctx name attrs (\<lambda>ctx sp. and_then (fn ctx sp) (\<lambda>err. returns ((), err))))
       (\<lambda>(_, err). returns err)"

text \<open>A result with attributes set on the span once it is known.\<close>

definition noting :: "'s set_attrs \<Rightarrow> 's span \<Rightarrow> ('a \<Rightarrow> Dispatch.attr list) \<Rightarrow> ('s, 'a \<times> gerr option) action \<Rightarrow> ('s, 'a \<times> gerr option) action" where
  "noting setting sp attrs call = and_then call (\<lambda>(result, err) s. (Done (result, err), setting sp (attrs result) s))"

subsection \<open>Queues and topics\<close>

definition tracedQueue_Send ::
    "'s tracer option \<Rightarrow> ref \<Rightarrow> (ctx \<Rightarrow> byte list \<Rightarrow> 'o \<Rightarrow> ('s, string \<times> gerr option) action)
       \<Rightarrow> ctx \<Rightarrow> byte list \<Rightarrow> 'o \<Rightarrow> ('s, string \<times> gerr option) action" where
  "tracedQueue_Send installed r inner ctx body opts =
     Traced installed ctx ''celerity.queue.send_message'' (resourceAttrs r ''queue'' [(''queue.body_size'', JInt (int (length body)))])
       (\<lambda>ctx sp. inner ctx body opts)"

definition sendCounts :: "string \<Rightarrow> send_result \<Rightarrow> Dispatch.attr list" where
  "sendCounts kind result =
     [(kind @ ''.successful_count'', JInt (int (length (sr_Successful result)))), (kind @ ''.failed_count'', JInt (int (length (sr_Failed result)))),
      (kind @ ''.unsent_count'', JInt (int (length (sr_Unsent result))))]"

definition tracedQueue_SendBatch ::
    "'s tracer option \<Rightarrow> 's set_attrs \<Rightarrow> ref \<Rightarrow> (ctx \<Rightarrow> 'o batch_entry list \<Rightarrow> ('s, send_result \<times> gerr option) action)
       \<Rightarrow> ctx \<Rightarrow> 'o batch_entry list \<Rightarrow> ('s, send_result \<times> gerr option) action" where
  "tracedQueue_SendBatch installed setting r inner ctx entries =
     Traced installed ctx ''celerity.queue.send_message_batch''
       (resourceAttrs r ''queue'' [(''queue.message_count'', JInt (int (length entries)))])
       (\<lambda>ctx sp. noting setting sp (sendCounts ''queue'') (inner ctx entries))"

definition tracedTopic_Publish ::
    "'s tracer option \<Rightarrow> ref \<Rightarrow> (ctx \<Rightarrow> byte list \<Rightarrow> 'o \<Rightarrow> ('s, string \<times> gerr option) action)
       \<Rightarrow> ctx \<Rightarrow> byte list \<Rightarrow> 'o \<Rightarrow> ('s, string \<times> gerr option) action" where
  "tracedTopic_Publish installed r inner ctx body opts =
     Traced installed ctx ''celerity.topic.publish'' (resourceAttrs r ''topic'' [(''topic.body_size'', JInt (int (length body)))])
       (\<lambda>ctx sp. inner ctx body opts)"

definition tracedTopic_PublishBatch ::
    "'s tracer option \<Rightarrow> 's set_attrs \<Rightarrow> ref \<Rightarrow> (ctx \<Rightarrow> 'o batch_entry list \<Rightarrow> ('s, send_result \<times> gerr option) action)
       \<Rightarrow> ctx \<Rightarrow> 'o batch_entry list \<Rightarrow> ('s, send_result \<times> gerr option) action" where
  "tracedTopic_PublishBatch installed setting r inner ctx entries =
     Traced installed ctx ''celerity.topic.publish_batch''
       (resourceAttrs r ''topic'' [(''topic.message_count'', JInt (int (length entries)))])
       (\<lambda>ctx sp. noting setting sp (sendCounts ''topic'') (inner ctx entries))"

text \<open>\<open>take\<close> is \<^verbatim>\<open>Writer\<close> or \<^verbatim>\<open>Reader\<close> of the database inside.\<close>

definition tracedDatabase_Writer ::
    "'s tracer option \<Rightarrow> ref \<Rightarrow> (ctx \<Rightarrow> ('s, 'c \<times> gerr option) action) \<Rightarrow> ctx \<Rightarrow> ('s, 'c \<times> gerr option) action" where
  "tracedDatabase_Writer installed r taken ctx =
     Traced installed ctx ''celerity.sql_database.writer'' (resourceAttrs r ''db'' []) (\<lambda>ctx sp. taken ctx)"

definition tracedDatabase_Reader ::
    "'s tracer option \<Rightarrow> ref \<Rightarrow> (ctx \<Rightarrow> ('s, 'c \<times> gerr option) action) \<Rightarrow> ctx \<Rightarrow> ('s, 'c \<times> gerr option) action" where
  "tracedDatabase_Reader installed r taken ctx =
     Traced installed ctx ''celerity.sql_database.reader'' (resourceAttrs r ''db'' []) (\<lambda>ctx sp. taken ctx)"

subsection \<open>Buckets\<close>

definition bucketAttrs :: "ref \<Rightarrow> string \<Rightarrow> string \<Rightarrow> Dispatch.attr list" where
  "bucketAttrs r name v = resourceAttrs r ''bucket'' [(''bucket.'' @ name, JStr v)]"

definition tracedBucket_Get ::
    "'s tracer option \<Rightarrow> 's set_attrs \<Rightarrow> ref \<Rightarrow> (ctx \<Rightarrow> string \<Rightarrow> 'o \<Rightarrow> ('s, object option \<times> gerr option) action)
       \<Rightarrow> ctx \<Rightarrow> string \<Rightarrow> 'o \<Rightarrow> ('s, object option \<times> gerr option) action" where
  "tracedBucket_Get installed setting r inner ctx key opts =
     Traced installed ctx ''celerity.bucket.get'' (bucketAttrs r ''key'' key)
       (\<lambda>ctx sp. and_then (inner ctx key opts) (\<lambda>(object, err) s.
          (Done (object, err), (case object of None \<Rightarrow> s | Some ob \<Rightarrow> setting sp [(''bucket.content_length'', JInt (ob_ContentLength ob))] s))))"

definition tracedBucket_Put ::
    "'s tracer option \<Rightarrow> ref \<Rightarrow> (ctx \<Rightarrow> string \<Rightarrow> 'b \<Rightarrow> 'o \<Rightarrow> ('s, put_result \<times> gerr option) action)
       \<Rightarrow> ctx \<Rightarrow> string \<Rightarrow> 'b \<Rightarrow> 'o \<Rightarrow> ('s, put_result \<times> gerr option) action" where
  "tracedBucket_Put installed r inner ctx key body opts =
     Traced installed ctx ''celerity.bucket.put'' (bucketAttrs r ''key'' key) (\<lambda>ctx sp. inner ctx key body opts)"

definition tracedBucket_Delete ::
    "'s tracer option \<Rightarrow> ref \<Rightarrow> (ctx \<Rightarrow> string \<Rightarrow> 'o \<Rightarrow> ('s, gerr option) action) \<Rightarrow> ctx \<Rightarrow> string \<Rightarrow> 'o \<Rightarrow> ('s, gerr option) action" where
  "tracedBucket_Delete installed r inner ctx key opts =
     TracedCall installed ctx ''celerity.bucket.delete'' (bucketAttrs r ''key'' key) (\<lambda>ctx sp. inner ctx key opts)"

definition tracedBucket_DeleteMany ::
    "'s tracer option \<Rightarrow> 's set_attrs \<Rightarrow> ref \<Rightarrow> (ctx \<Rightarrow> object_ref list \<Rightarrow> ('s, delete_many_result \<times> gerr option) action)
       \<Rightarrow> ctx \<Rightarrow> object_ref list \<Rightarrow> ('s, delete_many_result \<times> gerr option) action" where
  "tracedBucket_DeleteMany installed setting r inner ctx refs =
     Traced installed ctx ''celerity.bucket.delete_many'' (resourceAttrs r ''bucket'' [(''bucket.object_count'', JInt (int (length refs)))])
       (\<lambda>ctx sp. noting setting sp (\<lambda>result.
            [(''bucket.deleted_count'', JInt (int (length (dm_Deleted result)))), (''bucket.failed_count'', JInt (int (length (dm_Failed result)))),
             (''bucket.unsent_count'', JInt (int (length (dm_Unsent result))))]) (inner ctx refs))"

definition tracedBucket_Info ::
    "'s tracer option \<Rightarrow> ref \<Rightarrow> (ctx \<Rightarrow> string \<Rightarrow> 'o \<Rightarrow> ('s, object_info \<times> gerr option) action)
       \<Rightarrow> ctx \<Rightarrow> string \<Rightarrow> 'o \<Rightarrow> ('s, object_info \<times> gerr option) action" where
  "tracedBucket_Info installed r inner ctx key opts =
     Traced installed ctx ''celerity.bucket.info'' (bucketAttrs r ''key'' key) (\<lambda>ctx sp. inner ctx key opts)"

definition tracedBucket_Exists ::
    "'s tracer option \<Rightarrow> 's set_attrs \<Rightarrow> ref \<Rightarrow> (ctx \<Rightarrow> string \<Rightarrow> 'o \<Rightarrow> ('s, bool \<times> gerr option) action)
       \<Rightarrow> ctx \<Rightarrow> string \<Rightarrow> 'o \<Rightarrow> ('s, bool \<times> gerr option) action" where
  "tracedBucket_Exists installed setting r inner ctx key opts =
     Traced installed ctx ''celerity.bucket.exists'' (bucketAttrs r ''key'' key)
       (\<lambda>ctx sp. noting setting sp (\<lambda>found. [(''bucket.exists'', JBool found)]) (inner ctx key opts))"

definition tracedBucket_List ::
    "'s tracer option \<Rightarrow> 's set_attrs \<Rightarrow> ref \<Rightarrow> (ctx \<Rightarrow> string \<Rightarrow> 'o \<Rightarrow> ('s, (object_info list \<times> string) \<times> gerr option) action)
       \<Rightarrow> ctx \<Rightarrow> string \<Rightarrow> 'o \<Rightarrow> ('s, (object_info list \<times> string) \<times> gerr option) action" where
  "tracedBucket_List installed setting r inner ctx prefix opts =
     Traced installed ctx ''celerity.bucket.list_page'' (bucketAttrs r ''prefix'' prefix)
       (\<lambda>ctx sp. noting setting sp (\<lambda>(page, next).
            [(''bucket.object_count'', JInt (int (length page))), (''bucket.has_more'', JBool (Bucket.cursor_More next))]) (inner ctx prefix opts))"

definition tracedBucket_Versions ::
    "'s tracer option \<Rightarrow> 's set_attrs \<Rightarrow> ref \<Rightarrow> (ctx \<Rightarrow> string \<Rightarrow> 'o \<Rightarrow> ('s, (object_version list \<times> string) \<times> gerr option) action)
       \<Rightarrow> ctx \<Rightarrow> string \<Rightarrow> 'o \<Rightarrow> ('s, (object_version list \<times> string) \<times> gerr option) action" where
  "tracedBucket_Versions installed setting r inner ctx prefix opts =
     Traced installed ctx ''celerity.bucket.list_versions'' (bucketAttrs r ''prefix'' prefix)
       (\<lambda>ctx sp. noting setting sp (\<lambda>(page, next).
            [(''bucket.version_count'', JInt (int (length page))), (''bucket.has_more'', JBool (Bucket.cursor_More next))]) (inner ctx prefix opts))"

definition tracedBucket_Copy ::
    "'s tracer option \<Rightarrow> ref \<Rightarrow> (ctx \<Rightarrow> string \<Rightarrow> string \<Rightarrow> 'st option \<Rightarrow> 'o \<Rightarrow> ('s, copy_result \<times> gerr option) action)
       \<Rightarrow> ctx \<Rightarrow> string \<Rightarrow> string \<Rightarrow> 'st option \<Rightarrow> 'o \<Rightarrow> ('s, copy_result \<times> gerr option) action" where
  "tracedBucket_Copy installed r inner ctx sourceKey destKey destStore opts =
     Traced installed ctx ''celerity.bucket.copy''
       (resourceAttrs r ''bucket'' [(''bucket.source_key'', JStr sourceKey), (''bucket.dest_key'', JStr destKey),
          (''bucket.cross_bucket'', JBool (destStore \<noteq> None))])
       (\<lambda>ctx sp. inner ctx sourceKey destKey destStore opts)"

definition tracedBucket_SignedURL ::
    "'s tracer option \<Rightarrow> ref \<Rightarrow> (ctx \<Rightarrow> string \<Rightarrow> string \<Rightarrow> int \<Rightarrow> 'o \<Rightarrow> ('s, signed_url \<times> gerr option) action)
       \<Rightarrow> ctx \<Rightarrow> string \<Rightarrow> string \<Rightarrow> int \<Rightarrow> 'o \<Rightarrow> ('s, signed_url \<times> gerr option) action" where
  "tracedBucket_SignedURL installed r inner ctx key action expiry opts =
     Traced installed ctx ''celerity.bucket.sign_url''
       (resourceAttrs r ''bucket'' [(''bucket.key'', JStr key), (''bucket.sign_operation'', JStr action)])
       (\<lambda>ctx sp. inner ctx key action expiry opts)"

subsection \<open>Data stores\<close>

definition keyAttrs :: "ref \<Rightarrow> key \<Rightarrow> Dispatch.attr list" where
  "keyAttrs r k = resourceAttrs r ''datastore'' [(''datastore.partition'', JStr (k_Partition k)), (''datastore.sorted'', JBool (k_Sort k \<noteq> ''''))]"

definition conditionAttrs :: "ref \<Rightarrow> key \<Rightarrow> ('f write_options \<Rightarrow> 'f write_options) list \<Rightarrow> Dispatch.attr list" where
  "conditionAttrs r k opts =
     (let options = ResolveWriteOptions opts
      in keyAttrs r k @ [(''datastore.conditional'', JBool (wo_Condition options \<noteq> None \<or> wo_Revision options \<noteq> None))])"

definition tracedDatastore_Get ::
    "'s tracer option \<Rightarrow> ref \<Rightarrow> (ctx \<Rightarrow> key \<Rightarrow> 'd \<Rightarrow> ('s, revision \<times> gerr option) action) \<Rightarrow> ctx \<Rightarrow> key \<Rightarrow> 'd \<Rightarrow> ('s, revision \<times> gerr option) action" where
  "tracedDatastore_Get installed r inner ctx k out =
     Traced installed ctx ''celerity.datastore.get_item'' (keyAttrs r k) (\<lambda>ctx sp. inner ctx k out)"

definition tracedDatastore_Put ::
    "'s tracer option \<Rightarrow> ref \<Rightarrow> (ctx \<Rightarrow> key \<Rightarrow> 'i \<Rightarrow> ('f write_options \<Rightarrow> 'f write_options) list \<Rightarrow> ('s, revision \<times> gerr option) action)
       \<Rightarrow> ctx \<Rightarrow> key \<Rightarrow> 'i \<Rightarrow> ('f write_options \<Rightarrow> 'f write_options) list \<Rightarrow> ('s, revision \<times> gerr option) action" where
  "tracedDatastore_Put installed r inner ctx k i opts =
     Traced installed ctx ''celerity.datastore.put_item'' (conditionAttrs r k opts) (\<lambda>ctx sp. inner ctx k i opts)"

definition tracedDatastore_Delete ::
    "'s tracer option \<Rightarrow> ref \<Rightarrow> (ctx \<Rightarrow> key \<Rightarrow> ('f write_options \<Rightarrow> 'f write_options) list \<Rightarrow> ('s, gerr option) action)
       \<Rightarrow> ctx \<Rightarrow> key \<Rightarrow> ('f write_options \<Rightarrow> 'f write_options) list \<Rightarrow> ('s, gerr option) action" where
  "tracedDatastore_Delete installed r inner ctx k opts =
     TracedCall installed ctx ''celerity.datastore.delete_item'' (conditionAttrs r k opts) (\<lambda>ctx sp. inner ctx k opts)"

definition tracedDatastore_Query ::
    "'s tracer option \<Rightarrow> 's set_attrs \<Rightarrow> ref \<Rightarrow> (ctx \<Rightarrow> 'f query \<Rightarrow> 'd \<Rightarrow> ('s, string \<times> gerr option) action)
       \<Rightarrow> ctx \<Rightarrow> 'f query \<Rightarrow> 'd \<Rightarrow> ('s, string \<times> gerr option) action" where
  "tracedDatastore_Query installed setting r inner ctx q out =
     Traced installed ctx ''celerity.datastore.query_page''
       (resourceAttrs r ''datastore'' [(''datastore.partition'', JStr (q_Partition q)), (''datastore.index'', JStr (q_Index q)),
          (''datastore.sort_condition'', JBool (q_Sort q \<noteq> None)), (''datastore.filtered'', JBool (q_Filter q \<noteq> None))])
       (\<lambda>ctx sp. noting setting sp (\<lambda>cursor. [(''datastore.has_more'', JBool (Datastore.cursor_More cursor))]) (inner ctx q out))"

definition tracedDatastore_Scan ::
    "'s tracer option \<Rightarrow> 's set_attrs \<Rightarrow> ref \<Rightarrow> (ctx \<Rightarrow> 'f scan \<Rightarrow> 'd \<Rightarrow> ('s, string \<times> gerr option) action)
       \<Rightarrow> ctx \<Rightarrow> 'f scan \<Rightarrow> 'd \<Rightarrow> ('s, string \<times> gerr option) action" where
  "tracedDatastore_Scan installed setting r inner ctx s out =
     Traced installed ctx ''celerity.datastore.scan_page'' (resourceAttrs r ''datastore'' [(''datastore.filtered'', JBool (s_Filter s \<noteq> None))])
       (\<lambda>ctx sp. noting setting sp (\<lambda>cursor. [(''datastore.has_more'', JBool (Datastore.cursor_More cursor))]) (inner ctx s out))"

definition tracedDatastore_BatchGet ::
    "'s tracer option \<Rightarrow> 's set_attrs \<Rightarrow> ref \<Rightarrow> (ctx \<Rightarrow> key list \<Rightarrow> 'd \<Rightarrow> ('s, key list \<times> gerr option) action)
       \<Rightarrow> ctx \<Rightarrow> key list \<Rightarrow> 'd \<Rightarrow> ('s, key list \<times> gerr option) action" where
  "tracedDatastore_BatchGet installed setting r inner ctx ks out =
     Traced installed ctx ''celerity.datastore.batch_get_items'' (resourceAttrs r ''datastore'' [(''datastore.batch_size'', JInt (int (length ks)))])
       (\<lambda>ctx sp. noting setting sp (\<lambda>missing. [(''datastore.missing_count'', JInt (int (length missing)))]) (inner ctx ks out))"

definition tracedDatastore_Update ::
    "'s tracer option \<Rightarrow> ref
       \<Rightarrow> (ctx \<Rightarrow> key \<Rightarrow> 'f update_spec list \<Rightarrow> ('f write_options \<Rightarrow> 'f write_options) list \<Rightarrow> ('s, revision \<times> gerr option) action)
       \<Rightarrow> ctx \<Rightarrow> key \<Rightarrow> 'f update_spec list \<Rightarrow> ('f write_options \<Rightarrow> 'f write_options) list \<Rightarrow> ('s, revision \<times> gerr option) action" where
  "tracedDatastore_Update installed r inner ctx k updates opts =
     Traced installed ctx ''celerity.datastore.update_item''
       (conditionAttrs r k opts @ [(''datastore.update_count'', JInt (int (length updates)))]) (\<lambda>ctx sp. inner ctx k updates opts)"

definition tracedDatastore_BatchWrite ::
    "'s tracer option \<Rightarrow> 's set_attrs \<Rightarrow> ref \<Rightarrow> (ctx \<Rightarrow> batch_op list \<Rightarrow> ('s, batch_op list \<times> gerr option) action)
       \<Rightarrow> ctx \<Rightarrow> batch_op list \<Rightarrow> ('s, batch_op list \<times> gerr option) action" where
  "tracedDatastore_BatchWrite installed setting r inner ctx ops =
     Traced installed ctx ''celerity.datastore.batch_write_items''
       (resourceAttrs r ''datastore'' [(''datastore.batch_size'', JInt (int (length ops)))])
       (\<lambda>ctx sp. noting setting sp (\<lambda>unapplied. [(''datastore.unapplied_count'', JInt (int (length unapplied)))]) (inner ctx ops))"

definition tracedDatastore_Atomically ::
    "'s tracer option \<Rightarrow> ref \<Rightarrow> (ctx \<Rightarrow> string \<Rightarrow> 'f atomic_op list \<Rightarrow> ('s, gerr option) action)
       \<Rightarrow> ctx \<Rightarrow> string \<Rightarrow> 'f atomic_op list \<Rightarrow> ('s, gerr option) action" where
  "tracedDatastore_Atomically installed r inner ctx part ops =
     TracedCall installed ctx ''celerity.datastore.atomic_write''
       (resourceAttrs r ''datastore'' [(''datastore.partition'', JStr part), (''datastore.operation_count'', JInt (int (length ops)))])
       (\<lambda>ctx sp. inner ctx part ops)"

subsection \<open>Caches\<close>

definition cacheAttrs :: "ref \<Rightarrow> string \<Rightarrow> Dispatch.attr list" where
  "cacheAttrs r k = (if k = '''' then resourceAttrs r ''cache'' [] else resourceAttrs r ''cache'' [(''cache.key'', JStr k)])"

text \<open>The operations that do nothing but call the client inside with what they were given: the span of each, whether it carries the
  operation's key, and whether the operation answers with a value or with nothing but a failure.\<close>

record cache_span =
  cs_Name :: string
  cs_Keyed :: bool
  cs_Answers :: bool

definition cache_spans_1 :: "(string \<times> cache_span) list" where
  "cache_spans_1 =
     [(''Append'', \<lparr>cs_Name = ''append'', cs_Keyed = True, cs_Answers = True\<rparr>),
      (''Connection'', \<lparr>cs_Name = ''connection'', cs_Keyed = False, cs_Answers = True\<rparr>),
      (''Decrement'', \<lparr>cs_Name = ''decrement'', cs_Keyed = True, cs_Answers = True\<rparr>),
      (''Delete'', \<lparr>cs_Name = ''delete'', cs_Keyed = True, cs_Answers = True\<rparr>),
      (''DeleteMany'', \<lparr>cs_Name = ''delete_many'', cs_Keyed = False, cs_Answers = True\<rparr>),
      (''Exists'', \<lparr>cs_Name = ''exists'', cs_Keyed = True, cs_Answers = True\<rparr>),
      (''Expire'', \<lparr>cs_Name = ''expire'', cs_Keyed = True, cs_Answers = True\<rparr>),
      (''Get'', \<lparr>cs_Name = ''get'', cs_Keyed = True, cs_Answers = True\<rparr>),
      (''GetMany'', \<lparr>cs_Name = ''get_many'', cs_Keyed = False, cs_Answers = True\<rparr>),
      (''GetSet'', \<lparr>cs_Name = ''get_set'', cs_Keyed = True, cs_Answers = True\<rparr>),
      (''HashDelete'', \<lparr>cs_Name = ''hash_delete'', cs_Keyed = True, cs_Answers = True\<rparr>),
      (''HashExists'', \<lparr>cs_Name = ''hash_exists'', cs_Keyed = True, cs_Answers = True\<rparr>),
      (''HashGet'', \<lparr>cs_Name = ''hash_get'', cs_Keyed = True, cs_Answers = True\<rparr>),
      (''HashGetAll'', \<lparr>cs_Name = ''hash_get_all'', cs_Keyed = True, cs_Answers = True\<rparr>),
      (''HashIncrement'', \<lparr>cs_Name = ''hash_increment'', cs_Keyed = True, cs_Answers = True\<rparr>),
      (''HashKeys'', \<lparr>cs_Name = ''hash_keys'', cs_Keyed = True, cs_Answers = True\<rparr>),
      (''HashLen'', \<lparr>cs_Name = ''hash_len'', cs_Keyed = True, cs_Answers = True\<rparr>),
      (''HashSet'', \<lparr>cs_Name = ''hash_set'', cs_Keyed = True, cs_Answers = False\<rparr>)]"

definition cache_spans_2 :: "(string \<times> cache_span) list" where
  "cache_spans_2 =
     [(''Increment'', \<lparr>cs_Name = ''increment'', cs_Keyed = True, cs_Answers = True\<rparr>),
      (''IncrementFloat'', \<lparr>cs_Name = ''increment_float'', cs_Keyed = True, cs_Answers = True\<rparr>),
      (''ListIndex'', \<lparr>cs_Name = ''list_index'', cs_Keyed = True, cs_Answers = True\<rparr>),
      (''ListLen'', \<lparr>cs_Name = ''list_len'', cs_Keyed = True, cs_Answers = True\<rparr>),
      (''ListPop'', \<lparr>cs_Name = ''list_pop'', cs_Keyed = True, cs_Answers = True\<rparr>),
      (''ListPush'', \<lparr>cs_Name = ''list_push'', cs_Keyed = True, cs_Answers = True\<rparr>),
      (''ListRange'', \<lparr>cs_Name = ''list_range'', cs_Keyed = True, cs_Answers = True\<rparr>),
      (''ListTrim'', \<lparr>cs_Name = ''list_trim'', cs_Keyed = True, cs_Answers = False\<rparr>),
      (''Persist'', \<lparr>cs_Name = ''persist'', cs_Keyed = True, cs_Answers = True\<rparr>),
      (''Rename'', \<lparr>cs_Name = ''rename'', cs_Keyed = True, cs_Answers = False\<rparr>),
      (''Set'', \<lparr>cs_Name = ''set'', cs_Keyed = True, cs_Answers = True\<rparr>),
      (''SetAdd'', \<lparr>cs_Name = ''set_add'', cs_Keyed = True, cs_Answers = True\<rparr>),
      (''SetDiff'', \<lparr>cs_Name = ''set_diff'', cs_Keyed = False, cs_Answers = True\<rparr>),
      (''SetIntersect'', \<lparr>cs_Name = ''set_intersect'', cs_Keyed = False, cs_Answers = True\<rparr>),
      (''SetIsMember'', \<lparr>cs_Name = ''set_is_member'', cs_Keyed = True, cs_Answers = True\<rparr>),
      (''SetLen'', \<lparr>cs_Name = ''set_len'', cs_Keyed = True, cs_Answers = True\<rparr>),
      (''SetMany'', \<lparr>cs_Name = ''set_many'', cs_Keyed = False, cs_Answers = False\<rparr>),
      (''SetMembers'', \<lparr>cs_Name = ''set_members'', cs_Keyed = True, cs_Answers = True\<rparr>),
      (''SetRemove'', \<lparr>cs_Name = ''set_remove'', cs_Keyed = True, cs_Answers = True\<rparr>),
      (''SetUnion'', \<lparr>cs_Name = ''set_union'', cs_Keyed = False, cs_Answers = True\<rparr>)]"

definition cache_spans_3 :: "(string \<times> cache_span) list" where
  "cache_spans_3 =
     [(''SortedSetAdd'', \<lparr>cs_Name = ''sorted_set_add'', cs_Keyed = True, cs_Answers = True\<rparr>),
      (''SortedSetCountByScore'', \<lparr>cs_Name = ''sorted_set_count_by_score'', cs_Keyed = True, cs_Answers = True\<rparr>),
      (''SortedSetIncrement'', \<lparr>cs_Name = ''sorted_set_increment'', cs_Keyed = True, cs_Answers = True\<rparr>),
      (''SortedSetLen'', \<lparr>cs_Name = ''sorted_set_len'', cs_Keyed = True, cs_Answers = True\<rparr>),
      (''SortedSetRange'', \<lparr>cs_Name = ''sorted_set_range'', cs_Keyed = True, cs_Answers = True\<rparr>),
      (''SortedSetRangeByScore'', \<lparr>cs_Name = ''sorted_set_range_by_score'', cs_Keyed = True, cs_Answers = True\<rparr>),
      (''SortedSetRank'', \<lparr>cs_Name = ''sorted_set_rank'', cs_Keyed = True, cs_Answers = True\<rparr>),
      (''SortedSetRemove'', \<lparr>cs_Name = ''sorted_set_remove'', cs_Keyed = True, cs_Answers = True\<rparr>),
      (''SortedSetRemoveByRank'', \<lparr>cs_Name = ''sorted_set_remove_by_rank'', cs_Keyed = True, cs_Answers = True\<rparr>),
      (''SortedSetRemoveByScore'', \<lparr>cs_Name = ''sorted_set_remove_by_score'', cs_Keyed = True, cs_Answers = True\<rparr>),
      (''SortedSetScore'', \<lparr>cs_Name = ''sorted_set_score'', cs_Keyed = True, cs_Answers = True\<rparr>),
      (''Transaction'', \<lparr>cs_Name = ''transaction'', cs_Keyed = False, cs_Answers = True\<rparr>),
      (''Type'', \<lparr>cs_Name = ''type'', cs_Keyed = True, cs_Answers = True\<rparr>)]"

definition cache_spans :: "(string \<times> cache_span) list" where
  "cache_spans = cache_spans_1 @ cache_spans_2 @ cache_spans_3"

definition span_of :: "ref \<Rightarrow> cache_span \<Rightarrow> string \<Rightarrow> string \<times> Dispatch.attr list" where
  "span_of r cs k = (''celerity.cache.'' @ cs_Name cs, cacheAttrs r (if cs_Keyed cs then k else ''''))"

definition tracedCache_call ::
    "'s tracer option \<Rightarrow> ref \<Rightarrow> string \<Rightarrow> string \<Rightarrow> (ctx \<Rightarrow> ('s, 'a \<times> gerr option) action) \<Rightarrow> ctx \<Rightarrow> ('s, 'a \<times> gerr option) action option" where
  "tracedCache_call installed r operation k inner ctx =
     (case map_of cache_spans operation of
        Some cs \<Rightarrow>
          if cs_Answers cs then (case span_of r cs k of (name, attrs) \<Rightarrow> Some (Traced installed ctx name attrs (\<lambda>ctx sp. inner ctx)))
          else None
      | None \<Rightarrow> None)"

definition tracedCache_do ::
    "'s tracer option \<Rightarrow> ref \<Rightarrow> string \<Rightarrow> string \<Rightarrow> (ctx \<Rightarrow> ('s, gerr option) action) \<Rightarrow> ctx \<Rightarrow> ('s, gerr option) action option" where
  "tracedCache_do installed r operation k inner ctx =
     (case map_of cache_spans operation of
        Some cs \<Rightarrow>
          if \<not> cs_Answers cs then (case span_of r cs k of (name, attrs) \<Rightarrow> Some (TracedCall installed ctx name attrs (\<lambda>ctx sp. inner ctx)))
          else None
      | None \<Rightarrow> None)"

definition tracedCache_TTL ::
    "'s tracer option \<Rightarrow> 's set_attrs \<Rightarrow> ref \<Rightarrow> (ctx \<Rightarrow> string \<Rightarrow> ('s, (int \<times> bool) \<times> gerr option) action)
       \<Rightarrow> ctx \<Rightarrow> string \<Rightarrow> ('s, (int \<times> bool) \<times> gerr option) action" where
  "tracedCache_TTL installed setting r inner ctx k =
     Traced installed ctx ''celerity.cache.ttl'' (cacheAttrs r k)
       (\<lambda>ctx sp. noting setting sp (\<lambda>(left, hasExpiry). [(''cache.expires'', JBool hasExpiry)]) (inner ctx k))"

text \<open>The loop of a traced walk, over what the iterator inside yields, in order. \<open>yield\<close> is the caller's, and says whether to go on.\<close>

fun walk_traced ::
    "'s set_attrs \<Rightarrow> 's span \<Rightarrow> (string \<Rightarrow> gerr option \<Rightarrow> ('s, bool) action) \<Rightarrow> (string \<times> gerr option) list \<Rightarrow> int \<Rightarrow> ('s, unit) action" where
  "walk_traced setting sp yield [] walked = (\<lambda>s. (Done (), setting sp [(''cache.key_count'', JInt walked)] s))"
| "walk_traced setting sp yield ((k, err) # rest) walked =
     (\<lambda>s. and_then (yield k err) (\<lambda>more.
            if \<not> more then (\<lambda>s. (Done (), setting sp [(''cache.key_count'', JInt (walked + 1)), (''cache.stopped_early'', JBool True)] s))
            else walk_traced setting sp yield rest (walked + 1))
          (case err of Some e \<Rightarrow> sp_RecordError sp e s | None \<Rightarrow> s))"

text \<open>\<^verbatim>\<open>Scan\<close> starts the span and answers with what ranging over it does, which ends the span whatever the caller's loop does.\<close>

definition tracedCache_Scan ::
    "'s tracer option \<Rightarrow> 's set_attrs \<Rightarrow> ref \<Rightarrow> (ctx \<Rightarrow> (string \<times> gerr option) list) \<Rightarrow> ctx \<Rightarrow> 's
       \<Rightarrow> ((string \<Rightarrow> gerr option \<Rightarrow> ('s, bool) action) \<Rightarrow> ('s, unit) action) \<times> 's" where
  "tracedCache_Scan installed setting r inner ctx s =
     (case CurrentTracer installed ctx ''celerity.cache.scan'' (cacheAttrs r '''') s of
        ((ctx, sp), s) \<Rightarrow>
          ((\<lambda>yield s. case walk_traced setting sp yield (inner ctx) 0 s of (out, s) \<Rightarrow> (out, sp_End sp s)), s))"

subsection \<open>What tracing leaves alone\<close>

text \<open>A state is what the tracer keeps beside everything else. A tracer that keeps to its own side, an operation of the client that
  knows nothing of the tracer's, and an action that does what an operation does.\<close>

definition aside :: "('t \<times> 'w) tracer option \<Rightarrow> ('t \<times> 'w) set_attrs \<Rightarrow> bool" where
  "aside installed setting \<longleftrightarrow>
     (\<forall>ctx name attrs s. case CurrentTracer installed ctx name attrs s of
        ((ctx', sp), s') \<Rightarrow> snd s' = snd s \<and> (\<forall>e s. snd (sp_RecordError sp e s) = snd s) \<and> (\<forall>s. snd (sp_End sp s) = snd s))
     \<and> (\<forall>sp attrs s. snd (setting sp attrs s) = snd s)"

definition beside :: "('w, 'a) action \<Rightarrow> ('t \<times> 'w, 'a) action" where
  "beside a = (\<lambda>(t, w). case a w of (out, w) \<Rightarrow> (out, (t, w)))"

definition does :: "('t \<times> 'w, 'a) action \<Rightarrow> ('w, 'a) action \<Rightarrow> bool" where
  "does m a \<longleftrightarrow> (\<forall>t w. fst (m (t, w)) = fst (a w) \<and> snd (snd (m (t, w))) = snd (a w))"

named_theorems traced_does

lemma doesI: "(\<And>t w out t' w'. m (t, w) = (out, (t', w')) \<Longrightarrow> a w = (out, w')) \<Longrightarrow> does m a"
  by (simp add: does_def) (metis fst_conv prod.collapse snd_conv)

lemma doesD: "does m a \<Longrightarrow> m (t, w) = (out, (t', w')) \<Longrightarrow> a w = (out, w')"
  by (metis does_def fst_conv prod.collapse snd_conv)

lemma does_beside [traced_does]: "does (beside a) a"
  by (rule doesI) (auto simp: beside_def split: prod.splits)

lemma does_and_then:
  assumes m: "does m a" and f: "\<And>x. does (f x) (g x)"
  shows "does (and_then m f) (and_then a g)"
proof (rule doesI)
  fix t w out t' w' assume run: "and_then m f (t, w) = (out, (t', w'))"
  obtain o1 t1 w1 where m1: "m (t, w) = (o1, (t1, w1))" by (metis prod.exhaust)
  note a1 = doesD [OF m m1]
  show "and_then a g w = (out, w')"
  proof (cases o1)
    case (Done x)
    with run m1 have "f x (t1, w1) = (out, (t', w'))" by (simp add: and_then_def)
    from doesD [OF f this] Done a1 show ?thesis by (simp add: and_then_def)
  next
    case (Panic p)
    with run m1 a1 show ?thesis by (simp add: and_then_def)
  qed
qed

lemma does_returning:
  assumes m: "does m a" and f: "\<And>x t w. fst (f x (t, w)) = Done x \<and> snd (snd (f x (t, w))) = w"
  shows "does (and_then m f) a"
proof -
  have "does (and_then m f) (and_then a returns)"
    using f by (intro does_and_then [OF m]) (simp add: does_def)
  moreover have "and_then a returns = a"
    by (rule ext) (simp add: and_then_def split: prod.splits outcome.splits)
  ultimately show ?thesis by simp
qed

lemma does_noting [traced_does]: "aside installed setting \<Longrightarrow> does m a \<Longrightarrow> does (noting setting sp attrs m) a"
  unfolding noting_def by (rule does_returning) (auto simp: aside_def)

lemma asideD:
  assumes "aside installed setting" and "CurrentTracer installed ctx name attrs s = ((ctx', sp), s')"
  shows "snd s' = snd s" and "\<And>e s. snd (sp_RecordError sp e s) = snd s" and "\<And>s. snd (sp_End sp s) = snd s"
proof -
  have "case CurrentTracer installed ctx name attrs s of
      ((ctx', sp), s') \<Rightarrow> snd s' = snd s \<and> (\<forall>e s. snd (sp_RecordError sp e s) = snd s) \<and> (\<forall>s. snd (sp_End sp s) = snd s)"
    by (rule assms(1) [unfolded aside_def, THEN conjunct1, THEN spec, THEN spec, THEN spec, THEN spec])
  with assms(2) show "snd s' = snd s" and "\<And>e s. snd (sp_RecordError sp e s) = snd s" and "\<And>s. snd (sp_End sp s) = snd s" by auto
qed

lemma does_Traced [traced_does]:
  assumes q: "aside installed setting" and fn: "\<And>ctx sp. does (fn ctx sp) a"
  shows "does (Traced installed ctx name attrs fn) a"
proof (rule doesI)
  fix t w out t' w' assume run: "Traced installed ctx name attrs fn (t, w) = (out, (t', w'))"
  obtain ctx' sp t1 w1 where start: "CurrentTracer installed ctx name attrs (t, w) = ((ctx', sp), (t1, w1))"
    by (metis prod.exhaust)
  from asideD [OF q start] have sp: "w1 = w" "\<And>e s. snd (sp_RecordError sp e s) = snd s" "\<And>s. snd (sp_End sp s) = snd s" by simp_all
  obtain o1 t2 w2 where f: "fn ctx' sp (t1, w1) = (o1, (t2, w2))" by (metis prod.exhaust)
  from doesD [OF fn f] sp(1) have a: "a w = (o1, w2)" by simp
  from Traced_cases [where fn = fn, OF start f] run
  have "out = o1" and "w' = snd (sp_End sp (case o1 of Done (_, Some e) \<Rightarrow> sp_RecordError sp e (t2, w2) | _ \<Rightarrow> (t2, w2)))"
    by (auto dest: arg_cong [where f = snd])
  with sp(2,3) a show "a w = (out, w')" by (auto split: outcome.splits option.splits)
qed

lemma does_TracedCall [traced_does]:
  assumes q: "aside installed setting" and fn: "\<And>ctx sp. does (fn ctx sp) a"
  shows "does (TracedCall installed ctx name attrs fn) a"
proof -
  have "does (Traced installed ctx name attrs (\<lambda>ctx sp. and_then (fn ctx sp) (\<lambda>err. returns ((), err)))) (and_then a (\<lambda>err. returns ((), err)))"
    by (rule does_Traced [OF q], rule does_and_then [OF fn]) (simp add: does_def)
  hence "does (TracedCall installed ctx name attrs fn) (and_then (and_then a (\<lambda>err. returns ((), err))) (\<lambda>(_, err). returns err))"
    unfolding TracedCall_def by (rule does_and_then) (simp add: does_def split: prod.splits)
  moreover have "and_then (and_then a (\<lambda>err. returns ((), err))) (\<lambda>(_, err). returns err) = a"
    by (rule ext) (simp add: and_then_def split: prod.splits outcome.splits)
  ultimately show ?thesis by simp
qed

text \<open>C40. Tracing changes nothing of a bucket, whatever is traced with: as long as a tracer keeps to its own state, every operation of a
  traced bucket answers what the bucket inside answers, panics when it panics, and leaves the same behind.\<close>

theorem traced_bucket_does_the_same:
  assumes "aside installed setting"
  shows "does (tracedBucket_Get installed setting r (\<lambda>ctx k opts. beside (gets k opts)) ctx key get_opts) (gets key get_opts)
    \<and> does (tracedBucket_Put installed r (\<lambda>ctx k b opts. beside (puts k b opts)) ctx key body put_opts) (puts key body put_opts)
    \<and> does (tracedBucket_Delete installed r (\<lambda>ctx k opts. beside (deletes k opts)) ctx key delete_opts) (deletes key delete_opts)
    \<and> does (tracedBucket_DeleteMany installed setting r (\<lambda>ctx refs. beside (deletes_many refs)) ctx refs) (deletes_many refs)
    \<and> does (tracedBucket_Info installed r (\<lambda>ctx k opts. beside (infos k opts)) ctx key info_opts) (infos key info_opts)
    \<and> does (tracedBucket_Exists installed setting r (\<lambda>ctx k opts. beside (exists k opts)) ctx key exists_opts) (exists key exists_opts)
    \<and> does (tracedBucket_List installed setting r (\<lambda>ctx p opts. beside (pages p opts)) ctx prefix list_opts) (pages prefix list_opts)
    \<and> does (tracedBucket_Versions installed setting r (\<lambda>ctx p opts. beside (versions p opts)) ctx prefix list_opts) (versions prefix list_opts)
    \<and> does (tracedBucket_Copy installed r (\<lambda>ctx k dk st opts. beside (copies k dk st opts)) ctx key dest_key dest_store copy_opts) (copies key dest_key dest_store copy_opts)
    \<and> does (tracedBucket_SignedURL installed r (\<lambda>ctx k a e opts. beside (signs k a e opts)) ctx key act expiry sign_opts) (signs key act expiry sign_opts)"
  (is "?Get \<and> ?rest")
proof
  show ?Get
    unfolding tracedBucket_Get_def
    by (rule does_Traced [OF assms], rule does_returning [OF does_beside]) (use assms in \<open>auto simp: aside_def split: option.splits\<close>)
  show ?rest
    by (intro conjI) (simp_all add: tracedBucket_Put_def tracedBucket_Delete_def tracedBucket_DeleteMany_def tracedBucket_Info_def
        tracedBucket_Exists_def tracedBucket_List_def tracedBucket_Versions_def tracedBucket_Copy_def tracedBucket_SignedURL_def
        does_Traced [OF assms] does_TracedCall [OF assms] does_noting [OF assms] does_beside)
qed

definition log_tracer :: "(string list \<times> 'w) tracer" where
  "log_tracer ctx name attrs s = ((ctx, \<lparr>sp_RecordError = (\<lambda>e s. (fst s @ [''error''], snd s)), sp_End = (\<lambda>s. (fst s @ [''end''], snd s)),
     sp_TraceID = ''t'', sp_SpanID = ''s''\<rparr>), (fst s @ [name], snd s))"

definition log_attrs :: "(string list \<times> 'w) set_attrs" where
  "log_attrs sp attrs s = (fst s @ map fst attrs, snd s)"

lemma log_aside: "aside (Some log_tracer) log_attrs"
  unfolding aside_def CurrentTracer_def option.case log_tracer_def log_attrs_def by simp

theorem traced_bucket_does_the_same_witness:
  "tracedBucket_Exists (Some log_tracer) log_attrs \<lparr>rr_Kind = KindBucket, rr_Name = ''assets'', rr_Config = None\<rparr>
     (\<lambda>ctx k opts. beside (\<lambda>w. (Done (k \<in> set w, None), k # w))) background ''a'' () ([], [''a''])
   = (Done (True, None), ([''celerity.bucket.exists'', ''bucket.exists'', ''end''], [''a'', ''a'']))"
proof -
  let ?m = "tracedBucket_Exists (Some log_tracer) log_attrs \<lparr>rr_Kind = KindBucket, rr_Name = ''assets'', rr_Config = None\<rparr>
     (\<lambda>ctx k opts. beside (\<lambda>w. (Done (k \<in> set w, None), k # w))) background ''a'' ()"
  note all = traced_bucket_does_the_same [OF log_aside, where exists = "\<lambda>k (opts :: unit) w. (Done (k \<in> set w, None), k # w)"]
  have "does ?m (\<lambda>w. (Done (''a'' \<in> set w, None), ''a'' # w))"
    using all [THEN conjunct2, THEN conjunct2, THEN conjunct2, THEN conjunct2, THEN conjunct2, THEN conjunct1] .
  hence "fst (?m ([], [''a''])) = Done (True, None) \<and> snd (snd (?m ([], [''a'']))) = [''a'', ''a'']" by (simp add: does_def)
  moreover have "fst (snd (?m ([], [''a'']))) = [''celerity.bucket.exists'', ''bucket.exists'', ''end'']"
    by (simp add: tracedBucket_Exists_def Traced_def CurrentTracer_def log_tracer_def log_attrs_def noting_def and_then_def beside_def)
  ultimately show ?thesis by (simp add: prod_eq_iff)
qed

text \<open>A data store, a queue and a topic are traced the same way, and a cache: an operation of the table is traced one way or the other.\<close>

lemma traced_datastore_does_the_same:
  assumes "aside installed setting"
  shows "does (tracedDatastore_Get installed r (\<lambda>ctx k out. beside (gets k out)) ctx k out) (gets k out)
    \<and> does (tracedDatastore_Put installed r (\<lambda>ctx k i opts. beside (puts k i opts)) ctx k i opts) (puts k i opts)
    \<and> does (tracedDatastore_Delete installed r (\<lambda>ctx k opts. beside (deletes k opts)) ctx k opts) (deletes k opts)
    \<and> does (tracedDatastore_Query installed setting r (\<lambda>ctx q out. beside (queries q out)) ctx q out) (queries q out)
    \<and> does (tracedDatastore_Scan installed setting r (\<lambda>ctx s out. beside (scans s out)) ctx sc out) (scans sc out)
    \<and> does (tracedDatastore_BatchGet installed setting r (\<lambda>ctx ks out. beside (gets_many ks out)) ctx ks out) (gets_many ks out)
    \<and> does (tracedDatastore_Update installed r (\<lambda>ctx k us opts. beside (updates k us opts)) ctx k us opts) (updates k us opts)
    \<and> does (tracedDatastore_BatchWrite installed setting r (\<lambda>ctx ops. beside (writes ops)) ctx ops) (writes ops)
    \<and> does (tracedDatastore_Atomically installed r (\<lambda>ctx part ops. beside (atomics part ops)) ctx part aops) (atomics part aops)"
  by (intro conjI) (simp_all add: tracedDatastore_Get_def tracedDatastore_Put_def tracedDatastore_Delete_def tracedDatastore_Query_def
      tracedDatastore_Scan_def tracedDatastore_BatchGet_def tracedDatastore_Update_def tracedDatastore_BatchWrite_def
      tracedDatastore_Atomically_def does_Traced [OF assms] does_TracedCall [OF assms] does_noting [OF assms] does_beside)

lemma traced_messaging_does_the_same:
  assumes "aside installed setting"
  shows "does (tracedQueue_Send installed r (\<lambda>ctx body opts. beside (sends body opts)) ctx body opts) (sends body opts)
    \<and> does (tracedQueue_SendBatch installed setting r (\<lambda>ctx es. beside (batches es)) ctx es) (batches es)
    \<and> does (tracedTopic_Publish installed r (\<lambda>ctx body opts. beside (sends body opts)) ctx body opts) (sends body opts)
    \<and> does (tracedTopic_PublishBatch installed setting r (\<lambda>ctx es. beside (batches es)) ctx es) (batches es)
    \<and> does (tracedDatabase_Writer installed r (\<lambda>ctx. beside conn) ctx) conn
    \<and> does (tracedDatabase_Reader installed r (\<lambda>ctx. beside conn) ctx) conn"
  by (intro conjI) (simp_all add: tracedQueue_Send_def tracedQueue_SendBatch_def tracedTopic_Publish_def tracedTopic_PublishBatch_def
      tracedDatabase_Writer_def tracedDatabase_Reader_def does_Traced [OF assms] does_noting [OF assms] does_beside)

lemma cache_spans_distinct: "distinct (map fst cache_spans) \<and> distinct (map (cs_Name \<circ> snd) cache_spans)"
  by (simp add: cache_spans_def cache_spans_1_def cache_spans_2_def cache_spans_3_def)

lemma tracedCache_call_does:
  assumes "aside installed setting" and "map_of cache_spans operation = Some cs"
  shows "cs_Answers cs \<Longrightarrow> \<exists>m. tracedCache_call installed r operation k (\<lambda>ctx. beside a) ctx = Some m \<and> does m a"
    and "\<not> cs_Answers cs \<Longrightarrow> \<exists>m. tracedCache_do installed r operation k (\<lambda>ctx. beside b) ctx = Some m \<and> does m b"
  using assms by (auto simp: tracedCache_call_def tracedCache_do_def span_of_def
      intro: does_Traced [OF assms(1)] does_TracedCall [OF assms(1)] does_beside)

text \<open>Ranging over an iterator with nothing in between.\<close>

fun range_over :: "(string \<Rightarrow> gerr option \<Rightarrow> ('s, bool) action) \<Rightarrow> (string \<times> gerr option) list \<Rightarrow> ('s, unit) action" where
  "range_over yield [] = returns ()"
| "range_over yield ((k, err) # rest) = and_then (yield k err) (\<lambda>more. if \<not> more then returns () else range_over yield rest)"

lemma does_walk:
  assumes q: "aside installed setting" and sp: "\<And>e s. snd (sp_RecordError sp e s) = snd s" and y: "\<And>k e. does (yield k e) (plain k e)"
  shows "does (walk_traced setting sp yield pairs walked) (range_over plain pairs)"
proof (induction pairs arbitrary: walked)
  case Nil
  from q show ?case by (simp add: does_def aside_def)
next
  case (Cons p pairs)
  obtain k err where p: "p = (k, err)" by (cases p)
  have set: "does (\<lambda>s. (Done (), setting sp attrs s)) (returns ())" for attrs
    using q by (simp add: does_def aside_def)
  have body: "does (and_then (yield k err) (\<lambda>more. if \<not> more then (\<lambda>s. (Done (), setting sp [(''cache.key_count'', JInt (walked + 1)), (''cache.stopped_early'', JBool True)] s))
            else walk_traced setting sp yield pairs (walked + 1))) (range_over plain ((k, err) # pairs))"
    unfolding range_over.simps by (rule does_and_then [OF y]) (auto simp: set Cons.IH)
  have skip: "does (\<lambda>s. m (case err of Some e \<Rightarrow> sp_RecordError sp e s | None \<Rightarrow> s)) a" if "does m a" for m and a :: "('b, unit) action"
    using that sp by (simp add: does_def split: option.splits) (metis prod.collapse snd_conv)
  show ?case unfolding p walk_traced.simps by (rule skip [OF body])
qed

text \<open>A traced walk hands the caller the same keys and errors in the same order and stops where the caller stops; its span is ended by
  the last thing it does, whatever the caller's loop did.\<close>

lemma traced_scan_walks_the_same:
  assumes q: "aside installed setting"
    and sc: "tracedCache_Scan installed setting r (\<lambda>ctx. pairs) ctx s = (ranging, s')"
  shows "does (ranging (\<lambda>k e. beside (plain k e))) (range_over plain pairs)"
proof -
  obtain ctx' sp s1 where start: "CurrentTracer installed ctx ''celerity.cache.scan'' (cacheAttrs r '''') s = ((ctx', sp), s1)"
    by (metis prod.exhaust)
  note sp = asideD(2,3) [OF q start]
  have r: "ranging = (\<lambda>yield s. case walk_traced setting sp yield pairs 0 s of (out, s) \<Rightarrow> (out, sp_End sp s))"
    using sc start by (simp add: tracedCache_Scan_def)
  from does_walk [OF q sp(1) does_beside, of plain pairs 0] sp(2)
  show ?thesis unfolding r does_def by (auto split: prod.splits) (metis fst_conv snd_conv)+
qed

end
