(* ===== verification/Resources_Props.thy ===== *)
theory Resources_Props
  imports Tracing
begin

text \<open>
  What holds of taking a handle and of what is behind it: a reference is recorded whatever becomes of the handle, the clients of a
  package are built once per region from a configuration loaded once, and a copy between two handles is never made.
\<close>

subsection \<open>Taking a handle\<close>

definition asked_name :: "string list \<Rightarrow> string" where
  "asked_name name = (case name of n # _ \<Rightarrow> if n \<noteq> '''' then n else DefaultName | [] \<Rightarrow> DefaultName)"

definition ref_recorded :: "('s, 'c) app \<Rightarrow> string \<Rightarrow> string \<Rightarrow> bool" where
  "ref_recorded host kind name = (case gm_get (ap_resourceRefs host) kind of None \<Rightarrow> False | Some names \<Rightarrow> gm_get names name \<noteq> None)"

lemma recorded_RecordResourceRef [simp]:
  "ref_recorded (RecordResourceRef kind name host) kind' name' \<longleftrightarrow> (kind' = kind \<and> name' = name) \<or> ref_recorded host kind' name'"
  by (auto simp: ref_recorded_def RecordResourceRef_def Let_def split: option.splits)

lemma recorded_ResourceError [simp]: "ref_recorded (ResourceError err host) = ref_recorded host"
  by (intro ext) (simp add: ref_recorded_def ResourceError_def)

lemma errs_RecordResourceRef [simp]: "ap_errs (RecordResourceRef kind name host) = ap_errs host"
  by (simp add: RecordResourceRef_def Let_def)

lemma errs_ResourceError [simp]: "ap_errs (ResourceError err host) = ap_errs host @ [err]"
  by (simp add: ResourceError_def)

lemma resolve_handle_cases:
  "resolve_handle kind name explicit detected linked extracting build svc host =
     (case providerFor explicit detected of
        None \<Rightarrow> (None, if \<not> extracting then ResourceError (MissingProviderError kind (asked_name name) linked)
                       (RecordResourceRef kind (asked_name name) host) else RecordResourceRef kind (asked_name name) host)
      | Some p \<Rightarrow>
          (case build p \<lparr>rr_Kind = kind, rr_Name = asked_name name, rr_Config = svc\<rparr> of
             Inl err \<Rightarrow> (None, ResourceError (Errorf (''building '' @ ref_String \<lparr>rr_Kind = kind, rr_Name = asked_name name, rr_Config = svc\<rparr>
                @ '': '' @ error_text err) (Some err)) (RecordResourceRef kind (asked_name name) host))
           | Inr client \<Rightarrow> (Some client, RecordResourceRef kind (asked_name name) host)))"
  by (simp only: resolve_handle_def asked_name_def Let_def)

text \<open>Taking a handle always leaves its mark: the reference is recorded whether or not there is anything to build the client, what
  was recorded before is still there, and the application's errors gain exactly one where there is no client and the process is not
  describing itself, and none where there is one.\<close>

theorem handle_always_recorded:
  assumes "resolve_handle kind name explicit detected linked extracting build svc host = (handle, host')"
  shows "ref_recorded host' kind (asked_name name)
    \<and> (\<forall>kind' name'. ref_recorded host kind' name' \<longrightarrow> ref_recorded host' kind' name')
    \<and> (case handle of
         Some client \<Rightarrow> ap_errs host' = ap_errs host
       | None \<Rightarrow> (if extracting \<and> providerFor explicit detected = None then ap_errs host' = ap_errs host
                   else \<exists>err. ap_errs host' = ap_errs host @ [err]))"
  using assms unfolding resolve_handle_cases by (auto split: option.splits sum.splits if_splits)

theorem handle_always_recorded_witness:
  "ref_recorded (snd (resolve_handle KindQueue [] None None [''aws''] False (\<lambda>p r. p KindQueue r :: gerr + nat) None
       (New [] (Inr ()) () [] :: (nat, unit) app))) KindQueue ''default''"
proof -
  let ?run = "resolve_handle KindQueue [] None None [''aws''] False (\<lambda>p r. p KindQueue r :: gerr + nat) None
       (New [] (Inr ()) () [] :: (nat, unit) app)"
  have "?run = (fst ?run, snd ?run)" by simp
  from handle_always_recorded [OF this] show ?thesis by (simp add: asked_name_def DefaultName_def)
qed

subsection \<open>Clients\<close>

text \<open>A package asked for the clients of several regions in turn.\<close>

fun ask_all :: "('api, 'w) package \<Rightarrow> string list \<Rightarrow> 'api package_held \<times> 'w \<Rightarrow> (gerr + 'api) list \<times> 'api package_held \<times> 'w" where
  "ask_all pk [] st = ([], st)"
| "ask_all pk (region # regions) st =
     (case package_client pk region st of
        (r, st) \<Rightarrow> (case ask_all pk regions st of (rs, st) \<Rightarrow> (r # rs, st)))"

text \<open>What a load gives, traced, and the client of a region built from it with nothing kept.\<close>

definition traced_config :: "aws_config \<Rightarrow> aws_config" where
  "traced_config cfg = cfg\<lparr>ac_APIOptions := ac_APIOptions cfg @ [''CelerityTracing'']\<rparr>"

definition fresh_client :: "('api, 'w) package \<Rightarrow> (gerr + aws_config) \<Rightarrow> string \<Rightarrow> gerr + 'api" where
  "fresh_client pk loaded region =
     (case loaded of
        Inl err \<Rightarrow> Inl (Errorf (''celerity: loading AWS configuration to reach a resource: '' @ error_text err) (Some err))
      | Inr cfg \<Rightarrow> Inr (pk_NewFromConfig pk (if region = '''' \<or> region = ac_Region cfg then traced_config cfg
                                              else (traced_config cfg)\<lparr>ac_Region := region\<rparr>)))"

definition kept :: "('api, nat) package \<Rightarrow> (gerr + aws_config) \<Rightarrow> string set \<Rightarrow> 'api package_held \<times> nat \<Rightarrow> bool" where
  "kept pk loaded seen st \<longleftrightarrow>
     (case st of (h, n) \<Rightarrow>
        gm_wf (hd_clients h) \<and> dom (gm_get (hd_clients h)) = seen
        \<and> (\<forall>region r. gm_get (hd_clients h) region = Some r \<longrightarrow> r = fresh_client pk loaded region)
        \<and> (hd_session h = None \<and> n = 0 \<and> seen = {} \<or> hd_session h = Some (map_sum (\<lambda>e. e) traced_config loaded) \<and> n = 1))"

lemma package_client_keeps:
  assumes api: "pk_api pk = None" and load: "pk_load pk = (\<lambda>n. (loaded, n + 1))" and st: "kept pk loaded seen st"
  shows "fst (package_client pk region st) = fresh_client pk loaded region
    \<and> kept pk loaded (insert region seen) (snd (package_client pk region st))"
proof -
  obtain h n where h: "st = (h, n)" by (cases st)
  show ?thesis
  proof (cases "gm_get (hd_clients h) region")
    case (Some r)
    with st have "region \<in> seen" by (auto simp: kept_def h)
    hence "insert region seen = seen" by auto
    with st Some show ?thesis by (simp add: package_client_def Clients_Get_def api h kept_def)
  next
    case None
    have cfg: "(case ConfigFor (pk_load pk) region (hd_session h) n of
         (Inl err, s, w) \<Rightarrow> (Inl err, s, w) | (Inr cfg, s, w) \<Rightarrow> (Inr (pk_NewFromConfig pk cfg), s, w))
       = (fresh_client pk loaded region, Some (map_sum (\<lambda>e. e) traced_config loaded), 1)"
      using st load
      by (cases loaded) (auto simp: kept_def h ConfigFor_def Session_Config_def Lazy_Get_def traced_config_def fresh_client_def)
    let ?st = "package_client pk region st"
    have run: "?st = (fresh_client pk loaded region, \<lparr>hd_session = Some (map_sum (\<lambda>e. e) traced_config loaded),
        hd_clients = gm_put region (fresh_client pk loaded region) (hd_clients h)\<rparr>, 1)"
      by (simp add: package_client_def Clients_Get_def api h None cfg)
    from st show ?thesis unfolding run by (auto simp: kept_def h)
  qed
qed

lemma ask_all_keeps:
  assumes "pk_api pk = None" and "pk_load pk = (\<lambda>n. (loaded, n + 1))"
  shows "kept pk loaded seen st \<Longrightarrow>
    fst (ask_all pk regions st) = map (fresh_client pk loaded) regions \<and> kept pk loaded (seen \<union> set regions) (snd (ask_all pk regions st))"
proof (induction regions arbitrary: seen st)
  case (Cons region regions)
  from package_client_keeps [OF assms Cons.prems, of region] Cons.IH [of "insert region seen" "snd (package_client pk region st)"]
  show ?case by (auto split: prod.splits)
qed simp

text \<open>C39. Keeping clients changes no answer and saves every repetition: whatever regions a package's handles ask for and in whatever
  order, each gets the client it would get from a configuration loaded for it alone, the configuration is loaded once at most, and
  exactly one client (or failure to build one) is kept for each region.\<close>

theorem clients_built_once:
  assumes "pk_api pk = None" and "pk_load pk = (\<lambda>n. (loaded, n + 1))"
    and "ask_all pk regions (\<lparr>hd_session = None, hd_clients = []\<rparr>, 0 :: nat) = (answers, h, loads)"
  shows "answers = map (fresh_client pk loaded) regions
    \<and> loads = (if regions = [] then 0 else 1)
    \<and> distinct (gm_keys (hd_clients h)) \<and> set (gm_keys (hd_clients h)) = set regions"
proof -
  have "kept pk loaded {} (\<lparr>hd_session = None, hd_clients = []\<rparr>, 0)" by (simp add: kept_def)
  from ask_all_keeps [OF assms(1,2) this, of regions] assms(3)
  have a: "answers = map (fresh_client pk loaded) regions" and k: "kept pk loaded (set regions) (h, loads)" by auto
  have "loads = (if regions = [] then 0 else 1)"
  proof (cases regions)
    case Nil
    with assms(3) show ?thesis by simp
  next
    case Cons
    with k show ?thesis by (auto simp: kept_def)
  qed
  moreover from k have "gm_wf (hd_clients h)" and "dom (gm_get (hd_clients h)) = set regions" by (simp_all add: kept_def)
  ultimately show ?thesis using a gm_keys_set [of "hd_clients h"] by (simp add: gm_wf_def)
qed

theorem clients_built_once_witness:
  "fst (ask_all \<lparr>pk_api = None, pk_load = (\<lambda>n. (Inr \<lparr>ac_Region = ''eu'', ac_APIOptions = []\<rparr>, n + 1)), pk_NewFromConfig = ac_Region\<rparr>
      [''eu'', '''', ''us'', ''eu''] (\<lparr>hd_session = None, hd_clients = []\<rparr>, 0 :: nat)) = map Inr [''eu'', ''eu'', ''us'', ''eu'']"
proof -
  let ?pk = "\<lparr>pk_api = None, pk_load = (\<lambda>n. (Inr \<lparr>ac_Region = ''eu'', ac_APIOptions = []\<rparr>, n + 1)), pk_NewFromConfig = ac_Region\<rparr>
      :: (string, nat) package"
  let ?run = "ask_all ?pk [''eu'', '''', ''us'', ''eu''] (\<lparr>hd_session = None, hd_clients = []\<rparr>, 0 :: nat)"
  obtain answers h loads where run: "?run = (answers, h, loads)" by (metis prod.exhaust)
  from clients_built_once [where pk = ?pk and loaded = "Inr \<lparr>ac_Region = ''eu'', ac_APIOptions = []\<rparr>", OF _ _ run] run
  show ?thesis by (simp add: fresh_client_def traced_config_def)
qed

subsection \<open>A copy between two handles\<close>

lemma Bucket_handle_traced:
  assumes "Bucket_handle name explicit detected linked extracting svc host = (Some st, host')"
  shows "\<exists>r inner. st = TracedStore r inner"
  using assms unfolding Bucket_handle_def handle_of_def resolve_handle_cases by (auto split: option.splits sum.splits)

text \<open>A copy from a bucket on S3 to the bucket of any handle an application can take is refused, also where the other bucket is on S3:
  a handle is inside its tracing and a copy asks for the S3 bucket itself. Nothing is asked of S3; all that happens is that the
  source's own name is looked up.\<close>

theorem handle_copy_refused:
  assumes "Bucket_handle name explicit detected linked extracting svc host = (Some other, host')"
  shows "\<exists>err. s3_Copy b sourceKey destKey (destination_of (Some other)) opts w = (Inl err, snd (ar_ID (sb_resolver b) w))
    \<and> (\<forall>v. fst (ar_ID (sb_resolver b) w) = Inr v \<longrightarrow>
          err = Errorf (''celerity: copying '' @ sb_ref b @ '' '' @ go_quote sourceKey @ '': '' @ error_text (not_on_aws ''resources.tracedBucket''))
                  (Some (not_on_aws ''resources.tracedBucket'')))"
proof -
  from Bucket_handle_traced [OF assms] obtain r inner where "other = TracedStore r inner" by blast
  thus ?thesis
    by (cases "ar_ID (sb_resolver b) w") (auto simp: s3_Copy_def destination_of_def destinationOf_def split: sum.splits)
qed

text \<open>The same copy, made with the bucket a provider built rather than the handle, asks S3 for it.\<close>

lemma provider_copy_asked:
  assumes "ar_ID (sb_resolver b) w = (Inr name, w1)" and "ar_ID (sb_resolver other) w1 = (Inr dest, w2)"
    and "ar_KeyFor (sb_resolver other) w2 = (Inr region, w3)" and "ar_client (sb_resolver b) region w3 = (Inr client, w4)"
    and "s3_CopyObject client (copy_input name sourceKey dest destKey (resolve \<lparr>co_ContentType = '''', co_Metadata = []\<rparr> opts)) w4
           = (Inr (Some (Some etag), version), w5)"
  shows "s3_Copy b sourceKey destKey (destination_of (Some (S3Store other))) opts w
    = (Inr \<lparr>cp_ETag = etag, cp_VersionID = ToString version\<rparr>, w5)"
  using assms by (simp add: s3_Copy_def destination_of_def destinationOf_def ToString_def)

end
