(* ===== verification/Config_Props.thy ===== *)
theory Config_Props
  imports Config
begin

text \<open>
  What a namespace promises of the age of its values, and what a deployment's service resolves.
\<close>

subsection \<open>A namespace over time\<close>

text \<open>The attempts to read the store, each with the time it ended and what came of it. A read of the namespace makes at
  most one.\<close>

type_synonym attempt = "int \<times> (gerr + store_values option)"

definition attempted :: "'w process_io \<Rightarrow> 'w namespace \<Rightarrow> 'w \<Rightarrow> attempt list" where
  "attempted io n w =
     (if ns_values n \<noteq> None \<and> \<not> stale io n w then []
      else case be_Fetch (ns_backend n) (ns_storeID n) w of (fetched, w1) \<Rightarrow> [(pi_now io w1, fetched)])"

text \<open>The namespace is read, or time passes.\<close>

inductive ns_reaches :: "'w process_io \<Rightarrow> 'w namespace \<Rightarrow> 'w \<Rightarrow> 'w namespace \<Rightarrow> 'w \<Rightarrow> attempt list \<Rightarrow> bool"
  for io :: "'w process_io" and n0 :: "'w namespace" and w0 :: 'w where
  start: "ns_reaches io n0 w0 n0 w0 []"
| elapse: "ns_reaches io n0 w0 n w as \<Longrightarrow> pi_now io w \<le> pi_now io w' \<Longrightarrow> ns_reaches io n0 w0 n w' as"
| read: "ns_reaches io n0 w0 n w as \<Longrightarrow> load io n w = (r, n', w') \<Longrightarrow> ns_reaches io n0 w0 n' w' (as @ attempted io n w)"

text \<open>What the attempts so far leave: the values of the last that succeeded.\<close>

fun last_success :: "string \<Rightarrow> attempt list \<Rightarrow> store_values option" where
  "last_success prefix [] = None"
| "last_success prefix ((t, Inl err) # as) = last_success prefix as"
| "last_success prefix ((t, Inr vals) # as) = applyPrefix prefix vals"

abbreviation "held prefix as \<equiv> last_success prefix (rev as)"

text \<open>Attempts made while values were held are an interval apart.\<close>

definition spaced :: "string \<Rightarrow> int \<Rightarrow> attempt list \<Rightarrow> bool" where
  "spaced prefix refresh as \<longleftrightarrow>
     (\<forall>i. Suc i < length as \<and> held prefix (take (Suc i) as) \<noteq> None \<longrightarrow> refresh > 0 \<and> fst (as ! Suc i) - fst (as ! i) \<ge> refresh)"

definition ns_inv :: "'w namespace \<Rightarrow> 'w namespace \<Rightarrow> attempt list \<Rightarrow> bool" where
  "ns_inv n0 n as \<longleftrightarrow> ns_prefix n = ns_prefix n0 \<and> ns_refresh n = ns_refresh n0 \<and> ns_backend n = ns_backend n0
     \<and> ns_storeID n = ns_storeID n0 \<and> ns_values n = held (ns_prefix n0) as \<and> (as \<noteq> [] \<longrightarrow> ns_checkedAt n = fst (last as))
     \<and> spaced (ns_prefix n0) (ns_refresh n0) as"

lemma spaced_snoc:
  assumes "spaced prefix refresh as"
    and "as \<noteq> [] \<Longrightarrow> held prefix as \<noteq> None \<Longrightarrow> refresh > 0 \<and> fst a - fst (last as) \<ge> refresh"
  shows "spaced prefix refresh (as @ [a])"
  unfolding spaced_def
proof (intro allI impI)
  fix i assume i: "Suc i < length (as @ [a]) \<and> held prefix (take (Suc i) (as @ [a])) \<noteq> None"
  show "refresh > 0 \<and> fst ((as @ [a]) ! Suc i) - fst ((as @ [a]) ! i) \<ge> refresh"
  proof (cases "Suc i < length as")
    case True
    with assms(1) i show ?thesis by (simp add: spaced_def nth_append)
  next
    case False
    with i have "Suc i = length as" by simp
    moreover from this have "as \<noteq> []" "take (Suc i) (as @ [a]) = as" by auto
    moreover from calculation have "last as = as ! i" by (simp add: last_conv_nth flip: \<open>Suc i = length as\<close>)
    ultimately show ?thesis using assms(2) i by (simp add: nth_append)
  qed
qed

lemma ns_inv_read:
  assumes "ns_inv n0 n as" and "load io n w = (r, n', w')"
    and "\<And>w. pi_now io w \<le> pi_now io (snd (be_Fetch (ns_backend n0) (ns_storeID n0) w))"
  shows "ns_inv n0 n' (as @ attempted io n w)"
proof (cases "ns_values n \<noteq> None \<and> \<not> stale io n w")
  case True
  with assms show ?thesis by (auto simp: load_def attempted_def)
next
  case False
  obtain fetched w1 where f: "be_Fetch (ns_backend n) (ns_storeID n) w = (fetched, w1)" by fastforce
  have "spaced (ns_prefix n0) (ns_refresh n0) (as @ [(pi_now io w1, fetched)])"
  proof (rule spaced_snoc)
    show "spaced (ns_prefix n0) (ns_refresh n0) as" using assms(1) by (simp add: ns_inv_def)
    assume "as \<noteq> []" "held (ns_prefix n0) as \<noteq> None"
    with assms(1) False have "stale io n w" "ns_checkedAt n = fst (last as)" by (auto simp: ns_inv_def)
    moreover have "pi_now io w \<le> pi_now io w1" using assms(1) assms(3) [of w] f by (simp add: ns_inv_def)
    ultimately show "ns_refresh n0 > 0 \<and> fst (pi_now io w1, fetched) - fst (last as) \<ge> ns_refresh n0"
      using assms(1) by (auto simp: ns_inv_def stale_def)
  qed
  with assms(1,2) False f show ?thesis
    by (auto simp: ns_inv_def load_def attempted_def Let_def split: sum.splits if_splits)
qed

lemma ns_inv_reaches:
  assumes "ns_reaches io n0 w0 n w as" and "ns_values n0 = None"
    and "\<And>w. pi_now io w \<le> pi_now io (snd (be_Fetch (ns_backend n0) (ns_storeID n0) w))"
  shows "ns_inv n0 n as"
  using assms(1)
proof induction
  case start
  with assms(2) show ?case by (simp add: ns_inv_def spaced_def)
next
  case (read n w as r n' w')
  show ?case by (rule ns_inv_read [OF read.IH read.hyps(2) assms(3)])
qed simp_all

definition known_option :: "('w namespace \<Rightarrow> 'w namespace) \<Rightarrow> bool" where
  "known_option opt \<longleftrightarrow> (\<exists>p. opt = WithPrefix p) \<or> (\<exists>i. opt = WithRefresh i)"

lemma New_values:
  assumes "\<forall>opt\<in>set opts. known_option opt"
  shows "ns_values (NewNamespace b storeID opts) = None"
proof -
  have "ns_values (fold (\<lambda>opt n. opt n) opts n) = ns_values n" for n
    using assms by (induction opts arbitrary: n) (auto simp: known_option_def WithPrefix_def WithRefresh_def)
  then show ?thesis by (simp add: NewNamespace_def)
qed

text \<open>C29. A namespace never serves values older than its refresh interval while the store can be read. Of any history of
  reads: what a read returns is what the last successful attempt to read the store gave; unless this very read made
  an attempt, the last attempt ended less than an interval ago; and once values are held, attempts are never less than
  an interval apart, whether they succeed or fail. A read fails only when no attempt has succeeded, with the error of
  the attempt it made.\<close>

theorem namespace_fresh:
  assumes "n0 = NewNamespace b storeID opts" and "\<forall>opt\<in>set opts. known_option opt"
    and "\<And>w. pi_now io w \<le> pi_now io (snd (be_Fetch (ns_backend n0) (ns_storeID n0) w))"
    and "ns_reaches io n0 w0 n w earlier" and "load io n w = (r, n', w')" and "attempts = earlier @ attempted io n w"
  shows "attempts \<noteq> [] \<and> spaced (ns_prefix n0) (ns_refresh n0) attempts
    \<and> (case r of
         Inr vals \<Rightarrow> vals = held (ns_prefix n0) attempts
           \<and> (attempted io n w = [] \<longrightarrow> ns_refresh n0 \<le> 0 \<or> pi_now io w - fst (last attempts) < ns_refresh n0)
       | Inl err \<Rightarrow> held (ns_prefix n0) attempts = None \<and> snd (last attempts) = Inl err)"
proof -
  have inv: "ns_inv n0 n earlier" using ns_inv_reaches [OF assms(4) _ assms(3)] New_values [OF assms(2)] assms(1) by simp
  have inv': "ns_inv n0 n' attempts" unfolding assms(6) by (rule ns_inv_read [OF inv assms(5) assms(3)])
  show ?thesis
  proof (cases "ns_values n \<noteq> None \<and> \<not> stale io n w")
    case True
    with assms(5,6) have "r = Inr (ns_values n)" "attempts = earlier" by (auto simp: load_def attempted_def)
    moreover have "earlier \<noteq> []" using True inv by (auto simp: ns_inv_def)
    ultimately show ?thesis using inv inv' True by (auto simp: ns_inv_def stale_def)
  next
    case False
    obtain fetched w1 where "be_Fetch (ns_backend n) (ns_storeID n) w = (fetched, w1)" by fastforce
    with False inv inv' assms(5,6) show ?thesis
      by (auto simp: ns_inv_def load_def attempted_def Let_def split: sum.splits if_splits)
  qed
qed

subsection \<open>What a deployment's service resolves\<close>

lemma cut_prefix_Some: "cut_prefix k p = Some after \<longleftrightarrow> k = p @ after"
  unfolding cut_prefix_def has_prefix_def by (metis append_eq_conv_conj append_take_drop_id option.inject option.discI)

lemma applyPrefix_get:
  assumes "gm_wf vals"
  shows "gm_get (slice (applyPrefix p (Some vals))) key = gm_get vals (if p = '''' then key else p @ ''/'' @ key)"
proof -
  let ?f = "\<lambda>(k, v) out. case cut_prefix k (p @ ''/'') of Some after \<Rightarrow> gm_put after v out | None \<Rightarrow> out"
  have "distinct (map fst vals) \<Longrightarrow> gm_get (fold ?f vals out) key
      = (case gm_get vals ((p @ ''/'') @ key) of Some v \<Rightarrow> Some v | None \<Rightarrow> gm_get out key)" for out
  proof (induction vals arbitrary: out)
    case (Cons kv vals)
    have "gm_get vals (fst kv) = None" using Cons.prems by (simp add: map_of_eq_None_iff)
    moreover have "cut_prefix ((p @ ''/'') @ key) (p @ ''/'') = Some key" by (simp only: cut_prefix_Some)
    ultimately show ?case
      using Cons cut_prefix_Some [of "fst kv" "p @ ''/''"] by (cases kv) (auto split: option.splits)
  qed simp
  then show ?thesis using assms by (simp add: applyPrefix_def slice_def gm_wf_def split: option.split)
qed

lemma register_stores_rest:
  "register_stores providers platform refresh ss svc hs = Inr (svc', hs') \<Longrightarrow>
     sv_links svc' = sv_links svc \<and> length hs' = length hs + length ss \<and> take (length hs) hs' = hs
     \<and> (\<forall>name. name \<notin> sf_name ` set ss \<longrightarrow> gm_get (sv_namespaces svc') name = gm_get (sv_namespaces svc) name)"
proof (induction ss arbitrary: svc hs)
  case (Cons s ss)
  then obtain b where b: "backendFor providers platform (sf_kind s) = Inr b"
    and "register_stores providers platform refresh ss (Register (sf_name s) (length hs) svc) (hs @ [namespace_for refresh b s]) = Inr (svc', hs')"
    by (auto split: sum.splits)
  note IH = Cons.IH [OF this(2)]
  then have "take (length hs) (take (Suc (length hs)) hs') = hs" by simp
  then show ?case using IH by (auto simp: Register_def min_def)
qed simp

lemma register_stores_finds:
  assumes "register_stores providers platform refresh ss svc hs = Inr (svc', hs')" and "distinct (map sf_name ss)" and "s \<in> set ss"
    and "backendFor providers platform (sf_kind s) = Inr b"
  shows "\<exists>ns. gm_get (sv_namespaces svc') (sf_name s) = Some ns \<and> ns < length hs' \<and> hs' ! ns = namespace_for refresh b s"
  using assms(1-3)
proof (induction ss arbitrary: svc hs)
  case (Cons s' ss)
  then obtain b' where b: "backendFor providers platform (sf_kind s') = Inr b'" and
    rest: "register_stores providers platform refresh ss (Register (sf_name s') (length hs) svc) (hs @ [namespace_for refresh b' s']) = Inr (svc', hs')"
    by (auto split: sum.splits)
  show ?case
  proof (cases "s = s'")
    case True
    note r = register_stores_rest [OF rest]
    have "hs' ! length hs = namespace_for refresh b s"
      using r b assms(4) True by (metis length_append_singleton lessI nth_append_length nth_take sum.inject(2))
    then show ?thesis using r Cons.prems(2) True by (intro exI [of _ "length hs"]) (auto simp: Register_def)
  next
    case False
    with Cons.prems Cons.IH [OF rest] show ?thesis by auto
  qed
qed simp

lemma mset_map_filter: "mset (List.map_filter f xs) = image_mset (the \<circ> f) (filter_mset (\<lambda>x. f x \<noteq> None) (mset xs))"
  by (simp add: List.map_filter_def)

lemma discoverStores_any_order:
  assumes "mset order' = mset order" and "distinct (map sf_name (discoverStores order environ))"
  shows "discoverStores order' environ = discoverStores order environ"
proof -
  have m: "mset (discoverStores order' environ) = mset (discoverStores order environ)"
    using assms(1) by (simp add: discoverStores_def Let_def mset_map_filter)
  then have sets: "set (discoverStores order' environ) = set (discoverStores order environ)" by (rule mset_eq_setD)
  from m have "mset (map sf_name (discoverStores order' environ)) = mset (map sf_name (discoverStores order environ))" by simp
  then have "distinct (map sf_name (discoverStores order' environ))" using assms(2) mset_eq_imp_distinct_iff by blast
  moreover have "sorted (map sf_name (discoverStores ord environ))" for ord by (simp add: discoverStores_def Let_def)
  ultimately show ?thesis
    using assms(2) sets by (intro map_sorted_distinct_set_unique [of sf_name]) (auto simp: distinct_map)
qed

lemma namespace_for_simps [simp]:
  "ns_backend (namespace_for refresh b s) = b" "ns_storeID (namespace_for refresh b s) = sf_storeID s"
  "ns_prefix (namespace_for refresh b s) = sf_prefix s" "ns_values (namespace_for refresh b s) = None"
  by (simp_all add: namespace_for_def NewNamespace_def WithPrefix_def WithRefresh_def)

lemma fst_on_namespace [simp]: "fst (on_namespace f ns hs w) = fst (f (hs ! ns) w)"
  by (simp add: on_namespace_def split: prod.split)

lemma Get_first:
  assumes "ns_values n = None" and "be_Fetch (ns_backend n) (ns_storeID n) w = (Inr (Some vals), w')" and "gm_wf vals"
  shows "fst (ns_Get io key n w) = (case gm_get vals (if ns_prefix n = '''' then key else ns_prefix n @ ''/'' @ key) of
     None \<Rightarrow> Inl (MissingKeyError (ns_storeID n) key) | Some v \<Rightarrow> Inr v)"
  using assms applyPrefix_get [OF assms(3), of "ns_prefix n" key]
  by (simp add: ns_Get_def ns_Lookup_def load_def Let_def split: option.split)


text \<open>The service an application is given by default has no links, since building it from the environment does not load
  them: no resource resolves, whatever the environment and the bundle say.\<close>

theorem default_service_resolves_nothing:
  assumes "fromEnvironment providers order environ platform = Inr (svc, hs)"
  shows "Resource io svc kind name hs w = (Inl (MissingLinkError kind name []), hs, w)"
proof -
  have "sv_links svc = []"
    using register_stores_rest [OF assms [unfolded fromEnvironment_def]] by (simp add: NewService_def)
  then show ?thesis by (simp add: Resource_def ResourceKey_def links_Find_def namesOf_def)
qed

text \<open>A store named \<^verbatim>\<open>STORE\<close> is dropped, and the unnamed one, which the test is said to be for, does not reach it.\<close>

theorem store_named_STORE_dropped:
  "namedStoreKey ''CELERITY_CONFIG_STORE_STORE_ID'' = None" "cut_suffix ''STORE_ID'' ''_STORE_ID'' = None"
  by code_simp+

text \<open>While no read has succeeded, every read makes a request: the interval is not waited for.\<close>

theorem refusing_store_retried_every_read:
  "ns_values n = None \<Longrightarrow> attempted io n w \<noteq> []"
  by (simp add: attempted_def split: prod.split)

subsection \<open>Examples\<close>

text \<open>A world that is the time, and a store that refuses every third second.\<close>

definition ticking :: "int process_io" where
  "ticking = \<lparr>pi_now = (\<lambda>w. w), pi_warn = (\<lambda>store err w. w)\<rparr>"

definition sometimes :: "int backend" where
  "sometimes = \<lparr>be_Fetch = (\<lambda>storeID w. (if w mod 3 = 0 then Inl (MissingStoreError storeID) else Inr (Some [(''k'', itoa w)]), w)),
     be_Caching = None\<rparr>"

theorem namespace_fresh_witness:
  "let n0 = NewNamespace sometimes ''s'' [WithRefresh 2]; (r1, n1, w1) = load ticking n0 1; (r2, n2, w2) = load ticking n1 3
   in r1 = Inr (Some [(''k'', ''1'')]) \<and> r2 = Inr (Some [(''k'', ''1'')]) \<and> spaced '''' 2 (attempted ticking n0 1 @ attempted ticking n1 3)
     \<and> map fst (attempted ticking n0 1 @ attempted ticking n1 3) = [1, 3]"
proof -
  let ?n0 = "NewNamespace sometimes ''s'' [WithRefresh 2]"
  define n1 where "n1 = fst (snd (load ticking ?n0 1))"
  have n0: "ns_backend ?n0 = sometimes" "ns_storeID ?n0 = ''s''" "ns_prefix ?n0 = ''''" "ns_refresh ?n0 = 2"
    by (simp_all add: NewNamespace_def WithRefresh_def)
  have l1: "load ticking ?n0 1 = (Inr (Some [(''k'', ''1'')]), n1, 1)"
  proof -
    have "fst (load ticking ?n0 1) = Inr (Some [(''k'', ''1'')]) \<and> snd (snd (load ticking ?n0 1)) = 1" by code_simp
    then show ?thesis by (simp add: n1_def prod_eq_iff)
  qed
  have l2: "fst (load ticking n1 3) = Inr (Some [(''k'', ''1'')])" "map fst (attempted ticking ?n0 1) = [1]" "map fst (attempted ticking n1 3) = [3]"
    unfolding n1_def by code_simp+
  have reach: "ns_reaches ticking ?n0 0 n1 3 ([] @ attempted ticking ?n0 1)"
    by (rule ns_reaches.elapse [OF ns_reaches.read [OF ns_reaches.elapse [OF ns_reaches.start] l1]]) (simp_all add: ticking_def)
  obtain n2 w2 where "load ticking n1 3 = (Inr (Some [(''k'', ''1'')]), n2, w2)" using l2(1) by (metis prod.collapse)
  note l3 = this
  have clock: "pi_now ticking w \<le> pi_now ticking (snd (be_Fetch (ns_backend ?n0) (ns_storeID ?n0) w))" for w
    unfolding n0 by (simp add: ticking_def sometimes_def)
  have "\<forall>opt\<in>set [WithRefresh 2]. known_option opt" by (auto simp: known_option_def)
  from namespace_fresh [OF refl this clock reach l3 refl]
  have "spaced '''' 2 (attempted ticking ?n0 1 @ attempted ticking n1 3)" by (simp only: n0 append_Nil)
  then show ?thesis using l1 l2 l3 by simp
qed

text \<open>An environment that describes the resources store and one of the application's, on a platform whose provider keeps
  stores in a map.\<close>

abbreviation deployment :: "string list" where
  "deployment \<equiv> [''CELERITY_CONFIG_RESOURCES_STORE_ID=res-1'', ''CELERITY_CONFIG_RESOURCES_STORE_PREFIX=shop'',
     ''CELERITY_CONFIG_RESOURCES_NAMESPACE=resources'', ''CELERITY_CONFIG_STORE_ID=app-1'']"

definition in_map :: "int config_provider" where
  "in_map = \<lparr>cp_Name = ''map'', cp_Platform = ''local'',
     cp_Backend = (\<lambda>kind. Inr (MapBackend [(''res-1'', [(''shop/orders'', ''orders-bucket-7'')])]))\<rparr>"


end
