(* ===== verification/Config_Bind.thy ===== *)
theory Config_Bind
  imports Config
begin

text \<open>
  Filling a struct from a store's values, by its \<^verbatim>\<open>config\<close> tags: \<^verbatim>\<open>src/config/bind.go\<close>. A Go type is described as far as
  reflection shows it (\<open>ctype\<close>), a value of it by \<open>cval\<close>. A type that contains itself through a tagged pointer is
  outside the description: for one the code does not end, since it allocates every pointer it meets. The parsers of floats
  and durations are arguments.
\<close>

subsection \<open>Types and values\<close>

datatype ctype = CString | CBool | CInt nat | CUint nat | CFloat nat | CDuration | CTime | COther string
  | CPtr ctype | CStruct "cfield list"
and cfield = CField (cf_Name: string) (cf_Anonymous: bool) (cf_Exported: bool) (cf_Tag: "string option") (cf_Type: ctype)
    (cf_TypeName: string)

datatype cval = CV fval | CVDuration int | CVOther json | CVPtr "cval option" | CVStruct "cval list"

primrec zero_of :: "ctype \<Rightarrow> cval" and zero_field :: "cfield \<Rightarrow> cval" where
  "zero_of CString = CV (VString '''')"
| "zero_of CBool = CV (VBool False)"
| "zero_of (CInt n) = CV (VInt 0)"
| "zero_of (CUint n) = CV (VUint 0)"
| "zero_of (CFloat n) = CV (VFloat 0)"
| "zero_of CDuration = CVDuration 0"
| "zero_of CTime = CVOther JNull"
| "zero_of (COther k) = CVOther JNull"
| "zero_of (CPtr t) = CVPtr None"
| "zero_of (CStruct fs) = CVStruct (map zero_field fs)"
| "zero_field (CField name anonymous exported tag t typ) = zero_of t"

record config_parsers =
  cg_ParseFloat :: "string \<Rightarrow> nat \<Rightarrow> gerr + 64 word"
  cg_ParseDuration :: "string \<Rightarrow> gerr + int"

fun kind_text :: "ctype \<Rightarrow> string" where
  "kind_text (CPtr t) = ''ptr''"
| "kind_text CTime = ''struct''"
| "kind_text (CStruct fs) = ''struct''"
| "kind_text (COther k) = k"
| "kind_text t = ''''"

subsection \<open>One field\<close>

text \<open>Every field this is called for can be set.\<close>

definition setConfigField :: "config_parsers \<Rightarrow> ctype \<Rightarrow> string \<Rightarrow> gerr + cval" where
  "setConfigField cg t raw =
     (let no = (\<lambda>what. Inl (Errorf (go_quote raw @ what) None))
      in case t of
           CDuration \<Rightarrow> (case cg_ParseDuration cg raw of Inl err \<Rightarrow> no '' is not a duration, such as 30s or 500ms'' | Inr d \<Rightarrow> Inr (CVDuration d))
         | CString \<Rightarrow> Inr (CV (VString raw))
         | CBool \<Rightarrow> (case ParseBool raw of Inl err \<Rightarrow> no '' is not true or false'' | Inr b \<Rightarrow> Inr (CV (VBool b)))
         | CInt bits \<Rightarrow> (case ParseInt raw bits of Inl err \<Rightarrow> no '' is not a whole number'' | Inr i \<Rightarrow> Inr (CV (VInt i)))
         | CUint bits \<Rightarrow> (case ParseUint raw bits of Inl err \<Rightarrow> no '' is not a whole number that is not negative'' | Inr n \<Rightarrow> Inr (CV (VUint n)))
         | CFloat bits \<Rightarrow> (case cg_ParseFloat cg raw bits of Inl err \<Rightarrow> no '' is not a number'' | Inr f \<Rightarrow> Inr (CV (VFloat f)))
         | _ \<Rightarrow> Inl (Errorf (''a '' @ kind_text t @ '' cannot be read from a configuration value'') None))"

definition separators :: "string list" where
  "separators = [''_'', ''/'']"

definition candidates :: "string list \<Rightarrow> string \<Rightarrow> string list" where
  "candidates prefixes tag =
     (if length prefixes = 0 then [tag]
      else concat (map (\<lambda>prefix. map (\<lambda>separator. prefix @ separator @ tag) separators) prefixes))"

definition config_lookup :: "store_values \<Rightarrow> string list \<Rightarrow> string \<Rightarrow> (string \<times> string) option" where
  "config_lookup vals prefixes tag =
     (case List.find (\<lambda>key. gm_get vals key \<noteq> None) (candidates prefixes tag) of
        None \<Rightarrow> None
      | Some key \<Rightarrow> Some (the (gm_get vals key), key))"

subsection \<open>Structs\<close>

text \<open>What a chain of pointers ends in, and the chain with its nil pointers allocated.\<close>

fun end_type :: "ctype \<Rightarrow> ctype" where
  "end_type (CPtr t) = end_type t"
| "end_type t = t"

definition pointee :: "ctype \<Rightarrow> cval \<Rightarrow> cval" where
  "pointee t v = (case v of CVPtr (Some w) \<Rightarrow> w | _ \<Rightarrow> zero_of t)"

fun allocated :: "ctype \<Rightarrow> cval \<Rightarrow> cval" where
  "allocated (CPtr t) v = CVPtr (Some (allocated t (pointee t v)))"
| "allocated t v = v"

text \<open>\<^verbatim>\<open>groupToDescend\<close> says whether a field groups configuration. In passing it has allocated the pointers before it.\<close>

definition groupToDescend :: "ctype \<Rightarrow> bool" where
  "groupToDescend t = (case end_type t of CStruct fs \<Rightarrow> True | _ \<Rightarrow> False)"

fun nil_on_the_way :: "ctype \<Rightarrow> cval \<Rightarrow> bool" where
  "nil_on_the_way (CPtr t) (CVPtr (Some v)) = nil_on_the_way t v"
| "nil_on_the_way (CPtr t) v = True"
| "nil_on_the_way t v = False"

definition unreachable :: "string \<Rightarrow> gerr" where
  "unreachable typ = Errorf (''celerity: config cannot be bound into an embedded pointer to the unexported type '' @ typ
     @ '': export the type, or embed it by value'') None"

fun bindStruct :: "config_parsers \<Rightarrow> store_values \<Rightarrow> cfield list \<Rightarrow> string list \<Rightarrow> cval list \<Rightarrow> gerr option \<times> cval list"
  and bindField :: "config_parsers \<Rightarrow> store_values \<Rightarrow> cfield \<Rightarrow> string list \<Rightarrow> cval \<Rightarrow> gerr option \<times> cval"
  and bindInside :: "config_parsers \<Rightarrow> store_values \<Rightarrow> ctype \<Rightarrow> string list \<Rightarrow> cval \<Rightarrow> gerr option \<times> cval" where
  "bindStruct cg vals [] prefixes vs = (None, vs)"
| "bindStruct cg vals (f # fs) prefixes [] = (None, [])"
| "bindStruct cg vals (f # fs) prefixes (v # vs) =
     (case bindField cg vals f prefixes v of
        (Some err, w) \<Rightarrow> (Some err, w # vs)
      | (None, w) \<Rightarrow> (case bindStruct cg vals fs prefixes vs of (err, ws) \<Rightarrow> (err, w # ws)))"
| "bindField cg vals (CField name anonymous exported tag t typ) prefixes v =
     (if anonymous then
        if \<not> exported \<and> nil_on_the_way t v then (Some (unreachable typ), v) else bindInside cg vals t [] v
      else case tag of
        None \<Rightarrow> (None, v)
      | Some tag \<Rightarrow>
          if \<not> exported then (None, v)
          else if groupToDescend t then bindInside cg vals t (candidates prefixes tag) v
          else let v = allocated t v
               in case config_lookup vals prefixes tag of
                    None \<Rightarrow> (None, v)
                  | Some (raw, key) \<Rightarrow>
                      (case setConfigField cg t raw of
                         Inl err \<Rightarrow> (Some (Errorf (''celerity: config '' @ go_quote key @ '': '' @ error_text err) (Some err)), v)
                       | Inr w \<Rightarrow> (None, w)))"
| "bindInside cg vals (CPtr t) prefixes v = (case bindInside cg vals t prefixes (pointee t v) of (err, w) \<Rightarrow> (err, CVPtr (Some w)))"
| "bindInside cg vals (CStruct fs) prefixes (CVStruct vs) = (case bindStruct cg vals fs prefixes vs of (err, ws) \<Rightarrow> (err, CVStruct ws))"
| "bindInside cg vals t prefixes v = (None, v)"

definition not_a_struct :: gerr where
  "not_a_struct = Errorf ''celerity: config can only be bound into a pointer to a struct'' None"

definition bindValues :: "config_parsers \<Rightarrow> store_values \<Rightarrow> ctype \<Rightarrow> cval \<Rightarrow> gerr option \<times> cval" where
  "bindValues cg vals t out =
     (case (t, out) of
        (CPtr t', CVPtr (Some v)) \<Rightarrow>
          (if end_type t' = CTime \<or> groupToDescend t' then bindInside cg vals t [] out else (Some not_a_struct, allocated t out))
      | _ \<Rightarrow> (Some not_a_struct, out))"

subsection \<open>Well-typed values\<close>

fun typed :: "ctype \<Rightarrow> cval \<Rightarrow> bool" and typed_all :: "cfield list \<Rightarrow> cval list \<Rightarrow> bool" where
  "typed (CPtr t) (CVPtr None) = True"
| "typed (CPtr t) (CVPtr (Some v)) = typed t v"
| "typed (CPtr t) _ = False"
| "typed (CStruct fs) (CVStruct vs) = typed_all fs vs"
| "typed (CStruct fs) _ = False"
| "typed _ v = True"
| "typed_all [] vs = (vs = [])"
| "typed_all (CField n a e tag t ty # fs) (v # vs) = (typed t v \<and> typed_all fs vs)"
| "typed_all (f # fs) [] = False"

lemma typed_all_iff: "typed_all fs vs \<longleftrightarrow> length fs = length vs \<and> (\<forall>i<length fs. typed (cf_Type (fs ! i)) (vs ! i))"
proof (induction fs arbitrary: vs)
  case (Cons f fs)
  then show ?case by (cases f; cases vs) (auto simp: All_less_Suc2)
qed auto

lemma typed_zero: "typed t (zero_of t)" "typed (cf_Type f) (zero_field f)"
  by (induction t and f) (auto simp: typed_all_iff)

subsection \<open>Leaves\<close>

text \<open>A leaf is a tagged, exported field that holds one value, reached through named groups; \<open>leaf_of\<close> gives the tags on the
  way to it and its type, \<open>value_at\<close> what a struct holds there (the zero value, below a nil pointer).\<close>

fun inner :: "ctype \<Rightarrow> cval \<Rightarrow> cval" where
  "inner (CPtr t) v = inner t (pointee t v)"
| "inner t v = v"

definition group_fields :: "ctype \<Rightarrow> cfield list option" where
  "group_fields t = (case end_type t of CStruct fs \<Rightarrow> Some fs | _ \<Rightarrow> None)"

definition group_values :: "ctype \<Rightarrow> cval \<Rightarrow> cval list" where
  "group_values t v = (case inner t v of CVStruct vs \<Rightarrow> vs | _ \<Rightarrow> [])"

definition key_tag :: "cfield \<Rightarrow> string option" where
  "key_tag f = (if cf_Anonymous f \<or> \<not> cf_Exported f then None else cf_Tag f)"

fun leaf_of :: "nat list \<Rightarrow> cfield list \<Rightarrow> (string list \<times> ctype) option" where
  "leaf_of [] fs = None"
| "leaf_of [i] fs =
     (if i < length fs then case key_tag (fs ! i) of
          None \<Rightarrow> None
        | Some tag \<Rightarrow> (case cf_Type (fs ! i) of CPtr t \<Rightarrow> None | CStruct gs \<Rightarrow> None | t \<Rightarrow> Some ([tag], t))
      else None)"
| "leaf_of (i # path) fs =
     (if i < length fs then case (key_tag (fs ! i), group_fields (cf_Type (fs ! i))) of
          (Some tag, Some gs) \<Rightarrow> map_option (\<lambda>(tags, t). (tag # tags, t)) (leaf_of path gs)
        | _ \<Rightarrow> None
      else None)"

fun value_at :: "nat list \<Rightarrow> cfield list \<Rightarrow> cval list \<Rightarrow> cval" where
  "value_at [] fs vs = CVStruct vs"
| "value_at [i] fs vs = vs ! i"
| "value_at (i # path) fs vs = value_at path (slice (group_fields (cf_Type (fs ! i)))) (group_values (cf_Type (fs ! i)) (vs ! i))"

lemma typed_pointee: "typed (CPtr t) v \<Longrightarrow> typed t (pointee t v)"
  by (cases "(CPtr t, v)" rule: typed.cases) (auto simp: pointee_def typed_zero)

lemma bindStruct_ok:
  "bindStruct cg vals fs ps vs = (None, ws) \<Longrightarrow> length vs = length fs \<Longrightarrow>
     length ws = length fs \<and> (\<forall>i<length fs. bindField cg vals (fs ! i) ps (vs ! i) = (None, ws ! i))"
proof (induction fs arbitrary: vs ws)
  case (Cons f fs)
  then obtain v vs' where vs: "vs = v # vs'" by (cases vs) auto
  with Cons.prems obtain w ws' where w: "bindField cg vals f ps v = (None, w)" "bindStruct cg vals fs ps vs' = (None, ws')" "ws = w # ws'"
    by (auto split: prod.splits option.splits)
  then show ?case using Cons.IH [OF w(2)] Cons.prems(2) vs by (auto simp: All_less_Suc2)
qed simp

fun_cases typed_structE: "typed (CStruct fs) v"

lemma bindInside_ok:
  "bindInside cg vals t ps v = (None, w) \<Longrightarrow> group_fields t = Some fs \<Longrightarrow> typed t v \<Longrightarrow>
     bindStruct cg vals fs ps (group_values t v) = (None, group_values t w) \<and> typed_all fs (group_values t v)"
proof (induction t arbitrary: v w rule: end_type.induct)
  case (1 t)
  then obtain w' where "bindInside cg vals t ps (pointee t v) = (None, w')" "w = CVPtr (Some w')" by (auto split: prod.splits)
  with 1 typed_pointee [OF 1(4)] show ?case by (simp add: group_fields_def group_values_def pointee_def)
qed (auto simp: group_fields_def group_values_def split: prod.splits elim!: typed_structE)

abbreviation spellings :: "string list \<Rightarrow> string list \<Rightarrow> string list" where
  "spellings prefixes tags \<equiv> foldl candidates prefixes tags"

lemma key_tag_Some:
  "key_tag f = Some tag \<longleftrightarrow> (\<exists>name t ty. f = CField name False True (Some tag) t ty)"
  by (cases f) (auto simp: key_tag_def)

lemma leaf_bound:
  assumes "bindStruct cg vals fs ps vs = (None, ws)" and "typed_all fs vs" and "leaf_of path fs = Some (tags, t)"
  shows "case List.find (\<lambda>key. gm_get vals key \<noteq> None) (spellings ps tags) of
     None \<Rightarrow> value_at path fs ws = value_at path fs vs
   | Some key \<Rightarrow> setConfigField cg t (the (gm_get vals key)) = Inr (value_at path fs ws)"
  using assms
proof (induction path fs arbitrary: ps vs ws tags rule: leaf_of.induct)
  case (2 i fs)
  then have i: "i < length fs" "length vs = length fs" by (auto simp: typed_all_iff split: if_splits)
  from 2(3) i obtain tag where tag: "key_tag (fs ! i) = Some tag" "tags = [tag]" "t = cf_Type (fs ! i)"
    and leaf: "\<forall>v. allocated t v = v" "\<not> groupToDescend t"
    by (auto simp: groupToDescend_def split: option.splits ctype.splits)
  from tag obtain name ty where f: "fs ! i = CField name False True (Some tag) t ty" by (auto simp: key_tag_Some)
  have "bindField cg vals (fs ! i) ps (vs ! i) = (None, ws ! i)" using bindStruct_ok [OF 2(1)] i by simp
  with leaf f have "(case config_lookup vals ps tag of
       None \<Rightarrow> (None, vs ! i)
     | Some (raw, key) \<Rightarrow> (case setConfigField cg t raw of Inl err \<Rightarrow> (Some (Errorf (''celerity: config '' @ go_quote key @ '': '' @ error_text err) (Some err)), vs ! i)
         | Inr w \<Rightarrow> (None, w))) = (None, ws ! i)" by (simp add: Let_def)
  then have set: "case config_lookup vals ps tag of None \<Rightarrow> ws ! i = vs ! i | Some (raw, key) \<Rightarrow> setConfigField cg t raw = Inr (ws ! i)"
    by (auto split: option.splits sum.splits)
  have "spellings ps tags = candidates ps tag" by (simp add: tag)
  with set show ?case
    unfolding config_lookup_def by (cases "List.find (\<lambda>key. gm_get vals key \<noteq> None) (candidates ps tag)") simp_all
next
  case (3 i j path fs)
  then have i: "i < length fs" "length vs = length fs" by (auto simp: typed_all_iff split: if_splits)
  from 3(4) i obtain tag gs tags' where tag: "key_tag (fs ! i) = Some tag" "group_fields (cf_Type (fs ! i)) = Some gs" "tags = tag # tags'"
    and rest: "leaf_of (j # path) gs = Some (tags', t)"
    by (auto split: option.splits)
  from tag obtain name t' ty where f: "fs ! i = CField name False True (Some tag) t' ty" by (auto simp: key_tag_Some)
  have "groupToDescend t'" using tag(2) by (auto simp: f groupToDescend_def group_fields_def split: ctype.splits)
  moreover have "bindField cg vals (fs ! i) ps (vs ! i) = (None, ws ! i)" using bindStruct_ok [OF 3(2)] i by simp
  ultimately have "bindInside cg vals t' (candidates ps tag) (vs ! i) = (None, ws ! i)" by (simp add: f)
  moreover have "typed t' (vs ! i)" using 3(3) i f by (auto simp: typed_all_iff)
  ultimately have "bindStruct cg vals gs (candidates ps tag) (group_values t' (vs ! i)) = (None, group_values t' (ws ! i))"
    "typed_all gs (group_values t' (vs ! i))" using bindInside_ok tag(2) f by auto
  note IH = 3(1) [OF i(1) refl tag(1,2) this rest]
  have "value_at (i # j # path) fs xs = value_at (j # path) gs (group_values t' (xs ! i))" for xs
    using tag(2) by (simp add: f slice_def)
  with IH show ?case by (simp only: tag(3) foldl_Cons)
qed simp

text \<open>The spellings of a key: its tags, with either separator between any two of them.\<close>

definition punctuate :: "string list \<Rightarrow> string list \<Rightarrow> string" where
  "punctuate tags seps = hd tags @ concat (map2 (\<lambda>sep tag. sep @ tag) seps (tl tags))"

definition spelled :: "string list \<Rightarrow> string list \<Rightarrow> bool" where
  "spelled tags seps \<longleftrightarrow> length seps = length (tl tags) \<and> set seps \<subseteq> {''_'', ''/''}"

definition spells :: "string list \<Rightarrow> string list \<Rightarrow> bool" where
  "spells tags seps \<longleftrightarrow> length seps = length tags \<and> set seps \<subseteq> {''_'', ''/''}"

lemma in_candidates:
  "ps \<noteq> [] \<Longrightarrow> k \<in> set (candidates ps tag) \<longleftrightarrow> (\<exists>p\<in>set ps. \<exists>sep\<in>{''_'', ''/''}. k = p @ sep @ tag)"
  by (auto simp: candidates_def separators_def)

lemma spells_Cons:
  "(\<exists>seps. spells (tag # tags) seps \<and> P seps) \<longleftrightarrow> (\<exists>sep\<in>{''_'', ''/''}. \<exists>seps. spells tags seps \<and> P (sep # seps))"
proof
  assume "\<exists>seps. spells (tag # tags) seps \<and> P seps"
  then obtain seps where "spells (tag # tags) seps" "P seps" by blast
  then show "\<exists>sep\<in>{''_'', ''/''}. \<exists>seps. spells tags seps \<and> P (sep # seps)"
    by (cases seps) (auto simp: spells_def)
next
  assume "\<exists>sep\<in>{''_'', ''/''}. \<exists>seps. spells tags seps \<and> P (sep # seps)"
  then obtain sep seps where "sep \<in> {''_'', ''/''}" "spells tags seps" "P (sep # seps)" by blast
  then show "\<exists>seps. spells (tag # tags) seps \<and> P seps"
    by (intro exI [of _ "sep # seps"]) (auto simp: spells_def)
qed

lemma in_spellings:
  "ps \<noteq> [] \<Longrightarrow> k \<in> set (spellings ps tags) \<longleftrightarrow>
     (\<exists>p\<in>set ps. \<exists>seps. spells tags seps \<and> k = p @ concat (map2 (\<lambda>sep tag. sep @ tag) seps tags))"
proof (induction tags arbitrary: ps)
  case Nil
  then show ?case by (auto simp: spells_def)
next
  case (Cons tag tags)
  have ne: "candidates ps tag \<noteq> []" using Cons.prems by (simp add: candidates_def separators_def)
  have "k \<in> set (spellings ps (tag # tags)) \<longleftrightarrow> (\<exists>p\<in>set ps. \<exists>sep\<in>{''_'', ''/''}. \<exists>seps. spells tags seps
      \<and> k = (p @ sep @ tag) @ concat (map2 (\<lambda>sep tag. sep @ tag) seps tags))"
    unfolding foldl_Cons Cons.IH [OF ne] Bex_def in_candidates [OF Cons.prems] by blast
  then show ?case by (simp only: spells_Cons) simp
qed

lemma spellings_punctuate:
  "tags \<noteq> [] \<Longrightarrow> k \<in> set (spellings [] tags) \<longleftrightarrow> (\<exists>seps. spelled tags seps \<and> k = punctuate tags seps)"
  using in_spellings [of "[hd tags]" k "tl tags"]
  by (cases tags) (simp_all add: candidates_def punctuate_def spelled_def spells_def)

lemma leaf_tags: "leaf_of path fs = Some (tags, t) \<Longrightarrow> tags \<noteq> []"
  by (induction path fs arbitrary: tags rule: leaf_of.induct) (auto split: if_splits option.splits ctype.splits)


subsection \<open>Examples\<close>

definition no_parsers :: config_parsers where
  "no_parsers = \<lparr>cg_ParseFloat = (\<lambda>raw bits. Inl (Errorf ''float'' None)), cg_ParseDuration = (\<lambda>raw. Inl (Errorf ''duration'' None))\<rparr>"

abbreviation leaf :: "string \<Rightarrow> ctype \<Rightarrow> cfield" where
  "leaf tag t \<equiv> CField tag False True (Some tag) t ''''"

abbreviation database :: "cfield list" where
  "database \<equiv> [CField ''Database'' False True (Some ''DATABASE'') (CPtr (CStruct [leaf ''HOST'' CString, leaf ''NAME'' CString])) '''']"

abbreviation bound :: "cval list" where
  "bound \<equiv> [CVPtr (Some (CVStruct [CV (VString ''db''), CV (VString '''')]))]"


text \<open>An embedded struct inside a group loses the group's prefix: its fields are read from the top of the store, and not from
  where the fields beside it are.\<close>

theorem embedded_loses_prefix:
  "bindValues no_parsers [(''DATABASE_HOST'', ''db''), (''HOST'', ''other'')]
     (CPtr (CStruct [CField ''Database'' False True (Some ''DATABASE'')
        (CStruct [CField ''Common'' True True None (CStruct [leaf ''HOST'' CString]) ''Common'']) '''']))
     (CVPtr (Some (CVStruct [CVStruct [CVStruct [CV (VString '''')]]])))
   = (None, CVPtr (Some (CVStruct [CVStruct [CVStruct [CV (VString ''other'')]]])))"
  by code_simp

text \<open>A nil pointer to a number is set to point at zero where the store holds nothing for it, and refused where it does.\<close>

theorem pointer_to_number:
  "bindValues no_parsers [] (CPtr (CStruct [leaf ''N'' (CPtr (CInt 64))])) (CVPtr (Some (CVStruct [CVPtr None])))
     = (None, CVPtr (Some (CVStruct [CVPtr (Some (CV (VInt 0)))])))"
  "fst (bindValues no_parsers [(''N'', ''1'')] (CPtr (CStruct [leaf ''N'' (CPtr (CInt 64))])) (CVPtr (Some (CVStruct [CVPtr None])))) \<noteq> None"
  by code_simp+

end
