(* ===== verification/Config_Providers.thy ===== *)
theory Config_Providers
  imports Config
begin

text \<open>
  Where configuration is read from: \<^verbatim>\<open>src/config/aws\<close> (Secrets Manager, Parameter Store, and the Lambda extension in
  front of the first) and \<^verbatim>\<open>src/config/local\<close> (the Valkey of a development session). The calls of the AWS SDK, the
  HTTP request to the extension and the Valkey client are arguments over a world of any type; so are the parsing of JSON
  and the printed forms of numbers.
\<close>

subsection \<open>AWS\<close>

definition StoreSecretsManager :: string where
  "StoreSecretsManager = ''secrets-manager''"

definition StoreParameterStore :: string where
  "StoreParameterStore = ''parameter-store''"

definition ExtensionPortEnvVar :: string where
  "ExtensionPortEnvVar = ''PARAMETERS_SECRETS_EXTENSION_HTTP_PORT''"

text \<open>The AWS configuration is loaded once, by whichever read comes first; \<open>loadAWS\<close> is what loading gives.\<close>

record aws_provider =
  ap_loaded :: "gerr option option"
  ap_secrets :: bool
    \<comment> \<open>a client a test supplied\<close>
  ap_parameters :: bool

definition awsConfig :: "('w \<Rightarrow> gerr option \<times> 'w) \<Rightarrow> aws_provider \<Rightarrow> 'w \<Rightarrow> gerr option \<times> aws_provider \<times> 'w" where
  "awsConfig loadAWS p w =
     (let (p, w) = (case ap_loaded p of Some r \<Rightarrow> (p, w) | None \<Rightarrow> (case loadAWS w of (r, w') \<Rightarrow> (p\<lparr>ap_loaded := Some r\<rparr>, w')))
      in (case ap_loaded p of
            Some (Some err) \<Rightarrow> Some (Errorf (''loading AWS configuration to read a config store: '' @ error_text err) (Some err))
          | _ \<Rightarrow> None, p, w))"

definition secrets_client :: "('w \<Rightarrow> gerr option \<times> 'w) \<Rightarrow> aws_provider \<Rightarrow> 'w \<Rightarrow> gerr option \<times> aws_provider \<times> 'w" where
  "secrets_client loadAWS p w = (if ap_secrets p then (None, p, w) else awsConfig loadAWS p w)"

definition parameters_client :: "('w \<Rightarrow> gerr option \<times> 'w) \<Rightarrow> aws_provider \<Rightarrow> 'w \<Rightarrow> gerr option \<times> aws_provider \<times> 'w" where
  "parameters_client loadAWS p w = (if ap_parameters p then (None, p, w) else awsConfig loadAWS p w)"

text \<open>\<open>getSecretValue\<close> answers with the secret's string, where it has one.\<close>

definition secretsManager_Fetch ::
    "('w \<Rightarrow> gerr option \<times> 'w) \<Rightarrow> (string \<Rightarrow> 'w \<Rightarrow> (gerr + string option) \<times> 'w) \<Rightarrow> (byte list \<Rightarrow> gerr + jtree) \<Rightarrow> number_forms
       \<Rightarrow> string \<Rightarrow> aws_provider \<Rightarrow> 'w \<Rightarrow> (gerr + store_values) \<times> aws_provider \<times> 'w" where
  "secretsManager_Fetch loadAWS getSecretValue parse nf storeID p w =
     (case secrets_client loadAWS p w of
        (Some err, p, w) \<Rightarrow> (Inl err, p, w)
      | (None, p, w) \<Rightarrow>
          (case getSecretValue storeID w of
             (Inl err, w) \<Rightarrow> (Inl (Errorf (''celerity: reading the config store '' @ go_quote storeID @ '' from Secrets Manager: '' @ error_text err) (Some err)), p, w)
           | (Inr secret, w) \<Rightarrow>
               (if secret = None \<or> secret = Some '''' then Inr [] else ValuesFromJSON parse nf (bytes_of (the secret)) storeID, p, w)))"

text \<open>A page of parameters: each with its name and its value, either of which may be absent, and the token of the next.\<close>

type_synonym parameter = "string option \<times> string option"
type_synonym parameter_page = "parameter list \<times> string option"

definition parameter_key :: "string \<Rightarrow> string \<Rightarrow> string" where
  "parameter_key prefix name =
     (if length name > length prefix \<and> take (length prefix) name = prefix then drop (length prefix) name else name)"

definition collect :: "store_values \<Rightarrow> string \<Rightarrow> parameter list \<Rightarrow> store_values" where
  "collect vals prefix params = fold (\<lambda>param out. case param of
     (Some name, Some v) \<Rightarrow> gm_put (parameter_key prefix name) v out | _ \<Rightarrow> out) params vals"

partial_function (option) parameter_pages ::
    "(string \<Rightarrow> string option \<Rightarrow> 'w \<Rightarrow> (gerr + parameter_page) \<times> 'w) \<Rightarrow> string \<Rightarrow> string \<Rightarrow> string option \<Rightarrow> store_values \<Rightarrow> 'w
       \<Rightarrow> ((gerr + store_values) \<times> 'w) option" where
  "parameter_pages getParametersByPath storeID prefix nxt vals w =
     (case getParametersByPath prefix nxt w of
        (Inl err, w') \<Rightarrow> Some (Inl (Errorf (''celerity: reading the config store '' @ go_quote storeID @ '' from Parameter Store: '' @ error_text err) (Some err)), w')
      | (Inr (params, nxt'), w') \<Rightarrow>
          (let vals' = collect vals prefix params
           in if nxt' = None \<or> nxt' = Some '''' then Some (Inr vals', w')
              else parameter_pages getParametersByPath storeID prefix nxt' vals' w'))"

definition store_path :: "string \<Rightarrow> string" where
  "store_path storeID = (if storeID = '''' \<or> last storeID \<noteq> CHR ''/'' then storeID @ ''/'' else storeID)"

definition parameterStore_Fetch ::
    "('w \<Rightarrow> gerr option \<times> 'w) \<Rightarrow> (string \<Rightarrow> string option \<Rightarrow> 'w \<Rightarrow> (gerr + parameter_page) \<times> 'w)
       \<Rightarrow> string \<Rightarrow> aws_provider \<Rightarrow> 'w \<Rightarrow> ((gerr + store_values) \<times> aws_provider \<times> 'w) option" where
  "parameterStore_Fetch loadAWS getParametersByPath storeID p w =
     (case parameters_client loadAWS p w of
        (Some err, p, w) \<Rightarrow> Some (Inl err, p, w)
      | (None, p, w) \<Rightarrow> map_option (\<lambda>(r, w). (r, p, w)) (parameter_pages getParametersByPath storeID (store_path storeID) None [] w))"

text \<open>The extension: \<open>http_get\<close> makes the request, with the session token in its header, and gives the status, its text
  and the body.\<close>

definition extension_read ::
    "(string \<Rightarrow> string \<Rightarrow> 'w \<Rightarrow> (gerr + int \<times> string \<times> (gerr + byte list)) \<times> 'w) \<Rightarrow> (byte list \<Rightarrow> gerr + jtree) \<Rightarrow> (string \<Rightarrow> string)
       \<Rightarrow> string \<Rightarrow> string \<Rightarrow> 'w \<Rightarrow> (gerr + string) \<times> 'w" where
  "extension_read http_get parse getenv port storeID w =
     (case http_get (''http://localhost:'' @ port @ ''/secretsmanager/get?secretId='' @ QueryEscape storeID) (getenv ''AWS_SESSION_TOKEN'') w of
        (Inl err, w) \<Rightarrow> (Inl err, w)
      | (Inr (code, status, body), w) \<Rightarrow>
          (if code \<noteq> 200 then Inl (Errorf (''the extension answered '' @ status) None)
           else case body of
             Inl err \<Rightarrow> Inl err
           | Inr body \<Rightarrow>
               (case (case parse body of
                        Inl err \<Rightarrow> Inl err
                      | Inr t \<Rightarrow> (case dec_object '''' t of Inl err \<Rightarrow> Inl err | Inr kvs \<Rightarrow> dec_string ''SecretString'' (member ''SecretString'' kvs))) of
                  Inl err \<Rightarrow> Inl (Errorf (''the extension's answer is not the expected JSON: '' @ error_text err) (Some err))
                | Inr s \<Rightarrow> Inr s), w))"

definition extension_Fetch ::
    "('w \<Rightarrow> (gerr + string) \<times> 'w) \<Rightarrow> ('w \<Rightarrow> (gerr + store_values) \<times> aws_provider \<times> 'w) \<Rightarrow> (string \<Rightarrow> gerr \<Rightarrow> 'w \<Rightarrow> 'w)
       \<Rightarrow> (byte list \<Rightarrow> gerr + jtree) \<Rightarrow> number_forms \<Rightarrow> string \<Rightarrow> aws_provider \<Rightarrow> 'w \<Rightarrow> (gerr + store_values) \<times> aws_provider \<times> 'w" where
  "extension_Fetch read fallback warn parse nf storeID p w =
     (case read w of
        (Inl err, w) \<Rightarrow> fallback (warn storeID err w)
      | (Inr raw, w) \<Rightarrow> (if raw = '''' then Inr [] else ValuesFromJSON parse nf (bytes_of raw) storeID, p, w))"

datatype aws_backend = parameterStore | secretsManager | extensionCache string

definition aws_Backend :: "(string \<Rightarrow> string) \<Rightarrow> string \<Rightarrow> gerr + aws_backend" where
  "aws_Backend getenv kind =
     (if kind = StoreParameterStore then Inr parameterStore
      else if kind = StoreSecretsManager \<or> kind = '''' then
        (let port = getenv ExtensionPortEnvVar in Inr (if port \<noteq> '''' then extensionCache port else secretsManager))
      else Inl (Errorf (''AWS holds configuration as '' @ go_quote StoreSecretsManager @ '' or '' @ go_quote StoreParameterStore
        @ '', and the deployment asked for '' @ go_quote kind) None))"

subsection \<open>A development session\<close>

definition local_address :: "(string \<Rightarrow> string) \<Rightarrow> string" where
  "local_address getenv =
     (let host = getenv ''CELERITY_CONFIG_VALKEY_HOST''; host = (if host = '''' then ''localhost'' else host);
          port = getenv ''CELERITY_CONFIG_VALKEY_PORT''; port = (if port = '''' then ''6379'' else port)
      in host @ '':'' @ port)"

text \<open>\<open>get\<close> is the client's \<^verbatim>\<open>GET\<close>, at the address the client was made for; a key that is not there is \<open>None\<close>.\<close>

definition local_Fetch ::
    "(string \<Rightarrow> 'w \<Rightarrow> (gerr + string option) \<times> 'w) \<Rightarrow> (byte list \<Rightarrow> gerr + jtree) \<Rightarrow> number_forms \<Rightarrow> (string \<Rightarrow> string)
       \<Rightarrow> string \<Rightarrow> 'w \<Rightarrow> (gerr + store_values option) \<times> 'w" where
  "local_Fetch get parse nf getenv storeID w =
     (case get storeID w of
        (Inl err, w) \<Rightarrow> (Inl (Errorf (''celerity: reading the config store '' @ go_quote storeID @ '' from the local session at ''
          @ local_address getenv @ '': '' @ error_text err) (Some err)), w)
      | (Inr None, w) \<Rightarrow> (Inr (Some []), w)
      | (Inr (Some raw), w) \<Rightarrow> (map_Inr Some (ValuesFromJSON parse nf (bytes_of raw) storeID), w))"

definition local_Backend :: "(string \<Rightarrow> 'w \<Rightarrow> (gerr + string option) \<times> 'w) \<Rightarrow> (byte list \<Rightarrow> gerr + jtree) \<Rightarrow> number_forms
    \<Rightarrow> (string \<Rightarrow> string) \<Rightarrow> string \<Rightarrow> gerr + 'w backend" where
  "local_Backend get parse nf getenv kind = Inr \<lparr>be_Fetch = local_Fetch get parse nf getenv, be_Caching = None\<rparr>"

subsection \<open>Every page is read\<close>

text \<open>A store of several pages, each but the last naming the next: the values are those of all of them.\<close>

inductive pages_of :: "(string \<Rightarrow> string option \<Rightarrow> 'w \<Rightarrow> (gerr + parameter_page) \<times> 'w) \<Rightarrow> string \<Rightarrow> string option \<Rightarrow> 'w \<Rightarrow> parameter list \<Rightarrow> 'w \<Rightarrow> bool"
  for api prefix where
  last_page: "api prefix nxt w = (Inr (params, nxt'), w') \<Longrightarrow> nxt' = None \<or> nxt' = Some '''' \<Longrightarrow> pages_of api prefix nxt w params w'"
| one_more: "api prefix nxt w = (Inr (params, Some token), w1) \<Longrightarrow> token \<noteq> '''' \<Longrightarrow> pages_of api prefix (Some token) w1 rest w'
    \<Longrightarrow> pages_of api prefix nxt w (params @ rest) w'"

lemma parameter_pages_all:
  "pages_of api prefix nxt w params w' \<Longrightarrow> parameter_pages api storeID prefix nxt vals w = Some (Inr (collect vals prefix params), w')"
proof (induction arbitrary: vals rule: pages_of.induct)
  case (last_page nxt w params nxt' w')
  then show ?case by (subst parameter_pages.simps) simp
next
  case (one_more nxt w params token w1 rest w')
  then show ?case by (subst parameter_pages.simps) (simp add: collect_def)
qed

theorem parameterStore_reads_all_pages:
  assumes "parameters_client loadAWS p w = (None, p', w1)" and "pages_of api (store_path storeID) None w1 params w'"
  shows "parameterStore_Fetch loadAWS api storeID p w = Some (Inr (collect [] (store_path storeID) params), p', w')"
  using assms(1) parameter_pages_all [OF assms(2)] by (simp add: parameterStore_Fetch_def)

text \<open>A store behind the extension is read whether or not the extension answers.\<close>

theorem extension_failure_not_visible:
  "fst (read w) = Inl err \<Longrightarrow> extension_Fetch read fallback warn parse nf storeID p w = fallback (warn storeID err (snd (read w)))"
  by (cases "read w") (simp add: extension_Fetch_def)

end
