(* ===== verification/Ipc_Client.thy ===== *)
theory Ipc_Client
  imports App Ipc_Frames
begin

text \<open>
  The client of the runtime's IPC stream outside its frame loop (\<^verbatim>\<open>src/internal/ipc/client.go\<close>,
  \<^verbatim>\<open>websocket.go\<close>): the handshake over any transport, the result of one dispatch, and the side channel
  to WebSocket clients; and the application's use of it (\<^verbatim>\<open>src/celerity/runtime.go\<close>).

  A transport is its two operations over a state \<^typ>\<open>'t\<close> of its own. The application behind the
  client is a state \<^typ>\<open>'a\<close> that reconciliation may change.
\<close>

subsection \<open>Configuration and errors\<close>

datatype serve_error =
    ServeErr gerr
  | UnresolvedHandlerError unresolved_error
  | ProtocolVersionError protocol_version protocol_version
  | TagMismatchError "string list" "string list"

definition serve_error_text :: "serve_error \<Rightarrow> string" where
  "serve_error_text e =
     (case e of
        ServeErr g \<Rightarrow> error_text g
      | UnresolvedHandlerError u \<Rightarrow> unresolved_text u
      | ProtocolVersionError declared served \<Rightarrow> ''this SDK speaks IPC protocol '' @ version_text declared
          @ '' and the runtime serves '' @ version_text served @ '', rebuild against an SDK the runtime serves''
      | TagMismatchError unknown unhandled \<Rightarrow> ''handler registration does not match the blueprint''
          @ (if length unknown > 0 then newline @ ''  registered in code but not declared by the blueprint: '' @ join '', '' unknown else [])
          @ (if length unhandled > 0 then newline @ ''  declared by the blueprint but not registered in code: '' @ join '', '' unhandled
             else []))"

record ('a, 's) client_config =
  cc_Tags :: "string list"
  cc_Reconcile :: "(handler_config list \<Rightarrow> 'a \<Rightarrow> (pval, (serve_error + string list) \<times> 'a) outcome) option"
  cc_Resolve :: "'a \<Rightarrow> string \<Rightarrow> 's nxt option"
  cc_Concurrency :: int
  cc_Limits :: "('a \<Rightarrow> (pval, (string, int) gomap) outcome) option"
  cc_SDKVersion :: string

definition client_New :: "('a, 's) client_config \<Rightarrow> ('a, 's) client_config" where
  "client_New config = (if cc_Concurrency config \<le> 0 then config\<lparr>cc_Concurrency := 1\<rparr> else config)"

record 't transport =
  tp_Send :: "to_runtime \<Rightarrow> 't \<Rightarrow> gerr option \<times> 't"
  tp_Recv :: "'t \<Rightarrow> (gerr + from_runtime) \<times> 't"

subsection \<open>The handshake\<close>

definition awaitConfig :: "'t transport \<Rightarrow> 't \<Rightarrow> (serve_error + runtime_config) \<times> 't" where
  "awaitConfig tp t =
     (case tp_Recv tp t of
        (Inl err, t) \<Rightarrow> (Inl (ServeErr (Errorf (''waiting for runtime configuration: '' @ error_text err) (Some err))), t)
      | (Inr frame, t) \<Rightarrow>
          (case fm_Config frame of
             None \<Rightarrow> (Inl (ServeErr (Errorf ''runtime sent a frame before its configuration'' None)), t)
           | Some c \<Rightarrow> (Inr c, t)))"

definition limitsFrom :: "(string, int) gomap \<Rightarrow> handler_limit list" where
  "limitsFrom limits = map (\<lambda>tag. \<lparr>hl_HandlerTag = tag, hl_MaxConcurrent = word_of_int (the (gm_get limits tag))\<rparr>)
     (sorted_keys limits)"

definition ready_of :: "('a, 's) client_config \<Rightarrow> string list \<Rightarrow> 'a \<Rightarrow> (pval, ready) outcome" where
  "ready_of cfg tags a =
     bind_outcome (case cc_Limits cfg of None \<Rightarrow> Done [] | Some f \<Rightarrow> f a) (\<lambda>limits.
       Done \<lparr>rd_HandlerTags = sort tags, rd_InitialCredit = word_of_int (cc_Concurrency cfg),
         rd_SDKVersion = cc_SDKVersion cfg, rd_Limits = limitsFrom limits,
         rd_Protocol = \<lparr>pv_Major = ProtocolMajor, pv_Minor = ProtocolMinor\<rparr>\<rparr>)"

definition accepted :: "ready \<Rightarrow> runtime_config \<Rightarrow> from_runtime \<Rightarrow> serve_error option" where
  "accepted ready config frame =
     (case fm_ReadyAck frame of
        None \<Rightarrow> Some (ServeErr (Errorf ''runtime sent a frame other than an acknowledgement of readiness'' None))
      | Some ack \<Rightarrow>
          if \<not> ra_Accepted ack then
            (if ra_Reason ack = RefusedProtocolVersion
             then Some (ProtocolVersionError (rd_Protocol ready) (rc_Protocol config))
             else Some (TagMismatchError (ra_UnknownTags ack) (ra_UnhandledTags ack)))
          else None)"

definition sendReady :: "'t transport \<Rightarrow> ready \<Rightarrow> runtime_config \<Rightarrow> 't \<Rightarrow> serve_error option \<times> 't" where
  "sendReady tp ready config t =
     (case tp_Send tp (no_to_runtime\<lparr>tr_Ready := Some ready\<rparr>) t of
        (Some err, t) \<Rightarrow> (Some (ServeErr (Errorf (''declaring handlers: '' @ error_text err) (Some err))), t)
      | (None, t) \<Rightarrow>
          (case tp_Recv tp t of
             (Inl err, t) \<Rightarrow> (Some (ServeErr (Errorf
               (''waiting for the runtime to accept this handler: '' @ error_text err) (Some err))), t)
           | (Inr frame, t) \<Rightarrow> (accepted ready config frame, t)))"

definition declareReady ::
    "'t transport \<Rightarrow> ('a, 's) client_config \<Rightarrow> string list \<Rightarrow> 'a \<Rightarrow> runtime_config \<Rightarrow> 't
       \<Rightarrow> (pval, serve_error option \<times> 't) outcome" where
  "declareReady tp cfg tags a config t =
     bind_outcome (ready_of cfg tags a) (\<lambda>ready. Done (sendReady tp ready config t))"

text \<open>\<^verbatim>\<open>Serve\<close> up to its frame loop: what it returns if the handshake fails, and the tags it serves
  otherwise.\<close>

definition Serve_handshake ::
    "'t transport \<Rightarrow> ('a, 's) client_config \<Rightarrow> 'a \<Rightarrow> 't \<Rightarrow> (pval, (serve_error + string list) \<times> 'a \<times> 't) outcome" where
  "Serve_handshake tp cfg a t =
     (case awaitConfig tp t of
        (Inl err, t) \<Rightarrow> Done (Inl err, a, t)
      | (Inr config, t) \<Rightarrow>
          bind_outcome (case cc_Reconcile cfg of None \<Rightarrow> Done (Inr (cc_Tags cfg), a) | Some f \<Rightarrow> f (rc_Handlers config) a)
            (\<lambda>(res, a).
              case res of
                Inl err \<Rightarrow> Done (Inl err, a, t)
              | Inr tags \<Rightarrow>
                  bind_outcome (declareReady tp cfg tags a config t) (\<lambda>(err, t).
                    Done (case err of Some e \<Rightarrow> Inl e | None \<Rightarrow> Inr tags, a, t))))"

subsection \<open>One dispatch\<close>

fun go_type :: "gerr \<Rightarrow> string" where
  "go_type (Errorf _ None) = ''*errors.errorString''"
| "go_type (Errorf _ (Some _)) = ''*fmt.wrapError''"
| "go_type (StatusError _ _ _ _) = ''*handler.StatusError''"
| "go_type (ValidationError _ _ _) = ''*handler.ValidationError''"
| "go_type (HandlerError _) = ''*handler.Error''"
| "go_type (UnmarshalTypeError _ _ _) = ''*json.UnmarshalTypeError''"
| "go_type (JSONSyntaxError _) = ''*json.SyntaxError''"
| "go_type (JoinError _) = ''*errors.joinError''"
| "go_type (AppErr _ ty _ _ _ _ _) = ty"

definition errorFrom :: "pval \<Rightarrow> herror" where
  "errorFrom v =
     (case v of
        PanicErr (HandlerError h) \<Rightarrow> h
      | PanicErr e \<Rightarrow>
          (case as_TypedError e of
             Some t \<Rightarrow> \<lparr>he_Message = error_text e, he_Type = t, he_Stack = ''''\<rparr>
           | None \<Rightarrow> \<lparr>he_Message = error_text e, he_Type = go_type e, he_Stack = ''''\<rparr>)
      | PanicText t \<Rightarrow> \<lparr>he_Message = t, he_Type = ''panic'', he_Stack = ''''\<rparr>)"

text \<open>\<^verbatim>\<open>resultFor\<close>: a panic is recovered, whatever state the handler had reached.\<close>

definition resultFor :: "(string \<Rightarrow> 's nxt option) \<Rightarrow> ctx \<Rightarrow> event \<Rightarrow> 's \<Rightarrow> result option \<times> 's" where
  "resultFor resolve ctx ev s =
     (case resolve (ev_Tag ev) of
        None \<Rightarrow> (Some ((result_of_id (ev_ID ev))\<lparr>r_Error := Some
          \<lparr>he_Message = ''no handler registered for tag '' @ go_quote (ev_Tag ev), he_Type = ''UnroutableEvent'',
           he_Stack = ''''\<rparr>\<rparr>), s)
      | Some invoke \<Rightarrow>
          (case invoke ctx ev s of
             (Panic v, s') \<Rightarrow> (Some ((result_of_id (ev_ID ev))\<lparr>r_Error := Some (errorFrom v)\<rparr>), s')
           | (Done (out, Some err), s') \<Rightarrow> (Some ((result_of_id (ev_ID ev))\<lparr>r_Error := Some (errorFrom (PanicErr err))\<rparr>), s')
           | (Done (out, None), s') \<Rightarrow> (out, s')))"

definition eventContext :: "ctx \<Rightarrow> event \<Rightarrow> ctx" where
  "eventContext ctx ev =
     (let ctx = (if length (ev_TraceContext ev) > 0 then WithTraceContext ctx (ev_TraceContext ev) else ctx);
          ctx = ctx\<lparr>cx_Sender := Some ''runtime''\<rparr>
      in if time_IsZero (ev_Deadline ev) then ctx else ctx\<lparr>cx_Deadline := Some (ev_Deadline ev)\<rparr>)"

subsection \<open>The WebSocket side channel\<close>

text \<open>The acknowledgement channel of a send in progress holds one value; \<open>None\<close> is empty.\<close>

record ws_state =
  wx_counter :: "64 word"
  wx_waiting :: "(string, ws_send_ack option) gomap"

definition frame_gerr :: "frame_error \<Rightarrow> gerr" where
  "frame_gerr e = Errorf
     (case e of
        ErrRouteRequired \<Rightarrow> ''celerity: a binary message must name the route it is for''
      | ErrRouteTooLong \<Rightarrow> ''celerity: a binary message route must be at most 255 bytes''
      | ErrMessageIDTooLong \<Rightarrow> ''celerity: a binary message id must be at most 255 bytes''
      | ErrRouteReserved \<Rightarrow> ''celerity: a binary message route must not begin with a reserved byte''
      | ErrAckWithoutID \<Rightarrow> ''celerity: a binary message asking to be acknowledged needs an id'') None"

fun frame_all :: "nat \<Rightarrow> outbound_binary_message list \<Rightarrow> gerr + outbound list" where
  "frame_all i [] = Inr []"
| "frame_all i (m # ms) =
     (case FrameBinaryMessage (ob_Route m) (ob_FrameMessageID m) (ob_RequireAck m) (ob_Message m) of
        Inl err \<Rightarrow> Inl (Errorf (''framing binary message '' @ itoa (int i) @ '' for connection '' @ ob_ConnectionID m @ '': ''
          @ error_text (frame_gerr err)) (Some (frame_gerr err)))
      | Inr framed \<Rightarrow>
          map_Inr (\<lambda>outs. \<lparr>out_Message = \<lparr>om_ConnectionID = ob_ConnectionID m, om_Message = framed,
              om_InformClientsOnLoss = ob_InformClientsOnLoss m, om_MessageID = ob_MessageID m,
              om_Caller = ob_Caller m, om_WaitForAck = ob_WaitForAck m\<rparr>, out_IsBinary = True\<rparr> # outs)
            (frame_all (Suc i) ms))"

text \<open>\<^verbatim>\<open>sender.send\<close> in its three parts: it registers a channel under a new correlation and offers the
  frame; other goroutines run while it waits; then either the acknowledgement is there or its context
  ended (\<open>ended\<close>), and the channel is removed. \<open>None\<close> is a send still waiting.\<close>

definition send_start :: "outbound list \<Rightarrow> ws_state \<Rightarrow> string \<times> to_runtime \<times> ws_state" where
  "send_start messages st =
     (let n = wx_counter st + 1; correlationID = dec_nat (unat n)
      in (correlationID, no_to_runtime\<lparr>tr_WsSend := Some \<lparr>ws_CorrelationID = correlationID, ws_Messages = messages\<rparr>\<rparr>,
          st\<lparr>wx_counter := n, wx_waiting := gm_put correlationID None (wx_waiting st)\<rparr>))"

datatype send_outcome = SendOk | SendFailed send_error | SendEnded gerr

definition send_await :: "gerr option \<Rightarrow> string \<Rightarrow> ws_state \<Rightarrow> send_outcome option \<times> ws_state" where
  "send_await ended correlationID st =
     (case ended of
        Some err \<Rightarrow> (Some (SendEnded (Errorf (''waiting for the runtime to acknowledge a websocket send: '' @ error_text err) (Some err))),
          st\<lparr>wx_waiting := gm_del correlationID (wx_waiting st)\<rparr>)
      | None \<Rightarrow>
          (case gm_get (wx_waiting st) correlationID of
             Some (Some ack) \<Rightarrow>
               (Some (if wa_Success ack then SendOk else SendFailed \<lparr>se_Failures = wa_Failures ack\<rparr>),
                st\<lparr>wx_waiting := gm_del correlationID (wx_waiting st)\<rparr>)
           | _ \<Rightarrow> (None, st)))"

definition deliverWsAck :: "ws_send_ack \<Rightarrow> ws_state \<Rightarrow> ws_state" where
  "deliverWsAck ack st =
     (case gm_get (wx_waiting st) (wa_CorrelationID ack) of
        None \<Rightarrow> st
      | Some (Some _) \<Rightarrow> st
      | Some None \<Rightarrow> st\<lparr>wx_waiting := gm_put (wa_CorrelationID ack) (Some ack) (wx_waiting st)\<rparr>)"

text \<open>\<^verbatim>\<open>Send\<close> and \<^verbatim>\<open>SendBinary\<close>: what goes out, or \<open>Inr None\<close> where nothing was asked for.\<close>

definition Send :: "outbound_message list \<Rightarrow> ws_state \<Rightarrow> (gerr + (string \<times> to_runtime) option) \<times> ws_state" where
  "Send messages st =
     (if length messages = 0 then (Inr None, st)
      else case send_start (map (\<lambda>m. \<lparr>out_Message = m, out_IsBinary = False\<rparr>) messages) st of
        (corr, frame, st) \<Rightarrow> (Inr (Some (corr, frame)), st))"

definition SendBinary :: "outbound_binary_message list \<Rightarrow> ws_state \<Rightarrow> (gerr + (string \<times> to_runtime) option) \<times> ws_state" where
  "SendBinary messages st =
     (if length messages = 0 then (Inr None, st)
      else case frame_all 0 messages of
        Inl err \<Rightarrow> (Inl err, st)
      | Inr outbound \<Rightarrow>
          (case send_start outbound st of (corr, frame, st) \<Rightarrow> (Inr (Some (corr, frame)), st)))"

subsection \<open>The application's client\<close>

definition blueprint_of :: "handler_config list \<Rightarrow> blueprint_handler list" where
  "blueprint_of blueprint = map (\<lambda>h. \<lparr>bh_Name = hc_HandlerName h, bh_PublishedName = hc_PublishedName h,
     bh_Tag = hc_HandlerTag h\<rparr>) blueprint"

definition reconcileFrom ::
    "handler_config list \<Rightarrow> ('s, 'c) app \<Rightarrow> (pval, (serve_error + string list) \<times> ('s, 'c) app) outcome" where
  "reconcileFrom blueprint app =
     bind_outcome (ReconcileTags (blueprint_of blueprint) (ap_registry app))
       (\<lambda>(res, r). Done (case res of Inl e \<Rightarrow> Inl (UnresolvedHandlerError e) | Inr tags \<Rightarrow> Inr tags, app\<lparr>ap_registry := r\<rparr>))"

definition serveRuntime :: "'s tracer option \<Rightarrow> environ \<Rightarrow> nat \<Rightarrow> ('s, 'c) app \<Rightarrow> (('s, 'c) app, 's) client_config" where
  "serveRuntime installed getenv numCPU app = client_New
     \<lparr>cc_Tags = Tags (ap_registry app), cc_Reconcile = Some reconcileFrom, cc_Resolve = resolvePipeline installed,
      cc_Concurrency = handlerConcurrency getenv numCPU, cc_Limits = Some (\<lambda>app. HandlerLimits (ap_registry app)),
      cc_SDKVersion = ''0.1.0''\<rparr>"

subsection \<open>Lemmas\<close>

lemma frame_all_frames:
  "frame_all i ms = Inr outs \<Longrightarrow>
     list_all2 (\<lambda>m bs. (case m of (r, f, a, p) \<Rightarrow> FrameBinaryMessage r f a p) = Inr bs)
       (map (\<lambda>m. (ob_Route m, ob_FrameMessageID m, ob_RequireAck m, ob_Message m)) ms)
       (map (om_Message \<circ> out_Message) outs)
     \<and> map (om_ConnectionID \<circ> out_Message) outs = map ob_ConnectionID ms \<and> list_all out_IsBinary outs"
proof (induction ms arbitrary: i outs)
  case (Cons m ms)
  then obtain framed outs' where "FrameBinaryMessage (ob_Route m) (ob_FrameMessageID m) (ob_RequireAck m) (ob_Message m) = Inr framed"
    and "frame_all (Suc i) ms = Inr outs'" by (auto split: sum.splits elim: map_Inr.elims)
  with Cons show ?case by auto
qed simp

lemma frame_all_fails:
  "(\<exists>e. frame_all i ms = Inl e) \<longleftrightarrow>
     (\<exists>m\<in>set ms. \<exists>e. FrameBinaryMessage (ob_Route m) (ob_FrameMessageID m) (ob_RequireAck m) (ob_Message m) = Inl e)"
proof (induction ms arbitrary: i)
  case (Cons m ms)
  have "(\<exists>e. map_Inr f r = Inl e) \<longleftrightarrow> (\<exists>e. r = Inl e)" for f :: "outbound list \<Rightarrow> outbound list" and r :: "gerr + outbound list"
    by (cases r) auto
  with Cons [of "Suc i"] show ?case by (auto split: sum.splits)
qed simp

lemma deliver_all:
  "gm_get (wx_waiting (fold deliverWsAck acks st)) c
     = (case gm_get (wx_waiting st) c of
          Some None \<Rightarrow> Some (List.find (\<lambda>a. wa_CorrelationID a = c) acks)
        | x \<Rightarrow> x)"
  by (induction acks arbitrary: st) (auto simp: deliverWsAck_def split: option.splits)

subsection \<open>Handlers that answer\<close>

text \<open>A handler answers when, wherever it returns without an error, it returns a result that names the
  event. Every wrapper does, and the layers the SDK adds keep it.\<close>

definition answering :: "'s nxt \<Rightarrow> bool" where
  "answering h \<longleftrightarrow> (\<forall>ctx ev s res s'. h ctx ev s = (Done (res, None), s') \<longrightarrow> (\<exists>r. res = Some r \<and> r_ID r = ev_ID ev))"

lemma answeringD: "answering h \<Longrightarrow> h ctx ev s = (Done (res, None), s') \<Longrightarrow> \<exists>r. res = Some r \<and> r_ID r = ev_ID ev"
  unfolding answering_def by blast

lemma answering_source:
  assumes "\<And>ctx ev s p s'. h ctx ev s = (Done p, s') \<Longrightarrow> answers_kind k ev p"
  shows "answering h"
  unfolding answering_def
proof (intro allI impI)
  fix ctx ev s res s'
  assume "h ctx ev s = (Done (res, None), s')"
  from assms [OF this] show "\<exists>r. res = Some r \<and> r_ID r = ev_ID ev" by (cases res) (auto simp: answers_kind_def)
qed

lemma answering_wrappers:
  "answering (wrapHTTP hh)" "answering (wrapTypedHTTP cd validate h)" "answering (wrapTypedWebSocket cd validate h)"
  "answering (wrapConsumer hc)" "answering (wrapSchedule hs)" "answering (wrapCustom cd validate h)"
  by (rule answering_source, erule http.answer, rule answering_source, erule typed_http.answer, rule answering_source,
      erule typed_ws.answer, rule answering_source, erule consumer.answer, rule answering_source, erule schedule.answer,
      rule answering_source, erule custom.answer)

lemma answering_wrapTypedAny: "answering (wrapTypedAny cd validate h)"
  unfolding answering_def
proof (intro allI impI)
  fix ctx ev and s :: 'a and res s'
  assume "wrapTypedAny cd validate h ctx ev s = (Done (res, None), s')"
  then show "\<exists>r. res = Some r \<and> r_ID r = ev_ID ev"
    using answeringD [OF answering_wrappers(2), of cd validate h ctx ev s res s']
      answeringD [OF answering_wrappers(3), of cd validate h ctx ev s res s']
      answeringD [OF answering_wrappers(6), of cd validate h ctx ev s res s']
    by (simp add: wrapTypedAny_def split: kind.splits)
qed

lemma r_ID_refused [simp]: "r_ID (refused ev d) = ev_ID ev"
  by (simp add: refused_def Let_def split: kind.splits)

lemma guard_loop_answering:
  assumes "answering next"
  shows "guard_loop guards tag names req next ctx ev s = (Done (res, None), s') \<Longrightarrow> \<exists>r. res = Some r \<and> r_ID r = ev_ID ev"
proof (induction names arbitrary: ctx s)
  case Nil
  then show ?case using answeringD [OF assms] by simp
next
  case (Cons name names)
  then show ?case
    by (auto simp: and_then_Done split: option.splits if_splits prod.splits)
qed

lemma Traced_Done:
  assumes "Traced installed ctx name attrs fn s = (Done (res, None), s')"
  shows "\<exists>ctx' sp s1 s2. fn ctx' sp s1 = (Done (res, None), s2)"
proof -
  obtain ctx' sp s1 where t: "CurrentTracer installed ctx name attrs s = ((ctx', sp), s1)" by (metis prod.exhaust)
  obtain out s2 where f: "fn ctx' sp s1 = (out, s2)" by (metis prod.exhaust)
  from Traced_cases [where fn = fn, OF t f] assms f show ?thesis by auto
qed

lemma answering_contextLayer:
  assumes "answering next"
  shows "answering (contextLayer installed logger reg next)"
  unfolding answering_def
proof (intro allI impI)
  fix ctx ev and s :: 'a and res s'
  assume "contextLayer installed logger reg next ctx ev s = (Done (res, None), s')"
  then obtain ctx' where "traced installed logger ctx' reg ev next s = (Done (res, None), s')"
    by (auto simp: contextLayer_def Let_def)
  from Traced_Done [OF this [unfolded traced_def]]
  show "\<exists>r. res = Some r \<and> r_ID r = ev_ID ev"
    by (auto simp: and_then_Done split: if_splits prod.splits dest: answeringD [OF assms])
qed

lemma answering_Pipeline:
  assumes "answering (Apply (reg_Handler reg) (reg_Layers reg))"
  shows "answering (Pipeline installed logger guards reg)"
proof -
  have "answering (guardLayer guards reg next)" if "answering next" for "next"
    unfolding answering_def guardLayer_def using guard_loop_answering [OF that] by blast
  with assms show ?thesis by (simp add: Pipeline_def Let_def answering_contextLayer)
qed

lemma answering_resultFor:
  assumes "\<And>h. resolve (ev_Tag ev) = Some h \<Longrightarrow> answering h" and "resultFor resolve ctx ev s = (out, s')"
  shows "\<exists>r. out = Some r \<and> r_ID r = ev_ID ev"
  using assms(2)
  by (auto simp: resultFor_def split: option.splits prod.splits outcome.splits dest: answeringD [OF assms(1)])

lemma limitsFrom_tags: "map hl_HandlerTag (limitsFrom limits) = sorted_keys limits"
  by (simp add: limitsFrom_def comp_def)

text \<open>What a declaration must say of the registry behind it.\<close>

definition declares :: "'s registry \<Rightarrow> ready \<Rightarrow> bool" where
  "declares r ready \<longleftrightarrow> rd_HandlerTags ready = sort (map reg_Tag (rg_store r))
     \<and> rd_Protocol ready = \<lparr>pv_Major = 1, pv_Minor = 0\<rparr>
     \<and> sorted (map hl_HandlerTag (rd_Limits ready))
     \<and> set (map hl_HandlerTag (rd_Limits ready)) \<subseteq> set (rd_HandlerTags ready)"

lemma ready_of_declares:
  assumes "registry_ok r" and "cc_Limits cfg = Some (\<lambda>app. HandlerLimits (ap_registry app))" and "ap_registry app = r"
  shows "\<exists>ready. ready_of cfg (Tags r) app = Done ready \<and> declares r ready
    \<and> rd_InitialCredit ready = word_of_int (cc_Concurrency cfg)"
proof -
  let ?limits = "fold limit_of (rg_store r) []"
  let ?ready = "\<lparr>rd_HandlerTags = sort (Tags r), rd_InitialCredit = word_of_int (cc_Concurrency cfg),
       rd_SDKVersion = cc_SDKVersion cfg, rd_Limits = limitsFrom ?limits,
       rd_Protocol = \<lparr>pv_Major = ProtocolMajor, pv_Minor = ProtocolMinor\<rparr>\<rparr>"
  have "gm_get ?limits t = None" if "t \<notin> set (map reg_Tag (rg_store r))" for t
    using fold_limit_of_absent [OF that, of "[]"] by simp
  then have "t \<in> dom (gm_get ?limits) \<Longrightarrow> t \<in> set (map reg_Tag (rg_store r))" for t by (metis domIff)
  then have "dom (gm_get ?limits) \<subseteq> set (map reg_Tag (rg_store r))" by (rule subsetI)
  moreover have tags: "sort (Tags r) = sort (map reg_Tag (rg_store r))"
    unfolding Tags_store [OF assms(1)] by (rule sorted_sort_id) (rule sorted_sort)
  ultimately have "declares r ?ready"
    unfolding declares_def ready.simps limitsFrom_tags set_sorted_keys tags set_sort
    by (simp add: ProtocolMajor_def ProtocolMinor_def)
  moreover have "ready_of cfg (Tags r) app = Done ?ready"
    by (simp add: ready_of_def assms(2,3) HandlerLimits_store [OF assms(1)])
  ultimately show ?thesis by simp
qed

subsection \<open>Properties\<close>

text \<open>C8. A binary send is all or nothing: where one message of the call cannot be framed, the call
  fails and nothing has gone out and nothing waits; otherwise one frame goes out that holds every
  message, in order, for its own connection, and each reads back as the parts it was given.\<close>

theorem SendBinary_all_or_nothing:
  assumes "messages \<noteq> []"
  shows "if \<exists>m\<in>set messages. \<exists>e. FrameBinaryMessage (ob_Route m) (ob_FrameMessageID m) (ob_RequireAck m) (ob_Message m) = Inl e
    then \<exists>err. SendBinary messages st = (Inl err, st)
    else \<exists>corr frame st' sent. SendBinary messages st = (Inr (Some (corr, frame)), st')
      \<and> tr_WsSend frame = Some \<lparr>ws_CorrelationID = corr, ws_Messages = sent\<rparr>
      \<and> gm_get (wx_waiting st') corr = Some None
      \<and> map (om_ConnectionID \<circ> out_Message) sent = map ob_ConnectionID messages \<and> list_all out_IsBinary sent
      \<and> map (read_frame \<circ> om_Message \<circ> out_Message) sent
          = map (\<lambda>m. Some (ob_Route m, ob_FrameMessageID m, ob_RequireAck m, ob_Message m)) messages"
proof (cases "frame_all 0 messages")
  case (Inl err)
  then show ?thesis using frame_all_fails [of 0 messages] assms by (simp add: SendBinary_def)
next
  case (Inr sent)
  have none: "\<not> (\<exists>m\<in>set messages. \<exists>e. FrameBinaryMessage (ob_Route m) (ob_FrameMessageID m) (ob_RequireAck m) (ob_Message m) = Inl e)"
    using frame_all_fails [of 0 messages] Inr by auto
  note fr = frame_all_frames [OF Inr]
  from bf.dec_batch [of "map (\<lambda>m. (ob_Route m, ob_FrameMessageID m, ob_RequireAck m, ob_Message m)) messages"
      "map (om_Message \<circ> out_Message) sent"] fr
  have "map read_frame (map (om_Message \<circ> out_Message) sent)
      = map Some (map (\<lambda>m. (ob_Route m, ob_FrameMessageID m, ob_RequireAck m, ob_Message m)) messages)" by blast
  then have "map (read_frame \<circ> om_Message \<circ> out_Message) sent
      = map (\<lambda>m. Some (ob_Route m, ob_FrameMessageID m, ob_RequireAck m, ob_Message m)) messages" by (simp add: comp_assoc comp_def)
  then show ?thesis unfolding if_not_P [OF none] using assms Inr fr
    by (simp add: SendBinary_def send_start_def Let_def no_to_runtime_def)
qed

theorem SendBinary_all_or_nothing_witness:
  "let m = \<lparr>ob_ConnectionID = ''c1'', ob_Route = ''chat'', ob_FrameMessageID = '''', ob_RequireAck = False, ob_Message = [7],
         ob_InformClientsOnLoss = [], ob_MessageID = '''', ob_Caller = '''', ob_WaitForAck = False\<rparr>;
       st = \<lparr>wx_counter = 0, wx_waiting = []\<rparr>
   in (\<exists>err. SendBinary [m, m\<lparr>ob_Route := ''''\<rparr>] st = (Inl err, st))
     \<and> (\<exists>corr frame st'. SendBinary [m] st = (Inr (Some (corr, frame)), st'))"
proof -
  let ?m = "\<lparr>ob_ConnectionID = ''c1'', ob_Route = ''chat'', ob_FrameMessageID = '''', ob_RequireAck = False, ob_Message = [7],
         ob_InformClientsOnLoss = [], ob_MessageID = '''', ob_Caller = '''', ob_WaitForAck = False\<rparr>"
  have ok: "FrameBinaryMessage ''chat'' [] False [7] = Inr ([4, 99, 104, 97, 116, 0, 0, 7])" by code_simp
  have bad: "FrameBinaryMessage '''' [] False [7] = Inl ErrRouteRequired" by code_simp
  show ?thesis
    using SendBinary_all_or_nothing [of "[?m, ?m\<lparr>ob_Route := ''''\<rparr>]" "\<lparr>wx_counter = 0, wx_waiting = []\<rparr>"]
      SendBinary_all_or_nothing [of "[?m]" "\<lparr>wx_counter = 0, wx_waiting = []\<rparr>"] ok bad
    by (auto simp: Let_def)
qed

text \<open>Acknowledgements reach the send they name: after a send starts, and whatever acknowledgements
  arrive, it ends with the first one that names its correlation, as success or as that
  acknowledgement's failures, and waits while none does; the others change nothing for it, and once
  it has ended nothing of it is left waiting.\<close>

theorem send_gets_its_ack:
  assumes "send_start messages st = (corr, frame, st1)"
  shows "(case List.find (\<lambda>a. wa_CorrelationID a = corr) acks of
       None \<Rightarrow> fst (send_await None corr (fold deliverWsAck acks st1)) = None
     | Some ack \<Rightarrow>
         fst (send_await None corr (fold deliverWsAck acks st1))
           = Some (if wa_Success ack then SendOk else SendFailed \<lparr>se_Failures = wa_Failures ack\<rparr>)
         \<and> gm_get (wx_waiting (snd (send_await None corr (fold deliverWsAck acks st1)))) corr = None)
    \<and> gm_get (wx_waiting (snd (send_await (Some err) corr (fold deliverWsAck acks st1)))) corr = None"
proof -
  have "gm_get (wx_waiting st1) corr = Some None" using assms by (auto simp: send_start_def Let_def)
  then have "gm_get (wx_waiting (fold deliverWsAck acks st1)) corr = Some (List.find (\<lambda>a. wa_CorrelationID a = corr) acks)"
    by (simp add: deliver_all)
  then show ?thesis by (simp add: send_await_def split: option.splits)
qed

theorem send_gets_its_ack_witness:
  "let (corr, frame, st1) = send_start [] \<lparr>wx_counter = 0, wx_waiting = []\<rparr>
   in fst (send_await None corr (fold deliverWsAck
        [\<lparr>wa_CorrelationID = ''9'', wa_Success = False, wa_Failures = []\<rparr>, \<lparr>wa_CorrelationID = corr, wa_Success = True, wa_Failures = []\<rparr>,
         \<lparr>wa_CorrelationID = corr, wa_Success = False, wa_Failures = []\<rparr>] st1)) = Some SendOk"
proof -
  obtain corr frame st1 where s: "send_start [] \<lparr>wx_counter = 0, wx_waiting = []\<rparr> = (corr, frame, st1)" by (metis prod_cases3)
  then have "corr \<noteq> ''9''" by (auto simp: send_start_def Let_def) (code_simp)
  with send_gets_its_ack [OF s, of "[\<lparr>wa_CorrelationID = ''9'', wa_Success = False, wa_Failures = []\<rparr>,
      \<lparr>wa_CorrelationID = corr, wa_Success = True, wa_Failures = []\<rparr>, \<lparr>wa_CorrelationID = corr, wa_Success = False, wa_Failures = []\<rparr>]"] s
  show ?thesis by simp
qed


text \<open>A transport for examples: the frames still to be received, and those sent.\<close>

definition script :: "(from_runtime list \<times> to_runtime list) transport" where
  "script = \<lparr>tp_Send = (\<lambda>f (inc, sent). (None, (inc, sent @ [f]))),
     tp_Recv = (\<lambda>(inc, sent). case inc of [] \<Rightarrow> (Inl (Errorf ''EOF'' None), (inc, sent)) | f # fs \<Rightarrow> (Inr f, (fs, sent)))\<rparr>"

definition example_app :: "(nat, unit) app" where
  "example_app = register (plain_registration ''custom::x'' KindCustom
     (wrapCustom \<lparr>cd_Type = TOther, cd_Unmarshal = (\<lambda>b v. Inr v), cd_Marshal = (\<lambda>v :: nat hout. Inr []), cd_ParseFloat = (\<lambda>s n. Inr 0)\<rparr>
        None (\<lambda>ctx v s. (Panic (PanicText ''boom''), s + 1 :: nat)))) [] (New [] (Inr ()) () [])"

lemma example_app_ok: "registry_ok (ap_registry example_app)"
  and example_app_store: "map reg_Tag (rg_store (ap_registry example_app)) = [''custom::x'']"
    "\<forall>reg\<in>set (rg_store (ap_registry example_app)). \<not> reg_FromBlueprint reg \<and> reg_Kind reg = KindCustom
       \<and> answering (Apply (reg_Handler reg) (reg_Layers reg))"
proof -
  have "registry_ok (ap_registry (New [] (Inr ()) () [] :: (nat, unit) app))"
    by (simp add: New_def registry_ok_NewRegistry)
  then show "registry_ok (ap_registry example_app)" unfolding example_app_def by (rule registry_ok_register)
  show "map reg_Tag (rg_store (ap_registry example_app)) = [''custom::x'']"
    "\<forall>reg\<in>set (rg_store (ap_registry example_app)). \<not> reg_FromBlueprint reg \<and> reg_Kind reg = KindCustom
       \<and> answering (Apply (reg_Handler reg) (reg_Layers reg))"
    by (simp_all add: example_app_def register_def New_def Add_def NewRegistry_def plain_registration_def Apply_def Chain_foldr
        answering_wrappers)
qed


lemma resolvePipeline_answering:
  assumes "registry_ok (ap_registry app)"
    and "list_all (\<lambda>reg. answering (Apply (reg_Handler reg) (reg_Layers reg))) (rg_store (ap_registry app))"
    and "resolvePipeline installed app tag = Some h"
  shows "answering h"
proof -
  from assms(3) obtain i where "Get (ap_registry app) tag = Some i"
    and h: "h = Pipeline installed (slice (op_logger (ap_options app))) (op_guards (ap_options app)) (at_reg (ap_registry app) i)"
    by (auto simp: resolvePipeline_def split: option.splits)
  then have "at_reg (ap_registry app) i \<in> set (rg_store (ap_registry app))"
    using registry_ok_get [OF assms(1)] by (simp add: Get_def at_reg_def)
  with assms(2) show ?thesis unfolding h by (intro answering_Pipeline) (simp add: list_all_iff)
qed



end
