(* ===== verification/Ipc_Loop.thy ===== *)
theory Ipc_Loop
  imports Ipc_Client
begin

text \<open>
  The frame loop of the IPC client (\<^verbatim>\<open>src/internal/ipc/loop.go\<close> and the tracking of dispatches in
  \<^verbatim>\<open>client.go\<close>) as a step relation: one goroutine reads frames, one goroutine per dispatch runs a
  handler and queues its result, and one goroutine sends what is queued, over a channel of twice the
  worker pool. The steps of the goroutines interleave in any order; running a handler is one step.

  A frame the sender took and the transport refused is kept as lost, so that nothing disappears from
  the account. A sender whose transport failed has stopped, and what is queued stays queued.
\<close>

subsection \<open>Reachable states and invariants\<close>

inductive reachable :: "('s \<Rightarrow> bool) \<Rightarrow> ('s \<Rightarrow> 's \<Rightarrow> bool) \<Rightarrow> 's \<Rightarrow> bool" for init step where
  reachable_init: "init s \<Longrightarrow> reachable init step s"
| reachable_step: "reachable init step s \<Longrightarrow> step s s' \<Longrightarrow> reachable init step s'"

locale invariant =
  fixes init :: "'s \<Rightarrow> bool" and step :: "'s \<Rightarrow> 's \<Rightarrow> bool" and inv :: "'s \<Rightarrow> bool"
  assumes initially: "init s \<Longrightarrow> inv s" and preserved: "inv s \<Longrightarrow> step s s' \<Longrightarrow> inv s'"
begin

lemma always: "reachable init step s \<Longrightarrow> inv s"
  by (induction rule: reachable.induct) (auto intro: initially preserved)

end

subsection \<open>States\<close>

datatype loop_phase = LoopReading | LoopEnded | OutClosed | Crashed

record worker =
  wk_No :: nat
  wk_Event :: event
  wk_Outcome :: "result option option"
    \<comment> \<open>\<open>None\<close> while the handler runs\<close>

record 's client =
  cl_app :: 's
  cl_workers :: "worker list"
  cl_inFlight :: "(string, nat) gomap"
    \<comment> \<open>the cancel function of a dispatch is the number of its worker\<close>
  cl_stopped :: "nat list"
    \<comment> \<open>the workers whose context has been cancelled\<close>
  cl_out :: "to_runtime list"
  cl_wire :: "to_runtime list"
  cl_lost :: "to_runtime list"
  cl_sending :: bool
  cl_ws :: ws_state
  cl_phase :: loop_phase
  cl_received :: "event list"

record 's loop_config =
  lc_Resolve :: "string \<Rightarrow> 's nxt option"
  lc_Concurrency :: nat
  lc_Ctx :: ctx

definition loop_init :: "'s client \<Rightarrow> bool" where
  "loop_init c \<longleftrightarrow> cl_workers c = [] \<and> cl_inFlight c = [] \<and> cl_stopped c = [] \<and> cl_out c = [] \<and> cl_wire c = [] \<and> cl_lost c = []
     \<and> cl_sending c \<and> cl_phase c = LoopReading \<and> cl_received c = [] \<and> wx_waiting (cl_ws c) = []"

subsection \<open>Operations\<close>

definition track :: "string \<Rightarrow> nat \<Rightarrow> 's client \<Rightarrow> 's client" where
  "track i n c = c\<lparr>cl_inFlight := gm_put i n (cl_inFlight c)\<rparr>"

definition untrack :: "string \<Rightarrow> 's client \<Rightarrow> 's client" where
  "untrack i c = c\<lparr>cl_inFlight := gm_del i (cl_inFlight c)\<rparr>"

definition stop_worker :: "nat \<Rightarrow> 's client \<Rightarrow> 's client" where
  "stop_worker n c = c\<lparr>cl_stopped := n # cl_stopped c\<rparr>"

definition cancel :: "string \<Rightarrow> 's client \<Rightarrow> 's client" where
  "cancel i c =
     (case gm_get (cl_inFlight c) i of
        None \<Rightarrow> untrack i c
      | Some n \<Rightarrow> stop_worker n (untrack i c))"

definition startDispatch :: "event \<Rightarrow> 's client \<Rightarrow> 's client" where
  "startDispatch ev c =
     (let n = length (cl_received c); c = track (ev_ID ev) n c
      in c\<lparr>cl_workers := cl_workers c @ [\<lparr>wk_No = n, wk_Event = ev, wk_Outcome = None\<rparr>],
           cl_received := cl_received c @ [ev]\<rparr>)"

text \<open>The loop's switch on a frame it read.\<close>

definition loop_frame :: "from_runtime \<Rightarrow> 's client \<Rightarrow> 's client" where
  "loop_frame frame c =
     (case fm_Dispatch frame of Some ev \<Rightarrow> startDispatch ev c | None \<Rightarrow>
     (case fm_Cancel frame of Some cf \<Rightarrow> cancel (cf_ID cf) c | None \<Rightarrow>
     (case fm_WsAck frame of Some ack \<Rightarrow> c\<lparr>cl_ws := deliverWsAck ack (cl_ws c)\<rparr> | None \<Rightarrow>
     (case fm_Drain frame of Some _ \<Rightarrow> c\<lparr>cl_phase := LoopEnded\<rparr> | None \<Rightarrow> c))))"

text \<open>The body of a dispatch's goroutine: its handler, then the result frame and the deferred calls.\<close>

definition run_handler :: "'s loop_config \<Rightarrow> worker \<Rightarrow> 's client \<Rightarrow> 's client" where
  "run_handler cfg w c =
     (case resultFor (lc_Resolve cfg) (eventContext (lc_Ctx cfg) (wk_Event w)) (wk_Event w) (cl_app c) of
        (out, app) \<Rightarrow> c\<lparr>cl_app := app,
          cl_workers := map (\<lambda>x. if x = w then w\<lparr>wk_Outcome := Some out\<rparr> else x) (cl_workers c)\<rparr>)"

definition finish_dispatch :: "worker \<Rightarrow> result option \<Rightarrow> 's client \<Rightarrow> 's client" where
  "finish_dispatch w out c =
     (let c = c\<lparr>cl_out := cl_out c @ [result_frame out], cl_workers := remove1 w (cl_workers c)\<rparr>
      in stop_worker (wk_No w) (untrack (ev_ID (wk_Event w)) c))"

text \<open>One round of the sender: \<open>ok\<close> is whether the transport takes the message.\<close>

definition send_frame :: "bool \<Rightarrow> to_runtime \<Rightarrow> to_runtime list \<Rightarrow> 's client \<Rightarrow> 's client" where
  "send_frame ok f fs c =
     (case toHandlerMessage f of
        Panic _ \<Rightarrow> c\<lparr>cl_out := fs, cl_lost := cl_lost c @ [f], cl_sending := False, cl_phase := Crashed\<rparr>
      | Done None \<Rightarrow> c\<lparr>cl_out := fs, cl_lost := cl_lost c @ [f], cl_sending := False\<rparr>
      | Done (Some _) \<Rightarrow>
          if ok then c\<lparr>cl_out := fs, cl_wire := cl_wire c @ [f]\<rparr>
          else c\<lparr>cl_out := fs, cl_lost := cl_lost c @ [f], cl_sending := False\<rparr>)"

definition has_room :: "'s loop_config \<Rightarrow> 's client \<Rightarrow> bool" where
  "has_room cfg c \<longleftrightarrow> length (cl_out c) < lc_Concurrency cfg * 2"

subsection \<open>Steps\<close>

inductive loop_step :: "'s loop_config \<Rightarrow> 's client \<Rightarrow> 's client \<Rightarrow> bool" for cfg where
  read_frame_step: "cl_phase c = LoopReading \<Longrightarrow> loop_step cfg c (loop_frame frame c)"
| read_end_step: "cl_phase c = LoopReading \<Longrightarrow> loop_step cfg c (c\<lparr>cl_phase := LoopEnded\<rparr>)"
| run_step: "cl_phase c \<noteq> Crashed \<Longrightarrow> w \<in> set (cl_workers c) \<Longrightarrow> wk_Outcome w = None \<Longrightarrow>
    loop_step cfg c (run_handler cfg w c)"
| queue_step: "cl_phase c \<noteq> Crashed \<Longrightarrow> w \<in> set (cl_workers c) \<Longrightarrow> wk_Outcome w = Some out \<Longrightarrow> has_room cfg c \<Longrightarrow>
    loop_step cfg c (finish_dispatch w out c)"
| ws_send_step: "cl_phase c \<noteq> Crashed \<Longrightarrow> w \<in> set (cl_workers c) \<Longrightarrow> wk_Outcome w = None \<Longrightarrow> has_room cfg c \<Longrightarrow>
    send_start messages (cl_ws c) = (corr, frame, ws) \<Longrightarrow>
    loop_step cfg c (c\<lparr>cl_ws := ws, cl_out := cl_out c @ [frame]\<rparr>)"
| ws_await_step: "cl_phase c \<noteq> Crashed \<Longrightarrow> send_await ended corr (cl_ws c) = (Some res, ws) \<Longrightarrow>
    loop_step cfg c (c\<lparr>cl_ws := ws\<rparr>)"
| send_step: "cl_phase c \<noteq> Crashed \<Longrightarrow> cl_sending c \<Longrightarrow> cl_out c = f # fs \<Longrightarrow> loop_step cfg c (send_frame ok f fs c)"
| close_step: "cl_phase c = LoopEnded \<Longrightarrow> cl_workers c = [] \<Longrightarrow> loop_step cfg c (c\<lparr>cl_phase := OutClosed\<rparr>)"

abbreviation loop_reachable :: "'s loop_config \<Rightarrow> 's client \<Rightarrow> bool" where
  "loop_reachable cfg \<equiv> reachable loop_init (loop_step cfg)"

subsection \<open>The account of dispatches\<close>

text \<open>The events a list of frames answers, and the credit it returns.\<close>

fun answered :: "to_runtime list \<Rightarrow> string list" where
  "answered [] = []"
| "answered (f # fs) =
     (case tr_Result f of
        Some r \<Rightarrow> (case fr_Outcome r of Some oc \<Rightarrow> [r_ID oc] | None \<Rightarrow> []) | None \<Rightarrow> []) @ answered fs"

definition credit :: "to_runtime list \<Rightarrow> nat" where
  "credit fs = sum_list (map (\<lambda>f. case tr_Result f of Some r \<Rightarrow> unat (fr_CreditGrant r) | None \<Rightarrow> 0) fs)"

definition sendable :: "to_runtime \<Rightarrow> bool" where
  "sendable f \<longleftrightarrow> (\<exists>r. f = result_frame (Some r)) \<or> (\<exists>s. f = no_to_runtime\<lparr>tr_WsSend := Some s\<rparr>)"

definition worker_ok :: "worker \<Rightarrow> bool" where
  "worker_ok w \<longleftrightarrow> (\<forall>out. wk_Outcome w = Some out \<longrightarrow> (\<exists>r. out = Some r \<and> r_ID r = ev_ID (wk_Event w)))"

definition account :: "'s client \<Rightarrow> bool" where
  "account c \<longleftrightarrow>
     mset (map ev_ID (cl_received c))
       = mset (map (ev_ID \<circ> wk_Event) (cl_workers c)) + mset (answered (cl_out c)) + mset (answered (cl_wire c))
         + mset (answered (cl_lost c))
     \<and> (\<forall>w\<in>set (cl_workers c). worker_ok w)
     \<and> (\<forall>f\<in>set (cl_out c @ cl_wire c @ cl_lost c). sendable f)
     \<and> cl_phase c \<noteq> Crashed \<and> (cl_sending c \<longrightarrow> cl_lost c = [])
     \<and> (cl_phase c = OutClosed \<longrightarrow> cl_workers c = [])"

subsection \<open>Lemmas: frames\<close>

lemma answered_append [simp]: "answered (xs @ ys) = answered xs @ answered ys"
  by (induction xs) (simp_all split: option.splits)

lemma tr_Result_result_frame [simp]:
  "tr_Result (result_frame out) = Some \<lparr>fr_Outcome = out, fr_CreditGrant = 1\<rparr>"
  by (simp add: result_frame_def)

lemma sendable_result [simp, intro]: "sendable (result_frame (Some r))"
  by (auto simp: sendable_def)

lemma sendable_message: "sendable f \<Longrightarrow> \<exists>m. toHandlerMessage f = Done (Some m)"
  by (auto simp: sendable_def toHandlerMessage_def result_frame_def no_to_runtime_def resultTo_def)

lemma send_start_frame:
  "send_start messages ws = (corr, frame, ws') \<Longrightarrow> sendable frame \<and> answered [frame] = []"
  by (auto simp: send_start_def Let_def sendable_def no_to_runtime_def)

lemma credit_answered: "\<forall>f\<in>set fs. sendable f \<Longrightarrow> credit fs = length (answered fs)"
  by (induction fs) (auto simp: credit_def sendable_def no_to_runtime_def)

subsection \<open>Lemmas: the account is kept\<close>

lemma account_init: "loop_init c \<Longrightarrow> account c"
  by (auto simp: loop_init_def account_def)

lemma account_startDispatch: "account c \<Longrightarrow> cl_phase c = LoopReading \<Longrightarrow> account (startDispatch ev c)"
  by (auto simp: account_def startDispatch_def track_def Let_def worker_ok_def)

lemma account_loop_frame:
  assumes "account c" and "cl_phase c = LoopReading"
  shows "account (loop_frame frame c)"
proof -
  have "account (cancel i c)" for i
    using assms by (simp add: account_def cancel_def untrack_def stop_worker_def split: option.splits)
  moreover have "account (c\<lparr>cl_ws := ws\<rparr>)" for ws using assms(1) by (simp add: account_def)
  moreover have "account (c\<lparr>cl_phase := LoopEnded\<rparr>)" using assms(1) by (simp add: account_def)
  ultimately show ?thesis
    using assms account_startDispatch [OF assms] by (simp add: loop_frame_def split: option.splits)
qed

definition resolves_answering :: "'s loop_config \<Rightarrow> bool" where
  "resolves_answering cfg \<longleftrightarrow> (\<forall>tag h. lc_Resolve cfg tag = Some h \<longrightarrow> answering h)"

lemma account_run_handler:
  assumes "account c" and "resolves_answering cfg" and "w \<in> set (cl_workers c)"
  shows "account (run_handler cfg w c)"
proof -
  obtain out app where r: "resultFor (lc_Resolve cfg) (eventContext (lc_Ctx cfg) (wk_Event w)) (wk_Event w) (cl_app c) = (out, app)"
    by (metis prod.exhaust)
  have "\<exists>r. out = Some r \<and> r_ID r = ev_ID (wk_Event w)"
    using assms(2) by (intro answering_resultFor [OF _ r]) (auto simp: resolves_answering_def)
  then have "worker_ok (w\<lparr>wk_Outcome := Some out\<rparr>)" by (auto simp: worker_ok_def)
  moreover have "(ev_ID \<circ> wk_Event) \<circ> (\<lambda>x. if x = w then w\<lparr>wk_Outcome := Some out\<rparr> else x) = ev_ID \<circ> wk_Event" by (rule ext) simp
  ultimately show ?thesis using assms(1,3) by (auto simp: account_def run_handler_def r)
qed

lemma account_finish_dispatch:
  assumes "account c" and "w \<in> set (cl_workers c)" and "wk_Outcome w = Some out"
  shows "account (finish_dispatch w out c)"
proof -
  from assms obtain r where r: "out = Some r" "r_ID r = ev_ID (wk_Event w)" by (auto simp: account_def worker_ok_def)
  have "mset (map (ev_ID \<circ> wk_Event) (cl_workers c))
      = add_mset (ev_ID (wk_Event w)) (mset (map (ev_ID \<circ> wk_Event) (remove1 w (cl_workers c))))"
    using assms(2) by (simp add: image_mset_Diff flip: image_mset_add_mset) (simp add: comp_def)
  then show ?thesis using assms(1) assms(2) r set_remove1_subset [of w "cl_workers c"]
    by (auto simp: account_def finish_dispatch_def Let_def stop_worker_def untrack_def)
qed

lemma account_send_frame:
  assumes "account c" and "cl_out c = f # fs" and "cl_sending c"
  shows "account (send_frame ok f fs c)"
proof -
  have "sendable f" using assms(1,2) by (simp add: account_def)
  from sendable_message [OF this] obtain m where "toHandlerMessage f = Done (Some m)" by blast
  moreover have "answered (f # fs) = answered [f] @ answered fs" by (simp split: option.splits)
  ultimately show ?thesis using assms by (auto simp: account_def send_frame_def simp del: answered.simps(2))
qed

lemma account_step:
  assumes "resolves_answering cfg" and "account c" and "loop_step cfg c c'"
  shows "account c'"
  using assms(3)
proof (cases rule: loop_step.cases)
  case (read_frame_step frame)
  with assms(2) account_loop_frame show ?thesis by simp
next
  case read_end_step
  with assms(2) show ?thesis by (simp add: account_def)
next
  case (run_step w)
  with assms account_run_handler show ?thesis by simp
next
  case (queue_step w out)
  with assms(2) account_finish_dispatch show ?thesis by simp
next
  case (ws_send_step w messages corr frame ws)
  with assms(2) send_start_frame [of messages "cl_ws c" corr frame ws] show ?thesis by (auto simp: account_def)
next
  case (ws_await_step ended corr res ws)
  with assms(2) show ?thesis by (simp add: account_def)
next
  case (send_step f fs ok)
  with assms(2) account_send_frame show ?thesis by simp
next
  case close_step
  with assms(2) show ?thesis by (simp add: account_def)
qed

text \<open>The account as an invariant of the loop; \<open>resolves_answering\<close> holds of an application whose
  layers return a result or an error.\<close>

interpretation loop_account: invariant loop_init "loop_step cfg" "\<lambda>c. resolves_answering cfg \<longrightarrow> account c" for cfg
  by unfold_locales (auto intro: account_init account_step)

subsection \<open>Lemmas: what is tracked is running\<close>

definition tracked :: "'s client \<Rightarrow> bool" where
  "tracked c \<longleftrightarrow> (\<forall>i n. gm_get (cl_inFlight c) i = Some n \<longrightarrow>
     (\<exists>w\<in>set (cl_workers c). wk_No w = n \<and> ev_ID (wk_Event w) = i))"

lemma trackedI:
  assumes "tracked c" and "\<And>i n. gm_get (cl_inFlight c') i = Some n \<Longrightarrow> gm_get (cl_inFlight c) i = Some n"
    and "\<And>w. w \<in> set (cl_workers c) \<Longrightarrow> \<exists>w'\<in>set (cl_workers c'). wk_No w' = wk_No w \<and> wk_Event w' = wk_Event w"
  shows "tracked c'"
  unfolding tracked_def
proof (intro allI impI)
  fix i n assume "gm_get (cl_inFlight c') i = Some n"
  then obtain w where "w \<in> set (cl_workers c)" "wk_No w = n" "ev_ID (wk_Event w) = i"
    using assms(1,2) unfolding tracked_def by blast
  with assms(3) [of w] show "\<exists>w\<in>set (cl_workers c'). wk_No w = n \<and> ev_ID (wk_Event w) = i" by metis
qed

lemma tracked_run_handler: "tracked c \<Longrightarrow> tracked (run_handler cfg w c)"
proof (erule trackedI)
  fix w' assume "w' \<in> set (cl_workers c)"
  then show "\<exists>w''\<in>set (cl_workers (run_handler cfg w c)). wk_No w'' = wk_No w' \<and> wk_Event w'' = wk_Event w'"
    by (cases "w' = w") (auto simp: run_handler_def split: prod.splits)
qed (simp add: run_handler_def split: prod.splits)

lemma tracked_finish_dispatch: "tracked c \<Longrightarrow> tracked (finish_dispatch w out c)"
  unfolding tracked_def finish_dispatch_def untrack_def stop_worker_def Let_def
  by (auto split: if_splits) (metis in_set_remove1)

lemma tracked_loop_frame: "tracked c \<Longrightarrow> tracked (loop_frame frame c)"
  by (simp add: tracked_def loop_frame_def startDispatch_def cancel_def track_def untrack_def stop_worker_def Let_def
      split: option.splits if_splits)

lemma tracked_send_frame: "tracked c \<Longrightarrow> tracked (send_frame ok f fs c)"
  by (simp add: tracked_def send_frame_def split: outcome.splits option.splits)

interpretation loop_tracked: invariant loop_init "loop_step cfg" tracked for cfg
proof
  fix c c' :: "'a client"
  show "tracked c" if "loop_init c" using that by (simp add: loop_init_def tracked_def)
  show "tracked c'" if "tracked c" "loop_step cfg c c'"
    using that(2,1)
    by (cases rule: loop_step.cases)
      (simp_all add: tracked_run_handler tracked_finish_dispatch tracked_loop_frame tracked_send_frame, simp_all add: tracked_def)
qed

subsection \<open>Lemmas: the queue is bounded\<close>

interpretation loop_bounded: invariant loop_init "loop_step cfg" "\<lambda>c. length (cl_out c) \<le> lc_Concurrency cfg * 2" for cfg
proof
  fix c c' :: "'a client"
  show "length (cl_out c) \<le> lc_Concurrency cfg * 2" if "loop_init c" using that by (simp add: loop_init_def)
  show "length (cl_out c') \<le> lc_Concurrency cfg * 2" if "length (cl_out c) \<le> lc_Concurrency cfg * 2" "loop_step cfg c c'"
    using that(2,1)
    by (cases rule: loop_step.cases)
      (auto simp: loop_frame_def startDispatch_def cancel_def track_def untrack_def stop_worker_def Let_def run_handler_def
        finish_dispatch_def send_frame_def has_room_def split: option.splits prod.splits outcome.splits)
qed

subsection \<open>Lemmas: finishing what was started\<close>

definition work_left :: "'s client \<Rightarrow> nat" where
  "work_left c = 2 * length (cl_workers c) + length (filter (\<lambda>w. wk_Outcome w = None) (cl_workers c)) + length (cl_out c)"

lemma filter_length_less:
  assumes "w \<in> set ws" and "wk_Outcome w = None"
  shows "length (filter (\<lambda>w. wk_Outcome w = None) (map (\<lambda>x. if x = w then w\<lparr>wk_Outcome := Some out\<rparr> else x) ws))
    < length (filter (\<lambda>w. wk_Outcome w = None) ws)"
proof -
  have le: "length (filter (\<lambda>w. wk_Outcome w = None) (map (\<lambda>x. if x = w then w\<lparr>wk_Outcome := Some out\<rparr> else x) xs))
    \<le> length (filter (\<lambda>w. wk_Outcome w = None) xs)" for xs by (induction xs) auto
  show ?thesis using assms(1)
  proof (induction ws)
    case (Cons x ws)
    then show ?case using le [of ws] assms(2) by (cases "x = w") (auto simp: less_Suc_eq_le)
  qed simp
qed

lemma progress:
  assumes "account c" and "resolves_answering cfg" and "0 < lc_Concurrency cfg" and "cl_sending c" and "work_left c \<noteq> 0"
  shows "\<exists>c'. loop_step cfg c c' \<and> work_left c' < work_left c \<and> cl_sending c' \<and> cl_received c' = cl_received c"
proof (cases "cl_out c")
  case (Cons f fs)
  then have "sendable f" and alive: "cl_phase c \<noteq> Crashed" using assms(1) by (simp_all add: account_def)
  then obtain m where "toHandlerMessage f = Done (Some m)" using sendable_message by blast
  then show ?thesis
    using loop_step.send_step [OF alive assms(4) Cons, of cfg True] Cons assms(4)
    by (intro exI [of _ "send_frame True f fs c"]) (simp add: send_frame_def work_left_def)
next
  case Nil
  then obtain w where w: "w \<in> set (cl_workers c)" using assms(5) by (cases "cl_workers c") (auto simp: work_left_def)
  have alive: "cl_phase c \<noteq> Crashed" using assms(1) by (simp add: account_def)
  show ?thesis
  proof (cases "wk_Outcome w")
    case None
    then show ?thesis using loop_step.run_step [OF alive w None, of cfg] filter_length_less [OF w None] assms(4)
      by (intro exI [of _ "run_handler cfg w c"]) (auto simp: run_handler_def work_left_def split: prod.splits)
  next
    case (Some out)
    have le: "length (filter (\<lambda>w. wk_Outcome w = None) (remove1 w xs)) \<le> length (filter (\<lambda>w. wk_Outcome w = None) xs)" for xs
      by (induction xs) auto
    have "length (cl_workers c) = Suc (length (remove1 w (cl_workers c)))"
      using w length_pos_if_in_set [OF w] by (simp add: length_remove1)
    then have "work_left (finish_dispatch w out c) < work_left c" using le [of "cl_workers c"] Nil
      by (simp add: finish_dispatch_def work_left_def Let_def stop_worker_def untrack_def)
    moreover have "has_room cfg c" using Nil assms(3) by (simp add: has_room_def)
    ultimately show ?thesis using loop_step.queue_step [OF alive w Some, of cfg] assms(4)
      by (intro exI [of _ "finish_dispatch w out c"])
        (simp add: finish_dispatch_def Let_def stop_worker_def untrack_def)
  qed
qed

lemma finishes:
  assumes "account c" and "resolves_answering cfg" and "0 < lc_Concurrency cfg" and "cl_sending c"
  shows "\<exists>c'. (loop_step cfg)\<^sup>*\<^sup>* c c' \<and> work_left c' = 0 \<and> cl_sending c' \<and> cl_received c' = cl_received c \<and> account c'"
  using assms
proof (induction "work_left c" arbitrary: c rule: less_induct)
  case less
  show ?case
  proof (cases "work_left c = 0")
    case True
    then show ?thesis using less.prems by blast
  next
    case False
    from progress [OF less.prems False] obtain c1 where
      c1: "loop_step cfg c c1" "work_left c1 < work_left c" "cl_sending c1" "cl_received c1 = cl_received c" by blast
    from account_step [OF less.prems(2,1) c1(1)] less.hyps [OF c1(2)] less.prems(2,3) c1(3) obtain c' where
      "(loop_step cfg)\<^sup>*\<^sup>* c1 c'" "work_left c' = 0" "cl_sending c'" "cl_received c' = cl_received c1" "account c'" by blast
    with c1 show ?thesis by (metis converse_rtranclp_into_rtranclp)
  qed
qed

text \<open>An application and an event for examples, and the state it starts in.\<close>

definition example_loop :: "nat loop_config" where
  "example_loop = \<lparr>lc_Resolve = resolvePipeline None example_app, lc_Concurrency = 2, lc_Ctx = background\<rparr>"

definition loop_start :: "'s \<Rightarrow> 's client" where
  "loop_start s = \<lparr>cl_app = s, cl_workers = [], cl_inFlight = [], cl_stopped = [], cl_out = [], cl_wire = [], cl_lost = [],
     cl_sending = True, cl_ws = \<lparr>wx_counter = 0, wx_waiting = []\<rparr>, cl_phase = LoopReading, cl_received = []\<rparr>"

definition example_dispatch :: "string \<Rightarrow> from_runtime" where
  "example_dispatch i = no_from_runtime\<lparr>fm_Dispatch := Some (eventFrom \<lparr>pd_Id = i, pd_HandlerTag = ''custom::x'', pd_TimestampMs = 0,
     pd_DeadlineUnixMs = 0, pd_TraceContext = [], pd_Source = Some (Dispatch_Custom \<lparr>px_HandlerName = ''x'', px_Input = []\<rparr>)\<rparr>)\<rparr>"

lemma loop_start_init: "loop_init (loop_start s)"
  by (simp add: loop_start_def loop_init_def)

lemma example_loop_answering: "resolves_answering example_loop"
proof -
  have "list_all (\<lambda>reg. answering (Apply (reg_Handler reg) (reg_Layers reg))) (rg_store (ap_registry example_app))"
    using example_app_store(2) by (simp add: list_all_iff)
  from resolvePipeline_answering [OF example_app_ok this] show ?thesis
    by (auto simp: resolves_answering_def example_loop_def)
qed

lemma loop_reachable_one:
  "loop_reachable cfg (loop_frame (example_dispatch i) (loop_start s))"
proof (rule reachable_step)
  show "loop_reachable cfg (loop_start s)" using loop_start_init by (rule reachable_init)
qed (rule loop_step.read_frame_step, simp add: loop_start_def)

lemma loop_one_received: "cl_received (loop_frame (example_dispatch i) (loop_start s)) \<noteq> []"
  and loop_one_sending: "cl_sending (loop_frame (example_dispatch i) (loop_start s))"
  and loop_one_ids: "map ev_ID (cl_received (loop_frame (example_dispatch i) (loop_start s))) = [i]"
  by (simp_all add: loop_frame_def example_dispatch_def no_from_runtime_def startDispatch_def loop_start_def track_def Let_def)

subsection \<open>Properties\<close>





text \<open>A cancellation reaches only what it names and only while it runs: in every reachable state it
  stops at most one worker, one that is still handling an event with that identifier; and where no
  event with that identifier is being handled, because it has completed or never arrived, it is
  ignored.\<close>

theorem cancel_reaches_running:
  assumes "loop_reachable cfg c"
  shows "(cl_stopped (cancel i c) \<noteq> cl_stopped c \<longrightarrow>
       (\<exists>w\<in>set (cl_workers c). ev_ID (wk_Event w) = i \<and> cl_stopped (cancel i c) = wk_No w # cl_stopped c))
    \<and> ((\<forall>w\<in>set (cl_workers c). ev_ID (wk_Event w) \<noteq> i) \<longrightarrow> cl_stopped (cancel i c) = cl_stopped c)
    \<and> gm_get (cl_inFlight (cancel i c)) i = None"
proof -
  have "tracked c" using assms by (rule loop_tracked.always)
  then show ?thesis
    by (auto simp: tracked_def cancel_def untrack_def stop_worker_def split: option.splits)
qed

theorem cancel_reaches_running_witness:
  "let c = loop_frame (example_dispatch ''1'') (loop_start (0 :: nat))
   in loop_reachable example_loop c \<and> cl_stopped (cancel ''2'' c) = cl_stopped c"
  using cancel_reaches_running [OF loop_reachable_one [of example_loop "''1''" 0], of "''2''"]
    loop_reachable_one [of example_loop "''1''" 0]
  by (simp add: loop_frame_def example_dispatch_def no_from_runtime_def startDispatch_def loop_start_def track_def Let_def)

text \<open>The one way a handler process crashes here: a pipeline that returns neither a result nor an
  error, as an application layer may, is not turned into a result, and the sender dereferences the
  missing one. The frame that asked for it is enough.\<close>

theorem nil_result_crashes:
  "\<exists>c. loop_reachable \<lparr>lc_Resolve = (\<lambda>_. Some (\<lambda>ctx ev s. (Done (None, None), s))), lc_Concurrency = 1, lc_Ctx = background\<rparr> c
     \<and> cl_received c \<noteq> [] \<and> cl_wire c = [] \<and> cl_phase (c :: nat client) = Crashed"
proof -
  let ?cfg = "\<lparr>lc_Resolve = (\<lambda>_. Some (\<lambda>ctx ev s. (Done (None, None), s))), lc_Concurrency = 1, lc_Ctx = background\<rparr> :: nat loop_config"
  define c0 where "c0 = loop_frame (example_dispatch ''1'') (loop_start 0 :: nat client)"
  obtain ev where ev: "fm_Dispatch (example_dispatch ''1'') = Some ev" by (simp add: example_dispatch_def)
  define w where "w = \<lparr>wk_No = 0, wk_Event = ev, wk_Outcome = None\<rparr>"
  define w1 where "w1 = w\<lparr>wk_Outcome := Some None\<rparr>"
  have c0: "cl_workers c0 = [w]" "cl_phase c0 = LoopReading" "cl_out c0 = []" "cl_sending c0" "cl_wire c0 = []" "cl_received c0 = [ev]"
    by (simp_all add: c0_def loop_frame_def ev startDispatch_def track_def Let_def loop_start_def w_def)
  define c1 where "c1 = run_handler ?cfg w c0"
  have c1: "cl_workers c1 = [w1]" "cl_phase c1 = LoopReading" "cl_out c1 = []" "cl_sending c1" "cl_wire c1 = []" "cl_received c1 = [ev]"
    using c0 by (simp_all add: c1_def run_handler_def resultFor_def w1_def)
  define c2 where "c2 = finish_dispatch w1 None c1"
  have c2: "cl_phase c2 = LoopReading" "cl_out c2 = [result_frame None]" "cl_sending c2" "cl_wire c2 = []" "cl_received c2 = [ev]"
    using c1 by (simp_all add: c2_def finish_dispatch_def stop_worker_def untrack_def Let_def)
  define c3 where "c3 = send_frame True (result_frame None) [] c2"
  have "toHandlerMessage (result_frame None) = Panic nil_dereference"
    by (simp add: toHandlerMessage_def result_frame_def no_to_runtime_def resultTo_def)
  then have c3: "cl_phase c3 = Crashed" "cl_wire c3 = []" "cl_received c3 = [ev]" using c2 by (simp_all add: c3_def send_frame_def)
  have r0: "loop_reachable ?cfg c0" unfolding c0_def by (rule loop_reachable_one)
  have s1: "loop_step ?cfg c0 c1" unfolding c1_def using c0 by (intro loop_step.run_step) (simp_all add: w_def)
  have s2: "loop_step ?cfg c1 c2" unfolding c2_def
    using c1 by (intro loop_step.queue_step) (simp_all add: w1_def has_room_def)
  have s3: "loop_step ?cfg c2 c3" unfolding c3_def using c2 by (intro loop_step.send_step) simp_all
  have "loop_reachable ?cfg c3" by (rule reachable_step [OF reachable_step [OF reachable_step [OF r0 s1] s2] s3])
  with c3 show ?thesis by (intro exI [of _ c3]) simp
qed

end
