(* ===== verification/Spec2Isabelle.thy ===== *)
theory Spec2Isabelle
  imports Prelude Handler_Types Binary_Frame Routes Errors Strconv Bind Paging Bucket Redis_Slots Redis_Cache Redis_Ops Redis_Props Dispatch Registry App Serverless Encodings Aws_Mapper Aws_Consumer Aws_Adapter Datastore Datastore_Props Dynamo Dynamo_Props Messaging Messaging_Props S3 S3_Props Resources Tracing Resources_Props Config Config_Props Config_Bind Config_Providers Ipc_Frames Ipc_Client Ipc_Loop
begin

text \<open>
  A verification development of the Celerity Go SDK.

  \<^bold>\<open>The program.\<close> An application registers typed handlers for HTTP requests, WebSocket messages, queue
  batches, schedules and named invocations. The SDK decodes each event, validates it, runs guards and
  layers around the handler and encodes the answer (\<^verbatim>\<open>src/handler\<close>, \<^verbatim>\<open>src/celerity\<close>, \<^verbatim>\<open>src/layer\<close>,
  \<^verbatim>\<open>src/guard\<close>). The same registry is served either to the Celerity runtime, over a bidirectional stream
  with credit-based flow control (\<^verbatim>\<open>src/internal/ipc\<close>), or to a serverless platform through an adapter
  (\<^verbatim>\<open>src/serverless\<close>). Resources such as buckets and data stores are reached through interfaces with one
  implementation per platform and test doubles (\<^verbatim>\<open>src/resources\<close>, \<^verbatim>\<open>src/celeritytest\<close>).

  \<^bold>\<open>The theories\<close>, in dependency order:

  \<^item> \<open>Prelude\<close>: Go's strings, slices, maps and multiple results, the functions of \<^verbatim>\<open>strings\<close>, \<^verbatim>\<open>strconv\<close> and
    \<^verbatim>\<open>fmt\<close> the sources call, and the generic lemmas.
  \<^item> \<open>Handler_Types\<close> (\<^verbatim>\<open>handler/handler.go\<close>): events, results and their parts, one record per struct.
  \<^item> \<open>Binary_Frame\<close> (\<^verbatim>\<open>handler/binary_frame.go\<close>): the binary message format. The interface
    \<open>message_format\<close> (an encoder that may refuse and a reader that undoes it) is interpreted on it and
    used again for batches.
  \<^item> \<open>Routes\<close> (\<^verbatim>\<open>handler/route.go\<close>, \<^verbatim>\<open>celerity/tags.go\<close>): route normalisation, tags and their readers.
  \<^item> \<open>Errors\<close> (\<^verbatim>\<open>handler/status.go\<close>, \<^verbatim>\<open>handler/validation.go\<close>, \<^verbatim>\<open>celerity/validate.go\<close>): error values, the
    answer each becomes, and the JSON of the answer.
  \<^item> \<open>Strconv\<close>: \<^verbatim>\<open>strconv\<close>'s parsers at each width, and the wrap-around of 64-bit arithmetic.
  \<^item> \<open>Bind\<close> (\<^verbatim>\<open>celerity/bind.go\<close>): request parameters into struct fields.
  \<^item> \<open>Dispatch\<close> (\<^verbatim>\<open>celerity/wrap.go\<close>, \<^verbatim>\<open>pipeline.go\<close>, \<^verbatim>\<open>layer\<close>, \<^verbatim>\<open>guard\<close>, \<^verbatim>\<open>telemetry\<close>): the wrapper of each kind
    of handler, guards, layers and tracing, over an arbitrary application state; a handler may panic.
    The interface \<open>source_handler\<close> is interpreted on all six wrappers.
  \<^item> \<open>Registry\<close> (\<^verbatim>\<open>celerity/registry.go\<close>, \<^verbatim>\<open>reconcile.go\<close>): the registry with its pointers kept, and
    reconciliation with the blueprint. Under \<open>registry_ok\<close> a registry is a list of registrations with
    distinct tags; the interface \<open>handler_table\<close> is what an application relies on.
  \<^item> \<open>App\<close> (\<^verbatim>\<open>celerity/app.go\<close>, \<^verbatim>\<open>register.go\<close>, \<^verbatim>\<open>host.go\<close>, \<^verbatim>\<open>run.go\<close>, \<^verbatim>\<open>runtime.go\<close>, the linked adapters and
    providers): options, registration functions, modes, resolvers and a run.
  \<^item> \<open>Serverless\<close> (\<^verbatim>\<open>serverless/serve.go\<close>, \<^verbatim>\<open>event.go\<close>, \<^verbatim>\<open>context.go\<close>): the dispatcher a platform's event loop calls, as a
    step over what it has resolved so far, against a reference that serves one handler.
  \<^item> \<open>Encodings\<close>: base64, UTF-8, form-encoded queries and JSON trees, with their round trips.
  \<^item> \<open>Aws_Mapper\<close>, \<open>Aws_Consumer\<close>, \<open>Aws_Adapter\<close> (\<^verbatim>\<open>serverless/aws\<close>): AWS events and answers, the bucket and data store
    events a queue carries, and the adapter with its senders, put under the dispatcher.
  \<^item> \<open>Ipc_Frames\<close>, \<open>Ipc_Client\<close>, \<open>Ipc_Loop\<close> (\<^verbatim>\<open>internal/ipc\<close>): the frames and the wire conversion; the handshake,
    one dispatch and WebSocket sends; and the frame loop as a step relation over its goroutines, with the
    interface \<open>invariant\<close> interpreted on the account of dispatches, on what is tracked and on the
    queue's bound.
  \<^item> \<open>Paging\<close>: Go's slices out of range, and the loop that reads pages until the cursor is empty, as a
    \<^theory_text>\<open>partial_function\<close>; the interface \<open>paged_source\<close> shows that it ends and what it yields.
  \<^item> \<open>Bucket\<close> (\<^verbatim>\<open>resources/bucket\<close>, \<^verbatim>\<open>celeritytest/bucket.go\<close>): the object storage vocabulary, the in-memory bucket
    with its versions, and the listing iterators, \<open>paged_source\<close> interpreted on both of them.
  \<^item> \<open>Redis_Slots\<close>, \<open>Redis_Cache\<close>, \<open>Redis_Ops\<close>, \<open>Redis_Props\<close> (\<^verbatim>\<open>resources/redis\<close>, \<^verbatim>\<open>resources/cache\<close>,
    \<^verbatim>\<open>resources/fields.go\<close>): the checksum and the slots of a cluster, settings and connections, every cache
    operation as the list of commands it sends and what it makes of the answers, and what holds of all of
    them over an arbitrary server.

  \<^item> \<open>Datastore\<close>, \<open>Datastore_Props\<close> (\<^verbatim>\<open>resources/datastore\<close>, \<^verbatim>\<open>celeritytest/datastore.go\<close>, \<^verbatim>\<open>condition.go\<close>): the
    vocabulary of document stores and the store in memory, its maps kept in a heap because a shallow copy shares
    them. What holds over any sequence of operations: a revision names one version of an item, an atomic write is all
    or none of what reads see, and \<open>paged_source\<close> is interpreted on queries and scans. The theorems at the end evaluate
    the cases where the sharing shows.
  \<^item> \<open>Dynamo\<close>, \<open>Dynamo_Props\<close> (\<^verbatim>\<open>resources/aws/datastore\<close>): the document store on DynamoDB: keys under a table's schema,
    conditions and updates as the tree the expression builder is given, cursors, batches and transactions, over an arbitrary
    service. A cursor reads back, a batch is accounted for, and a put on a revision replaces only the item that was read.
  \<^item> \<open>Messaging\<close>, \<open>Messaging_Props\<close> (\<^verbatim>\<open>resources/queue\<close>, \<^verbatim>\<open>resources/topic\<close>, \<^verbatim>\<open>resources/aws/queue\<close>, \<^verbatim>\<open>resources/aws/topic\<close>,
    \<^verbatim>\<open>resources/local/redis\<close>, \<^verbatim>\<open>celeritytest/queue.go\<close>, \<^verbatim>\<open>topic.go\<close>): queues and topics on SQS and SNS, on a session's Redis and in
    memory. The contract of a batch is the interface \<open>batch_sender\<close>, interpreted on all six implementations.
  \<^item> \<open>S3\<close>, \<open>S3_Props\<close> (\<^verbatim>\<open>resources/aws/bucket\<close>): the bucket on S3. \<open>paged_source\<close> is interpreted on its listing, whose position is
    the last key read; the listing of versions, whose position is the same, is shown to lose some.
  \<^item> \<open>Resources\<close>, \<open>Tracing\<close>, \<open>Resources_Props\<close> (\<^verbatim>\<open>resources/ref.go\<close>, \<^verbatim>\<open>handles.go\<close>, \<^verbatim>\<open>traced*.go\<close>, \<^verbatim>\<open>resources/aws/internal/service\<close>,
    \<^verbatim>\<open>resources/local\<close>): taking a handle, what is shared behind it, and the tracing around it, which does what the client inside
    does over any tracer that keeps to its own state. A copy between two handles is shown to be refused.
  \<^item> \<open>Config\<close>, \<open>Config_Props\<close>, \<open>Config_Bind\<close>, \<open>Config_Providers\<close> (\<^verbatim>\<open>config\<close>, \<^verbatim>\<open>config/aws\<close>, \<^verbatim>\<open>config/local\<close>): services,
    namespaces and the discovery of stores; how old the values of a namespace can be, over any history of reads (an inductive
    reachability with the attempts recorded), and what a deployed resource resolves to; binding values into structs; and the
    stores of each platform.

  \<^bold>\<open>Conventions.\<close> A string is its bytes, and quoting and JSON escaping are exact on ASCII, other bytes
  being kept. A Go map is an association list with distinct keys. An error is a value of \<open>gerr\<close>; a panic is
  an outcome, and a nil pointer that is dereferenced panics. \<^verbatim>\<open>errors.As\<close> ignores an application's own \<^verbatim>\<open>As\<close>
  methods. Times are milliseconds with Go's zero time. Code outside the repository is an argument: handlers,
  guards, layers and the installed tracer, the JSON decoding and encoding of the application's types, the
  parsing of floats, the transport under the stream, the environment. Contexts are the values they carry;
  cancellation is the list of stopped workers of \<open>Ipc_Loop\<close>. The cache server, the clock and the formatting of floats
  are arguments too. Loops are structural recursions over the data
  they walk, or a \<^theory_text>\<open>partial_function\<close> where they may not end. Fuel is used for one thing: encoding and printing a value of
  the document store's heap, where the length of the heap bounds a chain of distinct maps.

  \<^bold>\<open>Not modelled.\<close> The generated protocol code, gRPC dialling and its retries, the OpenTelemetry and logging adapters, the build-time
  tool \<^verbatim>\<open>cmd/celerity-go\<close>, relational databases, signing a cache's credentials, the manifest printed for the tool, the
  playground validator, and the test doubles that only build or record: these are calls of libraries outside the repository with
  little of the program's own between them. Signals, the exit of a process and the mutexes are left out too: registration and
  reconciliation run on one goroutine, and the frame loop's interleavings are those of its channel.
\<close>

end
